(* ===== verification/Prelude.thy ===== *)
theory Prelude
  imports Main "HOL-Library.Word" "HOL-Library.Sublist"
begin

text \<open>
  Shared vocabulary of the development.

  A Rust \<open>String\<close> or \<open>&str\<close> is its UTF-8 byte sequence, a HOL \<open>string\<close> whose characters are
  bytes: \<open>len()\<close> is \<open>length\<close>, byte offsets are list indices, and literals of the source are
  string literals here. A Rust \<open>char\<close> is the byte group that encodes it (\<open>rchar\<close>), and
  \<open>chars\<close> splits a string into its groups. The Unicode classification tables of the Rust core
  library are data: the ASCII part is written out, the rest is the argument \<open>ualnum\<close> (code
  point to bool) of the functions that call \<open>char::is_alphanumeric\<close>.
\<close>

named_theorems str_simps \<open>evaluation rules for the string operations\<close>
named_theorems clamp_simps \<open>definitions that cap or clamp a numeric field\<close>

type_synonym u8 = "8 word"
type_synonym u16 = "16 word"
type_synonym u32 = "32 word"
type_synonym u64 = "64 word"
type_synonym i32 = "32 word"
type_synonym rchar = string

text \<open>The non-ASCII characters of the source's literals, as UTF-8.\<close>

abbreviation em_dash :: string where
  "em_dash \<equiv> [CHR 0xE2, CHR 0x80, CHR 0x94]"

abbreviation times_sign :: string where
  "times_sign \<equiv> [CHR 0xC3, CHR 0x97]"

abbreviation right_arrow :: string where
  "right_arrow \<equiv> [CHR 0xE2, CHR 0x86, CHR 0x92]"

section \<open>Bytes and characters\<close>

abbreviation byte_of :: "char \<Rightarrow> nat" where
  "byte_of c \<equiv> of_char c"

definition is_ascii_byte :: "char \<Rightarrow> bool" where
  "is_ascii_byte c \<longleftrightarrow> byte_of c < 128"

definition is_cont_byte :: "char \<Rightarrow> bool" where
  "is_cont_byte c \<longleftrightarrow> 128 \<le> byte_of c \<and> byte_of c < 192"

definition ascii_digit :: "char \<Rightarrow> bool" where
  "ascii_digit c \<longleftrightarrow> 48 \<le> byte_of c \<and> byte_of c \<le> 57"

definition ascii_upper :: "char \<Rightarrow> bool" where
  "ascii_upper c \<longleftrightarrow> 65 \<le> byte_of c \<and> byte_of c \<le> 90"

definition ascii_lower :: "char \<Rightarrow> bool" where
  "ascii_lower c \<longleftrightarrow> 97 \<le> byte_of c \<and> byte_of c \<le> 122"

definition ascii_alnum :: "char \<Rightarrow> bool" where
  "ascii_alnum c \<longleftrightarrow> ascii_digit c \<or> ascii_upper c \<or> ascii_lower c"

definition ascii_hexdigit :: "char \<Rightarrow> bool" where
  "ascii_hexdigit c \<longleftrightarrow> ascii_digit c
     \<or> 65 \<le> byte_of c \<and> byte_of c \<le> 70 \<or> 97 \<le> byte_of c \<and> byte_of c \<le> 102"

definition to_ascii_lower :: "char \<Rightarrow> char" where
  "to_ascii_lower c = (if ascii_upper c then char_of (byte_of c + 32) else c)"

definition to_ascii_upper :: "char \<Rightarrow> char" where
  "to_ascii_upper c = (if ascii_lower c then char_of (byte_of c - 32) else c)"

lemmas ascii_defs = is_ascii_byte_def is_cont_byte_def ascii_digit_def ascii_upper_def
  ascii_lower_def ascii_alnum_def ascii_hexdigit_def

text \<open>A Rust \<open>char\<close> literal of the source is an ASCII character.\<close>

definition is_char :: "rchar \<Rightarrow> char \<Rightarrow> bool" where
  "is_char g c \<longleftrightarrow> g = [c]"

text \<open>\<open>str::chars\<close>: an ASCII byte is a character of its own, any other byte starts a group that
  runs over the continuation bytes after it.\<close>

function chars :: "string \<Rightarrow> rchar list" where
  "chars [] = []"
| "chars (c # cs) =
     (if is_ascii_byte c then [c] # chars cs
      else (c # takeWhile is_cont_byte cs) # chars (dropWhile is_cont_byte cs))"
  by pat_completeness auto
termination
  by (relation "measure length") (auto simp: le_imp_less_Suc length_dropWhile_le)

definition of_chars :: "rchar list \<Rightarrow> string" where
  "of_chars gs = concat gs"

text \<open>The code point a group encodes.\<close>

fun code_point :: "rchar \<Rightarrow> nat" where
  "code_point [a] = byte_of a"
| "code_point [a, b] = (byte_of a mod 32) * 64 + byte_of b mod 64"
| "code_point [a, b, c] = (byte_of a mod 16) * 4096 + (byte_of b mod 64) * 64 + byte_of c mod 64"
| "code_point [a, b, c, d] = (byte_of a mod 8) * 262144 + (byte_of b mod 64) * 4096
     + (byte_of c mod 64) * 64 + byte_of d mod 64"
| "code_point _ = 0xFFFD"

definition is_ascii_char :: "rchar \<Rightarrow> bool" where
  "is_ascii_char g \<longleftrightarrow> (\<exists>c. g = [c] \<and> is_ascii_byte c)"

lemma is_ascii_char_code [code]:
  "is_ascii_char g = (case g of [c] \<Rightarrow> is_ascii_byte c | _ \<Rightarrow> False)"
  by (auto simp: is_ascii_char_def split: list.splits)

definition ascii_char :: "(char \<Rightarrow> bool) \<Rightarrow> rchar \<Rightarrow> bool" where
  "ascii_char P g = (case g of [c] \<Rightarrow> is_ascii_byte c \<and> P c | _ \<Rightarrow> False)"

text \<open>\<open>char::is_alphanumeric\<close>, with the non-ASCII part of the Unicode table as an argument.\<close>

definition is_alphanumeric :: "(nat \<Rightarrow> bool) \<Rightarrow> rchar \<Rightarrow> bool" where
  "is_alphanumeric ualnum g =
     (case g of [c] \<Rightarrow> if is_ascii_byte c then ascii_alnum c else ualnum (byte_of c)
      | _ \<Rightarrow> ualnum (code_point g))"

text \<open>\<open>char::is_control\<close> (general category Cc) and \<open>char::is_whitespace\<close> (White\_Space).\<close>

definition is_control :: "rchar \<Rightarrow> bool" where
  "is_control g = (let n = code_point g in n < 32 \<or> n = 127 \<or> 128 \<le> n \<and> n < 160)"

definition is_whitespace :: "rchar \<Rightarrow> bool" where
  "is_whitespace g = (let n = code_point g in
     9 \<le> n \<and> n \<le> 13 \<or> n = 32 \<or> n = 0x85 \<or> n = 0xA0 \<or> n = 0x1680
     \<or> 0x2000 \<le> n \<and> n \<le> 0x200A \<or> n = 0x2028 \<or> n = 0x2029 \<or> n = 0x202F \<or> n = 0x205F \<or> n = 0x3000)"

section \<open>String operations\<close>

definition starts_with :: "string \<Rightarrow> string \<Rightarrow> bool" where
  "starts_with s p \<longleftrightarrow> take (length p) s = p"

definition ends_with :: "string \<Rightarrow> string \<Rightarrow> bool" where
  "ends_with s p \<longleftrightarrow> starts_with (rev s) (rev p)"

fun str_contains :: "string \<Rightarrow> string \<Rightarrow> bool" where
  "str_contains [] p = (p = [])"
| "str_contains (c # cs) p = (starts_with (c # cs) p \<or> str_contains cs p)"

text \<open>\<open>str::split(c)\<close> for an ASCII character: always at least one piece.\<close>

fun split_on :: "char \<Rightarrow> string \<Rightarrow> string list" where
  "split_on c [] = [[]]"
| "split_on c (x # xs) =
     (if x = c then [] # split_on c xs
      else (case split_on c xs of [] \<Rightarrow> [[x]] | p # ps \<Rightarrow> (x # p) # ps))"

text \<open>\<open>str::split_once(c)\<close>: the text before and after the first occurrence.\<close>

fun split_once :: "char \<Rightarrow> string \<Rightarrow> (string \<times> string) option" where
  "split_once c [] = None"
| "split_once c (x # xs) =
     (if x = c then Some ([], xs)
      else map_option (\<lambda>(a, b). (x # a, b)) (split_once c xs))"

text \<open>The same from the right, \<open>rsplit_once\<close>.\<close>

definition rsplit_once :: "char \<Rightarrow> string \<Rightarrow> (string \<times> string) option" where
  "rsplit_once c s = map_option (\<lambda>(b, a). (rev a, rev b)) (split_once c (rev s))"

definition replace_char :: "char \<Rightarrow> string \<Rightarrow> string \<Rightarrow> string" where
  "replace_char c r s = concat (map (\<lambda>x. if x = c then r else [x]) s)"

definition trim :: "string \<Rightarrow> string" where
  "trim s = of_chars (rev (dropWhile is_whitespace (rev (dropWhile is_whitespace (chars s)))))"

text \<open>
  \<open>String::truncate(n)\<close>: no effect when \<open>n\<close> is at least the length, otherwise the byte at \<open>n\<close>
  must start a character; \<open>None\<close> is the panic of the failed assertion.
\<close>

definition is_char_boundary :: "string \<Rightarrow> nat \<Rightarrow> bool" where
  "is_char_boundary s n \<longleftrightarrow> n = 0 \<or> n = length s \<or> n < length s \<and> \<not> is_cont_byte (s ! n)"

definition str_truncate :: "nat \<Rightarrow> string \<Rightarrow> string option" where
  "str_truncate n s =
     (if length s \<le> n then Some s
      else if is_char_boundary s n then Some (take n s) else None)"

section \<open>Numbers in decimal\<close>

definition digit_char :: "nat \<Rightarrow> char" where
  "digit_char d = char_of (48 + d)"

fun dec :: "nat \<Rightarrow> string" where
  "dec n = (if n < 10 then [digit_char n] else dec (n div 10) @ [digit_char (n mod 10)])"

declare dec.simps [simp del]

definition dec_int :: "int \<Rightarrow> string" where
  "dec_int i = (if i < 0 then CHR ''-'' # dec (nat (- i)) else dec (nat i))"

definition dec_w :: "'a::len word \<Rightarrow> string" where
  "dec_w w = dec (unat w)"

text \<open>
  \<open>str::parse\<close> at an unsigned type with largest value \<open>m\<close>: an optional plus sign, at least one
  digit, no overflow.
\<close>

fun parse_digits :: "nat \<Rightarrow> nat \<Rightarrow> string \<Rightarrow> nat option" where
  "parse_digits m acc [] = Some acc"
| "parse_digits m acc (c # cs) =
     (if \<not> ascii_digit c then None
      else let v = acc * 10 + (byte_of c - 48) in if m < v then None else parse_digits m v cs)"

definition parse_unsigned :: "nat \<Rightarrow> string \<Rightarrow> nat option" where
  "parse_unsigned m s =
     (case s of [] \<Rightarrow> None
      | c # cs \<Rightarrow>
          if c = CHR ''+'' then (if cs = [] then None else parse_digits m 0 cs)
          else parse_digits m 0 s)"

abbreviation "parse_u16 \<equiv> parse_unsigned 65535"
abbreviation "parse_usize \<equiv> parse_unsigned 18446744073709551615"


section \<open>Library lemmas\<close>

subsection \<open>Characters of a string\<close>

lemma concat_chars [simp]: "concat (chars s) = s"
  by (induction s rule: chars.induct) auto

lemma of_chars_chars [simp]: "of_chars (chars s) = s"
  by (simp add: of_chars_def)

lemma chars_eq_Nil [simp]: "chars s = [] \<longleftrightarrow> s = []"
  by (cases s) auto

lemma cont_not_ascii: "is_cont_byte c \<Longrightarrow> \<not> is_ascii_byte c"
  by (simp add: ascii_defs)

text \<open>A group is one ASCII byte, or holds no ASCII byte at all.\<close>

lemma chars_group:
  "g \<in> set (chars s) \<Longrightarrow>
     (\<exists>c. g = [c] \<and> is_ascii_byte c) \<or> g \<noteq> [] \<and> (\<forall>c \<in> set g. \<not> is_ascii_byte c)"
  by (induction s rule: chars.induct)
    (auto split: if_splits dest!: set_takeWhileD dest: cont_not_ascii)

lemma chars_ascii: "list_all is_ascii_byte s \<Longrightarrow> chars s = map (\<lambda>c. [c]) s"
  by (induction s) auto

text \<open>The bytes that survive a filter over characters.\<close>

lemma of_chars_filter_byte:
  assumes "c \<in> set (of_chars (filter P (chars s)))"
  shows "\<not> is_ascii_byte c \<or> P [c]"
proof -
  from assms obtain g where "g \<in> set (chars s)" "P g" "c \<in> set g"
    by (auto simp: of_chars_def)
  then show ?thesis
    using chars_group [of g s] by auto
qed

lemma of_chars_map_byte:
  assumes "c \<in> set (of_chars (map f (chars s)))"
  shows "\<exists>g \<in> set (chars s). c \<in> set (f g)"
  using assms by (auto simp: of_chars_def)

lemma list_all_chars_byte:
  "list_all P (chars s) \<Longrightarrow> c \<in> set s \<Longrightarrow> \<not> is_ascii_byte c \<or> P [c]"
  using of_chars_filter_byte [of c P s] by (simp add: filter_id_conv list_all_iff)

lemma ascii_char_all:
  "list_all (ascii_char P) (chars s) \<longleftrightarrow> list_all (\<lambda>c. is_ascii_byte c \<and> P c) s"
proof (induction s rule: chars.induct)
  case (2 c cs)
  then show ?case
    by (cases "is_ascii_byte c") (auto simp: ascii_char_def split: list.splits)
qed simp

lemma ascii_subsets:
  "ascii_digit c \<Longrightarrow> ascii_alnum c" "ascii_digit c \<Longrightarrow> is_ascii_byte c"
  "ascii_alnum c \<Longrightarrow> is_ascii_byte c" "ascii_hexdigit c \<Longrightarrow> ascii_alnum c"
  by (auto simp: ascii_defs)

lemma is_alphanumeric_ascii [simp]:
  "is_ascii_byte c \<Longrightarrow> is_alphanumeric ua [c] = ascii_alnum c"
  by (simp add: is_alphanumeric_def)

subsection \<open>Prefixes, splitting, replacing\<close>

lemma starts_with_iff: "starts_with s p \<longleftrightarrow> (\<exists>t. s = p @ t)"
  unfolding starts_with_def by (metis append_eq_conv_conj append_take_drop_id)

lemma starts_with_Nil [simp]: "starts_with s []"
  by (simp add: starts_with_def)

lemma starts_with_Cons [simp]:
  "starts_with [] (c # p) = False"
  "starts_with (x # s) (c # p) = (x = c \<and> starts_with s p)"
  by (auto simp: starts_with_def)

lemma starts_with_append [simp]: "starts_with (p @ t) p"
  by (auto simp: starts_with_iff)

lemma split_on_ne [simp]: "split_on c s \<noteq> []"
  by (induction s) (auto split: list.splits)

lemma split_on_no_sep: "p \<in> set (split_on c s) \<Longrightarrow> c \<notin> set p"
  by (induction s arbitrary: p) (auto split: if_splits list.splits)

lemma split_on_concat: "set (concat (split_on c s)) = set s - {c}"
proof (induction s)
  case (Cons a s)
  show ?case
  proof (cases "split_on c s")
    case (Cons p ps)
    with Cons.IH have "set p \<union> \<Union> (set ` set ps) = set s - {c}" by simp
    with Cons show ?thesis by (auto simp: insert_Diff_if)
  qed simp
qed simp

lemma split_on_set: "p \<in> set (split_on c s) \<Longrightarrow> set p \<subseteq> set s"
  using split_on_concat [of c s] by auto

lemma split_on_absent: "c \<notin> set s \<Longrightarrow> split_on c s = [s]"
  by (induction s) auto

lemma split_on_append: "c \<notin> set p \<Longrightarrow> split_on c (p @ c # s) = p # split_on c s"
  by (induction p) auto

lemma split_on_cover: "x \<in> set s \<Longrightarrow> x \<noteq> c \<Longrightarrow> \<exists>p \<in> set (split_on c s). x \<in> set p"
  using split_on_concat [of c s] by auto

lemma split_once_Some:
  "split_once c s = Some (a, b) \<longleftrightarrow> s = a @ c # b \<and> c \<notin> set a"
proof (induction s arbitrary: a)
  case (Cons x s)
  show ?case
    by (cases a) (auto simp: Cons.IH)
qed simp

lemma split_once_None: "split_once c s = None \<longleftrightarrow> c \<notin> set s"
  by (induction s) auto

lemma rsplit_once_Some:
  "rsplit_once c s = Some (a, b) \<longleftrightarrow> s = a @ c # b \<and> c \<notin> set b"
proof -
  have "rsplit_once c s = Some (a, b) \<longleftrightarrow> split_once c (rev s) = Some (rev b, rev a)"
    by (auto simp: rsplit_once_def)
  also have "\<dots> \<longleftrightarrow> rev s = rev b @ c # rev a \<and> c \<notin> set b"
    by (simp add: split_once_Some)
  also have "\<dots> \<longleftrightarrow> s = a @ c # b \<and> c \<notin> set b"
    by (metis append.assoc append_Cons append_Nil rev.simps(2) rev_append rev_rev_ident)
  finally show ?thesis .
qed

lemma replace_char_Nil [simp]: "replace_char c r [] = []"
  by (simp add: replace_char_def)

lemma replace_char_Cons [simp]:
  "replace_char c r (x # s) = (if x = c then r else [x]) @ replace_char c r s"
  by (simp add: replace_char_def)

lemma replace_char_append [simp]:
  "replace_char c r (s @ t) = replace_char c r s @ replace_char c r t"
  by (simp add: replace_char_def)

lemma replace_char_set: "set (replace_char c r s) \<subseteq> (set s - {c}) \<union> set r"
  by (auto simp: replace_char_def split: if_splits)

lemma str_truncate_length: "str_truncate n s = Some t \<Longrightarrow> length t \<le> n"
  by (auto simp: str_truncate_def split: if_splits)

lemma str_truncate_short [simp]: "length s \<le> n \<Longrightarrow> str_truncate n s = Some s"
  by (simp add: str_truncate_def)

lemma str_truncate_ascii: "list_all is_ascii_byte s \<Longrightarrow> str_truncate n s = Some (take n s)"
  using cont_not_ascii [of "s ! n"]
  by (auto simp: str_truncate_def is_char_boundary_def list_all_length not_le)

subsection \<open>Decimal numbers\<close>

lemma digit_char_digit: "d < 10 \<Longrightarrow> ascii_digit (digit_char d) \<and> byte_of (digit_char d) = 48 + d"
  by (simp add: digit_char_def ascii_digit_def)

lemma dec_digits: "c \<in> set (dec n) \<Longrightarrow> ascii_digit c"
proof (induction n rule: dec.induct)
  case (1 n)
  then show ?case
    by (cases "n < 10") (auto simp: dec.simps [of n] digit_char_digit)
qed

lemma dec_ne [simp]: "dec n \<noteq> []"
  by (subst dec.simps) simp

lemma dec_small: "n < 10 \<Longrightarrow> dec n = [digit_char n]"
  by (simp add: dec.simps)

lemma digit_chars [str_simps]:
  "digit_char 0 = CHR ''0''" "digit_char 1 = CHR ''1''" "digit_char 2 = CHR ''2''"
  "digit_char 3 = CHR ''3''" "digit_char 4 = CHR ''4''" "digit_char 5 = CHR ''5''"
  "digit_char 6 = CHR ''6''" "digit_char 7 = CHR ''7''" "digit_char 8 = CHR ''8''"
  "digit_char 9 = CHR ''9''" "digit_char (Suc 0) = CHR ''1''"
  by code_simp+

declare dec.simps [str_simps]

lemma parse_digits_append:
  "parse_digits m acc (s @ t) = Option.bind (parse_digits m acc s) (\<lambda>v. parse_digits m v t)"
  by (induction s arbitrary: acc) (auto simp: Let_def)

lemma parse_digits_dec: "n \<le> m \<Longrightarrow> parse_digits m 0 (dec n) = Some n"
proof (induction n rule: dec.induct)
  case (1 n)
  show ?case
  proof (cases "n < 10")
    case True
    with 1 show ?thesis by (simp add: dec_small digit_char_digit)
  next
    case False
    with 1 have "parse_digits m 0 (dec (n div 10)) = Some (n div 10)" by simp
    with False 1(2) show ?thesis
      by (simp add: dec.simps [of n] parse_digits_append digit_char_digit)
  qed
qed

lemma dec_hd_digit: "ascii_digit (hd (dec n))"
  by (meson dec_digits dec_ne hd_in_set)

lemma parse_unsigned_dec: "n \<le> m \<Longrightarrow> parse_unsigned m (dec n) = Some n"
proof -
  assume "n \<le> m"
  moreover obtain c cs where "dec n = c # cs" by (cases "dec n") auto
  moreover from this have "c \<noteq> CHR ''+''"
    using dec_hd_digit [of n] by (auto simp: ascii_digit_def)
  ultimately show ?thesis
    using parse_digits_dec [of n m] by (simp add: parse_unsigned_def)
qed

lemma parse_digits_set:
  "parse_digits m a s = Some v \<Longrightarrow> c \<in> set s \<Longrightarrow> ascii_digit c"
  by (induction s arbitrary: a) (auto simp: Let_def split: if_splits)

lemma parse_digits_bound: "parse_digits m a s = Some v \<Longrightarrow> a \<le> m \<Longrightarrow> v \<le> m"
  by (induction s arbitrary: a) (auto simp: Let_def split: if_splits)

lemma parse_unsigned_bound: "parse_unsigned m s = Some v \<Longrightarrow> v \<le> m"
  by (auto simp: parse_unsigned_def simp del: parse_digits.simps
      dest: parse_digits_bound split: list.splits if_splits)

lemma parse_unsigned_set:
  "parse_unsigned m s = Some v \<Longrightarrow> c \<in> set s \<Longrightarrow> ascii_digit c \<or> c = CHR ''+''"
  by (auto simp: parse_unsigned_def simp del: parse_digits.simps
      dest: parse_digits_set split: list.splits if_splits)

end
