(* ===== verification/Archs.thy ===== *)
theory Archs
  imports Prelude
begin

text \<open>
  The architecture tables of vmm-types/src/qemu\_archs.rs (and \<open>qemu_binary\<close> of
  vmm-core/src/qemu\_archs.rs): the 24 guest architectures, their machine types, CPU models and
  feature flags, device defaults, firmware paths, resource defaults, and the three box types.
  Every \<open>match\<close> is a definition with the arms in the order of the source; the tables are
  transcribed entry by entry. The lemmas relate the tables to each other.
\<close>

section \<open>Architectures and their tables\<close>

datatype qemu_arch =
    X86_64
  | I386
  | Aarch64
  | Arm
  | Riscv64
  | Riscv32
  | Ppc
  | Ppc64
  | S390x
  | Mips
  | Mipsel
  | Mips64
  | Mips64el
  | Sparc
  | Sparc64
  | M68k
  | Alpha
  | Hppa
  | Loongarch64
  | Xtensa
  | Avr
  | Or1k
  | Sh4
  | Microblaze

definition all_archs :: "qemu_arch list" where
  "all_archs =
     [X86_64, Aarch64, Arm, Riscv64, Riscv32, Ppc64, Ppc, Mips64el, Mips64, Mipsel, Mips, S390x, Sparc64, Sparc, M68k, I386, Alpha, Hppa, Loongarch64, Xtensa, Sh4, Or1k, Microblaze, Avr]"

definition common_archs :: "qemu_arch list" where
  "common_archs =
     [X86_64, Aarch64, Arm, Riscv64, Ppc64, Mips64el, S390x, I386]"

primrec qemu_suffix :: "qemu_arch \<Rightarrow> string" where
  "qemu_suffix X86_64 = ''x86_64''"
| "qemu_suffix I386 = ''i386''"
| "qemu_suffix Aarch64 = ''aarch64''"
| "qemu_suffix Arm = ''arm''"
| "qemu_suffix Riscv64 = ''riscv64''"
| "qemu_suffix Riscv32 = ''riscv32''"
| "qemu_suffix Ppc = ''ppc''"
| "qemu_suffix Ppc64 = ''ppc64''"
| "qemu_suffix S390x = ''s390x''"
| "qemu_suffix Mips = ''mips''"
| "qemu_suffix Mipsel = ''mipsel''"
| "qemu_suffix Mips64 = ''mips64''"
| "qemu_suffix Mips64el = ''mips64el''"
| "qemu_suffix Sparc = ''sparc''"
| "qemu_suffix Sparc64 = ''sparc64''"
| "qemu_suffix M68k = ''m68k''"
| "qemu_suffix Alpha = ''alpha''"
| "qemu_suffix Hppa = ''hppa''"
| "qemu_suffix Loongarch64 = ''loongarch64''"
| "qemu_suffix Xtensa = ''xtensa''"
| "qemu_suffix Avr = ''avr''"
| "qemu_suffix Or1k = ''or1k''"
| "qemu_suffix Sh4 = ''sh4''"
| "qemu_suffix Microblaze = ''microblaze''"

primrec arch_display_name :: "qemu_arch \<Rightarrow> string" where
  "arch_display_name X86_64 = ''x86_64 (PC/Intel/AMD)''"
| "arch_display_name I386 = ''i386 (32-bit PC)''"
| "arch_display_name Aarch64 = ''ARM64 (aarch64)''"
| "arch_display_name Arm = ''ARM (aarch32)''"
| "arch_display_name Riscv64 = ''RISC-V 64-bit''"
| "arch_display_name Riscv32 = ''RISC-V 32-bit''"
| "arch_display_name Ppc = ''PowerPC 32-bit''"
| "arch_display_name Ppc64 = ''PowerPC 64-bit''"
| "arch_display_name S390x = ''IBM z/Architecture (s390x)''"
| "arch_display_name Mips = ''MIPS (big-endian)''"
| "arch_display_name Mipsel = ''MIPS (little-endian)''"
| "arch_display_name Mips64 = ''MIPS64 (big-endian)''"
| "arch_display_name Mips64el = ''MIPS64 (little-endian)''"
| "arch_display_name Sparc = ''SPARC 32-bit''"
| "arch_display_name Sparc64 = ''SPARC 64-bit (UltraSPARC)''"
| "arch_display_name M68k = ''Motorola 68000''"
| "arch_display_name Alpha = ''DEC Alpha''"
| "arch_display_name Hppa = ''HP PA-RISC''"
| "arch_display_name Loongarch64 = ''LoongArch 64-bit''"
| "arch_display_name Xtensa = ''Xtensa''"
| "arch_display_name Avr = ''AVR (Atmel/Microchip)''"
| "arch_display_name Or1k = ''OpenRISC''"
| "arch_display_name Sh4 = ''SuperH SH-4''"
| "arch_display_name Microblaze = ''Xilinx MicroBlaze''"

definition category :: "qemu_arch \<Rightarrow> string" where
  \<open>category a =
     (if a \<in> {X86_64, I386} then ''Desktop / Server''
     else if a \<in> {Aarch64, Arm} then ''Mobile / Embedded / Server''
     else if a \<in> {Riscv64, Riscv32} then ''Emerging''
     else if a \<in> {Ppc, Ppc64} then ''Legacy Server / Workstation''
     else if a = S390x then ''Mainframe''
     else if a \<in> {Mips, Mipsel, Mips64, Mips64el} then ''Embedded / Networking''
     else if a \<in> {Sparc, Sparc64} then ''Legacy Server''
     else if a = M68k then ''Retro Computing''
     else if a = Alpha then ''Retro Computing''
     else if a = Hppa then ''Retro Computing''
     else if a = Loongarch64 then ''Emerging''
     else ''Microcontroller / Specialty'')\<close>

definition can_use_kvm_on_x86 :: "qemu_arch \<Rightarrow> bool" where
  "can_use_kvm_on_x86 a \<longleftrightarrow> a \<in> {X86_64, I386}"

definition bits :: "qemu_arch \<Rightarrow> u8" where
  \<open>bits a =
     (if a \<in> {X86_64, Aarch64, Riscv64, Ppc64, S390x, Mips64, Mips64el, Sparc64, Alpha, Hppa, Loongarch64} then 64
     else if a \<in> {I386, Arm, Riscv32, Ppc, Mips, Mipsel, Sparc, M68k, Or1k, Sh4, Microblaze, Xtensa} then 32
     else 8)\<close>

definition has_uefi_support :: "qemu_arch \<Rightarrow> bool" where
  "has_uefi_support a \<longleftrightarrow> a \<in> {X86_64, I386, Aarch64}"

definition has_usb_support :: "qemu_arch \<Rightarrow> bool" where
  "has_usb_support a \<longleftrightarrow> a \<notin> {S390x, Sparc, Sparc64, Avr, Or1k, Microblaze}"

definition has_audio_support :: "qemu_arch \<Rightarrow> bool" where
  "has_audio_support a \<longleftrightarrow> a \<in> {X86_64, I386, Aarch64, Ppc, Ppc64, M68k}"

definition has_spice_support :: "qemu_arch \<Rightarrow> bool" where
  "has_spice_support a \<longleftrightarrow> a \<in> {X86_64, I386, Aarch64, Arm, Ppc, Ppc64}"

definition has_virtio_support :: "qemu_arch \<Rightarrow> bool" where
  "has_virtio_support a \<longleftrightarrow> a \<notin> {Avr, Or1k, Sh4, Microblaze}"

definition default_machine :: "qemu_arch \<Rightarrow> string" where
  \<open>default_machine a =
     (if a \<in> {X86_64, I386} then ''q35''
     else if a \<in> {Aarch64, Arm} then ''virt''
     else if a \<in> {Riscv64, Riscv32} then ''virt''
     else if a = Ppc then ''g3beige''
     else if a = Ppc64 then ''pseries''
     else if a = S390x then ''s390-ccw-virtio''
     else if a \<in> {Mips, Mipsel, Mips64, Mips64el} then ''malta''
     else if a = Sparc then ''SS-5''
     else if a = Sparc64 then ''sun4u''
     else if a = M68k then ''virt''
     else if a = Alpha then ''clipper''
     else if a = Hppa then ''hppa''
     else if a = Loongarch64 then ''virt''
     else if a = Xtensa then ''sim''
     else if a = Avr then ''mega2560''
     else if a = Or1k then ''or1k-sim''
     else if a = Sh4 then ''shix''
     else ''petalogix-s3adsp1800'')\<close>

record machine_type =
  mt_id :: string
  mt_description :: string
  mt_is_default :: bool

definition mk_machine_type :: "string \<Rightarrow> string \<Rightarrow> bool \<Rightarrow> machine_type" where
  "mk_machine_type i d dflt = \<lparr>mt_id = i, mt_description = d, mt_is_default = dflt\<rparr>"

record cpu_model =
  cm_id :: string
  cm_description :: string
  cm_is_default :: bool

definition mk_cpu_model :: "string \<Rightarrow> string \<Rightarrow> bool \<Rightarrow> cpu_model" where
  "mk_cpu_model i d dflt = \<lparr>cm_id = i, cm_description = d, cm_is_default = dflt\<rparr>"

record cpu_feature =
  cf_name :: string
  cf_description :: string
  cf_group :: string
  cf_default_on :: bool

definition mk_cpu_feature :: "string \<Rightarrow> string \<Rightarrow> string \<Rightarrow> bool \<Rightarrow> cpu_feature" where
  "mk_cpu_feature n d g dflt =
     \<lparr>cf_name = n, cf_description = d, cf_group = g, cf_default_on = dflt\<rparr>"

record arch_defaults =
  cpus :: u32
  ad_memory_mib :: u64
  disk_gib :: u64
  ad_uefi :: bool

datatype box_type = Standard | HardwareLab | PowerUser

definition machine_types :: "qemu_arch \<Rightarrow> machine_type list" where
  \<open>machine_types a =
     (if a \<in> {X86_64, I386} then 
       [mk_machine_type ''q35'' ''Standard PC (Q35 + ICH9, 2009)'' True,
        mk_machine_type ''pc'' ''Standard PC (i440FX + PIIX, 1996)'' False,
        mk_machine_type ''microvm'' ''Minimal microVM'' False,
        mk_machine_type ''isapc'' ''ISA-only PC (legacy)'' False]
     else if a = Aarch64 then 
       [mk_machine_type ''virt'' ''ARM Virtual Machine (recommended)'' True,
        mk_machine_type ''sbsa-ref'' ''SBSA Reference Platform'' False,
        mk_machine_type ''raspi3b'' ''Raspberry Pi 3B'' False,
        mk_machine_type ''raspi4b'' ''Raspberry Pi 4B'' False,
        mk_machine_type ''vexpress-a15'' ''ARM Versatile Express A15'' False,
        mk_machine_type ''vexpress-a9'' ''ARM Versatile Express A9'' False]
     else if a = Arm then 
       [mk_machine_type ''virt'' ''ARM Virtual Machine (recommended)'' True,
        mk_machine_type ''raspi2b'' ''Raspberry Pi 2B'' False,
        mk_machine_type ''vexpress-a15'' ''ARM Versatile Express A15'' False,
        mk_machine_type ''vexpress-a9'' ''ARM Versatile Express A9'' False,
        mk_machine_type ''integratorcp'' ''ARM Integrator/CP'' False,
        mk_machine_type ''versatilepb'' ''ARM Versatile Platform Board'' False]
     else if a = Riscv64 then 
       [mk_machine_type ''virt'' ''RISC-V Virtual Platform (recommended)'' True,
        mk_machine_type ''spike'' ''RISC-V Spike Simulator'' False,
        mk_machine_type ''sifive_u'' ''SiFive HiFive Unleashed'' False,
        mk_machine_type ''sifive_e'' ''SiFive HiFive1 rev B'' False,
        mk_machine_type ''microchip-icicle-kit'' ''Microchip PolarFire SoC'' False]
     else if a = Riscv32 then 
       [mk_machine_type ''virt'' ''RISC-V Virtual Platform (recommended)'' True,
        mk_machine_type ''spike'' ''RISC-V Spike Simulator'' False,
        mk_machine_type ''sifive_e'' ''SiFive HiFive1 rev B'' False,
        mk_machine_type ''sifive_u'' ''SiFive HiFive Unleashed'' False]
     else if a = Ppc then 
       [mk_machine_type ''g3beige'' ''Heathrow (Power Mac G3 Beige)'' True,
        mk_machine_type ''mac99'' ''Mac99 (Power Mac G4)'' False,
        mk_machine_type ''ppce500'' ''Generic e500 PowerPC'' False,
        mk_machine_type ''sam460ex'' ''aCube Sam460ex'' False,
        mk_machine_type ''bamboo'' ''IBM Bamboo (PPC440EP)'' False]
     else if a = Ppc64 then 
       [mk_machine_type ''pseries'' ''pSeries (PAPR Logical Partition)'' True,
        mk_machine_type ''powernv'' ''IBM PowerNV (baremetal)'' False,
        mk_machine_type ''mac99'' ''Mac99 (Power Mac G5)'' False,
        mk_machine_type ''g3beige'' ''Heathrow (Power Mac G3 Beige)'' False,
        mk_machine_type ''ppce500'' ''Generic e500 PowerPC'' False]
     else if a = S390x then 
       [mk_machine_type ''s390-ccw-virtio'' ''S390 CCW VirtIO (recommended)'' True]
     else if a \<in> {Mips, Mipsel} then 
       [mk_machine_type ''malta'' ''MIPS Malta (recommended)'' True,
        mk_machine_type ''mipssim'' ''MIPS Simulator'' False]
     else if a \<in> {Mips64, Mips64el} then 
       [mk_machine_type ''malta'' ''MIPS Malta (recommended)'' True,
        mk_machine_type ''boston'' ''MIPS Boston (Imagination)'' False,
        mk_machine_type ''loongson3-virt'' ''Loongson 3A5000 Virtual'' False,
        mk_machine_type ''fuloong2e'' ''Lemote Fuloong 2E'' False,
        mk_machine_type ''mipssim'' ''MIPS Simulator'' False]
     else if a = Sparc then 
       [mk_machine_type ''SS-5'' ''Sun SPARCstation 5'' True,
        mk_machine_type ''SS-10'' ''Sun SPARCstation 10'' False,
        mk_machine_type ''SS-20'' ''Sun SPARCstation 20'' False,
        mk_machine_type ''leon3_generic'' ''LEON3 (space-grade)'' False]
     else if a = Sparc64 then 
       [mk_machine_type ''sun4u'' ''Sun UltraSPARC T1 (sun4u)'' True,
        mk_machine_type ''sun4v'' ''Sun UltraSPARC T2 (sun4v)'' False,
        mk_machine_type ''niagara'' ''Sun Niagara'' False]
     else if a = M68k then 
       [mk_machine_type ''virt'' ''M68k Virtual Machine (recommended)'' True,
        mk_machine_type ''q800'' ''Apple Macintosh Quadra 800'' False,
        mk_machine_type ''next-cube'' ''NeXT Cube'' False,
        mk_machine_type ''mcf5208evb'' ''Freescale ColdFire 5208'' False,
        mk_machine_type ''an5206'' ''Arnewsh 5206 Board'' False]
     else if a = Alpha then 
       [mk_machine_type ''clipper'' ''DEC Clipper (recommended)'' True]
     else if a = Hppa then 
       [mk_machine_type ''hppa'' ''HP PA-RISC (recommended)'' True]
     else if a = Loongarch64 then 
       [mk_machine_type ''virt'' ''LoongArch Virtual Machine'' True]
     else if a = Xtensa then 
       [mk_machine_type ''sim'' ''Xtensa Simulator'' True,
        mk_machine_type ''virt'' ''Xtensa Virtual Machine'' False,
        mk_machine_type ''lx60'' ''Avnet LX60 Board'' False]
     else if a = Avr then 
       [mk_machine_type ''mega2560'' ''Arduino Mega 2560'' True,
        mk_machine_type ''mega'' ''AVR ATmega Simulator'' False]
     else if a = Or1k then 
       [mk_machine_type ''or1k-sim'' ''OpenRISC Simulator'' True,
        mk_machine_type ''virt'' ''OpenRISC Virtual Machine'' False]
     else if a = Sh4 then 
       [mk_machine_type ''shix'' ''Shix Board (SH7750)'' True,
        mk_machine_type ''r2d'' ''Renesas R2D-PLUS SH7751R'' False]
     else 
       [mk_machine_type ''petalogix-s3adsp1800'' ''PetaLogix S3ADSP1800'' True,
        mk_machine_type ''petalogix-ml605'' ''PetaLogix ML605 Reference'' False])\<close>

definition default_cpu :: "qemu_arch \<Rightarrow> string" where
  \<open>default_cpu a =
     (if a = X86_64 then ''qemu64''
     else if a = I386 then ''qemu32''
     else if a = Aarch64 then ''cortex-a72''
     else if a = Arm then ''cortex-a15''
     else if a \<in> {Riscv64, Riscv32} then ''rv64''
     else if a = Ppc then ''604''
     else if a = Ppc64 then ''power9_v2.0''
     else if a = S390x then ''qemu''
     else if a \<in> {Mips, Mipsel} then ''mips32r2-generic''
     else if a \<in> {Mips64, Mips64el} then ''mips64r2-generic''
     else if a = Sparc then ''Fujitsu-MB86907''
     else if a = Sparc64 then ''Sun-UltraSparc-IIIi''
     else if a = M68k then ''m68040''
     else if a = Alpha then ''ev67''
     else if a = Hppa then ''hppa''
     else if a = Loongarch64 then ''la464''
     else if a = Xtensa then ''dc233c''
     else if a = Avr then ''avr6-avr-cpu''
     else if a = Or1k then ''any''
     else if a = Sh4 then ''sh7750r''
     else ''any'')\<close>

definition cpu_models :: "qemu_arch \<Rightarrow> cpu_model list" where
  \<open>cpu_models a =
     (if a = X86_64 then 
       [mk_cpu_model ''host'' ''Host CPU (KVM only, best performance)'' True,
        mk_cpu_model ''max'' ''Maximum capabilities for TCG'' False,
        mk_cpu_model ''qemu64'' ''QEMU Virtual CPU v2.5+'' False,
        mk_cpu_model ''Skylake-Client-v4'' ''Intel Skylake Client'' False,
        mk_cpu_model ''Cascadelake-Server-v5'' ''Intel Cascadelake Server'' False,
        mk_cpu_model ''EPYC-v4'' ''AMD EPYC'' False,
        mk_cpu_model ''Westmere-v2'' ''Intel Westmere'' False,
        mk_cpu_model ''Nehalem-v2'' ''Intel Nehalem'' False,
        mk_cpu_model ''SandyBridge-v2'' ''Intel Sandy Bridge'' False,
        mk_cpu_model ''IvyBridge-v2'' ''Intel Ivy Bridge'' False,
        mk_cpu_model ''Haswell-v4'' ''Intel Haswell'' False,
        mk_cpu_model ''Broadwell-v4'' ''Intel Broadwell'' False,
        mk_cpu_model ''Cooperlake-v2'' ''Intel Cooperlake'' False,
        mk_cpu_model ''Icelake-Server-v6'' ''Intel Icelake Server'' False,
        mk_cpu_model ''SapphireRapids-v2'' ''Intel Sapphire Rapids'' False,
        mk_cpu_model ''EPYC-Rome-v3'' ''AMD EPYC Rome'' False,
        mk_cpu_model ''EPYC-Milan-v2'' ''AMD EPYC Milan'' False,
        mk_cpu_model ''EPYC-Genoa-v1'' ''AMD EPYC Genoa'' False]
     else if a = I386 then 
       [mk_cpu_model ''host'' ''Host CPU (KVM only)'' True,
        mk_cpu_model ''max'' ''Maximum capabilities'' False,
        mk_cpu_model ''qemu32'' ''QEMU Virtual CPU v2.5+'' False,
        mk_cpu_model ''pentium3'' ''Intel Pentium III'' False,
        mk_cpu_model ''pentium2'' ''Intel Pentium II'' False,
        mk_cpu_model ''coreduo'' ''Intel Core Duo'' False,
        mk_cpu_model ''486'' ''Intel 486'' False]
     else if a = Aarch64 then 
       [mk_cpu_model ''host'' ''Host CPU (KVM only)'' True,
        mk_cpu_model ''max'' ''Maximum capabilities for TCG'' False,
        mk_cpu_model ''cortex-a72'' ''ARM Cortex-A72 (common server)'' False,
        mk_cpu_model ''cortex-a76'' ''ARM Cortex-A76'' False,
        mk_cpu_model ''cortex-a57'' ''ARM Cortex-A57'' False,
        mk_cpu_model ''cortex-a53'' ''ARM Cortex-A53'' False,
        mk_cpu_model ''neoverse-n1'' ''ARM Neoverse N1 (server)'' False,
        mk_cpu_model ''neoverse-v1'' ''ARM Neoverse V1'' False,
        mk_cpu_model ''a64fx'' ''Fujitsu A64FX (HPC)'' False]
     else if a = Arm then 
       [mk_cpu_model ''max'' ''Maximum capabilities'' True,
        mk_cpu_model ''cortex-a15'' ''ARM Cortex-A15'' False,
        mk_cpu_model ''cortex-a9'' ''ARM Cortex-A9'' False,
        mk_cpu_model ''cortex-a8'' ''ARM Cortex-A8'' False,
        mk_cpu_model ''cortex-a7'' ''ARM Cortex-A7'' False,
        mk_cpu_model ''cortex-m4'' ''ARM Cortex-M4 (microcontroller)'' False,
        mk_cpu_model ''cortex-m3'' ''ARM Cortex-M3 (microcontroller)'' False]
     else if a = Riscv64 then 
       [mk_cpu_model ''rv64'' ''Generic RISC-V 64-bit'' True,
        mk_cpu_model ''sifive-u54'' ''SiFive U54'' False,
        mk_cpu_model ''sifive-e51'' ''SiFive E51'' False,
        mk_cpu_model ''veyron-v1'' ''T-Head C910 Veyron'' False]
     else if a = Riscv32 then 
       [mk_cpu_model ''rv32'' ''Generic RISC-V 32-bit'' True,
        mk_cpu_model ''sifive-e34'' ''SiFive E34'' False,
        mk_cpu_model ''ibex'' ''lowRISC Ibex'' False]
     else if a = Ppc then 
       [mk_cpu_model ''604'' ''PowerPC 604 (default)'' True,
        mk_cpu_model ''g3'' ''PowerPC G3 (750)'' False,
        mk_cpu_model ''g4'' ''PowerPC G4 (7400)'' False,
        mk_cpu_model ''e500v2'' ''Freescale e500v2'' False]
     else if a = Ppc64 then 
       [mk_cpu_model ''host'' ''Host CPU (KVM only)'' True,
        mk_cpu_model ''power9_v2.0'' ''IBM POWER9 v2.0'' False,
        mk_cpu_model ''power10_v2.0'' ''IBM POWER10 v2.0'' False,
        mk_cpu_model ''power8_v2.0'' ''IBM POWER8 v2.0'' False,
        mk_cpu_model ''970mp_v1.0'' ''PowerPC 970MP (G5)'' False]
     else if a = S390x then 
       [mk_cpu_model ''host'' ''Host CPU (KVM only)'' True,
        mk_cpu_model ''qemu'' ''QEMU Virtual CPU'' False,
        mk_cpu_model ''gen16b-base'' ''IBM z16 (base)'' False,
        mk_cpu_model ''gen15b-base'' ''IBM z15 (base)'' False]
     else 
       [mk_cpu_model (default_cpu a) ''Default CPU'' True])\<close>

definition default_display_device :: "qemu_arch \<Rightarrow> string \<Rightarrow> string" where
  \<open>default_display_device a machine =
      (if a \<in> {X86_64, I386} \<and> (starts_with machine ''q35'' \<or> machine = ''q35'') then ''virtio-vga''
      else if a \<in> {X86_64, I386} \<and> machine = ''pc'' then ''cirrus-vga''
      else if a \<in> {X86_64, I386} \<and> machine = ''isapc'' then ''isa-vga''
      else if a \<in> {Aarch64, Arm} \<and> machine = ''virt'' then ''virtio-gpu-pci''
      else if a = Aarch64 \<and> (starts_with machine ''raspi'') then ''bcm2835-fb''
      else if a \<in> {Ppc, Ppc64} \<and> machine = ''mac99'' then ''ati-vga''
      else if a = Ppc64 \<and> machine = ''pseries'' then ''virtio-vga''
      else if a = M68k \<and> machine = ''q800'' then ''nubus-macfb''
      else if a = Sparc then ''cg3''
      else if a = Sparc64 then ''sunhme''
      else ''none'')\<close>

definition default_network_device :: "qemu_arch \<Rightarrow> string \<Rightarrow> string" where
  \<open>default_network_device a machine =
      (if a = X86_64 \<and> (starts_with machine ''q35'' \<or> machine = ''q35'') then ''e1000''
      else if a = X86_64 \<and> machine = ''pc'' then ''rtl8139''
      else if a = X86_64 \<and> machine = ''isapc'' then ''ne2k_isa''
      else if a = I386 \<and> (starts_with machine ''q35'' \<or> machine = ''q35'') then ''e1000''
      else if a = I386 then ''ne2k_isa''
      else if a \<in> {Aarch64, Arm} \<and> machine = ''virt'' then ''virtio-net-pci''
      else if a \<in> {Riscv64, Riscv32} \<and> machine = ''virt'' then ''virtio-net-pci''
      else if a = Ppc \<and> machine = ''mac99'' then ''sungem''
      else if a \<in> {Ppc, Ppc64} \<and> machine = ''g3beige'' then ''e1000''
      else if a = Ppc64 \<and> machine = ''pseries'' then ''virtio-net-pci''
      else if a = S390x then ''virtio-net-ccw''
      else if a \<in> {Mips, Mipsel, Mips64, Mips64el} \<and> machine = ''malta'' then ''e1000''
      else if a = Sparc then ''lance''
      else if a = Sparc64 then ''sunhme''
      else if a = M68k \<and> machine = ''q800'' then ''dp8393x''
      else if a = M68k \<and> machine = ''virt'' then ''virtio-net-pci''
      else if a = Alpha then ''e1000''
      else ''e1000'')\<close>

definition default_sound_device :: "qemu_arch \<Rightarrow> string \<Rightarrow> string option" where
  \<open>default_sound_device a machine =
      (if a \<in> {X86_64, I386} \<and> (starts_with machine ''q35'') then Some ''ich9''
      else if a \<in> {X86_64, I386} \<and> machine = ''pc'' then Some ''ac97''
      else if a = I386 \<and> machine = ''isapc'' then Some ''sb16''
      else if a = Aarch64 \<and> machine = ''virt'' then Some ''ich9''
      else None)\<close>

definition default_disk_bus :: "qemu_arch \<Rightarrow> string \<Rightarrow> string" where
  \<open>default_disk_bus a machine =
      (if a \<in> {Aarch64, Arm} \<and> machine = ''virt'' then ''virtio''
      else if a \<in> {X86_64, I386} then ''virtio''
      else if a \<in> {Riscv64, Riscv32} \<and> machine = ''virt'' then ''virtio''
      else if a = Ppc64 \<and> machine = ''pseries'' then ''virtio''
      else if a = S390x then ''virtio''
      else if a = M68k \<and> machine = ''virt'' then ''virtio''
      else if a = Loongarch64 then ''virtio''
      else if a \<in> {Ppc, Ppc64} then ''scsi''
      else if a \<in> {Sparc, Sparc64} then ''scsi''
      else if a = Alpha then ''scsi''
      else ''ide'')\<close>

definition uefi_firmware_path :: "qemu_arch \<Rightarrow> (string \<times> string) option" where
  \<open>uefi_firmware_path a =
     (if a \<in> {X86_64, I386} then Some (''/usr/share/OVMF/OVMF_CODE_4M.fd'', ''/usr/share/OVMF/OVMF_VARS_4M.fd'')
     else if a = Aarch64 then Some (''/usr/share/AAVMF/AAVMF_CODE.fd'', ''/usr/share/AAVMF/AAVMF_VARS.fd'')
     else None)\<close>

definition uefi_secboot_firmware_path :: "qemu_arch \<Rightarrow> (string \<times> string) option" where
  \<open>uefi_secboot_firmware_path a =
     (if a \<in> {X86_64, I386} then Some (''/usr/share/OVMF/OVMF_CODE_4M.secboot.fd'', ''/usr/share/OVMF/OVMF_VARS_4M.fd'')
     else if a = Aarch64 then Some (''/usr/share/AAVMF/AAVMF_CODE.fd'', ''/usr/share/AAVMF/AAVMF_VARS.fd'')
     else None)\<close>

definition recommended_defaults :: "qemu_arch \<Rightarrow> arch_defaults" where
  \<open>recommended_defaults a =
     (if a = X86_64 then \<lparr>cpus = 2, ad_memory_mib = 4096, disk_gib = 25, ad_uefi = True\<rparr>
     else if a = I386 then \<lparr>cpus = 1, ad_memory_mib = 2048, disk_gib = 10, ad_uefi = False\<rparr>
     else if a = Aarch64 then \<lparr>cpus = 2, ad_memory_mib = 2048, disk_gib = 20, ad_uefi = True\<rparr>
     else if a = Arm then \<lparr>cpus = 1, ad_memory_mib = 1024, disk_gib = 10, ad_uefi = False\<rparr>
     else if a = Riscv64 then \<lparr>cpus = 2, ad_memory_mib = 2048, disk_gib = 20, ad_uefi = False\<rparr>
     else if a = Riscv32 then \<lparr>cpus = 1, ad_memory_mib = 512, disk_gib = 8, ad_uefi = False\<rparr>
     else if a = Ppc64 then \<lparr>cpus = 2, ad_memory_mib = 4096, disk_gib = 20, ad_uefi = False\<rparr>
     else if a = Ppc then \<lparr>cpus = 1, ad_memory_mib = 512, disk_gib = 8, ad_uefi = False\<rparr>
     else if a = S390x then \<lparr>cpus = 2, ad_memory_mib = 2048, disk_gib = 20, ad_uefi = False\<rparr>
     else if a \<in> {Mips, Mipsel} then \<lparr>cpus = 1, ad_memory_mib = 256, disk_gib = 4, ad_uefi = False\<rparr>
     else if a \<in> {Mips64, Mips64el} then \<lparr>cpus = 1, ad_memory_mib = 1024, disk_gib = 10, ad_uefi = False\<rparr>
     else if a = Sparc then \<lparr>cpus = 1, ad_memory_mib = 256, disk_gib = 4, ad_uefi = False\<rparr>
     else if a = Sparc64 then \<lparr>cpus = 1, ad_memory_mib = 1024, disk_gib = 10, ad_uefi = False\<rparr>
     else if a = M68k then \<lparr>cpus = 1, ad_memory_mib = 128, disk_gib = 2, ad_uefi = False\<rparr>
     else \<lparr>cpus = 1, ad_memory_mib = 256, disk_gib = 4, ad_uefi = False\<rparr>)\<close>

definition max_cpus :: "qemu_arch \<Rightarrow> u32" where
  \<open>max_cpus a =
     (if a \<in> {X86_64, I386} then 255
     else if a = Aarch64 then 512
     else if a = Arm then 4
     else if a = Riscv64 then 32
     else if a = Riscv32 then 8
     else if a = Ppc64 then 1024
     else if a = Ppc then 4
     else if a = S390x then 248
     else if a \<in> {Mips, Mipsel, Mips64, Mips64el} then 16
     else if a = Sparc then 4
     else if a = Sparc64 then 128
     else 1)\<close>

definition x86_features :: "cpu_feature list" where
  \<open>x86_features =
     [mk_cpu_feature ''sse4.1'' (''SSE 4.1 '' @ em_dash @ '' streaming SIMD'') ''SIMD'' True,
      mk_cpu_feature ''sse4.2'' (''SSE 4.2 '' @ em_dash @ '' string/text processing'') ''SIMD'' True,
      mk_cpu_feature ''avx'' (''AVX '' @ em_dash @ '' 256-bit vector ops'') ''SIMD'' False,
      mk_cpu_feature ''avx2'' (''AVX2 '' @ em_dash @ '' integer 256-bit vector ops'') ''SIMD'' False,
      mk_cpu_feature ''avx512f'' (''AVX-512 Foundation '' @ em_dash @ '' 512-bit vectors'') ''SIMD'' False,
      mk_cpu_feature ''fma'' (''FMA '' @ em_dash @ '' fused multiply-add'') ''SIMD'' False,
      mk_cpu_feature ''f16c'' (''F16C '' @ em_dash @ '' half-precision float conversion'') ''SIMD'' False,
      mk_cpu_feature ''aes'' (''AES-NI '' @ em_dash @ '' hardware AES acceleration'') ''Crypto'' False,
      mk_cpu_feature ''pclmulqdq'' (''CLMUL '' @ em_dash @ '' carry-less multiply (GCM)'') ''Crypto'' False,
      mk_cpu_feature ''sha-ni'' (''SHA-NI '' @ em_dash @ '' hardware SHA-1/SHA-256'') ''Crypto'' False,
      mk_cpu_feature ''rdrand'' (''RDRAND '' @ em_dash @ '' hardware random number generator'') ''Crypto'' False,
      mk_cpu_feature ''rdseed'' (''RDSEED '' @ em_dash @ '' hardware random seeder'') ''Crypto'' False,
      mk_cpu_feature ''popcnt'' (''POPCNT '' @ em_dash @ '' population count'') ''Bit Manipulation'' True,
      mk_cpu_feature ''bmi1'' (''BMI1 '' @ em_dash @ '' bit manipulation instructions'') ''Bit Manipulation'' False,
      mk_cpu_feature ''bmi2'' (''BMI2 '' @ em_dash @ '' enhanced bit manipulation'') ''Bit Manipulation'' False,
      mk_cpu_feature ''adx'' (''ADX '' @ em_dash @ '' multi-precision add-carry'') ''Bit Manipulation'' False,
      mk_cpu_feature ''lzcnt'' (''LZCNT '' @ em_dash @ '' leading zero count'') ''Bit Manipulation'' False,
      mk_cpu_feature ''vmx'' (''VMX '' @ em_dash @ '' Intel VT-x nested virtualization'') ''Virtualization'' False,
      mk_cpu_feature ''svm'' (''SVM '' @ em_dash @ '' AMD-V nested virtualization'') ''Virtualization'' False,
      mk_cpu_feature ''xsave'' (''XSAVE '' @ em_dash @ '' extended state save/restore'') ''Performance'' True,
      mk_cpu_feature ''xsaveopt'' (''XSAVEOPT '' @ em_dash @ '' optimized state save'') ''Performance'' False,
      mk_cpu_feature ''movbe'' (''MOVBE '' @ em_dash @ '' move big-endian'') ''Performance'' False,
      mk_cpu_feature ''invpcid'' (''INVPCID '' @ em_dash @ '' invalidate TLB by PCID'') ''Performance'' False]\<close>

definition aarch64_features :: "cpu_feature list" where
  \<open>aarch64_features =
     [mk_cpu_feature ''sve'' (''SVE '' @ em_dash @ '' scalable vector extension'') ''SIMD'' False,
      mk_cpu_feature ''sve128'' ''SVE 128-bit vector length'' ''SIMD'' False,
      mk_cpu_feature ''sve256'' ''SVE 256-bit vector length'' ''SIMD'' False,
      mk_cpu_feature ''sve512'' ''SVE 512-bit vector length'' ''SIMD'' False,
      mk_cpu_feature ''aes'' (''AES '' @ em_dash @ '' hardware AES acceleration'') ''Crypto'' True,
      mk_cpu_feature ''sha1'' (''SHA-1 '' @ em_dash @ '' hardware SHA-1'') ''Crypto'' True,
      mk_cpu_feature ''sha256'' (''SHA-256 '' @ em_dash @ '' hardware SHA-256'') ''Crypto'' True,
      mk_cpu_feature ''sha512'' (''SHA-512 '' @ em_dash @ '' hardware SHA-512'') ''Crypto'' False,
      mk_cpu_feature ''sha3'' (''SHA-3 '' @ em_dash @ '' hardware SHA-3'') ''Crypto'' False,
      mk_cpu_feature ''sm3'' (''SM3 '' @ em_dash @ '' Chinese hash algorithm'') ''Crypto'' False,
      mk_cpu_feature ''sm4'' (''SM4 '' @ em_dash @ '' Chinese block cipher'') ''Crypto'' False,
      mk_cpu_feature ''atomics'' (''LSE Atomics '' @ em_dash @ '' large system extensions'') ''Atomics'' True,
      mk_cpu_feature ''rdm'' (''RDM '' @ em_dash @ '' rounding double multiply'') ''Atomics'' False,
      mk_cpu_feature ''pauth'' (''PAuth '' @ em_dash @ '' pointer authentication'') ''Security'' False,
      mk_cpu_feature ''mte'' (''MTE '' @ em_dash @ '' memory tagging extension'') ''Security'' False,
      mk_cpu_feature ''bti'' (''BTI '' @ em_dash @ '' branch target identification'') ''Security'' False,
      mk_cpu_feature ''flagm'' (''FLAGM '' @ em_dash @ '' flag manipulation instructions'') ''Performance'' False,
      mk_cpu_feature ''dit'' (''DIT '' @ em_dash @ '' data-independent timing'') ''Performance'' False,
      mk_cpu_feature ''frint'' (''FRINT '' @ em_dash @ '' floating-point round to integer'') ''Performance'' False]\<close>

definition arm_features :: "cpu_feature list" where
  \<open>arm_features =
     [mk_cpu_feature ''neon'' (''NEON '' @ em_dash @ '' SIMD for ARM32'') ''SIMD'' True,
      mk_cpu_feature ''vfpv3'' (''VFPv3 '' @ em_dash @ '' vector floating point v3'') ''FPU'' True,
      mk_cpu_feature ''vfpv4'' (''VFPv4 '' @ em_dash @ '' vector floating point v4'') ''FPU'' False,
      mk_cpu_feature ''thumb'' (''Thumb '' @ em_dash @ '' compact 16-bit instruction set'') ''ISA'' True,
      mk_cpu_feature ''trustzone'' (''TrustZone '' @ em_dash @ '' ARM security extension'') ''Security'' False]\<close>

definition riscv_features :: "cpu_feature list" where
  \<open>riscv_features =
     [mk_cpu_feature ''m'' (''M '' @ em_dash @ '' integer multiply/divide'') ''ISA'' True,
      mk_cpu_feature ''a'' (''A '' @ em_dash @ '' atomic instructions'') ''ISA'' True,
      mk_cpu_feature ''f'' (''F '' @ em_dash @ '' single-precision float'') ''ISA'' True,
      mk_cpu_feature ''d'' (''D '' @ em_dash @ '' double-precision float'') ''ISA'' True,
      mk_cpu_feature ''c'' (''C '' @ em_dash @ '' compressed instructions (16-bit)'') ''ISA'' True,
      mk_cpu_feature ''v'' (''V '' @ em_dash @ '' vector extension'') ''SIMD'' False,
      mk_cpu_feature ''h'' (''H '' @ em_dash @ '' hypervisor extension'') ''Virtualization'' False,
      mk_cpu_feature ''zba'' (''Zba '' @ em_dash @ '' address generation bit-manip'') ''Bit Manipulation'' False,
      mk_cpu_feature ''zbb'' (''Zbb '' @ em_dash @ '' basic bit manipulation'') ''Bit Manipulation'' False,
      mk_cpu_feature ''zbc'' (''Zbc '' @ em_dash @ '' carry-less multiplication'') ''Crypto'' False,
      mk_cpu_feature ''zbs'' (''Zbs '' @ em_dash @ '' single-bit operations'') ''Bit Manipulation'' False,
      mk_cpu_feature ''zicsr'' (''Zicsr '' @ em_dash @ '' CSR instructions'') ''ISA'' True,
      mk_cpu_feature ''zifencei'' (''Zifencei '' @ em_dash @ '' instruction fence'') ''ISA'' True]\<close>

definition ppc64_features :: "cpu_feature list" where
  \<open>ppc64_features =
     [mk_cpu_feature ''vsx'' (''VSX '' @ em_dash @ '' vector-scalar extension'') ''SIMD'' True,
      mk_cpu_feature ''altivec'' (''AltiVec '' @ em_dash @ '' SIMD for PowerPC'') ''SIMD'' True,
      mk_cpu_feature ''dfp'' (''DFP '' @ em_dash @ '' decimal floating point'') ''FPU'' False,
      mk_cpu_feature ''htm'' (''HTM '' @ em_dash @ '' hardware transactional memory'') ''Performance'' False]\<close>

definition s390x_features :: "cpu_feature list" where
  \<open>s390x_features =
     [mk_cpu_feature ''vx'' (''VX '' @ em_dash @ '' vector extension'') ''SIMD'' True,
      mk_cpu_feature ''vxe'' (''VXE '' @ em_dash @ '' vector enhancements'') ''SIMD'' False,
      mk_cpu_feature ''msa'' (''MSA '' @ em_dash @ '' message-security assist'') ''Crypto'' True,
      mk_cpu_feature ''msa5'' (''MSA-5 '' @ em_dash @ '' advanced message security'') ''Crypto'' False,
      mk_cpu_feature ''te'' (''TE '' @ em_dash @ '' transactional execution'') ''Performance'' False]\<close>

definition cpu_features_of :: "qemu_arch \<Rightarrow> cpu_feature list" where
  "cpu_features_of a =
      (if a \<in> {X86_64, I386} then x86_features
      else if a = Aarch64 then aarch64_features
      else if a = Arm then arm_features
      else if a \<in> {Riscv64, Riscv32} then riscv_features
      else if a = Ppc64 then ppc64_features
      else if a = S390x then s390x_features
      else [])"

primrec box_display_name :: "box_type \<Rightarrow> string" where
  "box_display_name Standard = ''Standard''"
| "box_display_name HardwareLab = ''Hardware Lab''"
| "box_display_name PowerUser = ''Power User''"

primrec box_description :: "box_type \<Rightarrow> string" where
  "box_description Standard = ''Polished desktop VM manager for everyday use''"
| "box_description HardwareLab = ''Cross-architecture emulation and board-level hardware lab''"
| "box_description PowerUser = ''Advanced hypervisor with CPU pinning, VFIO, and performance tuning''"

primrec box_icon :: "box_type \<Rightarrow> string" where
  "box_icon Standard = ''PC''"
| "box_icon HardwareLab = ''HW''"
| "box_icon PowerUser = ''SU''"

definition has_cpu_features :: "qemu_arch \<Rightarrow> bool" where
  "has_cpu_features a \<longleftrightarrow> cpu_features_of a \<noteq> []"

definition supports_smp_topology :: "qemu_arch \<Rightarrow> bool" where
  "supports_smp_topology a =
     (if a \<in> {Avr, Or1k, Microblaze} then False else 1 < max_cpus a)"

definition qemu_binary :: "qemu_arch \<Rightarrow> string" where
  "qemu_binary a = ''/usr/bin/qemu-system-'' @ qemu_suffix a"

definition all_boxes :: "box_type list" where
  "all_boxes = [Standard, HardwareLab, PowerUser]"

primrec visible_architectures :: "box_type \<Rightarrow> qemu_arch list" where
  "visible_architectures Standard = [X86_64, I386]"
| "visible_architectures HardwareLab = all_archs"
| "visible_architectures PowerUser = [X86_64, Aarch64, I386]"

section \<open>Enumeration\<close>

text \<open>\<open>QemuArch::all()\<close> is the enumeration of the type, so that a statement about every
  architecture can be evaluated.\<close>

lemma all_archs_UNIV: "set all_archs = UNIV"
proof -
  have "a \<in> set all_archs" for a
    by (cases a) (simp_all add: all_archs_def)
  then show ?thesis by blast
qed

lemma all_archs_distinct: "distinct all_archs"
  by (simp add: all_archs_def)

instantiation qemu_arch :: enum
begin

definition "enum_qemu_arch = all_archs"

definition "enum_all_qemu_arch P = list_all P all_archs"

definition "enum_ex_qemu_arch P = list_ex P all_archs"

instance
  by standard (auto simp: enum_qemu_arch_def enum_all_qemu_arch_def enum_ex_qemu_arch_def
      all_archs_UNIV all_archs_distinct list_all_iff list_ex_iff)

end

lemma arch_all: "(\<forall>a. P a) \<longleftrightarrow> list_all P all_archs"
  using all_archs_UNIV by (simp add: list_all_iff)


section \<open>Consistency of the tables\<close>

lemmas arch_flags = can_use_kvm_on_x86_def has_uefi_support_def has_usb_support_def
  has_audio_support_def has_spice_support_def has_virtio_support_def

lemma qemu_suffix_inject: "qemu_suffix a = qemu_suffix b \<longleftrightarrow> a = b"
proof
  have "list_all (\<lambda>a. list_all (\<lambda>b. qemu_suffix a = qemu_suffix b \<longrightarrow> a = b) all_archs) all_archs"
    by code_simp
  moreover assume "qemu_suffix a = qemu_suffix b"
  ultimately show "a = b"
    using all_archs_UNIV by (simp add: list_all_iff)
qed simp

text \<open>Every architecture has exactly one machine type marked as the recommended default, and it
  is the one \<open>default_machine\<close> returns, so an empty \<open>machine_type\<close> and the list the wizard shows
  agree.\<close>

theorem default_machine_is_offered:
  "map mt_id (List.filter mt_is_default (machine_types a)) = [default_machine a]"
  by (cases a) (simp_all add: machine_types_def default_machine_def mk_machine_type_def)

text \<open>The CPU model used when the configuration names none is one of the models the
  architecture offers, except on 32-bit RISC-V, whose default is the 64-bit model.\<close>

theorem default_cpu_offered_iff:
  "default_cpu a \<in> cm_id ` set (cpu_models a) \<longleftrightarrow> a \<noteq> Riscv32"
  by (cases a) (simp_all add: cpu_models_def default_cpu_def mk_cpu_model_def)

text \<open>The architecture list is complete and without repetition, every box shows a part of it,
  and two architectures never share an emulator binary.\<close>

theorem architectures_enumerated:
  "set all_archs = UNIV \<and> distinct all_archs
   \<and> set (visible_architectures b) \<subseteq> set all_archs
   \<and> distinct (visible_architectures b) \<and> inj qemu_binary"
proof -
  have "inj qemu_binary"
    by (auto simp: inj_on_def qemu_binary_def qemu_suffix_inject)
  then show ?thesis
    using all_archs_UNIV all_archs_distinct by (cases b) simp_all
qed

text \<open>The recommended defaults of an architecture respect its CPU limit, and ask for UEFI
  firmware only where a firmware path is known.\<close>

theorem recommended_defaults_in_limits:
  "1 \<le> unat (cpus (recommended_defaults a))
   \<and> unat (cpus (recommended_defaults a)) \<le> unat (max_cpus a)
   \<and> 128 \<le> unat (ad_memory_mib (recommended_defaults a))
   \<and> unat (ad_memory_mib (recommended_defaults a)) \<le> 1048576
   \<and> 1 \<le> unat (disk_gib (recommended_defaults a))
   \<and> unat (disk_gib (recommended_defaults a)) \<le> 65536
   \<and> (ad_uefi (recommended_defaults a) \<longrightarrow> uefi_firmware_path a \<noteq> None)"
  by (cases a) (simp_all add: recommended_defaults_def max_cpus_def uefi_firmware_path_def)

text \<open>The UEFI flag, the firmware table and the Secure Boot firmware table list the same
  architectures, and the two tables share the variable-store template.\<close>

theorem firmware_tables_agree:
  "(uefi_firmware_path a \<noteq> None \<longleftrightarrow> has_uefi_support a)
   \<and> (uefi_secboot_firmware_path a \<noteq> None \<longleftrightarrow> has_uefi_support a)
   \<and> map_option snd (uefi_secboot_firmware_path a) = map_option snd (uefi_firmware_path a)"
  by (cases a)
    (simp_all add: uefi_firmware_path_def uefi_secboot_firmware_path_def has_uefi_support_def)

text \<open>The default display device is a network card name exactly on SPARC64, where the display
  table returns the network card of the network table.\<close>

theorem display_is_network_device_iff:
  "default_display_device a m = default_network_device a m \<longleftrightarrow> a = Sparc64"
  by (cases a)
    (simp_all add: default_display_device_def default_network_device_def starts_with_def)

end
