(* ===== verification/Xml_Text.thy ===== *)
theory Xml_Text
  imports Prelude
begin

text \<open>
  What "well-formed XML" means for the text the builders emit: a character-level recogniser
  (tag names that match, quoted attributes, the five predefined entities, comments), the notion
  of inert character data, and the \<open>escaper\<close> interface that every \<open>xml_escape\<close> of vmm-core
  implements. The recogniser is the specification side; the escape functions are the model of
  \<open>xml_escape\<close> in xml\_builder.rs, snapshot.rs, storage.rs, ova.rs, network\_editor.rs and of
  \<open>xml_escape_attr\<close> in disk\_manage.rs.
\<close>

named_theorems xml_safe_intros \<open>inert character data\<close>
named_theorems xml_run \<open>how the recogniser runs over composed text\<close>

section \<open>The recogniser\<close>

datatype xmode =
    MText
  | MLt
  | MOpen string
  | MTag string
  | MAttr string
  | MEq string
  | MVal string char
  | MAfter string
  | MSlash string
  | MClose string
  | MBang
  | MBangDash
  | MComment
  | MComDash
  | MComDashDash
  | MEnt xmode string
  | MErr

type_synonym xstate = "xmode \<times> string list"

abbreviation apos :: char where "apos \<equiv> CHR 0x27"
abbreviation quot :: char where "quot \<equiv> CHR 0x22"

definition name_char :: "char \<Rightarrow> bool" where
  "name_char c \<longleftrightarrow> ascii_alnum c \<or> c = CHR ''_'' \<or> c = CHR ''-'' \<or> c = CHR ''.'' \<or> c = CHR '':''"

definition xml_space :: "char \<Rightarrow> bool" where
  "xml_space c \<longleftrightarrow> c = CHR '' '' \<or> byte_of c = 10 \<or> byte_of c = 9 \<or> byte_of c = 13"

definition xml_entities :: "string list" where
  "xml_entities = [''amp'', ''lt'', ''gt'', ''quot'', ''apos'']"

definition tag_end :: "string \<Rightarrow> string list \<Rightarrow> char \<Rightarrow> xstate" where
  "tag_end n stk c =
     (if c = CHR ''/'' then (MSlash n, stk)
      else if c = CHR ''>'' then (MText, n # stk)
      else (MErr, stk))"

fun xstep :: "xstate \<Rightarrow> char \<Rightarrow> xstate" where
  "xstep (MText, stk) c =
     (if c = CHR ''<'' then (MLt, stk)
      else if c = CHR ''&'' then (MEnt MText [], stk) else (MText, stk))"
| "xstep (MLt, stk) c =
     (if c = CHR ''/'' then (MClose [], stk)
      else if c = CHR ''!'' then (MBang, stk)
      else if name_char c then (MOpen [c], stk) else (MErr, stk))"
| "xstep (MOpen n, stk) c =
     (if name_char c then (MOpen (n @ [c]), stk)
      else if xml_space c then (MTag n, stk) else tag_end n stk c)"
| "xstep (MTag n, stk) c =
     (if xml_space c then (MTag n, stk)
      else if name_char c then (MAttr n, stk) else tag_end n stk c)"
| "xstep (MAttr n, stk) c =
     (if name_char c then (MAttr n, stk)
      else if c = CHR ''='' then (MEq n, stk) else (MErr, stk))"
| "xstep (MEq n, stk) c =
     (if c = apos \<or> c = quot then (MVal n c, stk) else (MErr, stk))"
| "xstep (MVal n q, stk) c =
     (if c = q then (MAfter n, stk)
      else if c = CHR ''<'' then (MErr, stk)
      else if c = CHR ''&'' then (MEnt (MVal n q) [], stk) else (MVal n q, stk))"
| "xstep (MAfter n, stk) c =
     (if xml_space c then (MTag n, stk) else tag_end n stk c)"
| "xstep (MSlash n, stk) c = (if c = CHR ''>'' then (MText, stk) else (MErr, stk))"
| "xstep (MClose n, stk) c =
     (if name_char c then (MClose (n @ [c]), stk)
      else if c = CHR ''>''
      then (case stk of t # r \<Rightarrow> if t = n then (MText, r) else (MErr, stk) | [] \<Rightarrow> (MErr, stk))
      else (MErr, stk))"
| "xstep (MBang, stk) c = (if c = CHR ''-'' then (MBangDash, stk) else (MErr, stk))"
| "xstep (MBangDash, stk) c = (if c = CHR ''-'' then (MComment, stk) else (MErr, stk))"
| "xstep (MComment, stk) c = (if c = CHR ''-'' then (MComDash, stk) else (MComment, stk))"
| "xstep (MComDash, stk) c = (if c = CHR ''-'' then (MComDashDash, stk) else (MComment, stk))"
| "xstep (MComDashDash, stk) c = (if c = CHR ''>'' then (MText, stk) else (MErr, stk))"
| "xstep (MEnt m e, stk) c =
     (if c = CHR '';'' then (if e \<in> set xml_entities then (m, stk) else (MErr, stk))
      else if ascii_alnum c then (MEnt m (e @ [c]), stk) else (MErr, stk))"
| "xstep (MErr, stk) c = (MErr, stk)"

fun xrun :: "xstate \<Rightarrow> string \<Rightarrow> xstate" where
  "xrun st [] = st"
| "xrun st (c # cs) = xrun (xstep st c) cs"

text \<open>
  \<open>balanced s\<close>: read as element content, \<open>s\<close> opens and closes its own elements and nothing else.
  \<open>opens n s\<close>: after \<open>s\<close> exactly the element \<open>n\<close> is open. A document is one root element.
\<close>

definition balanced :: "string \<Rightarrow> bool" where
  "balanced s \<longleftrightarrow> xrun (MText, []) s = (MText, [])"

definition opens :: "string \<Rightarrow> string \<Rightarrow> bool" where
  "opens n s \<longleftrightarrow> xrun (MText, []) s = (MText, [n])"

definition xml_document :: "string \<Rightarrow> string \<Rightarrow> bool" where
  "xml_document root s \<longleftrightarrow>
     (\<exists>h b. s = CHR ''<'' # h @ b @ ''</'' @ root @ ''>\<newline>''
        \<and> opens root (CHR ''<'' # h) \<and> balanced b)"

section \<open>Running over composed text\<close>

lemma xrun_append [xml_run]: "xrun st (s @ t) = xrun (xrun st s) t"
  by (induction s arbitrary: st) auto

lemma xrun_err [simp]: "fst (xrun (MErr, stk) s) = MErr"
  by (induction s) auto

text \<open>What happens below the current element stays there: a run that succeeds on a short stack
  does the same on top of any stack.\<close>

lemma xstep_frame:
  "fst (xstep (m, stk) c) \<noteq> MErr \<Longrightarrow>
     xstep (m, stk @ r) c = (fst (xstep (m, stk) c), snd (xstep (m, stk) c) @ r)"
  by (cases m) (auto simp: tag_end_def split: list.splits if_splits)

lemma xrun_frame:
  "xrun (m, stk) s = (m', stk') \<Longrightarrow> m' \<noteq> MErr \<Longrightarrow> xrun (m, stk @ r) s = (m', stk' @ r)"
proof (induction s arbitrary: m stk)
  case (Cons c cs)
  obtain m1 stk1 where step: "xstep (m, stk) c = (m1, stk1)"
    by (cases "xstep (m, stk) c") auto
  with Cons.prems have run: "xrun (m1, stk1) cs = (m', stk')" by simp
  with Cons.prems(2) have "m1 \<noteq> MErr"
    using run by (metis fst_conv xrun_err)
  with step have "xstep (m, stk @ r) c = (m1, stk1 @ r)"
    using xstep_frame [of m stk c r] by simp
  with Cons.IH [OF run Cons.prems(2)] show ?case by simp
qed simp

lemma xrun_frame0: "xrun (m, []) s = (m', stk') \<Longrightarrow> m' \<noteq> MErr \<Longrightarrow> xrun (m, r) s = (m', stk' @ r)"
  using xrun_frame [of m "[]" s m' stk' r] by simp

lemma balanced_run [xml_run]: "balanced s \<Longrightarrow> xrun (MText, stk) s = (MText, stk)"
  using xrun_frame0 [of MText s MText "[]" stk] by (simp add: balanced_def)

lemma opens_run [xml_run]: "opens n s \<Longrightarrow> xrun (MText, stk) s = (MText, n # stk)"
  using xrun_frame0 [of MText s MText "[n]" stk] by (simp add: opens_def)

lemma balanced_Nil [simp]: "balanced []"
  by (simp add: balanced_def)

lemma balanced_append: "balanced s \<Longrightarrow> balanced t \<Longrightarrow> balanced (s @ t)"
  by (simp add: balanced_def xrun_append)

lemma balanced_concat: "(\<And>s. s \<in> set ss \<Longrightarrow> balanced s) \<Longrightarrow> balanced (concat ss)"
  by (induction ss) (auto intro: balanced_append)

definition closes :: "string \<Rightarrow> string \<Rightarrow> bool" where
  "closes n s \<longleftrightarrow> xrun (MText, [n]) s = (MText, [])"

lemma closes_run: "closes n s \<Longrightarrow> xrun (MText, n # stk) s = (MText, stk)"
  using xrun_frame [of MText "[n]" s MText "[]" stk] by (simp add: closes_def)

lemma balanced_element: "opens n h \<Longrightarrow> balanced b \<Longrightarrow> closes n t \<Longrightarrow> balanced (h @ b @ t)"
  unfolding balanced_def [of "h @ b @ t"] by (simp add: xrun_append opens_run balanced_run closes_run)

lemma opens_append: "opens n h \<Longrightarrow> balanced b \<Longrightarrow> opens n (h @ b)"
  by (simp add: opens_def xrun_append balanced_run)

lemma xml_documentI:
  "opens root (CHR ''<'' # h) \<Longrightarrow> balanced b \<Longrightarrow>
     xml_document root ((CHR ''<'' # h) @ b @ ''</'' @ root @ ''>\<newline>'')"
  unfolding xml_document_def by (intro exI [of _ h] exI [of _ b]) simp

lemma balanced_if: "(b \<Longrightarrow> balanced s) \<Longrightarrow> (\<not> b \<Longrightarrow> balanced t) \<Longrightarrow> balanced (if b then s else t)"
  by simp

section \<open>Inert character data\<close>

definition plain_char :: "char \<Rightarrow> bool" where
  "plain_char c \<longleftrightarrow> c \<notin> {CHR ''<'', CHR ''>'', CHR ''&'', apos, quot}"

inductive xml_safe :: "string \<Rightarrow> bool" where
  xml_safe_Nil: "xml_safe []"
| xml_safe_char: "plain_char c \<Longrightarrow> xml_safe s \<Longrightarrow> xml_safe (c # s)"
| xml_safe_entity: "e \<in> set xml_entities \<Longrightarrow> xml_safe s \<Longrightarrow> xml_safe (''&'' @ e @ '';'' @ s)"

lemma xml_safe_plain: "list_all plain_char s \<Longrightarrow> xml_safe s"
  by (induction s) (auto intro: xml_safe.intros)

lemma xml_safe_append: "xml_safe s \<Longrightarrow> xml_safe t \<Longrightarrow> xml_safe (s @ t)"
proof (induction rule: xml_safe.induct)
  case (xml_safe_char c s)
  then show ?case using xml_safe.xml_safe_char by simp
next
  case (xml_safe_entity e s)
  then show ?case using xml_safe.xml_safe_entity [of e "s @ t"] by simp
qed simp

lemma xml_safe_concat: "(\<And>s. s \<in> set ss \<Longrightarrow> xml_safe s) \<Longrightarrow> xml_safe (concat ss)"
  by (induction ss) (auto intro: xml_safe_append xml_safe.intros)

lemma entity_alnum: "e \<in> set xml_entities \<Longrightarrow> list_all ascii_alnum e"
  by (auto simp: xml_entities_def ascii_defs)

lemma xrun_ent_name:
  "list_all ascii_alnum e \<Longrightarrow> xrun (MEnt m p, stk) (e @ s) = xrun (MEnt m (p @ e), stk) s"
  by (induction e arbitrary: p) (auto simp: ascii_defs)

lemma xrun_entity:
  assumes "e \<in> set xml_entities"
  shows "xrun (MEnt m [], stk) (e @ CHR '';'' # s) = xrun (m, stk) s"
proof -
  have "xrun (MEnt m [], stk) (e @ CHR '';'' # s) = xrun (MEnt m e, stk) (CHR '';'' # s)"
    using xrun_ent_name [of e m "[]" stk "CHR '';'' # s"] entity_alnum [OF assms] by simp
  with assms show ?thesis by simp
qed

text \<open>Inert data leaves the recogniser where it is, in text and inside a quoted value.\<close>

lemma xrun_safe_text [xml_run]: "xml_safe s \<Longrightarrow> xrun (MText, stk) s = (MText, stk)"
  by (induction rule: xml_safe.induct) (auto simp: plain_char_def xrun_entity)

lemma xrun_safe_value [xml_run]:
  "xml_safe s \<Longrightarrow> q = apos \<or> q = quot \<Longrightarrow> xrun (MVal n q, stk) s = (MVal n q, stk)"
  by (induction rule: xml_safe.induct) (auto simp: plain_char_def xrun_entity)

lemma balanced_safe: "xml_safe s \<Longrightarrow> balanced s"
  by (simp add: balanced_def xrun_safe_text)

lemma plain_alnum: "ascii_alnum c \<Longrightarrow> plain_char c"
  by (auto simp: plain_char_def ascii_defs)

lemma plain_non_ascii: "\<not> is_ascii_byte c \<Longrightarrow> plain_char c"
  by (auto simp: plain_char_def ascii_defs)

lemma xml_safe_dec [xml_safe_intros, simp]: "xml_safe (dec n)"
  by (rule xml_safe_plain) (auto simp: list_all_iff dest!: dec_digits intro: plain_alnum ascii_subsets)

lemma xml_safe_dec_w [xml_safe_intros, simp]: "xml_safe (dec_w w)"
  by (simp add: dec_w_def)

lemma xml_safe_dec_int [xml_safe_intros, simp]: "xml_safe (dec_int i)"
  by (auto simp: dec_int_def plain_char_def intro: xml_safe.intros(2))

section \<open>Interpolated templates\<close>

text \<open>
  The format strings of the builders are literals with interpolated values. \<open>sq v\<close> is the value
  between single quotes, as in \<open>name='{}'\<close>. The bundle \<open>xml_eval\<close> runs the recogniser over such a
  template: it steps through the literal parts and skips the interpolated ones, for which it
  needs \<open>xml_safe\<close> (values) or \<open>balanced\<close> (nested fragments).
\<close>

definition sq :: "string \<Rightarrow> string" where
  "sq v = apos # v @ [apos]"

lemma xrun_sq: "xrun st (sq v @ t) = xrun st (apos # v @ apos # t)"
  by (simp add: sq_def)

lemma xrun_sq_end: "xrun st (sq v) = xrun st (apos # v @ [apos])"
  by (simp add: sq_def)

lemma xrun_value_append:
  "xml_safe v \<Longrightarrow> xrun (MVal n apos, stk) (v @ t) = xrun (MVal n apos, stk) t"
  by (simp add: xrun_append xrun_safe_value)

lemma xrun_text_append: "xml_safe v \<Longrightarrow> xrun (MText, stk) (v @ t) = xrun (MText, stk) t"
  by (simp add: xrun_append xrun_safe_text)

lemma xrun_balanced_append: "balanced v \<Longrightarrow> xrun (MText, stk) (v @ t) = xrun (MText, stk) t"
  by (simp add: xrun_append balanced_run)

text \<open>Optional attributes: text that starts after a value and ends after a value.\<close>

definition attrs_safe :: "string \<Rightarrow> bool" where
  "attrs_safe s \<longleftrightarrow> (\<forall>n stk. xrun (MAfter n, stk) s = (MAfter n, stk))"

lemma attrs_safe_Nil [simp]: "attrs_safe []"
  by (simp add: attrs_safe_def)

lemma attrs_safe_append: "attrs_safe s \<Longrightarrow> attrs_safe t \<Longrightarrow> attrs_safe (s @ t)"
  by (simp add: attrs_safe_def xrun_append)

lemma xrun_attrs_append: "attrs_safe v \<Longrightarrow> xrun (MAfter n, stk) (v @ t) = xrun (MAfter n, stk) t"
  by (simp add: xrun_append attrs_safe_def)

lemmas xml_eval = xrun_sq xrun_sq_end xrun_value_append xrun_text_append xrun_balanced_append
  xrun_attrs_append name_char_def xml_space_def ascii_defs tag_end_def

lemma xml_safe_alnum_all: "list_all ascii_alnum s \<Longrightarrow> xml_safe s"
  by (rule xml_safe_plain) (auto simp: list_all_iff intro: plain_alnum)

section \<open>The escaper interface\<close>

text \<open>
  What the XML builders rely on: the escaped text is inert, and nothing is lost (an XML reader
  that decodes the predefined entities gets the value back).
\<close>

locale escaper =
  fixes esc :: "string \<Rightarrow> string" and unesc :: "string \<Rightarrow> string"
  assumes esc_safe: "xml_safe (esc s)"
    and unesc_esc: "unesc (esc s) = s"
begin

lemma esc_inject: "esc s = esc t \<longleftrightarrow> s = t"
  by (metis unesc_esc)

lemma esc_text: "xrun (MText, stk) (esc s) = (MText, stk)"
  by (simp add: esc_safe xrun_safe_text)

lemma esc_value: "xrun (MVal n apos, stk) (esc s) = (MVal n apos, stk)"
  by (simp add: esc_safe xrun_safe_value)

lemma esc_no_markup: "CHR ''<'' \<notin> set (esc s) \<and> CHR ''>'' \<notin> set (esc s) \<and> apos \<notin> set (esc s) \<and> quot \<notin> set (esc s)"
proof -
  have "xml_safe v \<Longrightarrow> CHR ''<'' \<notin> set v \<and> CHR ''>'' \<notin> set v \<and> apos \<notin> set v \<and> quot \<notin> set v" for v
    by (induction rule: xml_safe.induct) (auto simp: plain_char_def xml_entities_def)
  then show ?thesis by (simp add: esc_safe)
qed

end

section \<open>The escape functions\<close>

text \<open>xml\_builder.rs (the same text in snapshot.rs, storage.rs, ova.rs and disk\_manage.rs).\<close>

definition xml_escape :: "string \<Rightarrow> string" where
  "xml_escape s =
     replace_char apos ''&apos;''
       (replace_char quot ''&quot;''
         (replace_char (CHR ''>'') ''&gt;''
           (replace_char (CHR ''<'') ''&lt;''
             (replace_char (CHR ''&'') ''&amp;'' s))))"

definition snapshot_xml_escape :: "string \<Rightarrow> string" where
  "snapshot_xml_escape s =
     replace_char apos ''&apos;''
       (replace_char quot ''&quot;''
         (replace_char (CHR ''>'') ''&gt;''
           (replace_char (CHR ''<'') ''&lt;''
             (replace_char (CHR ''&'') ''&amp;'' s))))"

text \<open>network\_editor.rs replaces the two quotes in the other order.\<close>

definition network_xml_escape :: "string \<Rightarrow> string" where
  "network_xml_escape s =
     replace_char quot ''&quot;''
       (replace_char apos ''&apos;''
         (replace_char (CHR ''>'') ''&gt;''
           (replace_char (CHR ''<'') ''&lt;''
             (replace_char (CHR ''&'') ''&amp;'' s))))"

text \<open>The one-pass reference: each character is replaced once.\<close>

definition esc1 :: "char \<Rightarrow> string" where
  "esc1 c =
     (if c = CHR ''&'' then ''&amp;'' else if c = CHR ''<'' then ''&lt;''
      else if c = CHR ''>'' then ''&gt;'' else if c = quot then ''&quot;''
      else if c = apos then ''&apos;'' else [c])"

definition escape_ref :: "string \<Rightarrow> string" where
  "escape_ref s = concat (map esc1 s)"

text \<open>Decoding the predefined entities, as an XML reader does.\<close>

fun unescape :: "string \<Rightarrow> string" where
  "unescape [] = []"
| "unescape (c # cs) =
     (if starts_with (c # cs) ''&amp;'' then CHR ''&'' # unescape (drop 4 cs)
      else if starts_with (c # cs) ''&lt;'' then CHR ''<'' # unescape (drop 3 cs)
      else if starts_with (c # cs) ''&gt;'' then CHR ''>'' # unescape (drop 3 cs)
      else if starts_with (c # cs) ''&quot;'' then quot # unescape (drop 5 cs)
      else if starts_with (c # cs) ''&apos;'' then apos # unescape (drop 5 cs)
      else c # unescape cs)"

lemma xml_escape_ref: "xml_escape s = escape_ref s"
  by (induction s) (auto simp: xml_escape_def escape_ref_def esc1_def)

lemma network_xml_escape_ref: "network_xml_escape s = escape_ref s"
  by (induction s) (auto simp: network_xml_escape_def escape_ref_def esc1_def)

lemma snapshot_xml_escape_ref: "snapshot_xml_escape s = escape_ref s"
  by (induction s) (auto simp: snapshot_xml_escape_def escape_ref_def esc1_def)

lemma xml_safe_esc1: "xml_safe (esc1 c)"
proof -
  have ent: "xml_safe (''&'' @ e @ '';'' @ [])" if "e \<in> set xml_entities" for e
    by (rule xml_safe_entity [OF that xml_safe_Nil])
  show ?thesis
    using ent [of "''amp''"] ent [of "''lt''"] ent [of "''gt''"] ent [of "''quot''"]
      ent [of "''apos''"] xml_safe_char [of c, OF _ xml_safe_Nil]
    by (simp add: esc1_def xml_entities_def plain_char_def)
qed

lemma xml_safe_escape_ref: "xml_safe (escape_ref s)"
  unfolding escape_ref_def by (rule xml_safe_concat) (auto intro: xml_safe_esc1)

lemma escape_ref_id:
  "escape_ref s = s \<longleftrightarrow> list_all (\<lambda>c. c \<notin> {CHR ''&'', CHR ''<'', CHR ''>'', quot, apos}) s"
proof -
  have len: "length s \<le> length (escape_ref s)" for s
    by (induction s) (auto simp: escape_ref_def esc1_def)
  show ?thesis
  proof (induction s)
    case (Cons c s)
    have "escape_ref (c # s) = esc1 c @ escape_ref s" by (simp add: escape_ref_def)
    moreover have "esc1 c @ escape_ref s \<noteq> c # s" if "c \<in> {CHR ''&'', CHR ''<'', CHR ''>'', quot, apos}"
    proof
      assume "esc1 c @ escape_ref s = c # s"
      then have "length (esc1 c @ escape_ref s) = length (c # s)" by (rule arg_cong)
      with len[of s] that show False by (auto simp: esc1_def)
    qed
    ultimately show ?case using Cons.IH by (auto simp: esc1_def)
  qed (simp add: escape_ref_def)
qed

lemma unescape_escape_ref: "unescape (escape_ref s) = s"
  by (induction s) (auto simp: escape_ref_def esc1_def)

interpretation xesc: escaper xml_escape unescape
  by unfold_locales (simp_all add: xml_escape_ref xml_safe_escape_ref unescape_escape_ref)

interpretation nesc: escaper network_xml_escape unescape
  by unfold_locales (simp_all add: network_xml_escape_ref xml_safe_escape_ref unescape_escape_ref)

interpretation sesc: escaper snapshot_xml_escape unescape
  by unfold_locales (simp_all add: snapshot_xml_escape_ref xml_safe_escape_ref unescape_escape_ref)

lemmas esc_safes [xml_safe_intros, simp] = xesc.esc_safe nesc.esc_safe sesc.esc_safe

end
