(* ===== verification/Limits.thy ===== *)
theory Limits
  imports Xml_Text
begin

text \<open>
  Resource limits: the data of vmm-types/src/resource\_limits.rs with its \<open>has_any\<close> tests and the
  cpuset check, and the libvirt XML of vmm-core/src/resource\_limits.rs. The number of host CPUs,
  which the code reads from sysfs, is the argument \<open>host_cpus\<close>; \<open>host_cpu_count_inner\<close> models how
  it is computed from what sysfs holds.
\<close>

named_theorems balanced_intros \<open>XML fragments that are balanced\<close>

section \<open>Data\<close>

record cpu_pin =
  vcpu :: u32
  cpuset :: string

record cpu_limits =
  shares :: "u64 option"
  quota :: "u64 option"
  period :: "u64 option"
  pinning :: "cpu_pin list"

record memory_limits =
  hard_limit_kib :: "u64 option"
  soft_limit_kib :: "u64 option"
  min_guarantee_kib :: "u64 option"
  swap_hard_limit_kib :: "u64 option"

record disk_io_limits =
  total_bytes_sec :: "u64 option"
  read_bytes_sec :: "u64 option"
  write_bytes_sec :: "u64 option"
  total_iops_sec :: "u64 option"
  read_iops_sec :: "u64 option"
  write_iops_sec :: "u64 option"

record network_limits =
  inbound_average_kbps :: "u64 option"
  inbound_peak_kbps :: "u64 option"
  inbound_burst_kb :: "u64 option"
  outbound_average_kbps :: "u64 option"
  outbound_peak_kbps :: "u64 option"
  outbound_burst_kb :: "u64 option"

record resource_limits =
  rl_cpu :: cpu_limits
  rl_memory :: memory_limits
  rl_disk_io :: disk_io_limits
  rl_network :: network_limits

definition cpu_has_any :: "cpu_limits \<Rightarrow> bool" where
  "cpu_has_any l \<longleftrightarrow> shares l \<noteq> None \<or> quota l \<noteq> None \<or> period l \<noteq> None \<or> pinning l \<noteq> []"

definition memory_has_any :: "memory_limits \<Rightarrow> bool" where
  "memory_has_any l \<longleftrightarrow> hard_limit_kib l \<noteq> None \<or> soft_limit_kib l \<noteq> None
     \<or> min_guarantee_kib l \<noteq> None \<or> swap_hard_limit_kib l \<noteq> None"

definition disk_io_has_any :: "disk_io_limits \<Rightarrow> bool" where
  "disk_io_has_any l \<longleftrightarrow> total_bytes_sec l \<noteq> None \<or> read_bytes_sec l \<noteq> None
     \<or> write_bytes_sec l \<noteq> None \<or> total_iops_sec l \<noteq> None \<or> read_iops_sec l \<noteq> None
     \<or> write_iops_sec l \<noteq> None"

definition network_has_any :: "network_limits \<Rightarrow> bool" where
  "network_has_any l \<longleftrightarrow> inbound_average_kbps l \<noteq> None \<or> outbound_average_kbps l \<noteq> None"

definition limits_has_any :: "resource_limits \<Rightarrow> bool" where
  "limits_has_any l \<longleftrightarrow> cpu_has_any (rl_cpu l) \<or> memory_has_any (rl_memory l)
     \<or> disk_io_has_any (rl_disk_io l) \<or> network_has_any (rl_network l)"

definition default_limits :: resource_limits where
  "default_limits = \<lparr>
     rl_cpu = \<lparr>shares = None, quota = None, period = None, pinning = []\<rparr>,
     rl_memory = \<lparr>hard_limit_kib = None, soft_limit_kib = None, min_guarantee_kib = None,
       swap_hard_limit_kib = None\<rparr>,
     rl_disk_io = \<lparr>total_bytes_sec = None, read_bytes_sec = None, write_bytes_sec = None,
       total_iops_sec = None, read_iops_sec = None, write_iops_sec = None\<rparr>,
     rl_network = \<lparr>inbound_average_kbps = None, inbound_peak_kbps = None, inbound_burst_kb = None,
       outbound_average_kbps = None, outbound_peak_kbps = None, outbound_burst_kb = None\<rparr>\<rparr>"

section \<open>The cpuset check\<close>

text \<open>The body of the loop of \<open>validate_cpuset_range\<close> for one comma-separated part; \<open>find('-')\<close>
  cuts at the first hyphen.\<close>

definition cpuset_part_ok :: "nat \<Rightarrow> string \<Rightarrow> bool" where
  "cpuset_part_ok max_cpu part0 =
     (let part = trim part0 in
      if part = [] then True
      else case split_once (CHR ''-'') part of
        Some (start_str, end_str) \<Rightarrow>
          (case parse_usize start_str of
             None \<Rightarrow> False
           | Some a \<Rightarrow> (case parse_usize end_str of
               None \<Rightarrow> False
             | Some b \<Rightarrow> \<not> (b < a \<or> max_cpu < b)))
      | None \<Rightarrow>
          (case parse_usize part of
             None \<Rightarrow> False
           | Some c \<Rightarrow> \<not> max_cpu < c))"

definition validate_cpuset_range :: "string \<Rightarrow> nat \<Rightarrow> bool" where
  "validate_cpuset_range cs host_cpu_count =
     (if host_cpu_count = 0 then False
      else list_all (cpuset_part_ok (host_cpu_count - 1)) (split_on (CHR '','') cs))"

definition all_cpus_set :: "nat \<Rightarrow> string" where
  "all_cpus_set count = (if count \<le> 1 then ''0'' else ''0-'' @ dec (count - 1))"

text \<open>
  \<open>host_cpu_count_inner\<close>: \<open>possible\<close> is the content of /sys/devices/system/cpu/possible if it can
  be read, \<open>entries\<close> the names in /sys/devices/system/cpu, \<open>parallelism\<close> the last resort.
\<close>

definition host_cpu_count_inner :: "string option \<Rightarrow> string list option \<Rightarrow> nat option \<Rightarrow> nat" where
  "host_cpu_count_inner possible entries parallelism =
     (let from_possible =
        (case possible of
           None \<Rightarrow> None
         | Some contents \<Rightarrow>
             (let trimmed = trim contents;
                  after_dash = (case split_once (CHR ''-'') trimmed of
                     None \<Rightarrow> None | Some (_, r) \<Rightarrow> parse_usize r)
              in (case after_dash of
                    Some max_id \<Rightarrow> Some (max_id + 1)
                  | None \<Rightarrow> map_option (\<lambda>n. n + 1) (parse_usize trimmed))));
          fallback = (case parallelism of Some n \<Rightarrow> n | None \<Rightarrow> 1)
      in case from_possible of
           Some n \<Rightarrow> n
         | None \<Rightarrow>
             (case entries of
                None \<Rightarrow> fallback
              | Some names \<Rightarrow>
                  (let count = length (List.filter
                         (\<lambda>name. starts_with name ''cpu'' \<and> list_all ascii_digit (drop 3 name)) names)
                   in if 0 < count then count else fallback)))"

section \<open>XML\<close>

definition opt_xml :: "(u64 \<Rightarrow> string) \<Rightarrow> u64 option \<Rightarrow> string" where
  "opt_xml f x = (case x of None \<Rightarrow> [] | Some v \<Rightarrow> f v)"

definition pin_xml :: "nat \<Rightarrow> cpu_pin \<Rightarrow> string" where
  \<open>pin_xml host_cpus pin =
     (if 4096 < vcpu pin then []
      else if \<not> list_all (\<lambda>c. ascii_digit c \<or> c = CHR '','' \<or> c = CHR ''-'') (cpuset pin) then []
      else if cpuset pin = [] then []
      else if \<not> validate_cpuset_range (cpuset pin) host_cpus then []
      else ''    <vcpupin vcpu='' @ sq (dec_w (vcpu pin)) @ '' cpuset='' @ sq (cpuset pin) @ ''/>\<newline>'')\<close>

definition cputune_xml :: "nat \<Rightarrow> cpu_limits \<Rightarrow> string" where
  \<open>cputune_xml host_cpus l =
     ''  <cputune>\<newline>''
     @ opt_xml (\<lambda>v. ''    <shares>'' @ dec_w v @ ''</shares>\<newline>'') (shares l)
     @ opt_xml (\<lambda>v. ''    <period>'' @ dec_w v @ ''</period>\<newline>'') (period l)
     @ opt_xml (\<lambda>v. ''    <quota>'' @ dec_int (sint v) @ ''</quota>\<newline>'') (quota l)
     @ concat (map (pin_xml host_cpus) (pinning l))
     @ ''  </cputune>\<newline>''\<close>

definition memtune_xml :: "memory_limits \<Rightarrow> string" where
  \<open>memtune_xml l =
     ''  <memtune>\<newline>''
     @ opt_xml (\<lambda>v. ''    <hard_limit unit='KiB'>'' @ dec_w v @ ''</hard_limit>\<newline>'') (hard_limit_kib l)
     @ opt_xml (\<lambda>v. ''    <soft_limit unit='KiB'>'' @ dec_w v @ ''</soft_limit>\<newline>'') (soft_limit_kib l)
     @ opt_xml (\<lambda>v. ''    <min_guarantee unit='KiB'>'' @ dec_w v @ ''</min_guarantee>\<newline>'') (min_guarantee_kib l)
     @ opt_xml (\<lambda>v. ''    <swap_hard_limit unit='KiB'>'' @ dec_w v @ ''</swap_hard_limit>\<newline>'') (swap_hard_limit_kib l)
     @ ''  </memtune>\<newline>''\<close>

definition limits_to_xml :: "nat \<Rightarrow> resource_limits \<Rightarrow> string" where
  "limits_to_xml host_cpus l =
     (if cpu_has_any (rl_cpu l) then cputune_xml host_cpus (rl_cpu l) else [])
     @ (if memory_has_any (rl_memory l) then memtune_xml (rl_memory l) else [])"

definition disk_iotune_xml :: "resource_limits \<Rightarrow> string" where
  \<open>disk_iotune_xml rl =
     (let l = rl_disk_io rl in
      if \<not> disk_io_has_any l then []
      else ''      <iotune>\<newline>''
        @ opt_xml (\<lambda>v. ''        <total_bytes_sec>'' @ dec_w v @ ''</total_bytes_sec>\<newline>'') (total_bytes_sec l)
        @ opt_xml (\<lambda>v. ''        <read_bytes_sec>'' @ dec_w v @ ''</read_bytes_sec>\<newline>'') (read_bytes_sec l)
        @ opt_xml (\<lambda>v. ''        <write_bytes_sec>'' @ dec_w v @ ''</write_bytes_sec>\<newline>'') (write_bytes_sec l)
        @ opt_xml (\<lambda>v. ''        <total_iops_sec>'' @ dec_w v @ ''</total_iops_sec>\<newline>'') (total_iops_sec l)
        @ opt_xml (\<lambda>v. ''        <read_iops_sec>'' @ dec_w v @ ''</read_iops_sec>\<newline>'') (read_iops_sec l)
        @ opt_xml (\<lambda>v. ''        <write_iops_sec>'' @ dec_w v @ ''</write_iops_sec>\<newline>'') (write_iops_sec l)
        @ ''      </iotune>\<newline>'')\<close>

text \<open>One direction of the bandwidth element; the code repeats it for \<open>inbound\<close> and \<open>outbound\<close>.\<close>

definition bandwidth_dir_xml :: "string \<Rightarrow> u64 option \<Rightarrow> u64 option \<Rightarrow> u64 option \<Rightarrow> string" where
  \<open>bandwidth_dir_xml dir average peak burst =
     (case average of
        None \<Rightarrow> []
      | Some avg \<Rightarrow>
          ''        <'' @ dir @ '' average='' @ sq (dec_w avg)
          @ opt_xml (\<lambda>v. '' peak='' @ sq (dec_w v)) peak
          @ opt_xml (\<lambda>v. '' burst='' @ sq (dec_w v)) burst
          @ ''/>\<newline>'')\<close>

definition network_bandwidth_xml :: "resource_limits \<Rightarrow> string" where
  \<open>network_bandwidth_xml rl =
     (let l = rl_network rl in
      if \<not> network_has_any l then []
      else ''      <bandwidth>\<newline>''
        @ bandwidth_dir_xml ''inbound'' (inbound_average_kbps l) (inbound_peak_kbps l) (inbound_burst_kb l)
        @ bandwidth_dir_xml ''outbound'' (outbound_average_kbps l) (outbound_peak_kbps l) (outbound_burst_kb l)
        @ ''      </bandwidth>\<newline>'')\<close>

section \<open>The fragments are balanced\<close>

lemma balanced_opt: "(\<And>v. balanced (f v)) \<Longrightarrow> balanced (opt_xml f x)"
  by (cases x) (simp_all add: opt_xml_def)

lemma attrs_safe_opt: "(\<And>v. attrs_safe (f v)) \<Longrightarrow> attrs_safe (opt_xml f x)"
  by (cases x) (simp_all add: opt_xml_def)

lemma balanced_pin [balanced_intros]: "balanced (pin_xml host_cpus pin)"
proof -
  have "xml_safe (cpuset pin)"
    if "list_all (\<lambda>c. ascii_digit c \<or> c = CHR '','' \<or> c = CHR ''-'') (cpuset pin)"
    using that by (intro xml_safe_plain)
      (auto simp: list_all_iff plain_char_def ascii_digit_def)
  then show ?thesis
    by (simp add: pin_xml_def balanced_def xml_eval)
qed

lemma balanced_cputune [balanced_intros]: "balanced (cputune_xml host_cpus l)"
proof -
  have pins: "balanced (concat (map (pin_xml host_cpus) (pinning l)))"
    by (rule balanced_concat) (auto simp: balanced_pin)
  have "balanced (opt_xml (\<lambda>v. ''    <shares>'' @ dec_w v @ ''</shares>\<newline>'') (shares l))"
    "balanced (opt_xml (\<lambda>v. ''    <period>'' @ dec_w v @ ''</period>\<newline>'') (period l))"
    "balanced (opt_xml (\<lambda>v. ''    <quota>'' @ dec_int (sint v) @ ''</quota>\<newline>'') (quota l))"
    by (rule balanced_opt, simp add: balanced_def xml_eval)+
  with pins show ?thesis
    unfolding cputune_xml_def balanced_def [of "''  <cputune>\<newline>'' @ _"] by (simp add: xml_eval)
qed

lemma balanced_memtune [balanced_intros]: "balanced (memtune_xml l)"
proof -
  have "balanced (opt_xml (\<lambda>v. ''    <hard_limit unit='KiB'>'' @ dec_w v @ ''</hard_limit>\<newline>'') (hard_limit_kib l))"
    "balanced (opt_xml (\<lambda>v. ''    <soft_limit unit='KiB'>'' @ dec_w v @ ''</soft_limit>\<newline>'') (soft_limit_kib l))"
    "balanced (opt_xml (\<lambda>v. ''    <min_guarantee unit='KiB'>'' @ dec_w v @ ''</min_guarantee>\<newline>'') (min_guarantee_kib l))"
    "balanced (opt_xml (\<lambda>v. ''    <swap_hard_limit unit='KiB'>'' @ dec_w v @ ''</swap_hard_limit>\<newline>'') (swap_hard_limit_kib l))"
    by (rule balanced_opt, simp add: balanced_def xml_eval)+
  then show ?thesis
    unfolding memtune_xml_def balanced_def [of "''  <memtune>\<newline>'' @ _"] by (simp add: xml_eval)
qed

lemma balanced_limits [balanced_intros]: "balanced (limits_to_xml host_cpus l)"
  by (simp add: limits_to_xml_def balanced_append balanced_cputune balanced_memtune)

lemma balanced_iotune [balanced_intros]: "balanced (disk_iotune_xml rl)"
proof -
  let ?l = "rl_disk_io rl"
  have "balanced (opt_xml (\<lambda>v. ''        <total_bytes_sec>'' @ dec_w v @ ''</total_bytes_sec>\<newline>'') (total_bytes_sec ?l))"
    "balanced (opt_xml (\<lambda>v. ''        <read_bytes_sec>'' @ dec_w v @ ''</read_bytes_sec>\<newline>'') (read_bytes_sec ?l))"
    "balanced (opt_xml (\<lambda>v. ''        <write_bytes_sec>'' @ dec_w v @ ''</write_bytes_sec>\<newline>'') (write_bytes_sec ?l))"
    "balanced (opt_xml (\<lambda>v. ''        <total_iops_sec>'' @ dec_w v @ ''</total_iops_sec>\<newline>'') (total_iops_sec ?l))"
    "balanced (opt_xml (\<lambda>v. ''        <read_iops_sec>'' @ dec_w v @ ''</read_iops_sec>\<newline>'') (read_iops_sec ?l))"
    "balanced (opt_xml (\<lambda>v. ''        <write_iops_sec>'' @ dec_w v @ ''</write_iops_sec>\<newline>'') (write_iops_sec ?l))"
    by (rule balanced_opt, simp add: balanced_def xml_eval)+
  then show ?thesis
    unfolding disk_iotune_xml_def Let_def balanced_def [of "''      <iotune>\<newline>'' @ _"]
      balanced_def [of "if _ then _ else _"]
    by (simp add: xml_eval)
qed

lemma attrs_safe_peak_burst:
  "attrs_safe (opt_xml (\<lambda>v. '' peak='' @ sq (dec_w v)) x)"
  "attrs_safe (opt_xml (\<lambda>v. '' burst='' @ sq (dec_w v)) x)"
  by (rule attrs_safe_opt, simp add: attrs_safe_def xml_eval)+

lemma balanced_bandwidth_dir:
  "dir \<in> {''inbound'', ''outbound''} \<Longrightarrow> balanced (bandwidth_dir_xml dir a p b)"
  using attrs_safe_peak_burst [of p] attrs_safe_peak_burst [of b]
  by (cases a) (auto simp: bandwidth_dir_xml_def balanced_def xml_eval)

lemma balanced_bandwidth [balanced_intros]: "balanced (network_bandwidth_xml rl)"
  using balanced_bandwidth_dir [of "''inbound''"] balanced_bandwidth_dir [of "''outbound''"]
  by (simp add: network_bandwidth_xml_def Let_def balanced_def [of "CHR '' '' # _"] xml_eval)

section \<open>What the cpuset check accepts\<close>

text \<open>Canonical cpusets: comma-separated single CPUs and ranges, written in decimal.\<close>

datatype cpu_range = One nat | Range nat nat

primrec range_ok :: "nat \<Rightarrow> cpu_range \<Rightarrow> bool" where
  "range_ok n (One c) \<longleftrightarrow> c < n"
| "range_ok n (Range a b) \<longleftrightarrow> a \<le> b \<and> b < n"

primrec range_fits :: "cpu_range \<Rightarrow> bool" where
  "range_fits (One c) \<longleftrightarrow> c \<le> 18446744073709551615"
| "range_fits (Range a b) \<longleftrightarrow> a \<le> 18446744073709551615 \<and> b \<le> 18446744073709551615"

primrec show_range :: "cpu_range \<Rightarrow> string" where
  "show_range (One c) = dec c"
| "show_range (Range a b) = dec a @ CHR ''-'' # dec b"

fun show_ranges :: "cpu_range list \<Rightarrow> string" where
  "show_ranges [] = []"
| "show_ranges [r] = show_range r"
| "show_ranges (r # rs) = show_range r @ CHR '','' # show_ranges rs"

lemma trim_digits: "s \<noteq> [] \<Longrightarrow> list_all (\<lambda>c. ascii_digit c \<or> c = CHR ''-'') s \<Longrightarrow> trim s = s"
proof -
  assume ne: "s \<noteq> []" and all: "list_all (\<lambda>c. ascii_digit c \<or> c = CHR ''-'') s"
  then have ascii: "list_all is_ascii_byte s"
    by (auto simp: list_all_iff ascii_defs)
  have no_ws: "\<not> is_whitespace [c]" if "c \<in> set s" for c
    using all that by (auto simp: list_all_iff is_whitespace_def ascii_defs Let_def)
  have keep: "dropWhile is_whitespace (map (\<lambda>c. [c]) t) = map (\<lambda>c. [c]) t" if "set t \<subseteq> set s" for t
    using that no_ws by (cases t) auto
  show ?thesis
    using keep [of s] keep [of "rev s"]
    by (simp add: trim_def chars_ascii [OF ascii] of_chars_def rev_map)
qed

lemma show_range_set: "c \<in> set (show_range r) \<Longrightarrow> ascii_digit c \<or> c = CHR ''-''"
  by (cases r) (auto dest: dec_digits)

lemma show_range_ne [simp]: "show_range r \<noteq> []"
  by (cases r) auto

lemma no_hyphen_dec: "CHR ''-'' \<notin> set (dec n)"
  by (auto dest!: dec_digits simp: ascii_digit_def)

lemma cpuset_part_show: "range_fits r \<Longrightarrow> cpuset_part_ok m (show_range r) \<longleftrightarrow> range_ok (Suc m) r"
proof -
  assume fits: "range_fits r"
  have "trim (show_range r) = show_range r"
    by (rule trim_digits) (auto simp: list_all_iff dest: show_range_set)
  moreover have "split_once (CHR ''-'') (dec a @ CHR ''-'' # dec b) = Some (dec a, dec b)" for a b
    by (simp add: split_once_Some no_hyphen_dec)
  moreover have "split_once (CHR ''-'') (dec a) = None" for a
    by (simp add: split_once_None no_hyphen_dec)
  ultimately show ?thesis
    using fits by (cases r) (auto simp: cpuset_part_ok_def Let_def parse_unsigned_dec)
qed

lemma split_show_ranges: "rs \<noteq> [] \<Longrightarrow> split_on (CHR '','') (show_ranges rs) = map show_range rs"
proof (induction rs rule: show_ranges.induct)
  case (2 r)
  have "CHR '','' \<notin> set (show_range r)"
    by (auto dest: show_range_set simp: ascii_digit_def)
  then show ?case by (simp add: split_on_absent)
next
  case (3 r r2 rs)
  have "CHR '','' \<notin> set (show_range r)"
    by (auto dest: show_range_set simp: ascii_digit_def)
  with 3 show ?case by (simp add: split_on_append)
qed simp

text \<open>On canonical cpusets the check is exact: a list of single CPUs and ranges passes if and
  only if every range is the right way round and every CPU exists on the host.\<close>

theorem validate_cpuset_exact:
  assumes "rs \<noteq> []" and "list_all range_fits rs"
  shows "validate_cpuset_range (show_ranges rs) n \<longleftrightarrow> 0 < n \<and> list_all (range_ok n) rs"
  using assms by (cases n)
    (simp_all add: validate_cpuset_range_def split_show_ranges list_all_iff cpuset_part_show)

theorem validate_cpuset_exact_witness:
  "validate_cpuset_range ''0-3,5'' 6 \<and> \<not> validate_cpuset_range ''0-3,5'' 5"
proof -
  have "show_ranges [Range 0 3, One 5] = ''0-3,5''" by code_simp
  then show ?thesis
    using validate_cpuset_exact [of "[Range 0 3, One 5]" 6]
      validate_cpuset_exact [of "[Range 0 3, One 5]" 5] by simp
qed

text \<open>The set of all host CPUs that the settings dialog proposes passes the check on the same
  host.\<close>

theorem all_cpus_set_valid:
  fixes n :: u64
  shows "validate_cpuset_range (all_cpus_set (unat n)) (unat n) \<longleftrightarrow> n \<noteq> 0"
proof -
  have zero: "dec 0 = ''0''" by code_simp
  have "unat n < 2 ^ 64" using unsigned_less [of n] by simp
  then have fits: "range_fits (Range 0 (unat n - 1))" by simp
  show ?thesis
  proof (cases "unat n \<le> 1")
    case True
    then show ?thesis
      using validate_cpuset_exact [of "[One 0]" "unat n"] zero
      by (auto simp: all_cpus_set_def unat_gt_0)
  next
    case False
    with fits show ?thesis
      using validate_cpuset_exact [of "[Range 0 (unat n - 1)]" "unat n"] zero
      by (auto simp: all_cpus_set_def)
  qed
qed

end
