(* ===== verification/Config.thy ===== *)
theory Config
  imports Archs Limits
begin

text \<open>
  The VM configuration of vmm-types/src/config.rs (with the small types of tpm.rs,
  looking\_glass.rs and auto\_snapshot.rs): the enums and their libvirt names, the name and
  firewall checks, the CPU topology, the \<open>VmConfig\<close> structure, \<open>effective_nics\<close> and
  \<open>validate_config_bounds\<close>, which runs on every configuration read from disk.

  A \<open>Uuid\<close> is its sixteen bytes; random identifiers are arguments. A panic of
  \<open>String::truncate\<close> is the result \<open>None\<close>.
\<close>

section \<open>Enumerations\<close>

datatype boot_device = Cdrom | Hd | BootNetwork | Floppy

primrec boot_display :: "boot_device \<Rightarrow> string" where
  "boot_display Cdrom = ''CD/DVD''"
| "boot_display Hd = ''Hard Disk''"
| "boot_display BootNetwork = ''Network (PXE)''"
| "boot_display Floppy = ''Floppy''"

primrec boot_xml_name :: "boot_device \<Rightarrow> string" where
  "boot_xml_name Cdrom = ''cdrom''"
| "boot_xml_name Hd = ''hd''"
| "boot_xml_name BootNetwork = ''network''"
| "boot_xml_name Floppy = ''fd''"

definition all_boot_devices :: "boot_device list" where
  "all_boot_devices = [Cdrom, Hd, BootNetwork, Floppy]"

definition default_boot_order :: "boot_device list" where
  "default_boot_order = [Cdrom, Hd]"

datatype os_type = Linux | Windows | MacOS | FreeBSD | OtherOs

datatype network_mode = Nat | Bridged | HostOnly | LanSegment string | NetNone

primrec network_display :: "network_mode \<Rightarrow> string" where
  "network_display Nat = ''NAT''"
| "network_display Bridged = ''Bridged''"
| "network_display HostOnly = ''Host Only''"
| "network_display (LanSegment n) = ''LAN: '' @ n"
| "network_display NetNone = ''None''"

datatype gpu_model = GpuAuto | Vga | Qxl | VirtioGpu | VirtioGpuGl | VmwareSvga | GpuNone

primrec gpu_display :: "gpu_model \<Rightarrow> string" where
  "gpu_display GpuAuto = ''Auto''"
| "gpu_display Vga = ''VGA''"
| "gpu_display Qxl = ''QXL''"
| "gpu_display VirtioGpu = ''virtio-gpu''"
| "gpu_display VirtioGpuGl = ''virtio-gpu-gl (3D)''"
| "gpu_display VmwareSvga = ''VMware SVGA''"
| "gpu_display GpuNone = ''None (headless)''"

definition all_gpu_models :: "gpu_model list" where
  "all_gpu_models = [GpuAuto, Vga, Qxl, VirtioGpu, VirtioGpuGl, VmwareSvga, GpuNone]"

definition gpu_libvirt_model :: "gpu_model \<Rightarrow> os_type \<Rightarrow> string" where
  "gpu_libvirt_model g os =
     (case g of
        GpuAuto \<Rightarrow> (if os = MacOS then ''vmvga'' else if os = Windows then ''qxl'' else ''virtio'')
      | Vga \<Rightarrow> ''vga''
      | Qxl \<Rightarrow> ''qxl''
      | VirtioGpu \<Rightarrow> ''virtio''
      | VirtioGpuGl \<Rightarrow> ''virtio''
      | VmwareSvga \<Rightarrow> ''vmvga''
      | GpuNone \<Rightarrow> ''none'')"

definition supports_3d :: "gpu_model \<Rightarrow> bool" where
  "supports_3d g \<longleftrightarrow> g \<in> {VirtioGpu, VirtioGpuGl, GpuAuto}"

datatype disk_mode = Snapshotted | IndependentPersistent | IndependentNonpersistent

primrec disk_mode_display :: "disk_mode \<Rightarrow> string" where
  "disk_mode_display Snapshotted = ''Snapshotted''"
| "disk_mode_display IndependentPersistent = ''Independent - Persistent''"
| "disk_mode_display IndependentNonpersistent = ''Independent - Nonpersistent''"

datatype usb_controller_version = Usb1 | Usb2 | Usb3

primrec usb_display :: "usb_controller_version \<Rightarrow> string" where
  "usb_display Usb1 = ''USB 1.1 (OHCI)''"
| "usb_display Usb2 = ''USB 2.0 (EHCI)''"
| "usb_display Usb3 = ''USB 3.0 (xHCI)''"

primrec usb_libvirt_model :: "usb_controller_version \<Rightarrow> string" where
  "usb_libvirt_model Usb1 = ''pci-ohci''"
| "usb_libvirt_model Usb2 = ''ehci''"
| "usb_libvirt_model Usb3 = ''qemu-xhci''"

datatype display_protocol = Vnc | Spice | SpiceWithVnc

primrec protocol_display :: "display_protocol \<Rightarrow> string" where
  "protocol_display Vnc = ''VNC''"
| "protocol_display Spice = ''SPICE''"
| "protocol_display SpiceWithVnc = ''SPICE + VNC''"

primrec protocol_description :: "display_protocol \<Rightarrow> string" where
  "protocol_description Vnc = ''Stable, universal (noVNC compatible)''"
| "protocol_description Spice = ''Clipboard, audio, USB, display resize''"
| "protocol_description SpiceWithVnc = ''SPICE session + VNC for remote access''"

definition has_spice :: "display_protocol \<Rightarrow> bool" where
  "has_spice p \<longleftrightarrow> p \<in> {Spice, SpiceWithVnc}"

definition has_vnc :: "display_protocol \<Rightarrow> bool" where
  "has_vnc p \<longleftrightarrow> p \<in> {Vnc, SpiceWithVnc}"

text \<open>The two shapes the backward-compatible deserializer visits; anything else is an error.\<close>

datatype de_value = DeBool bool | DeStr string | DeOther

definition deserialize_display_protocol :: "de_value \<Rightarrow> display_protocol option" where
  "deserialize_display_protocol v =
     (case v of
        DeBool b \<Rightarrow> Some (if b then SpiceWithVnc else Vnc)
      | DeStr s \<Rightarrow>
          (if s \<in> {''Vnc'', ''vnc'', ''VNC''} then Some Vnc
           else if s \<in> {''Spice'', ''spice'', ''SPICE''} then Some Spice
           else if s \<in> {''SpiceWithVnc'', ''spice_with_vnc'', ''SPICE + VNC''} then Some SpiceWithVnc
           else None)
      | DeOther \<Rightarrow> None)"

section \<open>Port forwards and firewall rules\<close>

datatype port_protocol = Tcp | Udp

primrec port_protocol_display :: "port_protocol \<Rightarrow> string" where
  "port_protocol_display Tcp = ''TCP''"
| "port_protocol_display Udp = ''UDP''"

record port_forward_rule =
  pf_protocol :: port_protocol
  host_port :: u16
  guest_port :: u16
  pf_description :: string

definition port_forward_display :: "port_forward_rule \<Rightarrow> string" where
  "port_forward_display r =
     port_protocol_display (pf_protocol r) @ '' host:'' @ dec_w (host_port r) @ '' ''
     @ right_arrow @ '' guest:'' @ dec_w (guest_port r)
     @ (if pf_description r \<noteq> [] then '' ('' @ pf_description r @ '')'' else [])"

datatype firewall_action = Accept | Drop | Reject
datatype firewall_direction = In | Out | Both
datatype firewall_protocol = FwTcp | FwUdp | FwIcmp | FwAny

primrec libvirt_action :: "firewall_action \<Rightarrow> string" where
  "libvirt_action Accept = ''accept''"
| "libvirt_action Drop = ''drop''"
| "libvirt_action Reject = ''reject''"

primrec libvirt_direction :: "firewall_direction \<Rightarrow> string" where
  "libvirt_direction In = ''in''"
| "libvirt_direction Out = ''out''"
| "libvirt_direction Both = ''inout''"

primrec libvirt_element :: "firewall_protocol \<Rightarrow> string" where
  "libvirt_element FwTcp = ''tcp''"
| "libvirt_element FwUdp = ''udp''"
| "libvirt_element FwIcmp = ''icmp''"
| "libvirt_element FwAny = ''all''"

definition has_ports :: "firewall_protocol \<Rightarrow> bool" where
  "has_ports p \<longleftrightarrow> p \<in> {FwTcp, FwUdp}"

record firewall_rule =
  fw_action :: firewall_action
  fw_direction :: firewall_direction
  fw_protocol :: firewall_protocol
  remote_addr :: string
  local_port :: string
  remote_port :: string
  priority :: i32
  fw_description :: string

definition default_firewall_rule :: firewall_rule where
  "default_firewall_rule = \<lparr>fw_action = Accept, fw_direction = Both, fw_protocol = FwAny,
     remote_addr = [], local_port = [], remote_port = [], priority = 500, fw_description = []\<rparr>"

definition is_valid_firewall_addr :: "string \<Rightarrow> bool" where
  "is_valid_firewall_addr s =
     (if s = [] then True
      else if 64 < length s then False
      else list_all (ascii_char (\<lambda>c. ascii_hexdigit c \<or> c = CHR ''.'' \<or> c = CHR '':'' \<or> c = CHR ''/''))
             (chars s))"

definition is_valid_firewall_port :: "string \<Rightarrow> bool" where
  "is_valid_firewall_port s =
     (if s = [] then True
      else if 11 < length s then False
      else list_all (ascii_char (\<lambda>c. ascii_digit c \<or> c = CHR ''-'')) (chars s))"

section \<open>CPU topology\<close>

definition checked_mul :: "'a::len word \<Rightarrow> 'a word \<Rightarrow> 'a word option" where
  "checked_mul a b = (if unat a * unat b < 2 ^ LENGTH('a) then Some (a * b) else None)"

record cpu_topology =
  sockets :: u32
  cores :: u32
  threads :: u32

definition total_vcpus :: "cpu_topology \<Rightarrow> u32" where
  "total_vcpus t =
     (case Option.bind (checked_mul (sockets t) (cores t)) (\<lambda>v. checked_mul v (threads t)) of
        Some v \<Rightarrow> v | None \<Rightarrow> 0xFFFFFFFF)"

definition clamp_topology :: "u32 \<Rightarrow> u32" where
  "clamp_topology n = min (max n 1) 256"

definition topology_to_xml :: "cpu_topology \<Rightarrow> string" where
  \<open>topology_to_xml t =
     ''      <topology sockets='' @ sq (dec_w (clamp_topology (sockets t)))
     @ '' cores='' @ sq (dec_w (clamp_topology (cores t)))
     @ '' threads='' @ sq (dec_w (clamp_topology (threads t))) @ ''/>\<newline>''\<close>

definition topology_display :: "cpu_topology \<Rightarrow> string" where
  "topology_display t =
     dec_w (sockets t) @ ''S '' @ times_sign @ '' '' @ dec_w (cores t) @ ''C '' @ times_sign
     @ '' '' @ dec_w (threads t) @ ''T ('' @ dec_w (total_vcpus t) @ '' vCPUs)''"

definition topology_label :: "string \<Rightarrow> string \<Rightarrow> string \<Rightarrow> string \<Rightarrow> string" where
  "topology_label s c t n =
     s @ ''S '' @ times_sign @ '' '' @ c @ ''C '' @ times_sign @ '' '' @ t @ ''T ('' @ n @ '' vCPUs)''"

definition topology_presets :: "(string \<times> cpu_topology) list" where
  "topology_presets =
     [(topology_label ''1'' ''2'' ''1'' ''2'', \<lparr>sockets = 1, cores = 2, threads = 1\<rparr>),
      (topology_label ''1'' ''4'' ''1'' ''4'', \<lparr>sockets = 1, cores = 4, threads = 1\<rparr>),
      (topology_label ''1'' ''4'' ''2'' ''8'', \<lparr>sockets = 1, cores = 4, threads = 2\<rparr>),
      (topology_label ''1'' ''8'' ''2'' ''16'', \<lparr>sockets = 1, cores = 8, threads = 2\<rparr>),
      (topology_label ''2'' ''4'' ''2'' ''16'', \<lparr>sockets = 2, cores = 4, threads = 2\<rparr>),
      (topology_label ''2'' ''8'' ''2'' ''32'', \<lparr>sockets = 2, cores = 8, threads = 2\<rparr>)]"

section \<open>Ports, devices and the configuration record\<close>

datatype serial_backend = SbPty | SbFile | SbUnixSocket | SbTcp | SbNull

primrec serial_display :: "serial_backend \<Rightarrow> string" where
  "serial_display SbPty = ''PTY''"
| "serial_display SbFile = ''File''"
| "serial_display SbUnixSocket = ''Unix Socket''"
| "serial_display SbTcp = ''TCP''"
| "serial_display SbNull = ''Null''"

primrec serial_libvirt_type :: "serial_backend \<Rightarrow> string" where
  "serial_libvirt_type SbPty = ''pty''"
| "serial_libvirt_type SbFile = ''file''"
| "serial_libvirt_type SbUnixSocket = ''unix''"
| "serial_libvirt_type SbTcp = ''tcp''"
| "serial_libvirt_type SbNull = ''null''"

record serial_port_config =
  sp_backend :: serial_backend
  sp_target :: string

record parallel_port_config =
  pp_backend :: serial_backend
  pp_target :: string

record vfio_device_config =
  pci_address :: string
  vfio_description :: string
  rom_bar :: bool

datatype tpm_version = V1_2 | V2_0

primrec tpm_version_display :: "tpm_version \<Rightarrow> string" where
  "tpm_version_display V1_2 = ''1.2''"
| "tpm_version_display V2_0 = ''2.0''"

record looking_glass_config =
  lg_enabled :: bool
  ivshmem_size_mib :: u32
  auto_launch :: bool
  client_path :: "string option"

definition default_looking_glass :: looking_glass_config where
  "default_looking_glass =
     \<lparr>lg_enabled = False, ivshmem_size_mib = 64, auto_launch = True, client_path = None\<rparr>"

record auto_snapshot_config =
  as_enabled :: bool
  interval_hours :: u32
  retention :: u32

definition default_auto_snapshot :: auto_snapshot_config where
  "default_auto_snapshot = \<lparr>as_enabled = False, interval_hours = 24, retention = 5\<rparr>"

record nic_config =
  nic_mode :: network_mode
  nic_model :: string
  nic_mac :: string

definition default_nic :: nic_config where
  "default_nic = \<lparr>nic_mode = Nat, nic_model = ''virtio'', nic_mac = []\<rparr>"

type_synonym uuid = "u8 list"

record vm_config =
  vm_id :: uuid
  vm_name :: string
  vcpus :: u32
  memory_mib :: u64
  disk_size_gib :: u64
  disk_path :: string
  iso_path :: "string option"
  os_type :: os_type
  uefi :: bool
  gpu_accel :: bool
  network :: network_mode
  display_protocol :: display_protocol
  usb_support :: bool
  audio :: bool
  shared_folder :: "string option"
  vm_description :: string
  boot_order :: "boot_device list"
  network_interfaces :: "nic_config list"
  autostart :: bool
  tags :: "string list"
  folder :: "string option"
  favorite :: bool
  auto_snapshot :: auto_snapshot_config
  display_count :: u8
  disk_encrypted :: bool
  encryption_secret_uuid :: "uuid option"
  tpm_enabled :: bool
  tpm_version :: tpm_version
  port_forwards :: "port_forward_rule list"
  vm_notes :: string
  resource_limits :: resource_limits
  performance_profile :: string
  rollback_enabled :: bool
  rollback_max_points :: u64
  network_condition :: "string option"
  cpu_topology :: "cpu_topology option"
  hugepages :: bool
  disk_cache :: string
  disk_io_mode :: string
  io_threads :: u32
  vfio_devices :: "vfio_device_config list"
  looking_glass :: looking_glass_config
  custom_qemu_args :: "string list"
  virtio_mem :: bool
  iouring :: bool
  cpu_features :: "string list"
  box_type :: box_type
  qemu_arch :: qemu_arch
  machine_type :: string
  vm_cpu_model :: string
  custom_firmware_code :: "string option"
  custom_firmware_vars :: "string option"
  boot_timeout :: u32
  preferred_resolution :: "(u32 \<times> u32) option"
  use_kvm :: bool
  secure_boot :: bool
  report_battery :: bool
  gpu_model :: gpu_model
  video_ram_mb :: u32
  usb_controller :: usb_controller_version
  disk_mode :: disk_mode
  side_channel_mitigations :: bool
  serial_ports :: "serial_port_config list"
  parallel_ports :: "parallel_port_config list"
  firewall_rules :: "firewall_rule list"
  vfio_hook_dir :: "string option"
  auto_port_forward :: bool
  auto_port_forward_skip_privileged :: bool

definition default_config :: "uuid \<Rightarrow> vm_config" where
  "default_config new_id = \<lparr>
     vm_id = new_id, vm_name = ''New Virtual Machine'', vcpus = 2, memory_mib = 2048,
     disk_size_gib = 20, disk_path = [], iso_path = None, os_type = Linux, uefi = True,
     gpu_accel = False, network = Nat, display_protocol = Vnc, usb_support = True, audio = True,
     shared_folder = None, vm_description = [], boot_order = default_boot_order,
     network_interfaces = [], autostart = False, tags = [], folder = None, favorite = False,
     auto_snapshot = default_auto_snapshot, display_count = 1, disk_encrypted = False,
     encryption_secret_uuid = None, tpm_enabled = True, tpm_version = V2_0, port_forwards = [],
     vm_notes = [], resource_limits = default_limits, performance_profile = ''default'',
     rollback_enabled = False, rollback_max_points = 5, network_condition = None,
     cpu_topology = None, hugepages = False, disk_cache = ''writeback'',
     disk_io_mode = ''threads'', io_threads = 0, vfio_devices = [],
     looking_glass = default_looking_glass, custom_qemu_args = [], virtio_mem = False,
     iouring = False, cpu_features = [], box_type = Standard, qemu_arch = X86_64,
     machine_type = ''q35'', vm_cpu_model = [], custom_firmware_code = None,
     custom_firmware_vars = None, boot_timeout = 3000, preferred_resolution = None,
     use_kvm = True, secure_boot = False, report_battery = False, gpu_model = GpuAuto,
     video_ram_mb = 64, usb_controller = Usb3, disk_mode = Snapshotted,
     side_channel_mitigations = True, serial_ports = [], parallel_ports = [],
     firewall_rules = [], vfio_hook_dir = None, auto_port_forward = False,
     auto_port_forward_skip_privileged = True\<rparr>"

end
