(* ===== verification/Config_Bounds.thy ===== *)
theory Config_Bounds
  imports Config
begin

text \<open>
  \<open>VmConfig::effective_nics\<close> and \<open>VmConfig::validate_config_bounds\<close> of
  vmm-types/src/config.rs. The second runs on every configuration read from disk or received
  over the API, and clamps, truncates or resets the fields one group after the other; the model
  has one function per group, composed in the order of the code. \<open>None\<close> is the panic of
  \<open>String::truncate\<close> at an offset inside a character.
\<close>

definition legacy_nic_model :: "os_type \<Rightarrow> string" where
  "legacy_nic_model os =
     (case os of Windows \<Rightarrow> ''e1000e'' | MacOS \<Rightarrow> ''vmxnet3'' | _ \<Rightarrow> ''virtio'')"

definition effective_nics :: "vm_config \<Rightarrow> nic_config list" where
  "effective_nics c =
     (if network_interfaces c \<noteq> [] then network_interfaces c
      else if network c = NetNone then []
      else [\<lparr>nic_mode = network c, nic_model = legacy_nic_model (os_type c), nic_mac = []\<rparr>])"

section \<open>The groups of checks\<close>

text \<open>\<open>x < lo\<close> and \<open>x > hi\<close> as two tests in sequence.\<close>

definition clamp_lo :: "'a::linorder \<Rightarrow> 'a \<Rightarrow> 'a" where
  "clamp_lo lo x = (if x < lo then lo else x)"

definition clamp_hi :: "'a::linorder \<Rightarrow> 'a \<Rightarrow> 'a" where
  "clamp_hi hi x = (if x > hi then hi else x)"

definition MAX_VCPUS :: u32 where
  "MAX_VCPUS = 512"

definition bound_resources :: "vm_config \<Rightarrow> vm_config" where
  "bound_resources c = c\<lparr>
     vcpus := clamp_hi MAX_VCPUS (clamp_lo 1 (vcpus c)),
     memory_mib := clamp_hi 1048576 (clamp_lo 128 (memory_mib c)),
     disk_size_gib := clamp_hi 65536 (clamp_lo 1 (disk_size_gib c))\<rparr>"

definition bound_counts :: "vm_config \<Rightarrow> vm_config" where
  "bound_counts c = c\<lparr>
     display_count := clamp_hi 8 (if display_count c = 0 then 1 else display_count c),
     rollback_max_points := clamp_hi 100 (if rollback_max_points c = 0 then 1 else rollback_max_points c),
     io_threads := clamp_hi 16 (io_threads c)\<rparr>"

definition bound_topology :: "vm_config \<Rightarrow> vm_config" where
  "bound_topology c =
     (case cpu_topology c of
        None \<Rightarrow> c
      | Some topo \<Rightarrow>
          if total_vcpus topo > MAX_VCPUS \<or> total_vcpus topo = 0 then c\<lparr>cpu_topology := None\<rparr> else c)"

text \<open>\<open>Vec::truncate\<close> keeps the first elements.\<close>

definition cap :: "nat \<Rightarrow> 'a list \<Rightarrow> 'a list" where
  "cap n xs = (if length xs > n then take n xs else xs)"

definition cap_lists :: "vm_config \<Rightarrow> vm_config" where
  "cap_lists c = c\<lparr>
     port_forwards := cap 256 (port_forwards c),
     vfio_devices := cap 32 (vfio_devices c),
     custom_qemu_args := cap 64 (custom_qemu_args c),
     cpu_features := cap 64 (cpu_features c),
     tags := cap 32 (tags c)\<rparr>"

definition cap_text :: "nat \<Rightarrow> string \<Rightarrow> string option" where
  "cap_text n s = (if length s > n then str_truncate n s else Some s)"

definition cap_texts :: "vm_config \<Rightarrow> vm_config option" where
  "cap_texts c =
     (case cap_text 65536 (vm_notes c) of
        None \<Rightarrow> None
      | Some ns \<Rightarrow>
          (case cap_text 4096 (vm_description c) of
             None \<Rightarrow> None
           | Some d \<Rightarrow> Some (c\<lparr>vm_notes := ns, vm_description := d\<rparr>)))"

definition valid_cache_modes :: "string list" where
  "valid_cache_modes = [''none'', ''writeback'', ''writethrough'', ''unsafe'', ''directsync'']"

definition valid_io_modes :: "string list" where
  "valid_io_modes = [''native'', ''threads'']"

definition bound_devices :: "vm_config \<Rightarrow> vm_config" where
  "bound_devices c = c\<lparr>
     network_interfaces := cap 8 (network_interfaces c),
     disk_cache := (if disk_cache c \<notin> set valid_cache_modes then ''writeback'' else disk_cache c),
     disk_io_mode := (if disk_io_mode c \<notin> set valid_io_modes then ''threads'' else disk_io_mode c),
     video_ram_mb := min (max (video_ram_mb c) 16) 256,
     serial_ports := cap 4 (serial_ports c),
     parallel_ports := cap 3 (parallel_ports c)\<rparr>"

text \<open>One round of the loop over the firewall rules; the priority is signed.\<close>

definition clamp_priority :: "i32 \<Rightarrow> i32" where
  "clamp_priority p =
     (let p1 = (if p <s 0 then 0 else p) in if 1000 <s p1 then 1000 else p1)"

definition sanitize_rule :: "firewall_rule \<Rightarrow> firewall_rule option" where
  "sanitize_rule r =
     map_option (\<lambda>d. r\<lparr>
         priority := clamp_priority (priority r),
         remote_addr := (if is_valid_firewall_addr (remote_addr r) then remote_addr r else []),
         local_port := (if is_valid_firewall_port (local_port r) then local_port r else []),
         remote_port := (if is_valid_firewall_port (remote_port r) then remote_port r else []),
         fw_description := d\<rparr>)
       (cap_text 256 (fw_description r))"

fun sanitize_rules :: "firewall_rule list \<Rightarrow> firewall_rule list option" where
  "sanitize_rules [] = Some []"
| "sanitize_rules (r # rs) =
     (case sanitize_rule r of
        None \<Rightarrow> None
      | Some r' \<Rightarrow> map_option (\<lambda>rs'. r' # rs') (sanitize_rules rs))"

definition bound_firewall :: "vm_config \<Rightarrow> vm_config option" where
  "bound_firewall c =
     map_option (\<lambda>rs. c\<lparr>firewall_rules := rs\<rparr>) (sanitize_rules (cap 64 (firewall_rules c)))"

definition validate_config_bounds :: "vm_config \<Rightarrow> vm_config option" where
  "validate_config_bounds c =
     Option.bind (cap_texts (cap_lists (bound_topology (bound_counts (bound_resources c)))))
       (\<lambda>c. bound_firewall (bound_devices c))"

section \<open>The contract\<close>

definition rule_in_bounds :: "firewall_rule \<Rightarrow> bool" where
  "rule_in_bounds r \<longleftrightarrow>
     0 \<le> sint (priority r) \<and> sint (priority r) \<le> 1000
     \<and> is_valid_firewall_addr (remote_addr r)
     \<and> is_valid_firewall_port (local_port r) \<and> is_valid_firewall_port (remote_port r)
     \<and> length (fw_description r) \<le> 256"

definition numbers_in_bounds :: "vm_config \<Rightarrow> bool" where
  "numbers_in_bounds c \<longleftrightarrow>
     1 \<le> unat (vcpus c) \<and> unat (vcpus c) \<le> 512
     \<and> 128 \<le> unat (memory_mib c) \<and> unat (memory_mib c) \<le> 2 ^ 20
     \<and> 1 \<le> unat (disk_size_gib c) \<and> unat (disk_size_gib c) \<le> 2 ^ 16
     \<and> 1 \<le> unat (display_count c) \<and> unat (display_count c) \<le> 8
     \<and> 1 \<le> unat (rollback_max_points c) \<and> unat (rollback_max_points c) \<le> 100
     \<and> unat (io_threads c) \<le> 16
     \<and> 16 \<le> unat (video_ram_mb c) \<and> unat (video_ram_mb c) \<le> 256"

definition topology_product :: "cpu_topology \<Rightarrow> nat" where
  "topology_product t = unat (sockets t) * unat (cores t) * unat (threads t)"

definition topology_in_bounds :: "vm_config \<Rightarrow> bool" where
  "topology_in_bounds c \<longleftrightarrow>
     (case cpu_topology c of None \<Rightarrow> True
      | Some t \<Rightarrow> 1 \<le> topology_product t \<and> topology_product t \<le> 512)"

definition lists_in_bounds :: "vm_config \<Rightarrow> bool" where
  "lists_in_bounds c \<longleftrightarrow>
     length (port_forwards c) \<le> 256 \<and> length (vfio_devices c) \<le> 32
     \<and> length (custom_qemu_args c) \<le> 64 \<and> length (cpu_features c) \<le> 64 \<and> length (tags c) \<le> 32
     \<and> length (vm_notes c) \<le> 65536 \<and> length (vm_description c) \<le> 4096
     \<and> length (network_interfaces c) \<le> 8 \<and> length (serial_ports c) \<le> 4
     \<and> length (parallel_ports c) \<le> 3 \<and> length (firewall_rules c) \<le> 64"

definition config_in_bounds :: "vm_config \<Rightarrow> bool" where
  "config_in_bounds c \<longleftrightarrow>
     numbers_in_bounds c \<and> topology_in_bounds c \<and> lists_in_bounds c
     \<and> disk_cache c \<in> set valid_cache_modes \<and> disk_io_mode c \<in> set valid_io_modes
     \<and> list_all rule_in_bounds (firewall_rules c)"

section \<open>Lemmas\<close>

lemma cap_length [simp]: "length (cap n xs) = min n (length xs)"
  by (auto simp: cap_def)

lemma cap_short [simp]: "length xs \<le> n \<Longrightarrow> cap n xs = xs"
  by (simp add: cap_def)

lemma cap_text_len: "cap_text n s = Some t \<Longrightarrow> length t \<le> n"
  by (auto simp: cap_text_def dest: str_truncate_length split: if_splits)

lemma cap_text_short [simp]: "length s \<le> n \<Longrightarrow> cap_text n s = Some s"
  by (simp add: cap_text_def)

text \<open>A text is cut where a character starts, or the call panics.\<close>

definition cuttable :: "nat \<Rightarrow> string \<Rightarrow> bool" where
  "cuttable n s \<longleftrightarrow> length s \<le> n \<or> \<not> is_cont_byte (s ! n)"

lemma cap_text_None: "0 < n \<Longrightarrow> cap_text n s = None \<longleftrightarrow> \<not> cuttable n s"
  by (auto simp: cap_text_def str_truncate_def is_char_boundary_def cuttable_def)

lemma clamp_hi_lo:
  fixes lo hi x :: "'a::len word"
  assumes "lo \<le> hi"
  shows "lo \<le> clamp_hi hi (clamp_lo lo x)" "clamp_hi hi (clamp_lo lo x) \<le> hi"
    "lo \<le> x \<Longrightarrow> x \<le> hi \<Longrightarrow> clamp_hi hi (clamp_lo lo x) = x"
  using assms by (auto simp: clamp_hi_def clamp_lo_def)

lemma total_vcpus_exact:
  "unat (total_vcpus t) = topology_product t \<or>
     total_vcpus t = 0xFFFFFFFF
       \<and> (2 ^ 32 \<le> topology_product t \<or> threads t = 0 \<and> 2 ^ 32 \<le> unat (sockets t) * unat (cores t))"
proof -
  let ?p = "unat (sockets t) * unat (cores t)"
  have prod: "unat (a * b) = unat a * unat b" if "unat a * unat b < 2 ^ 32" for a b :: u32
    using that by (simp add: unat_word_ariths)
  have "?p \<le> ?p * unat (threads t)" if "threads t \<noteq> 0"
  proof -
    have "1 \<le> unat (threads t)" using that by (simp add: Suc_le_eq unat_gt_0)
    then show ?thesis by simp
  qed
  then have "threads t \<noteq> 0 \<Longrightarrow> 2 ^ 32 \<le> ?p \<Longrightarrow> 2 ^ 32 \<le> ?p * unat (threads t)"
    using order_trans by blast
  then show ?thesis
    by (auto simp: total_vcpus_def checked_mul_def topology_product_def not_less prod
        split: if_splits)
qed

lemma topology_test:
  "(total_vcpus t > MAX_VCPUS \<or> total_vcpus t = 0)
     \<longleftrightarrow> \<not> (1 \<le> topology_product t \<and> topology_product t \<le> 512)"
proof -
  have range: "(x > MAX_VCPUS \<or> x = 0) \<longleftrightarrow> \<not> (1 \<le> unat x \<and> unat x \<le> 512)" for x :: u32
  proof -
    have "x = 0 \<longleftrightarrow> unat x = 0" by (simp add: unat_eq_0)
    moreover have "x > MAX_VCPUS \<longleftrightarrow> 512 < unat x" by (simp add: MAX_VCPUS_def word_less_nat_alt)
    ultimately show ?thesis by linarith
  qed
  have zero: "threads t = 0 \<Longrightarrow> topology_product t = 0"
    by (simp add: topology_product_def)
  from total_vcpus_exact [of t] show ?thesis
  proof
    assume "unat (total_vcpus t) = topology_product t"
    with range show ?thesis by simp
  next
    assume "total_vcpus t = 0xFFFFFFFF
       \<and> (2 ^ 32 \<le> topology_product t \<or> threads t = 0 \<and> 2 ^ 32 \<le> unat (sockets t) * unat (cores t))"
    then have "total_vcpus t > MAX_VCPUS" "topology_product t = 0 \<or> 512 < topology_product t"
      using zero by (auto simp: MAX_VCPUS_def)
    then show ?thesis by auto
  qed
qed

lemma clamp_priority_range: "0 \<le> sint (clamp_priority p) \<and> sint (clamp_priority p) \<le> 1000"
  by (auto simp: clamp_priority_def Let_def word_sless_alt)

lemma clamp_priority_id: "0 \<le> sint p \<Longrightarrow> sint p \<le> 1000 \<Longrightarrow> clamp_priority p = p"
  by (auto simp: clamp_priority_def Let_def word_sless_alt)

lemma firewall_empty_ok [simp]: "is_valid_firewall_addr []" "is_valid_firewall_port []"
  by (simp_all add: is_valid_firewall_addr_def is_valid_firewall_port_def)

lemma sanitize_rule_ok: "sanitize_rule r = Some r' \<Longrightarrow> rule_in_bounds r'"
  by (auto simp: sanitize_rule_def rule_in_bounds_def clamp_priority_range dest: cap_text_len)

lemma sanitize_rule_id: "rule_in_bounds r \<Longrightarrow> sanitize_rule r = Some r"
  by (simp add: sanitize_rule_def rule_in_bounds_def clamp_priority_id)

lemma sanitize_rules_ok:
  "sanitize_rules rs = Some rs' \<Longrightarrow> list_all rule_in_bounds rs' \<and> length rs' = length rs"
  by (induction rs arbitrary: rs') (auto split: option.splits dest: sanitize_rule_ok)

lemma sanitize_rules_id: "list_all rule_in_bounds rs \<Longrightarrow> sanitize_rules rs = Some rs"
  by (induction rs) (auto simp: sanitize_rule_id)

lemma sanitize_rules_None:
  "sanitize_rules rs = None \<longleftrightarrow> \<not> list_all (\<lambda>r. cuttable 256 (fw_description r)) rs"
proof (induction rs)
  case (Cons r rs)
  have "sanitize_rule r = None \<longleftrightarrow> \<not> cuttable 256 (fw_description r)"
    by (simp add: sanitize_rule_def cap_text_None)
  with Cons show ?case by (cases "sanitize_rule r") auto
qed simp

text \<open>The groups touch different fields: the whole is one record update.\<close>

definition kept_topology :: "cpu_topology option \<Rightarrow> cpu_topology option" where
  "kept_topology t =
     (case t of None \<Rightarrow> None
      | Some topo \<Rightarrow>
          if 1 \<le> topology_product topo \<and> topology_product topo \<le> 512 then Some topo else None)"

lemma bound_topology_upd:
  "bound_topology c = c\<lparr>cpu_topology := kept_topology (cpu_topology c)\<rparr>"
  by (cases "cpu_topology c")
    (auto simp: bound_topology_def kept_topology_def topology_test)

lemmas bound_defs = bound_resources_def bound_counts_def bound_topology_upd cap_lists_def
  bound_devices_def

definition bounded :: "string \<Rightarrow> string \<Rightarrow> firewall_rule list \<Rightarrow> vm_config \<Rightarrow> vm_config" where
  "bounded ns ds rs c = c\<lparr>
     vcpus := clamp_hi MAX_VCPUS (clamp_lo 1 (vcpus c)),
     memory_mib := clamp_hi 1048576 (clamp_lo 128 (memory_mib c)),
     disk_size_gib := clamp_hi 65536 (clamp_lo 1 (disk_size_gib c)),
     display_count := clamp_hi 8 (if display_count c = 0 then 1 else display_count c),
     rollback_max_points := clamp_hi 100 (if rollback_max_points c = 0 then 1 else rollback_max_points c),
     io_threads := clamp_hi 16 (io_threads c),
     cpu_topology := kept_topology (cpu_topology c),
     port_forwards := cap 256 (port_forwards c),
     vfio_devices := cap 32 (vfio_devices c),
     custom_qemu_args := cap 64 (custom_qemu_args c),
     cpu_features := cap 64 (cpu_features c),
     tags := cap 32 (tags c),
     vm_notes := ns, vm_description := ds,
     network_interfaces := cap 8 (network_interfaces c),
     disk_cache := (if disk_cache c \<notin> set valid_cache_modes then ''writeback'' else disk_cache c),
     disk_io_mode := (if disk_io_mode c \<notin> set valid_io_modes then ''threads'' else disk_io_mode c),
     video_ram_mb := min (max (video_ram_mb c) 16) 256,
     serial_ports := cap 4 (serial_ports c),
     parallel_ports := cap 3 (parallel_ports c),
     firewall_rules := rs\<rparr>"

lemma validate_bounded:
  "validate_config_bounds c =
     (case (cap_text 65536 (vm_notes c), cap_text 4096 (vm_description c),
            sanitize_rules (cap 64 (firewall_rules c))) of
        (Some ns, Some ds, Some rs) \<Rightarrow> Some (bounded ns ds rs c)
      | _ \<Rightarrow> None)"
proof (cases "cap_text 65536 (vm_notes c)")
  case None
  then show ?thesis by (simp add: validate_config_bounds_def cap_texts_def bound_defs)
next
  case (Some ns)
  then show ?thesis
    by (cases "cap_text 4096 (vm_description c)";
        cases "sanitize_rules (cap 64 (firewall_rules c))")
      (simp_all add: validate_config_bounds_def cap_texts_def bound_firewall_def bound_defs bounded_def)
qed

lemma validate_Some:
  assumes "validate_config_bounds c = Some d"
  obtains ns ds rs where "cap_text 65536 (vm_notes c) = Some ns"
    "cap_text 4096 (vm_description c) = Some ds"
    "sanitize_rules (cap 64 (firewall_rules c)) = Some rs" "d = bounded ns ds rs c"
  using assms unfolding validate_bounded by (auto split: option.splits)

lemma clamp_bounds:
  fixes lo hi x :: "'a::len word"
  assumes "lo \<le> hi"
  shows "unat lo \<le> unat (clamp_hi hi (clamp_lo lo x)) \<and> unat (clamp_hi hi (clamp_lo lo x)) \<le> unat hi"
  using clamp_hi_lo(1,2) [OF assms, of x] by (simp add: word_le_nat_alt)

lemma clamp_hi_max:
  fixes hi x :: "'a::len word"
  shows "unat (clamp_hi hi x) \<le> unat hi"
  by (simp add: clamp_hi_def word_le_nat_alt [symmetric] not_less)

lemma clamp_nonzero:
  fixes hi x :: "'a::len word"
  assumes "1 \<le> hi"
  shows "1 \<le> unat (clamp_hi hi (if x = 0 then 1 else x)) \<and> unat (clamp_hi hi (if x = 0 then 1 else x)) \<le> unat hi"
proof -
  have "clamp_hi hi (if x = 0 then 1 else x) \<noteq> 0"
    using assms by (auto simp: clamp_hi_def)
  then have "1 \<le> unat (clamp_hi hi (if x = 0 then 1 else x))"
    by (metis One_nat_def Suc_leI unat_gt_0)
  then show ?thesis using clamp_hi_max by blast
qed

lemma min_max_bounds:
  fixes lo hi x :: "'a::len word"
  assumes "lo \<le> hi"
  shows "unat lo \<le> unat (min (max x lo) hi) \<and> unat (min (max x lo) hi) \<le> unat hi"
  using assms by (simp add: word_le_nat_alt [symmetric])

lemma bounded_numbers: "numbers_in_bounds (bounded ns ds rs c)"
  using clamp_bounds [of 1 MAX_VCPUS "vcpus c"] clamp_bounds [of 128 1048576 "memory_mib c"]
    clamp_bounds [of 1 65536 "disk_size_gib c"] clamp_hi_max [of 16 "io_threads c"]
    clamp_nonzero [of 8 "display_count c"] clamp_nonzero [of 100 "rollback_max_points c"]
    min_max_bounds [of 16 256 "video_ram_mb c"]
  by (simp add: numbers_in_bounds_def bounded_def MAX_VCPUS_def)

lemma bounded_topology: "topology_in_bounds (bounded ns ds rs c)"
  by (auto simp: topology_in_bounds_def bounded_def kept_topology_def split: option.splits if_splits)

lemma bounded_lists:
  "length ns \<le> 65536 \<Longrightarrow> length ds \<le> 4096 \<Longrightarrow> length rs \<le> 64 \<Longrightarrow>
     lists_in_bounds (bounded ns ds rs c)"
  by (simp add: lists_in_bounds_def bounded_def)

lemma bounded_modes:
  "disk_cache (bounded ns ds rs c) \<in> set valid_cache_modes"
  "disk_io_mode (bounded ns ds rs c) \<in> set valid_io_modes"
  "firewall_rules (bounded ns ds rs c) = rs"
  by (simp_all add: bounded_def) (simp_all add: valid_cache_modes_def valid_io_modes_def)

lemma validate_in_bounds: "validate_config_bounds c = Some d \<Longrightarrow> config_in_bounds d"
proof (erule validate_Some)
  fix ns ds rs
  assume *: "cap_text 65536 (vm_notes c) = Some ns" "cap_text 4096 (vm_description c) = Some ds"
    "sanitize_rules (cap 64 (firewall_rules c)) = Some rs" and d: "d = bounded ns ds rs c"
  from *(3) have "list_all rule_in_bounds rs" "length rs \<le> 64"
    using sanitize_rules_ok by fastforce+
  moreover have "length ns \<le> 65536" "length ds \<le> 4096"
    using *(1,2) by (auto dest: cap_text_len)
  ultimately show ?thesis
    unfolding config_in_bounds_def d
    by (simp add: bounded_numbers bounded_topology bounded_lists bounded_modes)
qed

lemma clamps_identity:
  assumes "numbers_in_bounds c"
  shows "clamp_hi MAX_VCPUS (clamp_lo 1 (vcpus c)) = vcpus c"
    "clamp_hi 1048576 (clamp_lo 128 (memory_mib c)) = memory_mib c"
    "clamp_hi 65536 (clamp_lo 1 (disk_size_gib c)) = disk_size_gib c"
    "clamp_hi 8 (if display_count c = 0 then 1 else display_count c) = display_count c"
    "clamp_hi 100 (if rollback_max_points c = 0 then 1 else rollback_max_points c)
       = rollback_max_points c"
    "clamp_hi 16 (io_threads c) = io_threads c"
    "min (max (video_ram_mb c) 16) 256 = video_ram_mb c"
proof -
  have "16 \<le> video_ram_mb c" "video_ram_mb c \<le> 256"
    using assms by (simp_all add: numbers_in_bounds_def word_le_nat_alt)
  then show "min (max (video_ram_mb c) 16) 256 = video_ram_mb c"
    by (simp add: max_absorb1 min_absorb1)
qed (use assms in \<open>auto simp: numbers_in_bounds_def clamp_hi_def clamp_lo_def MAX_VCPUS_def
      word_less_nat_alt\<close>)

lemma validate_id:
  assumes "config_in_bounds c"
  shows "validate_config_bounds c = Some c"
proof -
  have num: "numbers_in_bounds c" and lists: "lists_in_bounds c" and topo: "topology_in_bounds c"
    and rules: "list_all rule_in_bounds (firewall_rules c)"
    and modes: "disk_cache c \<in> set valid_cache_modes" "disk_io_mode c \<in> set valid_io_modes"
    using assms by (auto simp: config_in_bounds_def)
  have "kept_topology (cpu_topology c) = cpu_topology c"
    using topo by (auto simp: kept_topology_def topology_in_bounds_def split: option.splits)
  then have "bounded (vm_notes c) (vm_description c) (firewall_rules c) c = c"
    using lists modes
    by (simp add: bounded_def clamps_identity [OF num] lists_in_bounds_def)
  then show ?thesis
    using lists sanitize_rules_id [OF rules]
    by (simp add: validate_bounded lists_in_bounds_def)
qed

section \<open>Properties\<close>

text \<open>C2: Whatever the stored configuration holds, the configuration that validation returns has
  every number, list, text, mode and firewall rule within its documented range, and a topology
  only if it describes between 1 and 512 virtual CPUs.\<close>

theorem validated_config_in_bounds:
  assumes "validate_config_bounds c = Some d"
  shows "config_in_bounds d"
  using assms by (rule validate_in_bounds)

theorem validated_config_in_bounds_witness:
  "\<exists>d. validate_config_bounds ((default_config [])
       \<lparr>vcpus := 4096, memory_mib := 0, disk_cache := ''x'', display_count := 200\<rparr>) = Some d
     \<and> config_in_bounds d \<and> vcpus d = 512"
proof -
  let ?c = "(default_config []) \<lparr>vcpus := 4096, memory_mib := 0, disk_cache := ''x'', display_count := 200\<rparr>"
  have "validate_config_bounds ?c = Some (bounded [] [] [] ?c)"
    by (simp add: validate_bounded default_config_def)
  moreover from validated_config_in_bounds [OF this] have "config_in_bounds (bounded [] [] [] ?c)" .
  moreover have "vcpus (bounded [] [] [] ?c) = 512"
    by (simp add: bounded_def clamp_hi_def clamp_lo_def MAX_VCPUS_def default_config_def)
  ultimately show ?thesis by blast
qed

text \<open>A configuration within the ranges is returned as it is, so validation is idempotent and
  never changes what a user configured validly.\<close>

theorem validation_keeps_valid_config:
  assumes "config_in_bounds c"
  shows "validate_config_bounds c = Some c"
  using assms by (rule validate_id)

theorem validation_keeps_valid_config_witness:
  "validate_config_bounds (default_config []) = Some (default_config [])"
proof -
  have "config_in_bounds (default_config [])"
    by (simp add: config_in_bounds_def numbers_in_bounds_def lists_in_bounds_def
        topology_in_bounds_def default_config_def valid_cache_modes_def valid_io_modes_def)
  then show ?thesis by (rule validation_keeps_valid_config)
qed

text \<open>Validation panics exactly when the notes, the description or the description of one of
  the first 64 firewall rules is too long and a multi-byte character lies across its limit.\<close>

theorem validation_panics_iff:
  "validate_config_bounds c = None \<longleftrightarrow>
     \<not> (cuttable 65536 (vm_notes c) \<and> cuttable 4096 (vm_description c)
        \<and> list_all (\<lambda>r. cuttable 256 (fw_description r)) (take 64 (firewall_rules c)))"
proof -
  have "sanitize_rules (cap 64 (firewall_rules c)) = None
      \<longleftrightarrow> \<not> list_all (\<lambda>r. cuttable 256 (fw_description r)) (take 64 (firewall_rules c))"
    by (simp add: sanitize_rules_None cap_def)
  moreover have "cap_text 65536 (vm_notes c) = None \<longleftrightarrow> \<not> cuttable 65536 (vm_notes c)"
    "cap_text 4096 (vm_description c) = None \<longleftrightarrow> \<not> cuttable 4096 (vm_description c)"
    by (simp_all add: cap_text_None)
  ultimately show ?thesis
    unfolding validate_bounded by (auto split: option.splits)
qed

text \<open>A topology of 512 sockets passes validation, but the XML written for it says 256, so the
  machine's 512 virtual CPUs no longer match the topology.\<close>

theorem topology_xml_differs_from_config:
  "kept_topology (cpu_topology (bound_topology (c\<lparr>cpu_topology := Some \<lparr>sockets = 512, cores = 1, threads = 1\<rparr>\<rparr>)))
     = Some \<lparr>sockets = 512, cores = 1, threads = 1\<rparr>
   \<and> total_vcpus \<lparr>sockets = 512, cores = 1, threads = 1\<rparr> = 512
   \<and> clamp_topology 512 = 256"
  by (simp add: bound_topology_upd kept_topology_def topology_product_def total_vcpus_def
      checked_mul_def clamp_topology_def)

end
