(* ===== verification/Errors.thy ===== *)
theory Errors
  imports Prelude
begin

text \<open>
  \<open>VmmError\<close> of vmm-core/src/error.rs and its \<open>Display\<close>: names are stripped of control characters
  (\<open>sanitize_name\<close>), libvirt messages of connection URIs (\<open>redact_libvirt_message\<close>). The errors of
  other crates are represented by the text their own \<open>Display\<close> gives.
\<close>

datatype vmm_error =
    Libvirt string
  | VmNotFound string
  | VmAlreadyRunning string
  | VmNotRunning string
  | DiskError string
  | InvalidConfig string
  | StorageError string
  | NetworkError string
  | SnapshotError string
  | CloneError string
  | XmlError string
  | Io string
  | Serde string
  | Other string

type_synonym 'a vmm_result = "vmm_error + 'a"

definition sanitize_name :: "string \<Rightarrow> string" where
  "sanitize_name name = of_chars (take 128 (List.filter (\<lambda>g. \<not> is_control g) (chars name)))"

text \<open>\<open>str::find\<close> of a substring, as a byte offset.\<close>

fun str_find :: "string \<Rightarrow> string \<Rightarrow> nat option" where
  "str_find [] p = (if p = [] then Some 0 else None)"
| "str_find (c # cs) p =
     (if starts_with (c # cs) p then Some 0 else map_option Suc (str_find cs p))"

definition after_uri :: "string \<Rightarrow> string" where
  "after_uri s = of_chars (dropWhile (\<lambda>g. \<not> is_whitespace g) (chars s))"

definition redact_scheme :: "string \<Rightarrow> string \<Rightarrow> string" where
  "redact_scheme scheme result =
     (case str_find result scheme of
        None \<Rightarrow> result
      | Some start \<Rightarrow>
          take start result @ (scheme @ ''[REDACTED]'') @ after_uri (drop start result))"

definition redact_libvirt_message :: "string \<Rightarrow> string" where
  "redact_libvirt_message msg =
     fold redact_scheme [''qemu+ssh://'', ''qemu+tcp://'', ''qemu+tls://''] msg"

primrec error_display :: "vmm_error \<Rightarrow> string" where
  "error_display (Libvirt e) = ''Libvirt error: '' @ redact_libvirt_message e"
| "error_display (VmNotFound n) = ''VM '' @ [CHR 0x27] @ sanitize_name n @ [CHR 0x27] @ '' not found''"
| "error_display (VmAlreadyRunning n) =
     ''VM '' @ [CHR 0x27] @ sanitize_name n @ [CHR 0x27] @ '' is already running''"
| "error_display (VmNotRunning n) =
     ''VM '' @ [CHR 0x27] @ sanitize_name n @ [CHR 0x27] @ '' is not running''"
| "error_display (DiskError m) = ''Disk image error: '' @ m"
| "error_display (InvalidConfig m) = ''Invalid configuration: '' @ m"
| "error_display (StorageError m) = ''Storage pool error: '' @ m"
| "error_display (NetworkError m) = ''Network error: '' @ m"
| "error_display (SnapshotError m) = ''Snapshot error: '' @ m"
| "error_display (CloneError m) = ''Clone error: '' @ m"
| "error_display (XmlError m) = ''XML generation error: '' @ m"
| "error_display (Io kind) = ''IO error: '' @ kind"
| "error_display (Serde e) = ''Serialization error: '' @ e"
| "error_display (Other m) = m"

lemma str_find_split:
  "str_find s p = Some k \<Longrightarrow> \<exists>rest. s = take k s @ p @ rest \<and> k \<le> length s"
proof (induction s arbitrary: k)
  case (Cons c cs)
  show ?case
  proof (cases "starts_with (c # cs) p")
    case True
    with Cons.prems show ?thesis by (auto simp: starts_with_iff)
  next
    case False
    with Cons.prems obtain j where "str_find cs p = Some j" "k = Suc j" by auto
    with Cons.IH [of j] show ?thesis by auto
  qed
qed (auto split: if_splits)

lemma str_find_first:
  "\<forall>j < length pre. \<not> starts_with (drop j (pre @ p @ rest)) p \<Longrightarrow>
     str_find (pre @ p @ rest) p = Some (length pre)"
proof (induction pre)
  case Nil
  show ?case
    using starts_with_append [of p rest] by (cases "p @ rest") auto
next
  case (Cons c pre)
  from Cons.prems have "\<not> starts_with (c # pre @ p @ rest) p"
    by (metis append_Cons drop0 length_Cons zero_less_Suc)
  moreover from Cons.prems have "\<forall>j < length pre. \<not> starts_with (drop j (pre @ p @ rest)) p"
    by (metis Suc_less_eq append_Cons drop_Suc_Cons length_Cons)
  ultimately show ?case using Cons.IH by simp
qed

lemma after_uri_split:
  assumes "list_all is_ascii_byte uri" and "\<forall>c \<in> set uri. \<not> is_whitespace [c]"
  shows "after_uri (uri @ rest) = after_uri rest"
proof -
  have "chars (uri @ rest) = map (\<lambda>c. [c]) uri @ chars rest"
    using assms(1) by (induction uri) auto
  moreover have "dropWhile (\<lambda>g. \<not> is_whitespace g) (map (\<lambda>c. [c]) uri @ gs)
      = dropWhile (\<lambda>g. \<not> is_whitespace g) gs" for gs
    using assms(2) by (induction uri) auto
  ultimately show ?thesis by (simp add: after_uri_def)
qed

lemma sanitize_name_byte: "c \<in> set (sanitize_name n) \<Longrightarrow> 32 \<le> byte_of c \<and> byte_of c \<noteq> 127"
proof -
  assume "c \<in> set (sanitize_name n)"
  then obtain g where "g \<in> set (take 128 (List.filter (\<lambda>g. \<not> is_control g) (chars n)))" "c \<in> set g"
    by (auto simp: sanitize_name_def of_chars_def)
  then have "c \<in> set (of_chars (List.filter (\<lambda>g. \<not> is_control g) (chars n)))"
    by (auto simp del: set_filter simp: of_chars_def dest: in_set_takeD)
  from of_chars_filter_byte [OF this] show ?thesis
    by (auto simp: is_control_def Let_def ascii_defs)
qed

text \<open>The text shown for a VM that is missing, running or stopped holds no control character and
  no line break, whatever the name was.\<close>

theorem error_names_single_line:
  "list_all (\<lambda>c. 32 \<le> byte_of c \<and> byte_of c \<noteq> 127)
     (error_display (VmNotFound n) @ error_display (VmAlreadyRunning n) @ error_display (VmNotRunning n))"
  using sanitize_name_byte [of _ n] by (auto simp: list_all_iff)

text \<open>The first connection URI of a scheme, up to the next whitespace, is replaced by the scheme
  and a marker, and the text around it stays.\<close>

theorem redact_first_uri:
  assumes "list_all (\<lambda>j. \<not> starts_with (drop j (pre @ scheme @ uri @ rest)) scheme) [0..<length pre]"
    and "list_all is_ascii_byte (scheme @ uri)"
    and "list_all (\<lambda>c. \<not> is_whitespace [c]) (scheme @ uri)"
    and "rest = [] \<or> hd rest = CHR '' ''"
  shows "redact_scheme scheme (pre @ scheme @ uri @ rest) = pre @ scheme @ ''[REDACTED]'' @ rest"
proof -
  have "str_find (pre @ scheme @ uri @ rest) scheme = Some (length pre)"
    using assms(1) by (intro str_find_first) (auto simp: list_all_iff)
  moreover have "after_uri ((scheme @ uri) @ rest) = after_uri rest"
    using assms(2,3) by (intro after_uri_split) (auto simp: list_all_iff)
  moreover have "after_uri rest = rest"
    using assms(4) by (cases rest) (auto simp: after_uri_def of_chars_def is_whitespace_def ascii_defs)
  ultimately show ?thesis by (simp add: redact_scheme_def)
qed

theorem redact_first_uri_witness:
  "redact_scheme ''qemu+ssh://'' ''at qemu+ssh://u:pw@host/system now''
     = ''at qemu+ssh://[REDACTED] now''"
proof -
  have "list_all (\<lambda>j. \<not> starts_with
      (drop j (''at '' @ ''qemu+ssh://'' @ ''u:pw@host/system'' @ '' now'')) ''qemu+ssh://'') [0..<length ''at '']"
    by (simp add: upt_rec)
  moreover have "list_all is_ascii_byte (''qemu+ssh://'' @ ''u:pw@host/system'')"
    by (simp add: ascii_defs)
  moreover have "list_all (\<lambda>c. \<not> is_whitespace [c]) (''qemu+ssh://'' @ ''u:pw@host/system'')"
    by (simp add: is_whitespace_def)
  moreover have "('' now'' :: string) = [] \<or> hd '' now'' = CHR '' ''" by simp
  ultimately have "redact_scheme ''qemu+ssh://'' (''at '' @ ''qemu+ssh://'' @ ''u:pw@host/system'' @ '' now'')
      = ''at '' @ ''qemu+ssh://'' @ ''[REDACTED]'' @ '' now''"
    by (rule redact_first_uri)
  then show ?thesis by simp
qed

text \<open>Only the first URI of a scheme is redacted: a message that names two hosts of the same
  scheme, as a failed migration does, still shows the credentials of the second.\<close>

theorem second_uri_not_redacted:
  "redact_libvirt_message ''qemu+ssh://u:pw@a to qemu+ssh://v:key@b failed''
     = ''qemu+ssh://[REDACTED] to qemu+ssh://v:key@b failed''"
  by (simp add: redact_libvirt_message_def redact_scheme_def after_uri_def is_whitespace_def
      is_ascii_byte_def of_chars_def)

end
