(* ===== verification/Names.thy ===== *)
theory Names
  imports Config Errors
begin

text \<open>
  The name checks and sanitizers of vmm-types/src/config.rs (\<open>validate_vm_name\<close>,
  \<open>sanitize_vm_name\<close>, \<open>sanitize_lan_segment_name\<close>) and of the modules that pass a VM name to a
  command line (\<open>validate_vm_name\<close> in port\_forward.rs and balloon.rs). The interface
  \<open>argument_guard\<close> states what those callers rely on: an accepted name cannot be read as an option
  and holds no character with a meaning outside the name.
\<close>

section \<open>Sanitizing LAN segment names\<close>

definition lan_char :: "rchar \<Rightarrow> char" where
  "lan_char g = (case g of [c] \<Rightarrow> if is_ascii_byte c \<and> ascii_alnum c then to_ascii_lower c else CHR ''-''
                  | _ \<Rightarrow> CHR ''-'')"

fun collapse_hyphens :: "bool \<Rightarrow> string \<Rightarrow> string" where
  "collapse_hyphens last_hyphen [] = []"
| "collapse_hyphens last_hyphen (c # cs) =
     (if c = CHR ''-''
      then (if \<not> last_hyphen then CHR ''-'' # collapse_hyphens True cs else collapse_hyphens last_hyphen cs)
      else c # collapse_hyphens False cs)"

definition strip_trailing :: "char \<Rightarrow> string \<Rightarrow> string" where
  "strip_trailing c s = rev (dropWhile (\<lambda>x. x = c) (rev s))"

definition sanitize_lan_segment_name :: "string \<Rightarrow> string" where
  "sanitize_lan_segment_name name =
     (let result = strip_trailing (CHR ''-'') (collapse_hyphens True (map lan_char (chars name)))
      in if result = [] then ''default'' else result)"

text \<open>The segment names libvirt sees: lower-case letters and digits, single hyphens inside.\<close>

definition lan_name_char :: "char \<Rightarrow> bool" where
  "lan_name_char c \<longleftrightarrow> ascii_digit c \<or> ascii_lower c \<or> c = CHR ''-''"

fun no_double_hyphen :: "string \<Rightarrow> bool" where
  "no_double_hyphen (a # b # s) \<longleftrightarrow> \<not> (a = CHR ''-'' \<and> b = CHR ''-'') \<and> no_double_hyphen (b # s)"
| "no_double_hyphen _ \<longleftrightarrow> True"

definition lan_name_ok :: "string \<Rightarrow> bool" where
  "lan_name_ok s \<longleftrightarrow> s \<noteq> [] \<and> list_all lan_name_char s \<and> hd s \<noteq> CHR ''-'' \<and> last s \<noteq> CHR ''-''
     \<and> no_double_hyphen s"

lemma lan_char_ok: "lan_name_char (lan_char g)"
  by (auto simp: lan_char_def lan_name_char_def to_ascii_lower_def ascii_defs split: list.splits)

lemma collapse_set: "set (collapse_hyphens b s) \<subseteq> set s"
  by (induction b s rule: collapse_hyphens.induct) auto

lemma collapse_hd: "collapse_hyphens True s \<noteq> [] \<Longrightarrow> hd (collapse_hyphens True s) \<noteq> CHR ''-''"
  by (induction s) auto

lemma collapse_no_double: "no_double_hyphen (collapse_hyphens b s)"
proof (induction b s rule: collapse_hyphens.induct)
  case (2 b c cs)
  then show ?case
    using collapse_hd [of cs]
    by (cases "collapse_hyphens True cs"; cases "collapse_hyphens False cs"; auto)
qed simp

lemma strip_trailing_split: "\<exists>k. s = strip_trailing c s @ replicate k c"
proof -
  have "rev s = takeWhile (\<lambda>x. x = c) (rev s) @ dropWhile (\<lambda>x. x = c) (rev s)" by simp
  moreover have "takeWhile (\<lambda>x. x = c) (rev s) = replicate (length (takeWhile (\<lambda>x. x = c) (rev s))) c"
    by (rule replicate_eqI) (auto dest: set_takeWhileD)
  ultimately have "s = strip_trailing c s @ rev (replicate (length (takeWhile (\<lambda>x. x = c) (rev s))) c)"
    unfolding strip_trailing_def by (metis rev_append rev_rev_ident)
  then show ?thesis by auto
qed

lemma strip_trailing_last: "strip_trailing c s \<noteq> [] \<Longrightarrow> last (strip_trailing c s) \<noteq> c"
  using hd_dropWhile [of "\<lambda>x. x = c" "rev s"] by (auto simp: strip_trailing_def last_rev)

lemma no_double_prefix: "no_double_hyphen (s @ t) \<Longrightarrow> no_double_hyphen s"
  by (induction s rule: no_double_hyphen.induct) auto

lemma strip_trailing_same: "s \<noteq> [] \<Longrightarrow> last s \<noteq> c \<Longrightarrow> strip_trailing c s = s"
  by (cases s rule: rev_cases) (auto simp: strip_trailing_def)

lemma collapse_id: "no_double_hyphen s \<Longrightarrow> (s \<noteq> [] \<longrightarrow> b \<longrightarrow> hd s \<noteq> CHR ''-'') \<Longrightarrow> collapse_hyphens b s = s"
proof (induction s arbitrary: b rule: no_double_hyphen.induct)
  case (1 a b' s)
  then show ?case by (cases "a = CHR ''-''") auto
qed auto

lemma lan_char_id: "lan_name_char c \<Longrightarrow> lan_char [c] = c"
  by (auto simp: lan_char_def lan_name_char_def to_ascii_lower_def ascii_defs)

lemma sanitize_lan_id: "lan_name_ok s \<Longrightarrow> sanitize_lan_segment_name s = s"
proof -
  assume ok: "lan_name_ok s"
  then have "list_all is_ascii_byte s"
    by (auto simp: lan_name_ok_def list_all_iff lan_name_char_def ascii_defs)
  moreover have "map (\<lambda>c. lan_char [c]) s = s"
    using ok by (intro map_idI) (auto simp: lan_name_ok_def list_all_iff lan_char_id)
  ultimately have "map lan_char (chars s) = s"
    by (simp add: chars_ascii o_def)
  with ok show ?thesis
    by (simp add: sanitize_lan_segment_name_def lan_name_ok_def collapse_id strip_trailing_same)
qed

text \<open>Whatever the user typed, the segment name that ends up in the XML is a non-empty word over
  lower-case letters, digits and single inner hyphens, and sanitizing it again changes nothing.\<close>

theorem sanitize_lan_segment_ok:
  "lan_name_ok (sanitize_lan_segment_name name)
   \<and> sanitize_lan_segment_name (sanitize_lan_segment_name name) = sanitize_lan_segment_name name"
proof -
  let ?r = "collapse_hyphens True (map lan_char (chars name))"
  let ?t = "strip_trailing (CHR ''-'') ?r"
  obtain k where r: "?r = ?t @ replicate k (CHR ''-'')" using strip_trailing_split by blast
  have "lan_name_ok ?t" if "?t \<noteq> []"
  proof -
    have "set ?r \<subseteq> set (map lan_char (chars name))" by (rule collapse_set)
    then have "\<forall>c \<in> set ?r. lan_name_char c" by (auto simp: lan_char_ok)
    then have "list_all lan_name_char ?t" by (subst (asm) r) (simp add: list_all_iff)
    moreover have "hd ?t \<noteq> CHR ''-''"
      using collapse_hd [of "map lan_char (chars name)"] r that by (metis append_is_Nil_conv hd_append2)
    moreover have "no_double_hyphen ?t"
      using collapse_no_double r by (metis no_double_prefix)
    ultimately show ?thesis
      using that strip_trailing_last by (simp add: lan_name_ok_def)
  qed
  moreover have "lan_name_ok ''default''" by code_simp
  ultimately have "lan_name_ok (sanitize_lan_segment_name name)"
    by (simp add: sanitize_lan_segment_name_def Let_def)
  then show ?thesis by (simp add: sanitize_lan_id)
qed

section \<open>VM names\<close>

text \<open>\<open>validate_vm_name\<close> of vmm-types: the reason for rejection, or \<open>None\<close> when acceptable.\<close>

definition validate_vm_name :: "(nat \<Rightarrow> bool) \<Rightarrow> string \<Rightarrow> string option" where
  "validate_vm_name ualnum name =
     (if name = [] then Some ''VM name cannot be empty''
      else if 128 < length name then Some ''VM name must be 128 characters or less''
      else if \<not> list_all (\<lambda>g. is_alphanumeric ualnum g \<or> ascii_char (\<lambda>c. c \<in> set '' -_.'') g) (chars name)
      then Some ''VM name can only contain letters, numbers, spaces, hyphens, underscores, and dots''
      else if name \<noteq> trim name then Some ''VM name cannot start or end with whitespace''
      else if starts_with name ''.'' \<or> starts_with name ''-''
      then Some ''VM name cannot start with a dot or hyphen''
      else None)"

definition sanitize_vm_name :: "(nat \<Rightarrow> bool) \<Rightarrow> string \<Rightarrow> string" where
  "sanitize_vm_name ualnum name =
     (let trimmed = trim (of_chars (List.filter
            (\<lambda>g. is_alphanumeric ualnum g \<or> ascii_char (\<lambda>c. c \<in> set '' -_.()'') g) (chars name)))
      in if trimmed = [] then ''Unnamed-VM'' else trimmed)"

text \<open>The stricter check of port\_forward.rs and balloon.rs (they differ in the last message).\<close>

definition cli_name_char :: "char \<Rightarrow> bool" where
  "cli_name_char c \<longleftrightarrow> ascii_alnum c \<or> c = CHR ''-'' \<or> c = CHR ''_'' \<or> c = CHR ''.'' \<or> c = CHR '' ''"

definition check_cli_name :: "string \<Rightarrow> string \<Rightarrow> unit vmm_result" where
  "check_cli_name cwe name =
     (if name = [] then Inl (Other ''VM name cannot be empty'')
      else if 255 < length name then Inl (Other ''VM name too long (max 255 chars)'')
      else if starts_with name ''-''
      then Inl (Other (''VM name must not start with '' @ sq ''-'' @ '' (argument injection risk, CWE-88)''))
      else if \<not> list_all (ascii_char cli_name_char) (chars name)
      then Inl (Other (''Invalid VM name '' @ sq name
        @ '': only alphanumeric, hyphen, underscore, and period allowed ('' @ cwe @ '')''))
      else Inr ())"

definition pf_validate_vm_name :: "string \<Rightarrow> unit vmm_result" where
  "pf_validate_vm_name = check_cli_name ''CWE-78''"

definition balloon_validate_vm_name :: "string \<Rightarrow> unit vmm_result" where
  "balloon_validate_vm_name = check_cli_name ''CWE-20''"

section \<open>What a caller may rely on\<close>

definition arg_char :: "char \<Rightarrow> bool" where
  "arg_char c \<longleftrightarrow> \<not> is_ascii_byte c \<or> cli_name_char c"

lemma arg_char_plain: "arg_char c \<Longrightarrow> plain_char c"
  by (auto simp: arg_char_def cli_name_char_def plain_char_def ascii_defs)

lemma arg_char_printable: "arg_char c \<Longrightarrow> 32 \<le> byte_of c \<and> byte_of c \<noteq> 127"
  by (auto simp: arg_char_def cli_name_char_def ascii_defs)

locale argument_guard =
  fixes accepts :: "string \<Rightarrow> bool"
  assumes accepts_ne: "accepts n \<Longrightarrow> n \<noteq> []"
    and accepts_hd: "accepts n \<Longrightarrow> hd n \<noteq> CHR ''-''"
    and accepts_chars: "accepts n \<Longrightarrow> list_all arg_char n"
begin

lemma not_an_option: "accepts n \<Longrightarrow> \<not> starts_with n ''-''"
  using accepts_hd [of n] accepts_ne [of n] by (cases n) auto

lemma no_special: "accepts n \<Longrightarrow> is_ascii_byte c \<Longrightarrow> \<not> cli_name_char c \<Longrightarrow> c \<notin> set n"
  using accepts_chars by (auto simp: list_all_iff arg_char_def)

lemma xml_inert: "accepts n \<Longrightarrow> xml_safe n"
  using accepts_chars [of n] by (intro xml_safe_plain) (auto simp: list_all_iff arg_char_plain)

lemma one_path_component: "accepts n \<Longrightarrow> split_on (CHR ''/'') n = [n]"
  using no_special [of n "CHR ''/''"]
  by (intro split_on_absent) (auto simp: cli_name_char_def ascii_defs)

lemma one_line: "accepts n \<Longrightarrow> list_all (\<lambda>c. 32 \<le> byte_of c \<and> byte_of c \<noteq> 127) n"
  using accepts_chars [of n] by (auto simp: list_all_iff arg_char_printable)

end

lemma check_cli_name_Inr:
  "check_cli_name cwe n = Inr () \<Longrightarrow>
     n \<noteq> [] \<and> length n \<le> 255 \<and> hd n \<noteq> CHR ''-'' \<and> list_all is_ascii_byte n \<and> list_all cli_name_char n"
  by (auto simp: check_cli_name_def ascii_char_all neq_Nil_conv simp del: chars.simps
      split: if_splits) (auto simp: list_all_iff)

interpretation pf_guard: argument_guard "\<lambda>n. pf_validate_vm_name n = Inr ()"
  by unfold_locales
    (auto simp: pf_validate_vm_name_def list_all_iff arg_char_def dest!: check_cli_name_Inr)

interpretation balloon_guard: argument_guard "\<lambda>n. balloon_validate_vm_name n = Inr ()"
  by unfold_locales
    (auto simp: balloon_validate_vm_name_def list_all_iff arg_char_def dest!: check_cli_name_Inr)

lemma validate_vm_name_chars:
  assumes "validate_vm_name ualnum n = None"
  shows "list_all arg_char n"
proof -
  have "list_all (\<lambda>g. is_alphanumeric ualnum g \<or> ascii_char (\<lambda>c. c \<in> set '' -_.'') g) (chars n)"
    using assms by (auto simp: validate_vm_name_def split: if_splits)
  from list_all_chars_byte [OF this] show ?thesis
    by (auto simp: list_all_iff arg_char_def cli_name_char_def ascii_char_def)
qed

interpretation vm_guard: argument_guard "\<lambda>n. validate_vm_name ualnum n = None" for ualnum
proof unfold_locales
  fix n
  assume "validate_vm_name ualnum n = None"
  then show "n \<noteq> []" "hd n \<noteq> CHR ''-''"
    by (cases n; auto simp: validate_vm_name_def split: if_splits)+
qed (rule validate_vm_name_chars)


lemma validate_vm_name_len:
  "validate_vm_name ualnum n = None \<Longrightarrow> length n \<le> 128"
  by (auto simp: validate_vm_name_def split: if_splits)

lemma xml_escape_plain: "list_all plain_char s \<Longrightarrow> xml_escape s = s"
proof -
  assume "list_all plain_char s"
  then have "escape_ref s = s"
    by (induction s) (auto simp: escape_ref_def esc1_def plain_char_def)
  then show ?thesis by (simp add: xml_escape_ref)
qed

text \<open>An accepted VM name is short, is a single path component that is no hidden file and no
  option, holds no control character, and stands in XML as it is.\<close>

theorem accepted_vm_name_safe:
  assumes "validate_vm_name ualnum n = None"
  shows "n \<noteq> [] \<and> length n \<le> 128 \<and> hd n \<noteq> CHR ''-'' \<and> hd n \<noteq> CHR ''.''
    \<and> split_on (CHR ''/'') n = [n] \<and> list_all (\<lambda>c. 32 \<le> byte_of c \<and> byte_of c \<noteq> 127) n
    \<and> xml_escape n = n"
proof -
  have "length n \<le> 128" "hd n \<noteq> CHR ''.''"
    using assms by (cases n; auto simp: validate_vm_name_def split: if_splits)+
  moreover have "list_all plain_char n"
    using vm_guard.accepts_chars [OF assms] by (auto simp: list_all_iff arg_char_plain)
  ultimately show ?thesis
    using vm_guard.accepts_ne [OF assms] vm_guard.accepts_hd [OF assms]
      vm_guard.one_path_component [OF assms] vm_guard.one_line [OF assms]
    by (simp add: xml_escape_plain)
qed

theorem accepted_vm_name_safe_witness:
  "validate_vm_name (\<lambda>_. False) ''Ubuntu_22.04-Desktop'' = None
   \<and> xml_escape ''Ubuntu_22.04-Desktop'' = ''Ubuntu_22.04-Desktop''"
proof -
  have ok: "validate_vm_name (\<lambda>_. False) ''Ubuntu_22.04-Desktop'' = None" by code_simp
  from accepted_vm_name_safe [OF ok] ok show ?thesis by blast
qed

text \<open>A name the configuration check accepts is accepted by the port-forwarding and balloon
  commands if and only if it is pure ASCII: a VM with an accented name can be created but neither
  forwarded to nor ballooned.\<close>

theorem cli_checks_agree_on_ascii:
  assumes "validate_vm_name ualnum n = None"
  shows "(pf_validate_vm_name n = Inr () \<longleftrightarrow> list_all is_ascii_byte n)
    \<and> (balloon_validate_vm_name n = Inr () \<longleftrightarrow> list_all is_ascii_byte n)"
proof -
  have len: "length n \<le> 255" and ne: "n \<noteq> []" and hd: "\<not> starts_with n ''-''"
    using validate_vm_name_len [OF assms] vm_guard.accepts_ne [OF assms]
      vm_guard.not_an_option [OF assms] by auto
  have cli: "list_all cli_name_char n" if "list_all is_ascii_byte n"
    using that vm_guard.accepts_chars [OF assms] by (auto simp: list_all_iff arg_char_def)
  have "list_all (ascii_char cli_name_char) (chars n) \<longleftrightarrow> list_all is_ascii_byte n"
    unfolding ascii_char_all using cli by (auto simp: list_all_iff)
  then have "check_cli_name cwe n = Inr () \<longleftrightarrow> list_all is_ascii_byte n" for cwe
    using len ne hd by (auto simp: check_cli_name_def simp del: chars.simps)
  then show ?thesis
    by (simp add: pf_validate_vm_name_def balloon_validate_vm_name_def)
qed

theorem cli_checks_agree_on_ascii_witness:
  "pf_validate_vm_name ''My VM'' = Inr ()
   \<and> pf_validate_vm_name (CHR 0xC3 # CHR 0xA9 # ''t'') \<noteq> Inr ()"
proof -
  have a: "validate_vm_name (\<lambda>_. False) ''My VM'' = None" by code_simp
  have b: "validate_vm_name (\<lambda>n. n = 0xE9) (CHR 0xC3 # CHR 0xA9 # ''t'') = None" by code_simp
  show ?thesis
    using cli_checks_agree_on_ascii [OF a] cli_checks_agree_on_ascii [OF b]
    by (simp add: ascii_defs)
qed

end
