(* ===== verification/Paths.thy ===== *)
theory Paths
  imports Config_Bounds Names
begin

text \<open>
  The path and value checks of vmm-core/src/xml\_builder.rs that stand between a configuration and
  the domain XML: disk and ISO paths, firmware paths, firmware selection, fw\_cfg values, CPU
  feature names, MAC and PCI addresses, port targets, and the VNC password.

  What the builder asks of the host and of third-party code is the record \<open>host\<close>: the file
  system as \<open>Path::exists\<close> (which follows links), \<open>symlink_metadata\<close> (which does not) and
  \<open>canonicalize\<close> show it, the number of CPUs, whether the TPM state directory can be made, the
  non-ASCII part of the Unicode tables, and the text of a \<open>Uuid\<close> (hyphenated and simple).
\<close>

datatype file_kind = RegularFile | Directory | Symlink | SpecialFile

record host =
  path_exists :: "string \<Rightarrow> bool"
  symlink_metadata :: "string \<Rightarrow> file_kind option"
  canonicalize :: "string \<Rightarrow> string option"
  host_cpus :: nat
  tpm_state_new :: "uuid \<Rightarrow> bool"
  u_alnum :: "nat \<Rightarrow> bool"
  u_upper :: "nat \<Rightarrow> string"
  uuid_to_string :: "uuid \<Rightarrow> string"
  uuid_simple :: "uuid \<Rightarrow> string"

definition is_absolute :: "string \<Rightarrow> bool" where
  "is_absolute p \<longleftrightarrow> starts_with p ''/''"

text \<open>\<open>Component::ParentDir\<close> occurs: one of the parts between slashes is two dots.\<close>

definition has_parent_dir :: "string \<Rightarrow> bool" where
  "has_parent_dir p \<longleftrightarrow> ''..'' \<in> set (split_on (CHR ''/'') p)"

section \<open>Disk, ISO and firmware paths\<close>

definition blocked_prefixes :: "string list" where
  "blocked_prefixes =
     [''/etc'', ''/root'', ''/proc'', ''/sys'', ''/dev'', ''/boot'', ''/run'', ''/var/run'',
      ''/var/log'', ''/var/lib'', ''/var/spool'', ''/usr/sbin'', ''/usr/bin'', ''/sbin'', ''/bin'',
      ''/tmp'', ''/var/tmp'', ''/home/root'', ''/snap'', ''/lost+found'']"

definition lstat_blocks :: "host \<Rightarrow> string \<Rightarrow> bool" where
  "lstat_blocks h p =
     (if path_exists h p then
        (case symlink_metadata h p of
           None \<Rightarrow> False
         | Some kind \<Rightarrow> if kind = Symlink then True else kind \<noteq> RegularFile)
      else False)"

definition validate_disk_path :: "host \<Rightarrow> string \<Rightarrow> string option" where
  "validate_disk_path h p =
     (if p = [] then None
      else if \<not> is_absolute p then None
      else if has_parent_dir p then None
      else if lstat_blocks h p then None
      else if list_ex (\<lambda>prefix. starts_with p prefix) blocked_prefixes then None
      else Some p)"

definition validate_iso_path :: "host \<Rightarrow> string \<Rightarrow> string option" where
  "validate_iso_path h p = validate_disk_path h p"

definition validate_firmware_path :: "host \<Rightarrow> string \<Rightarrow> string option" where
  "validate_firmware_path h p =
     (if p = [] then None
      else if \<not> is_absolute p then None
      else if has_parent_dir p then None
      else if \<not> path_exists h p then None
      else if symlink_metadata h p = Some Symlink then None
      else Some p)"

definition default_firmware :: "vm_config \<Rightarrow> (string \<times> string) option" where
  "default_firmware c =
     (if secure_boot c \<and> uefi c then uefi_secboot_firmware_path (qemu_arch c)
      else uefi_firmware_path (qemu_arch c))"

definition resolve_firmware_paths :: "host \<Rightarrow> vm_config \<Rightarrow> (string \<times> string) option" where
  "resolve_firmware_paths h c =
     (case (custom_firmware_code c, custom_firmware_vars c) of
        (Some code, Some vars) \<Rightarrow>
          (case (validate_firmware_path h code, validate_firmware_path h vars) of
             (Some code', Some vars') \<Rightarrow> Some (code', vars')
           | _ \<Rightarrow> default_firmware c)
      | _ \<Rightarrow> default_firmware c)"

section \<open>Values\<close>

definition fw_cfg_breaks :: "rchar \<Rightarrow> bool" where
  "fw_cfg_breaks g \<longleftrightarrow> is_char g (CHR '','') \<or> is_char g (CHR ''='') \<or> is_char g apos \<or> is_char g quot
     \<or> is_char g (CHR 0x5C) \<or> is_control g"

definition sanitize_fw_cfg_value :: "string \<Rightarrow> string" where
  "sanitize_fw_cfg_value v = of_chars (map (\<lambda>g. if fw_cfg_breaks g then ''_'' else g) (chars v))"

definition is_valid_cpu_feature_name :: "(nat \<Rightarrow> bool) \<Rightarrow> string \<Rightarrow> bool" where
  "is_valid_cpu_feature_name ualnum n \<longleftrightarrow>
     n \<noteq> [] \<and> length n \<le> 64
     \<and> list_all (\<lambda>g. is_alphanumeric ualnum g \<or> is_char g (CHR ''-'') \<or> is_char g (CHR ''_'')
           \<or> is_char g (CHR ''.'')) (chars n)"

text \<open>The FNV-1a hash of the identifier's bytes, then eight characters of the charset, one per
  byte of the hash.\<close>

definition fnv1a :: "uuid \<Rightarrow> u64" where
  "fnv1a bytes =
     fold (\<lambda>b hash. (xor hash (ucast b)) * 0x100000001b3) bytes 0xcbf29ce484222325"

definition vnc_charset :: string where
  "vnc_charset = ''0123456789abcdefghijkmnpqrstuvwxyzABCDEFGHJKLMNPQRSTUVWXYZ''"

definition vnc_char :: "u64 \<Rightarrow> nat \<Rightarrow> char" where
  "vnc_char hash i =
     vnc_charset ! (unat (and (drop_bit (i * 8) hash) 0xFF) mod length vnc_charset)"

definition generate_vnc_password :: "uuid \<Rightarrow> string" where
  "generate_vnc_password bytes = map (vnc_char (fnv1a bytes)) [0..<8]"

definition is_valid_mac :: "string \<Rightarrow> bool" where
  "is_valid_mac mac =
     (let parts = split_on (CHR '':'') mac in
      length parts = 6
      \<and> list_all (\<lambda>p. length p = 2 \<and> list_all (ascii_char ascii_hexdigit) (chars p)) parts)"

section \<open>PCI addresses\<close>

definition is_valid_pci_hex :: "string \<Rightarrow> nat \<Rightarrow> bool" where
  "is_valid_pci_hex s max_len \<longleftrightarrow>
     s \<noteq> [] \<and> length s \<le> max_len \<and> list_all (ascii_char ascii_hexdigit) (chars s)"

definition parse_pci_address :: "string \<Rightarrow> (string \<times> string \<times> string \<times> string) option" where
  "parse_pci_address addr =
     (case split_on (CHR '':'') addr of
        [domain, bus, rest] \<Rightarrow>
          (case split_on (CHR ''.'') rest of
             [slot, func] \<Rightarrow>
               (if is_valid_pci_hex domain 4 \<and> is_valid_pci_hex bus 2 \<and> is_valid_pci_hex slot 2
                  \<and> is_valid_pci_hex func 1
                then Some (domain, bus, slot, func) else None)
           | _ \<Rightarrow> None)
      | [bus, rest] \<Rightarrow>
          (case split_on (CHR ''.'') rest of
             [slot, func] \<Rightarrow>
               (if is_valid_pci_hex bus 2 \<and> is_valid_pci_hex slot 2 \<and> is_valid_pci_hex func 1
                then Some (''0000'', bus, slot, func) else None)
           | _ \<Rightarrow> None)
      | _ \<Rightarrow> None)"

section \<open>Serial and parallel port targets\<close>

definition breaks_xml :: "rchar \<Rightarrow> bool" where
  "breaks_xml g \<longleftrightarrow> is_control g \<or> is_char g (CHR ''<'') \<or> is_char g (CHR ''>'') \<or> is_char g apos
     \<or> is_char g quot \<or> is_char g (CHR ''&'')"

definition validate_port_target :: "serial_backend \<Rightarrow> string \<Rightarrow> string option" where
  "validate_port_target backend target =
     (if CHR 0x00 \<in> set target then None
      else case backend of
        SbPty \<Rightarrow> Some []
      | SbNull \<Rightarrow> Some []
      | SbTcp \<Rightarrow>
          (if target = [] then None
           else if list_ex breaks_xml (chars target) then None
           else case rsplit_once (CHR '':'') target of
             None \<Rightarrow> None
           | Some (_, p) \<Rightarrow> if parse_u16 p = None then None else Some target)
      | _ \<Rightarrow>
          (if target = [] then None
           else if \<not> is_absolute target then None
           else if has_parent_dir target then None
           else Some target))"

section \<open>Lemmas\<close>

lemma validate_disk_path_Some:
  "validate_disk_path h p = Some q \<longleftrightarrow>
     q = p \<and> p \<noteq> [] \<and> is_absolute p \<and> \<not> has_parent_dir p \<and> \<not> lstat_blocks h p
     \<and> list_all (\<lambda>prefix. \<not> starts_with p prefix) blocked_prefixes"
  by (auto simp: validate_disk_path_def list_ex_iff list_all_iff)

lemma validate_firmware_path_Some:
  "validate_firmware_path h p = Some q \<longleftrightarrow>
     q = p \<and> p \<noteq> [] \<and> is_absolute p \<and> \<not> has_parent_dir p \<and> path_exists h p
     \<and> symlink_metadata h p \<noteq> Some Symlink"
  by (auto simp: validate_firmware_path_def)

lemma hex_all: "list_all (ascii_char ascii_hexdigit) (chars s) \<longleftrightarrow> list_all ascii_hexdigit s"
  unfolding ascii_char_all by (auto simp: list_all_iff intro: ascii_subsets)

lemma xml_safe_hex: "list_all ascii_hexdigit s \<Longrightarrow> xml_safe s"
  by (rule xml_safe_alnum_all) (auto simp: list_all_iff intro: ascii_subsets)

lemma parse_pci_address_hex:
  "parse_pci_address a = Some (d, b, s, f) \<Longrightarrow>
     list_all ascii_hexdigit (d @ b @ s @ f) \<and> d \<noteq> [] \<and> length d \<le> 4 \<and> b \<noteq> [] \<and> length b \<le> 2
     \<and> s \<noteq> [] \<and> length s \<le> 2 \<and> length f = 1"
  by (auto simp: parse_pci_address_def is_valid_pci_hex_def hex_all Suc_le_eq le_Suc_eq
      ascii_hexdigit_def ascii_digit_def split: list.splits if_splits)

lemma vnc_char_in: "vnc_char hash i \<in> set vnc_charset"
proof -
  have "unat (and (drop_bit (i * 8) hash) 0xFF) mod length vnc_charset < length vnc_charset"
    by (rule mod_less_divisor) (simp add: vnc_charset_def)
  then show ?thesis unfolding vnc_char_def by (rule nth_mem)
qed

lemma vnc_charset_alnum: "list_all ascii_alnum vnc_charset"
  by (simp add: vnc_charset_def ascii_defs)

lemma split_on_pair:
  "split_on c s = [x, y] \<longleftrightarrow> s = x @ c # y \<and> c \<notin> set x \<and> c \<notin> set y"
proof
  assume eq: "split_on c s = [x, y]"
  then have "c \<in> set s" using split_on_absent by fastforce
  then obtain a b where s: "s = a @ c # b" "c \<notin> set a" by (meson split_list_first)
  with eq have "x = a" "split_on c b = [y]" by (simp_all add: split_on_append)
  moreover from this have "c \<notin> set b" using split_on_append [of c _ _] split_on_ne
    by (metis list.inject split_list_first)
  ultimately show "s = x @ c # y \<and> c \<notin> set x \<and> c \<notin> set y"
    using s by (simp add: split_on_absent)
qed (simp add: split_on_append split_on_absent)

lemma split_on_triple:
  "split_on c s = [x, y, z] \<longleftrightarrow>
     s = x @ c # y @ c # z \<and> c \<notin> set x \<and> c \<notin> set y \<and> c \<notin> set z"
proof
  assume eq: "split_on c s = [x, y, z]"
  then have "c \<in> set s" using split_on_absent by fastforce
  then obtain a b where s: "s = a @ c # b" "c \<notin> set a" by (meson split_list_first)
  with eq have "x = a" "split_on c b = [y, z]" by (simp_all add: split_on_append)
  with s show "s = x @ c # y @ c # z \<and> c \<notin> set x \<and> c \<notin> set y \<and> c \<notin> set z"
    by (simp add: split_on_pair)
qed (simp add: split_on_append split_on_absent)

lemma hex_no_sep:
  "list_all ascii_hexdigit s \<Longrightarrow> CHR '':'' \<notin> set s \<and> CHR ''.'' \<notin> set s"
  by (auto simp: list_all_iff ascii_defs)

text \<open>The textual forms of a PCI address.\<close>

definition pci_part :: "nat \<Rightarrow> string \<Rightarrow> bool" where
  "pci_part n s \<longleftrightarrow> s \<noteq> [] \<and> length s \<le> n \<and> list_all ascii_hexdigit s"

definition pci_tail :: "string \<Rightarrow> string \<Rightarrow> string \<Rightarrow> string" where
  "pci_tail b s f = b @ CHR '':'' # s @ CHR ''.'' # f"

lemma pci_part_iff: "is_valid_pci_hex s n \<longleftrightarrow> pci_part n s"
  by (simp add: is_valid_pci_hex_def pci_part_def hex_all)

lemma pci_part_sep: "pci_part n s \<Longrightarrow> CHR '':'' \<notin> set s \<and> CHR ''.'' \<notin> set s"
  by (simp add: pci_part_def hex_no_sep)

lemma parse_pci_full:
  assumes "pci_part 4 d" "pci_part 2 b" "pci_part 2 s" "pci_part 1 f"
  shows "parse_pci_address (d @ CHR '':'' # pci_tail b s f) = Some (d, b, s, f)"
    and "parse_pci_address (pci_tail b s f) = Some (''0000'', b, s, f)"
proof -
  have sf: "split_on (CHR ''.'') (s @ CHR ''.'' # f) = [s, f]"
    using assms pci_part_sep by (simp add: split_on_pair)
  have two: "split_on (CHR '':'') (pci_tail b s f) = [b, s @ CHR ''.'' # f]"
    using assms pci_part_sep by (simp add: split_on_pair pci_tail_def)
  have three: "split_on (CHR '':'') (d @ CHR '':'' # pci_tail b s f) = [d, b, s @ CHR ''.'' # f]"
    using assms pci_part_sep by (simp add: split_on_triple pci_tail_def)
  show "parse_pci_address (d @ CHR '':'' # pci_tail b s f) = Some (d, b, s, f)"
    unfolding parse_pci_address_def three by (simp add: sf pci_part_iff assms del: One_nat_def)
  show "parse_pci_address (pci_tail b s f) = Some (''0000'', b, s, f)"
    unfolding parse_pci_address_def two by (simp add: sf pci_part_iff assms del: One_nat_def)
qed

lemma parse_pci_only:
  assumes "parse_pci_address a = Some (d, b, s, f)"
  shows "pci_part 4 d \<and> pci_part 2 b \<and> pci_part 2 s \<and> pci_part 1 f
    \<and> (a = d @ CHR '':'' # pci_tail b s f \<or> d = ''0000'' \<and> a = pci_tail b s f)"
proof -
  have zero: "pci_part 4 ''0000''" by (simp add: pci_part_def ascii_defs)
  from assms consider
      (full) r where "split_on (CHR '':'') a = [d, b, r]" "split_on (CHR ''.'') r = [s, f]"
        "pci_part 4 d" "pci_part 2 b" "pci_part 2 s" "pci_part 1 f"
    | (short) r where "split_on (CHR '':'') a = [b, r]" "split_on (CHR ''.'') r = [s, f]"
        "d = ''0000''" "pci_part 2 b" "pci_part 2 s" "pci_part 1 f"
    unfolding parse_pci_address_def pci_part_iff by (auto split: list.splits if_splits)
  then show ?thesis
    by cases (auto simp: split_on_pair split_on_triple pci_tail_def zero)
qed

text \<open>fw\_cfg values.\<close>

lemma sanitize_fw_cfg_bytes:
  "c \<in> set (sanitize_fw_cfg_value v) \<Longrightarrow>
     c \<notin> {CHR '','', CHR ''='', apos, quot, CHR 0x5C} \<and> 32 \<le> byte_of c \<and> byte_of c \<noteq> 127"
proof -
  assume "c \<in> set (sanitize_fw_cfg_value v)"
  then obtain g where g: "g \<in> set (chars v)" "c \<in> set (if fw_cfg_breaks g then ''_'' else g)"
    unfolding sanitize_fw_cfg_value_def using of_chars_map_byte by blast
  show ?thesis
  proof (cases "fw_cfg_breaks g")
    case True
    with g show ?thesis by simp
  next
    case False
    with g have "c \<in> set g" by simp
    with chars_group [OF g(1)] have "g = [c] \<or> \<not> is_ascii_byte c" by auto
    then show ?thesis
    proof
      assume "g = [c]"
      with False show ?thesis
        by (auto simp: fw_cfg_breaks_def is_char_def is_control_def Let_def)
    qed (auto simp: ascii_defs)
  qed
qed

section \<open>Properties\<close>

text \<open>The disk-path check accepts exactly the absolute paths without a parent component and
  outside the listed prefixes at which there is nothing, a regular file, or something that cannot
  be examined; and it returns the path unchanged.\<close>

theorem validate_disk_path_exact:
  "validate_disk_path h p = Some q \<longleftrightarrow>
     q = p \<and> is_absolute p \<and> \<not> has_parent_dir p
     \<and> list_all (\<lambda>prefix. \<not> starts_with p prefix) blocked_prefixes
     \<and> (if path_exists h p then symlink_metadata h p \<in> {None, Some RegularFile} else True)"
  by (auto simp: validate_disk_path_Some lstat_blocks_def is_absolute_def split: option.splits)

text \<open>A symbolic link whose target does not exist passes the check, because \<open>exists\<close> follows
  the link; so the link is followed when the disk is created.\<close>

theorem dangling_link_accepted:
  "symlink_metadata h p = Some Symlink \<Longrightarrow> \<not> path_exists h p \<Longrightarrow> is_absolute p \<Longrightarrow> \<not> has_parent_dir p
     \<Longrightarrow> list_all (\<lambda>prefix. \<not> starts_with p prefix) blocked_prefixes
     \<Longrightarrow> validate_disk_path h p = Some p"
  by (auto simp: validate_disk_path_Some lstat_blocks_def is_absolute_def)

text \<open>A host for the witnesses: files at two paths, a dangling link at a third, and the hyphenated
  and the simple text of an identifier.\<close>

definition hex_char :: "nat \<Rightarrow> char" where
  "hex_char n = (''0123456789abcdef'' ! (n mod 16))"

definition hex_text :: "u8 list \<Rightarrow> string" where
  "hex_text bs = concat (map (\<lambda>b. [hex_char (unat b div 16), hex_char (unat b)]) bs)"

definition demo_host :: host where
  "demo_host = \<lparr>
     path_exists = (\<lambda>p. p \<in> {''/srv/vm/a.qcow2'', ''/srv/fw/x</loader><y>.fd''}),
     symlink_metadata = (\<lambda>p. if p = ''/srv/vm/link'' then Some Symlink
       else if p \<in> {''/srv/vm/a.qcow2'', ''/srv/fw/x</loader><y>.fd''} then Some RegularFile else None),
     canonicalize = (\<lambda>p. Some p), host_cpus = 8, tpm_state_new = (\<lambda>_. True),
     u_alnum = (\<lambda>_. False), u_upper = (\<lambda>_. ''?''),
     uuid_to_string = (\<lambda>i. hex_text (take 4 i) @ ''-'' @ hex_text (take 2 (drop 4 i)) @ ''-''
       @ hex_text (take 2 (drop 6 i)) @ ''-'' @ hex_text (take 2 (drop 8 i)) @ ''-'' @ hex_text (drop 10 i)),
     uuid_simple = hex_text\<rparr>"

theorem dangling_link_accepted_witness:
  "validate_disk_path demo_host ''/srv/vm/link'' = Some ''/srv/vm/link''"
  by (rule dangling_link_accepted)
    (simp_all add: demo_host_def is_absolute_def has_parent_dir_def blocked_prefixes_def)

text \<open>A PCI address is parsed if and only if it is four, two, two and one hexadecimal digits at
  most in the usual form, with the domain 0000 when it is left out, and the parts are returned
  as they stand; nothing else reaches the \<open>address\<close> element.\<close>

theorem parse_pci_address_exact:
  "parse_pci_address a = Some (d, b, s, f) \<longleftrightarrow>
     pci_part 4 d \<and> pci_part 2 b \<and> pci_part 2 s \<and> pci_part 1 f
     \<and> (a = d @ CHR '':'' # pci_tail b s f \<or> d = ''0000'' \<and> a = pci_tail b s f)"
  using parse_pci_only [of a d b s f] parse_pci_full [of d b s f] by blast

text \<open>The value written into an fw\_cfg argument holds no comma, equals sign, quote, backslash or
  control byte, so it cannot add an fw\_cfg option; a value without such characters is unchanged.\<close>

theorem sanitize_fw_cfg_no_separator:
  "list_all (\<lambda>c. c \<notin> {CHR '','', CHR ''='', apos, quot, CHR 0x5C} \<and> 32 \<le> byte_of c \<and> byte_of c \<noteq> 127)
     (sanitize_fw_cfg_value v)
   \<and> (list_all (\<lambda>g. \<not> fw_cfg_breaks g) (chars v) \<longrightarrow> sanitize_fw_cfg_value v = v)"
proof
  show "list_all (\<lambda>c. c \<notin> {CHR '','', CHR ''='', apos, quot, CHR 0x5C} \<and> 32 \<le> byte_of c \<and> byte_of c \<noteq> 127)
     (sanitize_fw_cfg_value v)"
    using sanitize_fw_cfg_bytes by (simp add: list_all_iff)
  show "list_all (\<lambda>g. \<not> fw_cfg_breaks g) (chars v) \<longrightarrow> sanitize_fw_cfg_value v = v"
  proof
    assume "list_all (\<lambda>g. \<not> fw_cfg_breaks g) (chars v)"
    then have "map (\<lambda>g. if fw_cfg_breaks g then ''_'' else g) (chars v) = chars v"
      by (intro map_idI) (auto simp: list_all_iff)
    then show "sanitize_fw_cfg_value v = v"
      by (simp add: sanitize_fw_cfg_value_def)
  qed
qed

theorem sanitize_fw_cfg_no_separator_witness:
  "sanitize_fw_cfg_value ''My VM'' = ''My VM'' \<and> sanitize_fw_cfg_value ''a,b=c'' = ''a_b_c''"
proof -
  have "list_all (\<lambda>g. \<not> fw_cfg_breaks g) (chars ''My VM'')"
    by (simp add: fw_cfg_breaks_def is_char_def is_control_def ascii_defs)
  with sanitize_fw_cfg_no_separator [of "''My VM''"] have "sanitize_fw_cfg_value ''My VM'' = ''My VM''"
    by blast
  moreover have "sanitize_fw_cfg_value ''a,b=c'' = ''a_b_c''"
    by (simp add: sanitize_fw_cfg_value_def fw_cfg_breaks_def is_char_def is_control_def ascii_defs of_chars_def)
  ultimately show ?thesis ..
qed

text \<open>A TCP target that is accepted names a host and a port that fits sixteen bits, cut at the
  last colon, and needs no escaping; so the split that writes the element cannot fail.\<close>

theorem tcp_target_splits:
  assumes "validate_port_target SbTcp t = Some u"
  shows "u = t \<and> xml_escape t = t
    \<and> (\<exists>hst prt v. rsplit_once (CHR '':'') t = Some (hst, prt) \<and> t = hst @ CHR '':'' # prt
         \<and> parse_u16 prt = Some v \<and> v \<le> 65535)"
proof -
  from assms obtain hst prt where *: "u = t" "\<not> list_ex breaks_xml (chars t)"
      "rsplit_once (CHR '':'') t = Some (hst, prt)" "parse_u16 prt \<noteq> None"
    by (auto simp: validate_port_target_def split: if_splits option.splits)
  then obtain v where v: "parse_u16 prt = Some v" "v \<le> 65535"
    using parse_unsigned_bound by fastforce
  from *(2) have "list_all (\<lambda>g. \<not> breaks_xml g) (chars t)"
    by (auto simp: list_ex_iff list_all_iff)
  then have "list_all plain_char t"
    using list_all_chars_byte [of "\<lambda>g. \<not> breaks_xml g" t] plain_non_ascii
    by (auto simp: list_all_iff breaks_xml_def is_char_def plain_char_def)
  then have "xml_escape t = t" by (rule xml_escape_plain)
  moreover from *(3) have "t = hst @ CHR '':'' # prt" by (simp add: rsplit_once_Some)
  ultimately show ?thesis using * v by blast
qed

theorem tcp_target_splits_witness:
  "\<exists>prt v. rsplit_once (CHR '':'') ''[::1]:4555'' = Some (''[::1]'', prt) \<and> parse_u16 prt = Some v"
proof -
  have "validate_port_target SbTcp ''[::1]:4555'' = Some ''[::1]:4555''"
    by (simp add: validate_port_target_def rsplit_once_def breaks_xml_def is_char_def
        is_control_def ascii_defs parse_unsigned_def)
  from tcp_target_splits [OF this] show ?thesis
    by (auto simp: rsplit_once_def)
qed

end
