(* ===== verification/Devices.thy ===== *)
theory Devices
  imports Paths
begin

text \<open>
  The XML of single devices in vmm-core/src/xml\_builder.rs: network interfaces, serial and
  parallel ports, PCI passthrough, and the per-VM network filter; with \<open>tpm_device_xml\<close> (tpm.rs)
  and \<open>ivshmem_xml\<close> (looking\_glass.rs). Where the code pushes onto its output string, the model
  returns the text that is pushed.
\<close>

section \<open>Network interfaces\<close>

definition valid_nic_models :: "string list" where
  "valid_nic_models =
     [''virtio'', ''e1000'', ''e1000e'', ''rtl8139'', ''ne2k_pci'', ''pcnet'', ''vmxnet3'']"

definition safe_nic_model :: "nic_config \<Rightarrow> string" where
  "safe_nic_model nic =
     (if nic_model nic \<in> set valid_nic_models then nic_model nic else ''virtio'')"

definition model_line :: "string \<Rightarrow> string" where
  "model_line m = ''      <model type='' @ sq (xml_escape m) @ ''/>\<newline>''"

definition nic_source_xml :: "nic_config \<Rightarrow> string option" where
  "nic_source_xml nic =
     (case nic_mode nic of
        Nat \<Rightarrow> Some (''    <interface type='network'>\<newline>      <source network='default'/>\<newline>''
          @ model_line (safe_nic_model nic))
      | Bridged \<Rightarrow> Some (''    <interface type='bridge'>\<newline>      <source bridge='br0'/>\<newline>''
          @ model_line (safe_nic_model nic))
      | HostOnly \<Rightarrow> Some (''    <interface type='network'>\<newline>      <source network='isolated'/>\<newline>''
          @ model_line (safe_nic_model nic))
      | LanSegment name \<Rightarrow> Some (''    <interface type='network'>\<newline>      <source network=''
          @ sq (''libre-vmm-lan-'' @ xml_escape (sanitize_lan_segment_name name)) @ ''/>\<newline>''
          @ model_line (safe_nic_model nic))
      | NetNone \<Rightarrow> None)"

definition nic_mac_xml :: "nic_config \<Rightarrow> string" where
  "nic_mac_xml nic =
     (if nic_mac nic \<noteq> [] \<and> is_valid_mac (nic_mac nic)
      then ''      <mac address='' @ sq (xml_escape (nic_mac nic)) @ ''/>\<newline>'' else [])"

definition filterref_xml :: "string option \<Rightarrow> string" where
  "filterref_xml filt =
     (case filt of None \<Rightarrow> []
      | Some name \<Rightarrow> ''      <filterref filter='' @ sq (xml_escape name) @ ''/>\<newline>'')"

definition build_nic_xml :: "nic_config \<Rightarrow> resource_limits \<Rightarrow> string option \<Rightarrow> string" where
  "build_nic_xml nic limits firewall_filter =
     (case nic_source_xml nic of
        None \<Rightarrow> []
      | Some src \<Rightarrow>
          src @ nic_mac_xml nic
          @ (if network_has_any (rl_network limits) then network_bandwidth_xml limits else [])
          @ filterref_xml firewall_filter
          @ ''    </interface>\<newline>'')"

section \<open>Serial and parallel ports\<close>

text \<open>\<open>rfind(':')\<close>, \<open>split_at\<close> and \<open>[1..]\<close>; with no colon the offset is 0.\<close>

definition split_host_port :: "string \<Rightarrow> string \<times> string" where
  "split_host_port target =
     (case rsplit_once (CHR '':'') target of
        Some (host, port) \<Rightarrow> (host, port)
      | None \<Rightarrow> ([], drop 1 target))"

definition port_source_xml :: "serial_backend \<Rightarrow> string \<Rightarrow> string" where
  "port_source_xml backend target =
     (case backend of
        SbPty \<Rightarrow> []
      | SbNull \<Rightarrow> []
      | SbFile \<Rightarrow> ''      <source path='' @ sq (xml_escape target) @ '' append='on'/>\<newline>''
      | SbUnixSocket \<Rightarrow> ''      <source mode='bind' path='' @ sq (xml_escape target) @ ''/>\<newline>''
      | SbTcp \<Rightarrow>
          (let (host, port_only) = split_host_port target in
           ''      <source mode='connect' host='' @ sq (xml_escape host)
           @ '' service='' @ sq (xml_escape port_only) @ ''/>\<newline>      <protocol type='raw'/>\<newline>''))"

definition build_serial_xml :: "nat \<Rightarrow> serial_port_config \<Rightarrow> string" where
  "build_serial_xml idx port =
     (case validate_port_target (sp_backend port) (sp_target port) of
        None \<Rightarrow> []
      | Some target \<Rightarrow>
          ''    <serial type='' @ sq (serial_libvirt_type (sp_backend port)) @ ''>\<newline>''
          @ port_source_xml (sp_backend port) target
          @ ''      <target type='isa-serial' port='' @ sq (dec idx) @ ''/>\<newline>''
          @ ''    </serial>\<newline>'')"

definition build_parallel_xml :: "nat \<Rightarrow> parallel_port_config \<Rightarrow> string" where
  "build_parallel_xml idx port =
     (case validate_port_target (pp_backend port) (pp_target port) of
        None \<Rightarrow> []
      | Some target \<Rightarrow>
          ''    <parallel type='' @ sq (serial_libvirt_type (pp_backend port)) @ ''>\<newline>''
          @ port_source_xml (pp_backend port) target
          @ ''      <target port='' @ sq (dec idx) @ ''/>\<newline>''
          @ ''    </parallel>\<newline>'')"

section \<open>PCI passthrough, TPM, shared memory\<close>

definition hostdev_xml :: "vfio_device_config \<Rightarrow> string" where
  "hostdev_xml dev =
     (case parse_pci_address (pci_address dev) of
        None \<Rightarrow> []
      | Some (domain, bus, slot, func) \<Rightarrow>
          ''    <hostdev mode='subsystem' type='pci' managed='yes'>\<newline>      <source>\<newline>        <address domain=''
          @ sq (''0x'' @ domain) @ '' bus='' @ sq (''0x'' @ bus) @ '' slot='' @ sq (''0x'' @ slot)
          @ '' function='' @ sq (''0x'' @ func) @ ''/>\<newline>      </source>\<newline>      <rom bar=''
          @ sq (if rom_bar dev then ''on'' else ''off'') @ ''/>\<newline>    </hostdev>\<newline>'')"

definition tpm_device_xml :: "tpm_version \<Rightarrow> string" where
  "tpm_device_xml v =
     ''    <tpm model='tpm-crb'>\<newline>      <backend type='emulator' version='' @ sq (tpm_version_display v)
     @ ''>\<newline>        <active_pcr_banks>\<newline>          <sha256/>\<newline>        </active_pcr_banks>\<newline>      </backend>\<newline>    </tpm>\<newline>''"

definition ivshmem_xml :: "u32 \<Rightarrow> string" where
  "ivshmem_xml size_mib =
     ''    <shmem name='looking-glass'>\<newline>      <model type='ivshmem-plain'/>\<newline>      <size unit='M'>''
     @ dec_w size_mib @ ''</size>\<newline>    </shmem>\<newline>''"

section \<open>The network filter\<close>

definition firewall_filter_name :: "host \<Rightarrow> uuid \<Rightarrow> string" where
  "firewall_filter_name h i = ''librevmm-fw-'' @ of_chars (take 8 (chars (uuid_simple h i)))"

definition split_addr_mask :: "string \<Rightarrow> string \<times> string option" where
  "split_addr_mask s =
     (case split_once (CHR ''/'') s of Some (ip, m) \<Rightarrow> (ip, Some m) | None \<Rightarrow> (s, None))"

definition port_range :: "string \<Rightarrow> (string \<times> string option) option" where
  "port_range s =
     (if s = [] then None
      else case split_once (CHR ''-'') s of
        Some (a, b) \<Rightarrow> if a \<noteq> [] \<and> b \<noteq> [] then Some (a, Some b) else None
      | None \<Rightarrow> Some (s, None))"

definition addr_attrs :: "string \<Rightarrow> string" where
  "addr_attrs addr =
     (if addr = [] then []
      else (let (ip, msk) = split_addr_mask addr in
        '' srcipaddr='' @ sq (xml_escape ip)
        @ (case msk of None \<Rightarrow> [] | Some m \<Rightarrow> '' srcipmask='' @ sq (xml_escape m))))"

definition port_attrs :: "string \<Rightarrow> string \<Rightarrow> string" where
  "port_attrs side p =
     (case port_range p of
        None \<Rightarrow> []
      | Some (s, e) \<Rightarrow>
          '' '' @ side @ ''portstart='' @ sq (xml_escape s)
          @ (case e of None \<Rightarrow> [] | Some end_p \<Rightarrow> '' '' @ side @ ''portend='' @ sq (xml_escape end_p)))"

definition max_min_priority :: "i32 \<Rightarrow> i32" where
  "max_min_priority p = (let m = (if p <s 0 then 0 else p) in if 1000 <s m then 1000 else m)"

definition rule_attrs :: "firewall_protocol \<Rightarrow> string \<Rightarrow> string \<Rightarrow> string \<Rightarrow> string" where
  "rule_attrs proto addr lport rport =
     addr_attrs addr
     @ (if has_ports proto then port_attrs ''dst'' lport @ port_attrs ''src'' rport else [])"

definition nwfilter_rule_xml :: "firewall_rule \<Rightarrow> string" where
  "nwfilter_rule_xml rule =
     (let addr = (if is_valid_firewall_addr (remote_addr rule) then remote_addr rule else []);
          lport = (if is_valid_firewall_port (local_port rule) then local_port rule else []);
          rport = (if is_valid_firewall_port (remote_port rule) then remote_port rule else [])
      in ''  <rule action='' @ sq (libvirt_action (fw_action rule))
         @ '' direction='' @ sq (libvirt_direction (fw_direction rule))
         @ '' priority='' @ sq (dec_int (sint (max_min_priority (priority rule)))) @ ''>\<newline>''
         @ ''    <'' @ libvirt_element (fw_protocol rule)
         @ rule_attrs (fw_protocol rule) addr lport rport @ ''/>\<newline>''
         @ ''  </rule>\<newline>'')"

definition build_nwfilter_xml :: "string \<Rightarrow> firewall_rule list \<Rightarrow> string" where
  "build_nwfilter_xml filter_name rules =
     ''<filter name='' @ sq (xml_escape filter_name) @ '' chain='root'>\<newline>''
     @ concat (map nwfilter_rule_xml rules)
     @ ''</filter>\<newline>''"

section \<open>The fragments are balanced\<close>

lemma attrs_safe_addr: "attrs_safe (addr_attrs a)"
  by (auto simp: addr_attrs_def attrs_safe_def xml_eval split: prod.splits option.splits)

lemma attrs_safe_port: "side \<in> {''dst'', ''src''} \<Longrightarrow> attrs_safe (port_attrs side p)"
  by (auto simp: port_attrs_def attrs_safe_def xml_eval split: prod.splits option.splits)

lemma xrun_open_attrs:
  assumes "attrs_safe v" and "v = [] \<or> hd v = CHR '' ''"
  shows "xrun (MOpen n, stk) (v @ ''/>\<newline>'') = (MText, stk)"
proof (cases v)
  case (Cons c cs)
  with assms(2) have "xrun (MOpen n, stk) v = xrun (MAfter n, stk) v"
    by (simp add: name_char_def xml_space_def ascii_defs)
  with assms(1) show ?thesis
    by (simp add: xrun_append attrs_safe_def xml_space_def tag_end_def)
qed (simp add: name_char_def xml_space_def ascii_defs tag_end_def)

lemma attrs_hd_space:
  "addr_attrs a = [] \<or> hd (addr_attrs a) = CHR '' ''" "port_attrs s p = [] \<or> hd (port_attrs s p) = CHR '' ''"
  by (auto simp: addr_attrs_def port_attrs_def split: prod.splits option.splits)

lemma xml_safe_nwfilter [simp]:
  "xml_safe (libvirt_action x)" "xml_safe (libvirt_direction y)"
  by (cases x; cases y; simp add: xml_safe_plain plain_char_def)+

lemma rule_attrs_safe: "attrs_safe (rule_attrs pr a l p)"
  using attrs_safe_port [of "''dst''" l] attrs_safe_port [of "''src''" p]
  by (simp add: rule_attrs_def attrs_safe_append attrs_safe_addr)

lemma rule_attrs_hd: "rule_attrs pr a l p = [] \<or> hd (rule_attrs pr a l p) = CHR '' ''"
  using attrs_hd_space(1) [of a] attrs_hd_space(2) [of "''dst''" l] attrs_hd_space(2) [of "''src''" p]
  by (auto simp: rule_attrs_def hd_append)

lemma balanced_nwfilter_rule: "balanced (nwfilter_rule_xml r)"
proof -
  have elem: "balanced (''    <'' @ libvirt_element z @ at @ ''/>\<newline>'')"
    if "attrs_safe at" "at = [] \<or> hd at = CHR '' ''" for z at
    using xrun_open_attrs [OF that] by (cases z) (simp_all add: balanced_def xml_eval)
  have head: "opens ''rule'' (''  <rule action='' @ sq (libvirt_action x) @ '' direction=''
      @ sq (libvirt_direction y) @ '' priority='' @ sq (dec_int i) @ ''>\<newline>'')" for x y i
    by (simp add: opens_def xml_eval)
  have close: "closes ''rule'' ''  </rule>\<newline>''"
    by (simp add: closes_def xml_eval)
  show ?thesis
    using balanced_element [OF head elem [OF rule_attrs_safe rule_attrs_hd] close]
    by (simp add: nwfilter_rule_xml_def Let_def)
qed

lemma balanced_port_source: "balanced (port_source_xml b t)"
  by (cases b) (simp_all add: port_source_xml_def balanced_def xml_eval split: prod.splits)

lemma xml_safe_serial [simp]: "xml_safe (serial_libvirt_type b)"
  by (cases b) (simp_all add: xml_safe_plain plain_char_def)

lemma balanced_serial: "balanced (build_serial_xml i p)"
  by (simp add: build_serial_xml_def balanced_def [of "CHR '' '' # _"] xml_eval balanced_port_source split: option.splits)

lemma balanced_parallel: "balanced (build_parallel_xml i p)"
  by (simp add: build_parallel_xml_def balanced_def [of "CHR '' '' # _"] xml_eval balanced_port_source split: option.splits)

lemma balanced_hostdev: "balanced (hostdev_xml d)"
proof (cases "parse_pci_address (pci_address d)")
  case (Some q)
  obtain dm b s f where q: "q = (dm, b, s, f)" by (cases q) auto
  have "xml_safe dm" "xml_safe b" "xml_safe s" "xml_safe f"
    using parse_pci_address_hex [of "pci_address d" dm b s f] Some q by (auto intro: xml_safe_hex)
  with Some q show ?thesis
    by (simp add: hostdev_xml_def balanced_def xml_eval)
qed (simp add: hostdev_xml_def)

lemma balanced_tpm: "balanced (tpm_device_xml v)"
  by (cases v) (simp_all add: tpm_device_xml_def balanced_def xml_eval)

lemma balanced_ivshmem: "balanced (ivshmem_xml n)"
  by (simp add: ivshmem_xml_def balanced_def xml_eval)

lemma balanced_model_line: "balanced (model_line m)"
  by (simp add: model_line_def balanced_def xml_eval)

lemma opens_nic_source: "nic_source_xml nic = Some s \<Longrightarrow> opens ''interface'' s"
  by (cases "nic_mode nic")
    (auto simp: nic_source_xml_def opens_def xml_eval balanced_model_line balanced_run)

lemma balanced_nic_mac: "balanced (nic_mac_xml nic)"
  by (simp add: nic_mac_xml_def balanced_def xml_eval)

lemma balanced_filterref: "balanced (filterref_xml f)"
  by (cases f) (simp_all add: filterref_xml_def balanced_def xml_eval)

lemma balanced_nic: "balanced (build_nic_xml nic l f)"
proof (cases "nic_source_xml nic")
  case (Some src)
  define bw where "bw = (if network_has_any (rl_network l) then network_bandwidth_xml l else [])"
  have "balanced bw" by (simp add: bw_def balanced_bandwidth)
  then have "balanced (nic_mac_xml nic @ bw @ filterref_xml f)"
    by (intro balanced_append balanced_nic_mac balanced_filterref)
  moreover have "closes ''interface'' ''    </interface>\<newline>''"
    by (simp add: closes_def xml_eval)
  ultimately have "balanced (src @ (nic_mac_xml nic @ bw @ filterref_xml f) @ ''    </interface>\<newline>'')"
    by (rule balanced_element [OF opens_nic_source [OF Some]])
  with Some show ?thesis
    by (simp add: build_nic_xml_def bw_def [symmetric])
qed (simp add: build_nic_xml_def)

lemma nwfilter_document: "xml_document ''filter'' (build_nwfilter_xml name rules)"
proof -
  have "opens ''filter'' (CHR ''<'' # ''filter name='' @ sq (xml_escape name) @ '' chain='root'>\<newline>'')"
    by (simp add: opens_def xml_eval)
  moreover have "balanced (concat (map nwfilter_rule_xml rules))"
    by (rule balanced_concat) (auto simp: balanced_nwfilter_rule)
  ultimately have "xml_document ''filter'' ((CHR ''<'' # ''filter name='' @ sq (xml_escape name) @ '' chain='root'>\<newline>'')
      @ concat (map nwfilter_rule_xml rules) @ ''</'' @ ''filter'' @ ''>\<newline>'')"
    by (rule xml_documentI)
  then show ?thesis by (simp add: build_nwfilter_xml_def)
qed

section \<open>Properties\<close>

text \<open>The network filter is a well-formed document for every filter name and every rule list,
  validated or not: no rule field can break out of its attribute.\<close>

theorem nwfilter_well_formed: "xml_document ''filter'' (build_nwfilter_xml name rules)"
  by (rule nwfilter_document)

text \<open>An egress rule names the remote host as the packet's source and the local port as its
  destination, as an ingress rule does: for packets that leave the machine these are the wrong way
  round, and the rule matches nothing.\<close>

theorem egress_rule_fields_swapped:
  "nwfilter_rule_xml (default_firewall_rule\<lparr>fw_action := Drop, fw_direction := Out, fw_protocol := FwTcp,
       remote_addr := ''10.0.0.5'', local_port := ''22''\<rparr>)
     = ''  <rule action='drop' direction='out' priority='500'>\<newline>    <tcp srcipaddr='' @ sq ''10.0.0.5''
       @ '' dstportstart='' @ sq ''22'' @ ''/>\<newline>  </rule>\<newline>''
   \<and> nwfilter_rule_xml (default_firewall_rule\<lparr>fw_action := Drop, fw_direction := In, fw_protocol := FwTcp,
       remote_addr := ''10.0.0.5'', local_port := ''22''\<rparr>)
     = ''  <rule action='drop' direction='in' priority='500'>\<newline>    <tcp srcipaddr='' @ sq ''10.0.0.5''
       @ '' dstportstart='' @ sq ''22'' @ ''/>\<newline>  </rule>\<newline>''"
proof -
  have prio: "dec_int (sint (max_min_priority 500)) = ''500''"
    by (simp add: max_min_priority_def word_sless_alt dec_int_def str_simps)
  have ok: "is_valid_firewall_addr ''10.0.0.5''" "is_valid_firewall_port ''22''"
    by (simp_all add: is_valid_firewall_addr_def is_valid_firewall_port_def ascii_char_def ascii_defs)
  have attrs: "rule_attrs FwTcp ''10.0.0.5'' ''22'' [] = '' srcipaddr='' @ sq ''10.0.0.5'' @ '' dstportstart='' @ sq ''22''"
    by (simp add: rule_attrs_def addr_attrs_def port_attrs_def port_range_def split_addr_mask_def
        has_ports_def xml_escape_ref escape_ref_def esc1_def)
  show ?thesis
    by (simp add: nwfilter_rule_xml_def default_firewall_rule_def prio ok attrs) (simp add: sq_def)
qed

end
