(* ===== verification/Domain_Xml.thy ===== *)
theory Domain_Xml
  imports Devices
begin

text \<open>
  \<open>build_domain_xml\<close> of vmm-core/src/xml\_builder.rs: the libvirt domain document of a
  configuration. The function is cut where its comments cut it, one definition per section of
  the document, and put together at the end in the order of the code; the early return for an
  unsafe disk path is there.
\<close>

section \<open>Values computed first\<close>

definition machine_char :: "host \<Rightarrow> rchar \<Rightarrow> bool" where
  "machine_char h g \<longleftrightarrow> is_alphanumeric (u_alnum h) g \<or> is_char g (CHR ''-'') \<or> is_char g (CHR ''_'')
     \<or> is_char g (CHR ''.'') \<or> is_char g (CHR '','')"

definition domain_machine :: "host \<Rightarrow> vm_config \<Rightarrow> string" where
  "domain_machine h c =
     (if machine_type c = [] then default_machine (qemu_arch c)
      else of_chars (List.filter (machine_char h) (chars (machine_type c))))"

definition xml_vcpus :: "vm_config \<Rightarrow> u32" where
  "xml_vcpus c = max (min (vcpus c) 1024) 1"

definition xml_memory_mib :: "vm_config \<Rightarrow> u64" where
  "xml_memory_mib c = max (min (memory_mib c) 16777216) 64"

definition xml_io_threads :: "vm_config \<Rightarrow> u32" where
  "xml_io_threads c = min (io_threads c) 64"

definition kvm_guest :: "vm_config \<Rightarrow> bool" where
  "kvm_guest c \<longleftrightarrow> use_kvm c \<and> can_use_kvm_on_x86 (qemu_arch c)"

definition xml_boot_timeout :: "vm_config \<Rightarrow> u32" where
  "xml_boot_timeout c = min (boot_timeout c) 60000"

section \<open>Head, metadata and SMBIOS\<close>

definition domain_open_xml :: "vm_config \<Rightarrow> string" where
  \<open>domain_open_xml c =
     ''<domain type='' @ sq (if kvm_guest c then ''kvm'' else ''qemu'')
     @ '' xmlns:qemu='http://libvirt.org/schemas/domain/qemu/1.0'>\<newline>''\<close>

definition metadata_xml :: "host \<Rightarrow> vm_config \<Rightarrow> string" where
  \<open>metadata_xml h c =
     ''  <name>'' @ xml_escape (vm_name c) @ ''</name>\<newline>''
     @ ''  <uuid>'' @ xml_escape (uuid_to_string h (vm_id c)) @ ''</uuid>\<newline>''
     @ ''  <metadata>\<newline>''
     @ ''    <librevmm:config xmlns:librevmm="https://libre-vmm.org/xmlns">\<newline>''
     @ ''      <librevmm:managed>true</librevmm:managed>\<newline>''
     @ ''      <librevmm:box_type>'' @ xml_escape (box_display_name (box_type c)) @ ''</librevmm:box_type>\<newline>''
     @ ''      <librevmm:arch>'' @ xml_escape (qemu_suffix (qemu_arch c)) @ ''</librevmm:arch>\<newline>''
     @ ''    </librevmm:config>\<newline>''
     @ ''  </metadata>\<newline>''
     @ ''  <memory unit='MiB'>'' @ dec_w (xml_memory_mib c) @ ''</memory>\<newline>''
     @ ''  <currentMemory unit='MiB'>'' @ dec_w (xml_memory_mib c) @ ''</currentMemory>\<newline>''
     @ ''  <vcpu placement='static'>'' @ dec_w (xml_vcpus c) @ ''</vcpu>\<newline>''\<close>

definition to_uppercase :: "host \<Rightarrow> string \<Rightarrow> string" where
  "to_uppercase h s =
     concat (map (\<lambda>g. case g of
         [a] \<Rightarrow> if is_ascii_byte a then [to_ascii_upper a] else u_upper h (byte_of a)
       | _ \<Rightarrow> u_upper h (code_point g)) (chars s))"

definition smbios_serial :: "host \<Rightarrow> vm_config \<Rightarrow> string" where
  "smbios_serial h c =
     (let suffix = to_uppercase h (of_chars (take 8
            (List.filter (is_alphanumeric (u_alnum h)) (chars (vm_name c)))))
      in ''LBRVMM-'' @ (if suffix = [] then ''UNKNOWN'' else suffix))"

definition entry_xml :: "string \<Rightarrow> string \<Rightarrow> string" where
  \<open>entry_xml n v = ''      <entry name='' @ sq n @ ''>'' @ v @ ''</entry>\<newline>''\<close>

definition sysinfo_xml :: "host \<Rightarrow> vm_config \<Rightarrow> string" where
  \<open>sysinfo_xml h c =
     (if os_type c = MacOS then
        ''  <sysinfo type='smbios'>\<newline>    <system>\<newline>''
        @ entry_xml ''manufacturer'' ''Apple Inc.''
        @ entry_xml ''product'' ''iMacPro1,1''
        @ entry_xml ''version'' ''1.0''
        @ entry_xml ''serial'' (xml_escape (smbios_serial h c))
        @ entry_xml ''uuid'' (xml_escape (uuid_to_string h (vm_id c)))
        @ entry_xml ''family'' ''iMac Pro''
        @ ''    </system>\<newline>  </sysinfo>\<newline>''
      else
        ''  <sysinfo type='smbios'>\<newline>    <bios>\<newline>''
        @ entry_xml ''vendor'' ''LibreUEFI''
        @ entry_xml ''version'' ''LibreUEFI 1.0''
        @ ''    </bios>\<newline>    <system>\<newline>''
        @ entry_xml ''manufacturer'' ''Libre VMM Project''
        @ entry_xml ''product'' ''LibreUEFI Virtual Machine''
        @ entry_xml ''version'' ''1.0''
        @ entry_xml ''serial'' (xml_escape (smbios_serial h c))
        @ entry_xml ''uuid'' (xml_escape (uuid_to_string h (vm_id c)))
        @ entry_xml ''family'' ''Virtual Machine''
        @ ''    </system>\<newline>  </sysinfo>\<newline>'')\<close>

section \<open>OS, features, CPU\<close>

definition loader_xml :: "host \<Rightarrow> vm_config \<Rightarrow> string" where
  \<open>loader_xml h c =
     (if uefi c then
        (case resolve_firmware_paths h c of
           None \<Rightarrow> []
         | Some (code, vars) \<Rightarrow>
             ''    <loader readonly='yes' type='pflash'>'' @ code @ ''</loader>\<newline>''
             @ ''    <nvram template='' @ sq vars @ ''/>\<newline>'')
      else [])\<close>

definition boot_dev_xml :: "boot_device \<Rightarrow> string" where
  \<open>boot_dev_xml d = ''    <boot dev='' @ sq (boot_xml_name d) @ ''/>\<newline>''\<close>

definition os_xml :: "host \<Rightarrow> vm_config \<Rightarrow> string" where
  \<open>os_xml h c =
     ''  <os>\<newline>''
     @ (''    <type arch='' @ sq (qemu_suffix (qemu_arch c)) @ '' machine='' @ sq (domain_machine h c)
        @ ''>hvm</type>\<newline>    <smbios mode='sysinfo'/>\<newline>''
        @ loader_xml h c
        @ concat (map boot_dev_xml (boot_order c))
        @ ''    <bootmenu enable='yes' timeout='' @ sq (dec_w (xml_boot_timeout c)) @ ''/>\<newline>'')
     @ ''  </os>\<newline>''\<close>

definition features_xml :: "vm_config \<Rightarrow> string" where
  \<open>features_xml c =
     ''  <features>\<newline>    <acpi/>\<newline>    <apic/>\<newline>''
     @ (if os_type c = Windows \<and> can_use_kvm_on_x86 (qemu_arch c) then
          ''    <hyperv mode='passthrough'>\<newline>''
          @ ''      <relaxed state='on'/>\<newline>''
          @ ''      <vapic state='on'/>\<newline>''
          @ ''      <spinlocks state='on' retries='8191'/>\<newline>''
          @ ''      <vpindex state='on'/>\<newline>''
          @ ''      <runtime state='on'/>\<newline>''
          @ ''      <frequencies state='on'/>\<newline>''
          @ ''    </hyperv>\<newline>''
        else [])
     @ ''  </features>\<newline>''\<close>

definition limits_xml :: "host \<Rightarrow> vm_config \<Rightarrow> string" where
  "limits_xml h c =
     (if limits_has_any (resource_limits c) then limits_to_xml (host_cpus h) (resource_limits c) else [])"

definition feature_xml :: "string \<Rightarrow> string \<Rightarrow> string" where
  \<open>feature_xml policy v = ''    <feature policy='' @ sq policy @ '' name='' @ sq v @ ''/>\<newline>''\<close>

definition user_features_xml :: "host \<Rightarrow> vm_config \<Rightarrow> string" where
  "user_features_xml h c =
     concat (map (\<lambda>f. if is_valid_cpu_feature_name (u_alnum h) f
                      then feature_xml ''require'' (xml_escape f) else []) (cpu_features c))"

definition topology_xml :: "vm_config \<Rightarrow> string" where
  "topology_xml c = (case cpu_topology c of None \<Rightarrow> [] | Some topo \<Rightarrow> topology_to_xml topo)"

definition mac_cpu_features :: "string list" where
  "mac_cpu_features =
     [''invtsc'', ''ssse3'', ''sse4.2'', ''popcnt'', ''avx'', ''aes'', ''xsave'', ''xsaveopt'']"

definition xml_cpu_model :: "vm_config \<Rightarrow> string" where
  "xml_cpu_model c = (if vm_cpu_model c = [] then default_cpu (qemu_arch c) else vm_cpu_model c)"

definition cpu_xml :: "host \<Rightarrow> vm_config \<Rightarrow> string" where
  \<open>cpu_xml h c =
     (if os_type c = MacOS \<and> can_use_kvm_on_x86 (qemu_arch c) then
        ''  <cpu mode='custom' match='exact'>\<newline>''
        @ (''    <model>Penryn</model>\<newline>''
           @ concat (map (feature_xml ''require'') mac_cpu_features)
           @ user_features_xml h c
           @ topology_xml c)
        @ ''  </cpu>\<newline>''
      else if kvm_guest c then
        ''  <cpu mode='host-passthrough' check='none' migratable='on'>\<newline>''
        @ (topology_xml c
           @ user_features_xml h c
           @ (if \<not> side_channel_mitigations c then
                feature_xml ''disable'' ''spec-ctrl'' @ feature_xml ''disable'' ''ssbd''
                @ feature_xml ''disable'' ''md-clear''
              else []))
        @ ''  </cpu>\<newline>''
      else
        ''  <cpu mode='custom' match='exact'>\<newline>''
        @ (''    <model>'' @ xml_escape (xml_cpu_model c) @ ''</model>\<newline>''
           @ topology_xml c
           @ user_features_xml h c)
        @ ''  </cpu>\<newline>'')\<close>

section \<open>Memory backing, threads, clock, power\<close>

definition tuning_xml :: "vm_config \<Rightarrow> string" where
  \<open>tuning_xml c =
     (if hugepages c then
        ''  <memoryBacking>\<newline>    <hugepages/>\<newline>    <nosharepages/>\<newline>    <locked/>\<newline>  </memoryBacking>\<newline>''
      else [])
     @ (if xml_io_threads c > 0 then
          ''  <iothreads>'' @ dec_w (xml_io_threads c) @ ''</iothreads>\<newline>'' else [])\<close>

definition clock_xml :: "vm_config \<Rightarrow> string" where
  \<open>clock_xml c =
     (if can_use_kvm_on_x86 (qemu_arch c) \<or> qemu_arch c = I386 then
        (if os_type c = Windows then
           ''  <clock offset='localtime'>\<newline>''
           @ ''    <timer name='rtc' tickpolicy='catchup'/>\<newline>''
           @ ''    <timer name='pit' tickpolicy='delay'/>\<newline>''
           @ ''    <timer name='hpet' present='no'/>\<newline>''
           @ ''    <timer name='hypervclock' present='yes'/>\<newline>''
           @ ''  </clock>\<newline>''
         else
           ''  <clock offset='utc'>\<newline>''
           @ ''    <timer name='rtc' tickpolicy='catchup'/>\<newline>''
           @ ''    <timer name='pit' tickpolicy='delay'/>\<newline>''
           @ ''    <timer name='hpet' present='no'/>\<newline>''
           @ ''  </clock>\<newline>'')
      else ''  <clock offset='utc'/>\<newline>'')\<close>

definition power_xml :: string where
  \<open>power_xml =
     ''  <on_poweroff>destroy</on_poweroff>\<newline>''
     @ ''  <on_reboot>restart</on_reboot>\<newline>''
     @ ''  <on_crash>destroy</on_crash>\<newline>''\<close>

section \<open>Disks\<close>

definition disk_bus :: "host \<Rightarrow> vm_config \<Rightarrow> string" where
  "disk_bus h c =
     (if (os_type c = Windows \<or> os_type c = MacOS) \<and> can_use_kvm_on_x86 (qemu_arch c) then ''sata''
      else default_disk_bus (qemu_arch c) (domain_machine h c))"

definition disk_dev :: "string \<Rightarrow> string" where
  "disk_dev bus =
     (if bus = ''virtio'' then ''vda'' else if bus = ''sata'' then ''sda''
      else if bus = ''scsi'' then ''sda'' else if bus = ''ide'' then ''hda'' else ''vda'')"

definition cdrom_devs :: "string \<Rightarrow> string \<times> string" where
  "cdrom_devs bus = (if bus = ''sata'' then (''sdb'', ''sdc'') else (''sda'', ''sdb''))"

definition cache_attr :: "vm_config \<Rightarrow> string" where
  \<open>cache_attr c =
     (if disk_cache c = [] \<or> disk_cache c = ''writeback''
        \<or> disk_cache c \<notin> {''default'', ''none'', ''writethrough'', ''writeback'', ''directsync'', ''unsafe''}
      then [] else '' cache='' @ sq (disk_cache c))\<close>

definition io_attr :: "vm_config \<Rightarrow> string" where
  \<open>io_attr c =
     (if disk_io_mode c = [] \<or> disk_io_mode c = ''threads''
        \<or> disk_io_mode c \<notin> {''default'', ''native'', ''threads'', ''io_uring''}
      then [] else '' io='' @ sq (disk_io_mode c))\<close>

definition iothread_attr :: "vm_config \<Rightarrow> string" where
  \<open>iothread_attr c = (if xml_io_threads c > 0 then '' iothread='' @ sq ''1'' else [])\<close>

definition disk_mode_xml :: "disk_mode \<Rightarrow> string" where
  \<open>disk_mode_xml m =
     (case m of
        Snapshotted \<Rightarrow> []
      | IndependentPersistent \<Rightarrow> ''      <!-- librevmm-disk-mode: persistent -->\<newline>''
      | IndependentNonpersistent \<Rightarrow> ''      <transient/>\<newline>'')\<close>

definition encryption_xml :: "host \<Rightarrow> vm_config \<Rightarrow> string" where
  \<open>encryption_xml h c =
     (if disk_encrypted c then
        ''      <encryption format='luks'>\<newline>        <secret type='passphrase' uuid=''
        @ sq (uuid_to_string h (vm_id c)) @ ''/>\<newline>      </encryption>\<newline>''
      else [])\<close>

definition disk_xml :: "host \<Rightarrow> vm_config \<Rightarrow> string \<Rightarrow> string" where
  \<open>disk_xml h c safe_disk_path =
     (let bus = disk_bus h c in
      ''    <disk type='file' device='disk'>\<newline>''
      @ (''      <driver name='qemu' type='qcow2' discard='' @ sq ''unmap''
         @ cache_attr c @ io_attr c @ iothread_attr c @ ''/>\<newline>''
         @ ''      <source file='' @ sq (xml_escape safe_disk_path) @ ''/>\<newline>''
         @ ''      <target dev='' @ sq (disk_dev bus) @ '' bus='' @ sq bus @ ''/>\<newline>''
         @ disk_mode_xml (disk_mode c)
         @ (if disk_io_has_any (rl_disk_io (resource_limits c))
            then disk_iotune_xml (resource_limits c) else [])
         @ encryption_xml h c)
      @ ''    </disk>\<newline>'')\<close>

definition cdrom_xml :: "host \<Rightarrow> vm_config \<Rightarrow> string" where
  \<open>cdrom_xml h c =
     (case Option.bind (iso_path c) (validate_iso_path h) of
        None \<Rightarrow> []
      | Some safe_iso \<Rightarrow>
          ''    <disk type='file' device='cdrom'>\<newline>      <driver name='qemu' type='raw'/>\<newline>      <source file=''
          @ sq (xml_escape safe_iso) @ ''/>\<newline>      <target dev='' @ sq (fst (cdrom_devs (disk_bus h c)))
          @ '' bus='sata'/>\<newline>      <readonly/>\<newline>    </disk>\<newline>'')\<close>

definition driver_cdrom_xml :: "host \<Rightarrow> vm_config \<Rightarrow> string" where
  \<open>driver_cdrom_xml h c =
     (if os_type c = Windows then
        ''    <disk type='file' device='cdrom'>\<newline>      <driver name='qemu' type='raw'/>\<newline>      <target dev=''
        @ sq (snd (cdrom_devs (disk_bus h c))) @ '' bus='sata'/>\<newline>      <readonly/>\<newline>    </disk>\<newline>''
      else [])\<close>

section \<open>Network, display, sound, USB\<close>

definition vm_firewall_filter :: "host \<Rightarrow> vm_config \<Rightarrow> string option" where
  "vm_firewall_filter h c =
     (if firewall_rules c \<noteq> [] then Some (firewall_filter_name h (vm_id c)) else None)"

definition nics_xml :: "host \<Rightarrow> vm_config \<Rightarrow> string" where
  "nics_xml h c =
     concat (map (\<lambda>nic. build_nic_xml nic (resource_limits c) (vm_firewall_filter h c)) (effective_nics c))"

definition spice_active :: "vm_config \<Rightarrow> bool" where
  "spice_active c \<longleftrightarrow> has_spice (display_protocol c) \<and> has_spice_support (qemu_arch c)"

definition graphics_xml :: "vm_config \<Rightarrow> string" where
  \<open>graphics_xml c =
     (if spice_active c then
        ''    <graphics type='spice' autoport='yes'>\<newline>''
        @ ''      <listen type='address' address='127.0.0.1'/>\<newline>''
        @ ''      <image compression='auto_glz'/>\<newline>''
        @ ''      <streaming mode='filter'/>\<newline>''
        @ ''      <clipboard copypaste='yes'/>\<newline>''
        @ ''      <mouse mode='client'/>\<newline>''
        @ ''    </graphics>\<newline>''
        @ ''    <channel type='spicevmc'>\<newline>''
        @ ''      <target type='virtio' name='com.redhat.spice.0'/>\<newline>''
        @ ''    </channel>\<newline>''
      else [])
     @ (if has_vnc (display_protocol c) \<or> \<not> has_spice_support (qemu_arch c) then
          ''    <graphics type='vnc' autoport='yes' listen='127.0.0.1'/>\<newline>'' else [])\<close>

definition video_heads :: "vm_config \<Rightarrow> u8" where
  "video_heads c = min (max (display_count c) 1) 8"

definition video_vram_kib :: "vm_config \<Rightarrow> u64" where
  "video_vram_kib c = ucast (video_ram_mb c) * 1024"

definition video_xml :: "vm_config \<Rightarrow> string" where
  \<open>video_xml c =
     (let libvirt_model = gpu_libvirt_model (gpu_model c) (os_type c) in
      if has_virtio_support (qemu_arch c) \<and> libvirt_model \<noteq> ''none'' then
        ''    <video>\<newline>      <model type='' @ sq libvirt_model
        @ '' heads='' @ sq (dec_w (video_heads c)) @ '' primary='yes' vram='' @ sq (dec_w (video_vram_kib c))
        @ ''>\<newline>        <acceleration accel3d=''
        @ sq (if gpu_accel c \<and> supports_3d (gpu_model c) \<and> libvirt_model = ''virtio'' then ''yes'' else ''no'')
        @ ''/>\<newline>      </model>\<newline>    </video>\<newline>''
      else [])\<close>

definition sound_model :: "host \<Rightarrow> vm_config \<Rightarrow> string" where
  "sound_model h c =
     (case default_sound_device (qemu_arch c) (domain_machine h c) of Some m \<Rightarrow> m | None \<Rightarrow> ''ich9'')"

definition audio_xml :: "host \<Rightarrow> vm_config \<Rightarrow> string" where
  \<open>audio_xml h c =
     (if audio c \<and> has_audio_support (qemu_arch c) then
        ''    <sound model='' @ sq (sound_model h c)
        @ ''>\<newline>      <audio id='1'/>\<newline>    </sound>\<newline>    <audio id='1' type=''
        @ sq (if spice_active c then ''spice'' else ''none'') @ ''/>\<newline>''
      else [])\<close>

definition usb_xml :: "vm_config \<Rightarrow> string" where
  \<open>usb_xml c =
     (if usb_support c \<and> has_usb_support (qemu_arch c) then
        ''    <controller type='usb' model='' @ sq (usb_libvirt_model (usb_controller c))
        @ '' ports='8'/>\<newline>    <input type='tablet' bus='usb'/>\<newline>''
        @ (if spice_active c then
             ''    <redirdev bus='usb' type='spicevmc'/>\<newline>''
             @ ''    <redirdev bus='usb' type='spicevmc'/>\<newline>''
           else [])
      else [])\<close>

section \<open>Shared folder, channels, ports, passthrough\<close>

definition folder_blocked :: "string list" where
  "folder_blocked =
     [''/etc'', ''/root'', ''/proc'', ''/sys'', ''/dev'', ''/boot'', ''/run'', ''/var/run'', ''/var/log'',
      ''/var/lib'', ''/var/spool'', ''/var/tmp'', ''/tmp'', ''/usr'', ''/sbin'', ''/bin'', ''/snap'', ''/lost+found'']"

definition folder_is_safe :: "string \<Rightarrow> string \<Rightarrow> bool" where
  "folder_is_safe fld resolved \<longleftrightarrow>
     is_absolute fld \<and> \<not> str_contains fld ''..'' \<and> resolved \<noteq> ''/''
     \<and> list_all (\<lambda>p. \<not> starts_with resolved p) folder_blocked"

definition shared_folder_xml :: "host \<Rightarrow> vm_config \<Rightarrow> string" where
  \<open>shared_folder_xml h c =
     (case shared_folder c of
        None \<Rightarrow> []
      | Some fld \<Rightarrow>
          (let resolved = (case canonicalize h fld of Some p \<Rightarrow> p | None \<Rightarrow> []) in
           if resolved = [] then []
           else if folder_is_safe fld resolved then
             ''    <filesystem type='mount' accessmode='mapped'>\<newline>      <driver type='virtiofs'/>\<newline>      <source dir=''
             @ sq (xml_escape resolved) @ ''/>\<newline>      <target dir='' @ sq (xml_escape ''shared'')
             @ ''/>\<newline>    </filesystem>\<newline>''
           else []))\<close>

definition tpm_xml :: "host \<Rightarrow> vm_config \<Rightarrow> string" where
  "tpm_xml h c =
     (if tpm_enabled c \<and> tpm_state_new h (vm_id c) then tpm_device_xml (tpm_version c) else [])"

definition channels_xml :: "vm_config \<Rightarrow> string" where
  \<open>channels_xml c =
     (if has_virtio_support (qemu_arch c) then
        ''    <channel type='unix'>\<newline>      <target type='virtio' name='org.qemu.guest_agent.0'/>\<newline>    </channel>\<newline>''
        @ ''    <memballoon model='virtio'/>\<newline>    <rng model='virtio'>\<newline>''
        @ ''      <backend model='random'>/dev/urandom</backend>\<newline>    </rng>\<newline>''
      else [])\<close>

definition ports_xml :: "vm_config \<Rightarrow> string" where
  "ports_xml c =
     concat (map (\<lambda>(i, p). build_serial_xml i p) (enumerate 0 (take 4 (serial_ports c))))
     @ concat (map (\<lambda>(i, p). build_parallel_xml i p) (enumerate 0 (take 3 (parallel_ports c))))"

definition passthrough_xml :: "vm_config \<Rightarrow> string" where
  "passthrough_xml c =
     concat (map hostdev_xml (vfio_devices c))
     @ (if lg_enabled (looking_glass c) \<and> vfio_devices c \<noteq> []
        then ivshmem_xml (ivshmem_size_mib (looking_glass c)) else [])"

section \<open>The QEMU command line\<close>

definition allowed_prefixes :: "string list" where
  "allowed_prefixes =
     [''-cpu'', ''-smp'', ''-m '', ''-audiodev'', ''-display'', ''-usb'', ''-usbdevice'', ''-overcommit'',
      ''-rtc'', ''-boot'', ''-accel'', ''-no-hpet'', ''-no-shutdown'', ''-no-reboot'', ''-enable-kvm'']"

definition qemu_arg :: "string \<Rightarrow> string" where
  \<open>qemu_arg v = ''    <qemu:arg value='' @ sq v @ ''/>\<newline>''\<close>

text \<open>The arguments one custom entry contributes: none if it is not allow-listed, otherwise the
  entry cut at its first space.\<close>

definition custom_arg_parts :: "string \<Rightarrow> string list" where
  "custom_arg_parts arg =
     (let arg_trimmed = trim arg in
      if \<not> list_ex (\<lambda>p. starts_with arg_trimmed p) allowed_prefixes then []
      else case split_once (CHR '' '') arg_trimmed of
        Some (a, b) \<Rightarrow> [a, b]
      | None \<Rightarrow> [arg_trimmed])"

definition fw_cfg_xml :: "string \<Rightarrow> string \<Rightarrow> string" where
  \<open>fw_cfg_xml key v =
     qemu_arg ''-fw_cfg'' @ qemu_arg (''name=opt/libre-vmm/'' @ key @ '',string='' @ v)\<close>

definition resolution_xml :: "vm_config \<Rightarrow> string" where
  "resolution_xml c =
     (case preferred_resolution c of
        None \<Rightarrow> []
      | Some (w, h) \<Rightarrow>
          fw_cfg_xml ''display-width'' (dec_w (min (max w 640) 7680))
          @ fw_cfg_xml ''display-height'' (dec_w (min (max h 480) 4320)))"

definition mac_args_xml :: "vm_config \<Rightarrow> string" where
  "mac_args_xml c =
     (if os_type c = MacOS \<and> can_use_kvm_on_x86 (qemu_arch c) then
        concat (map qemu_arg
          [''-device'',
           ''isa-applesmc,osk=ourhardworkbythesewordsguardedpleasedontsteal(c)AppleComputerInc'',
           ''-global'', ''kvm-pit.lost_tick_policy=delay'',
           ''-global'', ''ICH9-LPC.acpi-pci-hotplug-with-bridge-support=off''])
      else [])"

definition commandline_xml :: "vm_config \<Rightarrow> string" where
  \<open>commandline_xml c =
     ''  <qemu:commandline>\<newline>''
     @ (concat (map (\<lambda>a. concat (map (\<lambda>p. qemu_arg (xml_escape p)) (custom_arg_parts a)))
                  (custom_qemu_args c))
        @ fw_cfg_xml ''vm-name'' (xml_escape (sanitize_fw_cfg_value (vm_name c)))
        @ fw_cfg_xml ''boot-timeout'' (dec_w (xml_boot_timeout c))
        @ resolution_xml c
        @ (if report_battery c then fw_cfg_xml ''report-battery'' ''1'' else [])
        @ mac_args_xml c)
     @ ''  </qemu:commandline>\<newline>''\<close>

section \<open>The document\<close>

definition devices_xml :: "host \<Rightarrow> vm_config \<Rightarrow> string \<Rightarrow> string" where
  \<open>devices_xml h c safe_disk_path =
     ''  <devices>\<newline>''
     @ (''    <emulator>'' @ qemu_binary (qemu_arch c) @ ''</emulator>\<newline>''
        @ disk_xml h c safe_disk_path @ cdrom_xml h c @ driver_cdrom_xml h c @ nics_xml h c
        @ graphics_xml c @ video_xml c @ audio_xml h c @ usb_xml c @ shared_folder_xml h c
        @ tpm_xml h c @ channels_xml c @ ports_xml c @ passthrough_xml c)
     @ ''  </devices>\<newline>''\<close>

definition error_domain_xml :: "vm_config \<Rightarrow> string" where
  \<open>error_domain_xml c =
     ''<domain type='qemu'><name>'' @ xml_escape (vm_name c)
     @ ''</name><memory unit='MiB'>64</memory><vcpu>1</vcpu><os><type>hvm</type></os>''
     @ ''</domain>\<newline>''\<close>

definition build_domain_xml :: "host \<Rightarrow> vm_config \<Rightarrow> string" where
  \<open>build_domain_xml h c =
     (case validate_disk_path h (disk_path c) of
        None \<Rightarrow> error_domain_xml c
      | Some safe_disk_path \<Rightarrow>
          domain_open_xml c
          @ (metadata_xml h c @ sysinfo_xml h c @ os_xml h c @ features_xml c @ limits_xml h c
             @ cpu_xml h c @ tuning_xml c @ clock_xml c @ power_xml
             @ devices_xml h c safe_disk_path
             @ ''  <seclabel type='dynamic' relabel='yes'/>\<newline>''
             @ commandline_xml c)
          @ ''</domain>\<newline>'')\<close>

end
