(* ===== verification/Domain_Wf.thy ===== *)
theory Domain_Wf
  imports Domain_Xml
begin

text \<open>
  The domain document is well formed: every section that \<open>build_domain_xml\<close> emits is balanced,
  whatever the configuration holds. Two inputs are not escaped by the code and appear as
  hypotheses: the text of a \<open>Uuid\<close> (hexadecimal digits and hyphens, as documented) and the custom
  firmware paths.
\<close>

section \<open>Constant tables are inert\<close>

lemma xml_safe_suffix [simp]: "xml_safe (qemu_suffix a)"
  by (cases a) (simp_all add: xml_safe_plain plain_char_def)

lemma xml_safe_binary [simp]: "xml_safe (qemu_binary a)"
  unfolding qemu_binary_def by (intro xml_safe_append xml_safe_suffix) (simp add: xml_safe_plain plain_char_def)

lemma xml_safe_disk_bus [simp]: "xml_safe (disk_bus h c)"
  by (simp add: disk_bus_def default_disk_bus_def xml_safe_plain plain_char_def)

lemma xml_safe_disk_dev [simp]: "xml_safe (disk_dev b)"
  by (simp add: disk_dev_def xml_safe_plain plain_char_def)

lemma xml_safe_cdrom_devs [simp]: "xml_safe (fst (cdrom_devs b))" "xml_safe (snd (cdrom_devs b))"
  by (simp_all add: cdrom_devs_def xml_safe_plain plain_char_def)

lemma xml_safe_sound [simp]: "xml_safe (sound_model h c)"
  by (simp add: sound_model_def default_sound_device_def xml_safe_plain plain_char_def)

lemma xml_safe_usb [simp]: "xml_safe (usb_libvirt_model u)"
  by (cases u) (simp_all add: xml_safe_plain plain_char_def)

lemma xml_safe_gpu [simp]: "xml_safe (gpu_libvirt_model g os)"
  by (cases g) (simp_all add: gpu_libvirt_model_def xml_safe_plain plain_char_def)

lemma xml_safe_boot [simp]: "xml_safe (boot_xml_name d)"
  by (cases d) (simp_all add: xml_safe_plain plain_char_def)

lemma default_firmware_safe:
  "default_firmware c = Some (code, vars) \<Longrightarrow> xml_safe code \<and> xml_safe vars"
  by (auto simp: default_firmware_def uefi_firmware_path_def uefi_secboot_firmware_path_def
      xml_safe_plain plain_char_def split: if_splits)

lemma xml_safe_machine [simp]: "xml_safe (domain_machine h c)"
proof (cases "machine_type c = []")
  case True
  then show ?thesis
    by (cases "qemu_arch c")
      (simp_all add: domain_machine_def default_machine_def xml_safe_plain plain_char_def)
next
  case False
  have "plain_char x" if "x \<in> set (of_chars (List.filter (machine_char h) (chars (machine_type c))))" for x
    using of_chars_filter_byte [OF that] plain_non_ascii [of x]
    by (auto simp: machine_char_def is_char_def is_alphanumeric_def plain_char_def ascii_defs
        split: if_splits)
  with False show ?thesis
    by (simp add: domain_machine_def xml_safe_plain list_all_iff)
qed

section \<open>Head, metadata, SMBIOS\<close>

lemma opens_domain: "opens ''domain'' (domain_open_xml c)"
  by (simp add: domain_open_xml_def opens_def xml_eval xml_safe_plain plain_char_def)

lemma balanced_metadata: "balanced (metadata_xml h c)"
  by (simp add: metadata_xml_def balanced_def xml_eval)

lemma balanced_entry: "list_all plain_char n \<Longrightarrow> xml_safe v \<Longrightarrow> balanced (entry_xml n v)"
  by (simp add: entry_xml_def balanced_def xml_eval xml_safe_plain)

lemma balanced_sysinfo: "balanced (sysinfo_xml h c)"
proof -
  have e: "balanced (entry_xml ''manufacturer'' ''Apple Inc.'')" "balanced (entry_xml ''product'' ''iMacPro1,1'')"
    "balanced (entry_xml ''version'' ''1.0'')" "balanced (entry_xml ''family'' ''iMac Pro'')"
    "balanced (entry_xml ''vendor'' ''LibreUEFI'')" "balanced (entry_xml ''version'' ''LibreUEFI 1.0'')"
    "balanced (entry_xml ''manufacturer'' ''Libre VMM Project'')"
    "balanced (entry_xml ''product'' ''LibreUEFI Virtual Machine'')"
    "balanced (entry_xml ''family'' ''Virtual Machine'')"
    "balanced (entry_xml ''serial'' (xml_escape s))" "balanced (entry_xml ''uuid'' (xml_escape s))" for s
    by (rule balanced_entry; simp add: xml_safe_plain plain_char_def)+
  show ?thesis
    by (simp add: sysinfo_xml_def balanced_def [of "CHR '' '' # _"] xml_eval e)
qed

section \<open>OS, features, CPU\<close>

text \<open>The firmware paths that are written without escaping.\<close>

definition firmware_inert :: "vm_config \<Rightarrow> bool" where
  "firmware_inert c \<longleftrightarrow>
     pred_option (list_all plain_char) (custom_firmware_code c)
     \<and> pred_option (list_all plain_char) (custom_firmware_vars c)"

lemma resolve_firmware_safe:
  assumes "firmware_inert c" and "resolve_firmware_paths h c = Some (code, vars)"
  shows "xml_safe code \<and> xml_safe vars"
  using assms default_firmware_safe [of c code vars]
  by (auto simp: resolve_firmware_paths_def firmware_inert_def validate_firmware_path_Some
      intro: xml_safe_plain split: option.splits)

lemma balanced_loader: "firmware_inert c \<Longrightarrow> balanced (loader_xml h c)"
  using resolve_firmware_safe [of c h]
  by (auto simp: loader_xml_def balanced_def xml_eval split: option.splits)

lemma balanced_os: "firmware_inert c \<Longrightarrow> balanced (os_xml h c)"
proof -
  assume "firmware_inert c"
  moreover have "balanced (concat (map boot_dev_xml (boot_order c)))"
    by (rule balanced_concat) (auto simp: boot_dev_xml_def balanced_def xml_eval)
  ultimately show ?thesis
    by (simp add: os_xml_def balanced_def [of "CHR '' '' # _"] xml_eval balanced_loader)
qed

lemma balanced_features: "balanced (features_xml c)"
  by (simp add: features_xml_def balanced_def xml_eval)

lemma balanced_limits_xml: "balanced (limits_xml h c)"
  by (simp add: limits_xml_def balanced_limits)

lemma balanced_feature: "list_all plain_char p \<Longrightarrow> xml_safe v \<Longrightarrow> balanced (feature_xml p v)"
  by (simp add: feature_xml_def balanced_def xml_eval xml_safe_plain)

lemma balanced_user_features: "balanced (user_features_xml h c)"
  unfolding user_features_xml_def
  by (rule balanced_concat) (auto intro!: balanced_feature simp: plain_char_def)

lemma balanced_topology: "balanced (topology_xml c)"
  by (simp add: topology_xml_def topology_to_xml_def balanced_def xml_eval split: option.splits)

lemma balanced_mac_features: "balanced (concat (map (feature_xml ''require'') mac_cpu_features))"
  by (rule balanced_concat)
    (auto simp: mac_cpu_features_def intro!: balanced_feature simp: plain_char_def xml_safe_plain)

lemma balanced_mitigations:
  "balanced (feature_xml ''disable'' ''spec-ctrl'' @ feature_xml ''disable'' ''ssbd''
     @ feature_xml ''disable'' ''md-clear'')"
  by (intro balanced_append balanced_feature) (simp_all add: plain_char_def xml_safe_plain)

lemma balanced_cpu: "balanced (cpu_xml h c)"
proof -
  have close: "closes ''cpu'' ''  </cpu>\<newline>''" by (simp add: closes_def xml_eval)
  have opn: "opens ''cpu'' ''  <cpu mode='custom' match='exact'>\<newline>''"
    "opens ''cpu'' ''  <cpu mode='host-passthrough' check='none' migratable='on'>\<newline>''"
    by (simp_all add: opens_def xml_eval)
  have model: "balanced ''    <model>Penryn</model>\<newline>''"
    "balanced (''    <model>'' @ xml_escape m @ ''</model>\<newline>'')" for m
    by (simp_all add: balanced_def xml_eval)
  have "balanced (''    <model>Penryn</model>\<newline>''
           @ concat (map (feature_xml ''require'') mac_cpu_features)
           @ user_features_xml h c @ topology_xml c)"
    by (intro balanced_append model balanced_mac_features balanced_user_features balanced_topology)
  moreover have "balanced (topology_xml c @ user_features_xml h c
           @ (if \<not> side_channel_mitigations c then
                feature_xml ''disable'' ''spec-ctrl'' @ feature_xml ''disable'' ''ssbd''
                @ feature_xml ''disable'' ''md-clear'' else []))"
    by (intro balanced_append balanced_if balanced_mitigations balanced_user_features
        balanced_topology balanced_Nil)
  moreover have "balanced ((''    <model>'' @ xml_escape (xml_cpu_model c) @ ''</model>\<newline>'')
           @ topology_xml c @ user_features_xml h c)"
    by (intro balanced_append model balanced_user_features balanced_topology)
  ultimately show ?thesis
    unfolding cpu_xml_def
    by (intro balanced_if balanced_element [OF opn(1) _ close] balanced_element [OF opn(2) _ close])
      (simp_all only: append_assoc)
qed

lemma balanced_tuning: "balanced (tuning_xml c)"
  by (simp add: tuning_xml_def balanced_def xml_eval)

lemma balanced_clock: "balanced (clock_xml c)"
  by (simp add: clock_xml_def balanced_def xml_eval)

lemma balanced_power: "balanced power_xml"
  by (simp add: power_xml_def balanced_def xml_eval)

section \<open>Devices\<close>

text \<open>What the uuid crate documents of the text forms: hexadecimal digits and hyphens.\<close>

definition uuid_text_ok :: "host \<Rightarrow> bool" where
  "uuid_text_ok h \<longleftrightarrow>
     (\<forall>i. list_all (\<lambda>c. ascii_hexdigit c \<or> c = CHR ''-'') (uuid_to_string h i))"

lemma uuid_text_safe: "uuid_text_ok h \<Longrightarrow> xml_safe (uuid_to_string h i)"
proof -
  assume "uuid_text_ok h"
  then have "list_all (\<lambda>c. ascii_hexdigit c \<or> c = CHR ''-'') (uuid_to_string h i)"
    by (simp add: uuid_text_ok_def)
  then show ?thesis
    by (intro xml_safe_plain) (auto simp: list_all_iff plain_char_def ascii_defs)
qed

lemma attrs_safe_disk:
  "attrs_safe (cache_attr c)" "attrs_safe (io_attr c)" "attrs_safe (iothread_attr c)"
  by (auto simp: cache_attr_def io_attr_def iothread_attr_def attrs_safe_def xml_eval
      xml_safe_plain plain_char_def)

lemma balanced_disk_mode: "balanced (disk_mode_xml m)"
  by (cases m) (simp_all add: disk_mode_xml_def balanced_def xml_eval)

lemma balanced_encryption: "uuid_text_ok h \<Longrightarrow> balanced (encryption_xml h c)"
  by (simp add: encryption_xml_def balanced_def xml_eval uuid_text_safe)

lemma balanced_driver:
  "balanced (''      <driver name='qemu' type='qcow2' discard='' @ sq ''unmap''
         @ cache_attr c @ io_attr c @ iothread_attr c @ ''/>\<newline>'')"
  by (simp add: balanced_def xml_eval attrs_safe_disk xml_safe_plain plain_char_def)

lemma balanced_disk:
  assumes "uuid_text_ok h"
  shows "balanced (disk_xml h c p)"
proof -
  have 1: "opens ''disk'' ''    <disk type='file' device='disk'>\<newline>''"
    "closes ''disk'' ''    </disk>\<newline>''"
    by (simp_all add: opens_def closes_def xml_eval)
  have 2: "balanced (''      <source file='' @ sq (xml_escape p) @ ''/>\<newline>'')"
    "balanced (''      <target dev='' @ sq (disk_dev b) @ '' bus='' @ sq (disk_bus h c) @ ''/>\<newline>'')" for b
    by (simp_all add: balanced_def xml_eval)
  have 3: "balanced (if disk_io_has_any (rl_disk_io (resource_limits c))
            then disk_iotune_xml (resource_limits c) else [])"
    by (simp add: balanced_iotune)
  have "balanced ((''      <driver name='qemu' type='qcow2' discard='' @ sq ''unmap''
         @ cache_attr c @ io_attr c @ iothread_attr c @ ''/>\<newline>'')
         @ (''      <source file='' @ sq (xml_escape p) @ ''/>\<newline>'')
         @ (''      <target dev='' @ sq (disk_dev (disk_bus h c)) @ '' bus='' @ sq (disk_bus h c) @ ''/>\<newline>'')
         @ disk_mode_xml (disk_mode c)
         @ (if disk_io_has_any (rl_disk_io (resource_limits c))
            then disk_iotune_xml (resource_limits c) else [])
         @ encryption_xml h c)"
    by (intro balanced_append balanced_driver 2 3 balanced_disk_mode balanced_encryption assms)
  from balanced_element [OF 1(1) this 1(2)] show ?thesis
    by (simp only: disk_xml_def Let_def append_assoc)
qed

lemma balanced_cdrom: "balanced (cdrom_xml h c)"
  by (simp add: cdrom_xml_def balanced_def xml_eval split: option.splits)

lemma balanced_driver_cdrom: "balanced (driver_cdrom_xml h c)"
  by (simp add: driver_cdrom_xml_def balanced_def xml_eval)

lemma balanced_nics: "balanced (nics_xml h c)"
  unfolding nics_xml_def by (rule balanced_concat) (auto simp: balanced_nic)

lemma balanced_graphics: "balanced (graphics_xml c)"
  by (simp add: graphics_xml_def balanced_def xml_eval)

lemma balanced_video: "balanced (video_xml c)"
  unfolding video_xml_def Let_def
  by (intro balanced_if balanced_Nil) (simp add: balanced_def xml_eval xml_safe_plain plain_char_def)

lemma balanced_audio: "balanced (audio_xml h c)"
  unfolding audio_xml_def
  by (intro balanced_if balanced_Nil) (simp add: balanced_def xml_eval xml_safe_plain plain_char_def)

lemma balanced_usb: "balanced (usb_xml c)"
  unfolding usb_xml_def
  by (intro balanced_if balanced_Nil) (simp add: balanced_def xml_eval)

lemma balanced_folder: "balanced (shared_folder_xml h c)"
  by (simp add: shared_folder_xml_def Let_def balanced_def xml_eval split: option.splits)

lemma balanced_tpm_xml: "balanced (tpm_xml h c)"
  by (simp add: tpm_xml_def balanced_tpm)

lemma balanced_channels: "balanced (channels_xml c)"
  unfolding channels_xml_def
  by (intro balanced_if balanced_Nil) (simp add: balanced_def xml_eval)

lemma balanced_ports: "balanced (ports_xml c)"
  unfolding ports_xml_def
  by (intro balanced_append balanced_concat) (auto simp: balanced_serial balanced_parallel)

lemma balanced_passthrough: "balanced (passthrough_xml c)"
  unfolding passthrough_xml_def
  by (intro balanced_append balanced_concat balanced_if balanced_Nil)
    (auto simp: balanced_hostdev balanced_ivshmem)

lemma balanced_devices:
  assumes "uuid_text_ok h"
  shows "balanced (devices_xml h c p)"
proof -
  have 1: "opens ''devices'' ''  <devices>\<newline>''" "closes ''devices'' ''  </devices>\<newline>''"
    by (simp_all add: opens_def closes_def xml_eval)
  define em where "em = ''    <emulator>'' @ qemu_binary (qemu_arch c) @ ''</emulator>\<newline>''"
  have "balanced em"
    by (simp add: em_def balanced_def xml_eval)
  then have "balanced (em
        @ disk_xml h c p @ cdrom_xml h c @ driver_cdrom_xml h c @ nics_xml h c
        @ graphics_xml c @ video_xml c @ audio_xml h c @ usb_xml c @ shared_folder_xml h c
        @ tpm_xml h c @ channels_xml c @ ports_xml c @ passthrough_xml c)"
    by (intro balanced_append balanced_disk balanced_cdrom balanced_driver_cdrom balanced_nics
        balanced_graphics balanced_video balanced_audio balanced_usb balanced_folder
        balanced_tpm_xml balanced_channels balanced_ports balanced_passthrough assms)
  from balanced_element [OF 1(1) this 1(2)] show ?thesis
    by (simp only: devices_xml_def em_def append_assoc)
qed

section \<open>Command line and document\<close>

lemma balanced_qemu_arg: "xml_safe v \<Longrightarrow> balanced (qemu_arg v)"
  by (simp add: qemu_arg_def balanced_def xml_eval)

lemma balanced_fw_cfg: "list_all plain_char key \<Longrightarrow> xml_safe v \<Longrightarrow> balanced (fw_cfg_xml key v)"
  unfolding fw_cfg_xml_def
  by (intro balanced_append balanced_qemu_arg xml_safe_append)
    (simp_all add: xml_safe_plain plain_char_def)

lemma balanced_commandline: "balanced (commandline_xml c)"
proof -
  have 1: "opens ''qemu:commandline'' ''  <qemu:commandline>\<newline>''"
    "closes ''qemu:commandline'' ''  </qemu:commandline>\<newline>''"
    by (simp_all add: opens_def closes_def xml_eval)
  have "balanced (concat (map (\<lambda>a. concat (map (\<lambda>p. qemu_arg (xml_escape p)) (custom_arg_parts a)))
                  (custom_qemu_args c)))"
    by (intro balanced_concat) (auto intro!: balanced_concat balanced_qemu_arg)
  moreover have "balanced (resolution_xml c)"
    by (auto simp: resolution_xml_def plain_char_def intro!: balanced_append balanced_fw_cfg
        split: option.splits prod.splits)
  moreover have "balanced (mac_args_xml c)"
    unfolding mac_args_xml_def
    by (intro balanced_if balanced_concat balanced_Nil)
      (auto intro!: balanced_qemu_arg simp: xml_safe_plain plain_char_def)
  moreover have "balanced (fw_cfg_xml ''vm-name'' (xml_escape s))" "balanced (fw_cfg_xml ''boot-timeout'' (dec_w w))"
    "balanced (if report_battery c then fw_cfg_xml ''report-battery'' ''1'' else [])" for s and w :: u32
    by (auto intro!: balanced_fw_cfg simp: xml_safe_plain plain_char_def)
  ultimately have "balanced (concat (map (\<lambda>a. concat (map (\<lambda>p. qemu_arg (xml_escape p)) (custom_arg_parts a)))
                  (custom_qemu_args c))
        @ fw_cfg_xml ''vm-name'' (xml_escape (sanitize_fw_cfg_value (vm_name c)))
        @ fw_cfg_xml ''boot-timeout'' (dec_w (xml_boot_timeout c))
        @ resolution_xml c
        @ (if report_battery c then fw_cfg_xml ''report-battery'' ''1'' else [])
        @ mac_args_xml c)"
    by (intro balanced_append)
  from balanced_element [OF 1(1) this 1(2)] show ?thesis
    by (simp only: commandline_xml_def append_assoc)
qed

lemma error_domain_document: "xml_document ''domain'' (error_domain_xml c)"
proof -
  have "opens ''domain'' (CHR ''<'' # ''domain type='qemu'>'')"
    by (simp add: opens_def xml_eval)
  moreover have "balanced (''<name>'' @ xml_escape (vm_name c)
     @ ''</name><memory unit='MiB'>64</memory><vcpu>1</vcpu><os><type>hvm</type></os>'')"
    by (simp add: balanced_def xml_eval)
  ultimately show ?thesis
    using xml_documentI by (fastforce simp: error_domain_xml_def)
qed

lemma build_domain_document:
  assumes "uuid_text_ok h" and "firmware_inert c"
  shows "xml_document ''domain'' (build_domain_xml h c)"
proof (cases "validate_disk_path h (disk_path c)")
  case None
  then show ?thesis by (simp add: build_domain_xml_def error_domain_document)
next
  case (Some p)
  define sl where "sl = ''  <seclabel type='dynamic' relabel='yes'/>\<newline>''"
  have "balanced sl"
    by (simp add: sl_def balanced_def xml_eval)
  with assms have body: "balanced (metadata_xml h c @ sysinfo_xml h c @ os_xml h c @ features_xml c
      @ limits_xml h c @ cpu_xml h c @ tuning_xml c @ clock_xml c @ power_xml @ devices_xml h c p
      @ sl @ commandline_xml c)"
    by (intro balanced_append balanced_metadata balanced_sysinfo balanced_os balanced_features
        balanced_limits_xml balanced_cpu balanced_tuning balanced_clock balanced_power
        balanced_devices balanced_commandline)
  obtain r where r: "domain_open_xml c = CHR ''<'' # r"
    by (simp add: domain_open_xml_def)
  with opens_domain [of c] have "opens ''domain'' (CHR ''<'' # r)" by simp
  from xml_documentI [OF this body] have "xml_document ''domain'' (domain_open_xml c
      @ (metadata_xml h c @ sysinfo_xml h c @ os_xml h c @ features_xml c
      @ limits_xml h c @ cpu_xml h c @ tuning_xml c @ clock_xml c @ power_xml @ devices_xml h c p
      @ sl @ commandline_xml c) @ ''</domain>\<newline>'')"
    unfolding r by simp
  with Some show ?thesis
    by (simp only: build_domain_xml_def sl_def option.case)
qed

section \<open>Custom arguments\<close>

lemma custom_arg_first:
  assumes "custom_arg_parts a = p # ps"
  shows "list_ex (\<lambda>q. starts_with (trim a) q) allowed_prefixes
    \<and> (ps = [] \<and> p = trim a \<and> CHR '' '' \<notin> set p \<or> (\<exists>b. ps = [b] \<and> trim a = p @ CHR '' '' # b \<and> CHR '' '' \<notin> set p))"
  using assms
  by (auto simp: custom_arg_parts_def Let_def split_once_Some split_once_None
      split: if_splits option.splits)

lemma forbidden_first:
  assumes "list_ex (\<lambda>q. starts_with (p @ rest) q) allowed_prefixes" and "rest = [] \<or> hd rest = CHR '' ''"
  shows "p \<notin> {''-device'', ''-global'', ''-smbios'', ''-machine'', ''-drive'', ''-netdev'', ''-chardev'',
      ''-fsdev'', ''-virtfs'', ''-object'', ''-monitor'', ''-qmp'', ''-incoming'', ''-readconfig'', ''-sandbox''}"
  using assms by (auto simp: allowed_prefixes_def)

section \<open>Properties\<close>


lemma hex_char_hex: "ascii_hexdigit (hex_char n)"
proof -
  have "n mod 16 < 16" by simp
  then have "hex_char n \<in> set ''0123456789abcdef''"
    unfolding hex_char_def by (intro nth_mem) simp
  then show ?thesis by (auto simp: ascii_defs)
qed

lemma demo_host_uuid: "uuid_text_ok demo_host"
  by (auto simp: uuid_text_ok_def demo_host_def list_all_iff hex_text_def hex_char_hex)


text \<open>The hypothesis on firmware paths is needed: a firmware file whose name holds markup passes
  the firmware check and its name is written as markup.\<close>

theorem firmware_path_not_escaped:
  "\<not> balanced (loader_xml demo_host ((default_config i)\<lparr>
      custom_firmware_code := Some ''/srv/fw/x</loader><y>.fd'',
      custom_firmware_vars := Some ''/srv/vm/a.qcow2''\<rparr>))"
proof -
  have "validate_firmware_path demo_host ''/srv/fw/x</loader><y>.fd'' = Some ''/srv/fw/x</loader><y>.fd''"
    "validate_firmware_path demo_host ''/srv/vm/a.qcow2'' = Some ''/srv/vm/a.qcow2''"
    by (simp_all add: validate_firmware_path_def demo_host_def is_absolute_def has_parent_dir_def)
  then show ?thesis
    by (simp add: loader_xml_def resolve_firmware_paths_def default_config_def balanced_def xml_eval)
qed

text \<open>A custom entry contributes at most two arguments, the first without a space, and the first
  is never one of the options that the code took off its list, nor another option that reaches
  the host's files, network or control channels.\<close>

theorem custom_args_allow_listed:
  assumes "custom_arg_parts a = p # ps"
  shows "length ps \<le> 1 \<and> CHR '' '' \<notin> set p
    \<and> list_ex (\<lambda>q. starts_with (trim a) q) allowed_prefixes
    \<and> p \<notin> {''-device'', ''-global'', ''-smbios'', ''-machine'', ''-drive'', ''-netdev'', ''-chardev'',
      ''-fsdev'', ''-virtfs'', ''-object'', ''-monitor'', ''-qmp'', ''-incoming'', ''-readconfig'', ''-sandbox''}"
proof -
  note first = custom_arg_first [OF assms]
  from first have "ps = [] \<and> trim a = p @ [] \<or> (\<exists>b. trim a = p @ CHR '' '' # b)" by auto
  then obtain rest where rest: "trim a = p @ rest" "rest = [] \<or> hd rest = CHR '' ''" by fastforce
  with first have "list_ex (\<lambda>q. starts_with (p @ rest) q) allowed_prefixes" by simp
  from forbidden_first [OF this rest(2)] first show ?thesis by auto
qed

theorem custom_args_allow_listed_witness:
  "custom_arg_parts ''-cpu host,+vmx'' = [''-cpu'', ''host,+vmx''] \<and> custom_arg_parts ''-device virtio-9p'' = []
   \<and> ''-cpu'' \<notin> {''-device'', ''-global''}"
proof -
  have 1: "custom_arg_parts ''-cpu host,+vmx'' = [''-cpu'', ''host,+vmx'']"
    by (simp add: custom_arg_parts_def Let_def allowed_prefixes_def trim_def of_chars_def
        is_whitespace_def ascii_defs)
  have 2: "custom_arg_parts ''-device virtio-9p'' = []"
    by (simp add: custom_arg_parts_def Let_def allowed_prefixes_def trim_def of_chars_def
        is_whitespace_def ascii_defs)
  from custom_args_allow_listed [OF 1] 1 2 show ?thesis by auto
qed

text \<open>Every CPU feature the architecture tables offer passes the builder's name check, so a
  feature chosen in the interface is never dropped from the document.\<close>

theorem offered_features_pass_check:
  "list_all (\<lambda>a. list_all (\<lambda>f. is_valid_cpu_feature_name ualnum (cf_name f)) (cpu_features_of a)) all_archs"
proof -
  have ascii: "is_valid_cpu_feature_name ualnum n"
    if "n \<noteq> [] \<and> length n \<le> 64 \<and> list_all (\<lambda>c. ascii_alnum c \<or> c = CHR ''-'' \<or> c = CHR ''_'' \<or> c = CHR ''.'') n" for n
  proof -
    have "list_all is_ascii_byte n"
      using that by (auto simp: list_all_iff ascii_defs)
    with that show ?thesis
      by (auto simp: is_valid_cpu_feature_name_def chars_ascii list_all_iff is_char_def)
  qed
  have "list_all (\<lambda>a. list_all (\<lambda>f. cf_name f \<noteq> [] \<and> length (cf_name f) \<le> 64
      \<and> list_all (\<lambda>c. ascii_alnum c \<or> c = CHR ''-'' \<or> c = CHR ''_'' \<or> c = CHR ''.'') (cf_name f))
      (cpu_features_of a)) all_archs"
    by code_simp
  then show ?thesis
    using ascii by (simp add: list_all_iff)
qed

text \<open>For a configuration within the bounds of validation the builder's own clamps change
  nothing: the document shows the configured CPUs, memory, I/O threads and display heads, and every
  serial and parallel port.\<close>

theorem validated_config_shown_as_is:
  assumes "config_in_bounds c"
  shows "xml_vcpus c = vcpus c \<and> xml_memory_mib c = memory_mib c \<and> xml_io_threads c = io_threads c
    \<and> video_heads c = display_count c \<and> unat (video_vram_kib c) = 1024 * unat (video_ram_mb c)
    \<and> take 4 (serial_ports c) = serial_ports c \<and> take 3 (parallel_ports c) = parallel_ports c"
proof -
  have n: "numbers_in_bounds c" and l: "lists_in_bounds c"
    using assms by (simp_all add: config_in_bounds_def)
  have "vcpus c \<le> 1024" "1 \<le> vcpus c" "memory_mib c \<le> 16777216" "64 \<le> memory_mib c"
    "io_threads c \<le> 64" "1 \<le> display_count c" "display_count c \<le> 8"
    using n by (simp_all add: numbers_in_bounds_def word_le_nat_alt)
  then have "xml_vcpus c = vcpus c \<and> xml_memory_mib c = memory_mib c \<and> xml_io_threads c = io_threads c
    \<and> video_heads c = display_count c"
    by (simp add: xml_vcpus_def xml_memory_mib_def xml_io_threads_def video_heads_def
        min_absorb1 max_absorb1)
  moreover have "unat (video_vram_kib c) = 1024 * unat (video_ram_mb c)"
  proof -
    have small: "unat (video_ram_mb c) \<le> 256"
      using n by (simp add: numbers_in_bounds_def)
    then have "unat (ucast (video_ram_mb c) :: u64) = unat (video_ram_mb c)"
      by (simp add: unsigned_ucast_eq take_bit_nat_eq_self_iff)
    with small show ?thesis
      by (simp add: video_vram_kib_def unat_word_ariths)
  qed
  ultimately show ?thesis using l by (simp add: lists_in_bounds_def)
qed

theorem validated_config_shown_as_is_witness:
  "xml_vcpus (default_config []) = 2 \<and> xml_memory_mib (default_config []) = 2048"
proof -
  have "config_in_bounds (default_config [])"
    by (simp add: config_in_bounds_def numbers_in_bounds_def lists_in_bounds_def
        topology_in_bounds_def default_config_def valid_cache_modes_def valid_io_modes_def)
  from validated_config_shown_as_is [OF this] show ?thesis by (simp add: default_config_def)
qed

text \<open>The encryption element of the disk names the machine's own identifier as the secret, never
  the identifier of the secret that the configuration records.\<close>

theorem recorded_secret_not_used:
  "encryption_xml h (c\<lparr>encryption_secret_uuid := Some s\<rparr>) = encryption_xml h c
   \<and> encryption_xml h (c\<lparr>disk_encrypted := True, encryption_secret_uuid := Some s\<rparr>)
     = ''      <encryption format='luks'>\<newline>        <secret type='passphrase' uuid=''
        @ sq (uuid_to_string h (vm_id c)) @ ''/>\<newline>      </encryption>\<newline>''"
  by (simp add: encryption_xml_def)

end
