(* ===== verification/Auth.thy ===== *)
theory Auth
  imports Prelude
begin

text \<open>
  The API-key middleware of vmm-api/src/auth.rs: path normalisation and the public paths, the
  comparison of the key, and the rate limiter behind its mutex. The limiter is a state machine:
  a request looks at it once before the key is read (\<open>gate\<close>) and once more when the key was wrong
  (\<open>record_failure\<close>), each under the lock, and requests run concurrently, so the two steps of
  different requests interleave in any order.

  An \<open>Instant\<close> is a number of nanoseconds.
\<close>

unbundle bit_operations_syntax

type_synonym instant = int

definition secs :: "int \<Rightarrow> int" where
  "secs n = n * 1000000000"

section \<open>Paths\<close>

definition hex_val :: "char \<Rightarrow> nat option" where
  "hex_val b =
     (let n = byte_of b in
      if 48 \<le> n \<and> n \<le> 57 then Some (n - 48)
      else if 97 \<le> n \<and> n \<le> 102 then Some (n - 97 + 10)
      else if 65 \<le> n \<and> n \<le> 70 then Some (n - 65 + 10)
      else None)"

text \<open>\<open>byte as char\<close> pushed onto a \<open>String\<close>: the code point below 256 in UTF-8.\<close>

definition push_byte :: "nat \<Rightarrow> string" where
  "push_byte n =
     (if n < 128 then [char_of n] else [char_of (192 + n div 64), char_of (128 + n mod 64)])"

function percent_decode :: "string \<Rightarrow> string" where
  "percent_decode [] = []"
| "percent_decode (c # cs) =
     (case (if c = CHR ''%'' then cs else []) of
        h # l # rest \<Rightarrow>
          (case (hex_val h, hex_val l) of
             (Some a, Some b) \<Rightarrow> push_byte (a * 16 + b) @ percent_decode rest
           | _ \<Rightarrow> push_byte (byte_of c) @ percent_decode cs)
      | _ \<Rightarrow> push_byte (byte_of c) @ percent_decode cs)"
  by pat_completeness auto
termination
  by (relation "measure length") (auto split: if_splits)

text \<open>The loop that collapses slashes; the flag is \<open>prev_slash\<close>. A slash is a character of its own in
  UTF-8, so the loop over characters is a loop over bytes.\<close>

fun collapse_slashes :: "bool \<Rightarrow> string \<Rightarrow> string" where
  "collapse_slashes prev [] = []"
| "collapse_slashes prev (c # cs) =
     (if c = CHR ''/'' then (if prev then [] else [CHR ''/'']) @ collapse_slashes True cs
      else c # collapse_slashes False cs)"

definition normalize_path :: "string \<Rightarrow> string" where
  "normalize_path path =
     (let n = collapse_slashes False (percent_decode path) in
      if 1 < length n \<and> ends_with n ''/'' then butlast n else n)"

definition is_public_path :: "string \<Rightarrow> bool" where
  "is_public_path normalized \<longleftrightarrow>
     normalized = ''/api/v1/health'' \<or> normalized = ''/api/v1/openapi.json''
     \<or> normalized = ''/api/v1/docs'' \<or> starts_with normalized ''/api/v1/docs/''
     \<or> normalized = ''/api/v1/redoc''"

section \<open>The key comparison\<close>

definition get_or :: "u8 \<Rightarrow> string \<Rightarrow> nat \<Rightarrow> u8" where
  "get_or d s i = (if i < length s then word_of_nat (byte_of (s ! i)) else d)"

definition key_diff :: "string \<Rightarrow> string \<Rightarrow> u8" where
  "key_diff key expected =
     fold (\<lambda>i diff. diff OR (get_or 0xFF key i XOR get_or 0xFE expected i))
       [0..<max (length key) (length expected)] 0
     OR (if length key \<noteq> length expected then 1 else 0)"

section \<open>The rate limiter\<close>

record rate_limiter =
  failures :: "instant list"
  locked_until :: "instant option"
  poisoned :: bool

definition initial_limiter :: rate_limiter where
  "initial_limiter = \<lparr>failures = [], locked_until = None, poisoned = False\<rparr>"

definition MAX_FAILED_ATTEMPTS :: nat where "MAX_FAILED_ATTEMPTS = 10"
definition WINDOW_SECS :: int where "WINDOW_SECS = 60"
definition LOCKOUT_SECS :: int where "LOCKOUT_SECS = 300"

datatype status = BadRequest | Unauthorized | TooManyRequests | InternalError

text \<open>Pruning keeps the failures inside the window.\<close>

definition prune_failures :: "instant \<Rightarrow> instant list \<Rightarrow> instant list" where
  "prune_failures now fs = List.filter (\<lambda>t. now - secs WINDOW_SECS < t) fs"

definition gate :: "instant \<Rightarrow> rate_limiter \<Rightarrow> status option \<times> rate_limiter" where
  "gate now rl =
     (if poisoned rl then (Some InternalError, rl)
      else case locked_until rl of
        Some until \<Rightarrow>
          (if now < until then (Some TooManyRequests, rl)
           else (None, rl\<lparr>locked_until := None, failures := []\<rparr>))
      | None \<Rightarrow> (None, rl\<lparr>failures := prune_failures now (failures rl)\<rparr>))"

definition record_failure :: "instant \<Rightarrow> rate_limiter \<Rightarrow> rate_limiter" where
  "record_failure now rl =
     (if poisoned rl then rl
      else let fs = prune_failures now (failures rl @ [now]) in
        if MAX_FAILED_ATTEMPTS \<le> length fs
        then rl\<lparr>failures := [], locked_until := Some (now + secs LOCKOUT_SECS)\<rparr>
        else rl\<lparr>failures := fs\<rparr>)"

section \<open>The middleware\<close>

text \<open>
  One request: its raw path, its X-API-Key header if it is there and printable. \<open>Inr ()\<close> hands the
  request on to the router. \<open>t1\<close> and \<open>t2\<close> are the two clock readings.
\<close>

definition key_check :: "string \<Rightarrow> string option \<Rightarrow> bool" where
  "key_check expected hdr = (case hdr of Some key \<Rightarrow> key_diff key expected = 0 | None \<Rightarrow> False)"

definition api_key_auth ::
  "string \<Rightarrow> instant \<Rightarrow> instant \<Rightarrow> string \<Rightarrow> string option \<Rightarrow> rate_limiter
     \<Rightarrow> (status + unit) \<times> rate_limiter" where
  "api_key_auth expected t1 t2 path hdr rl =
     (if str_contains path ''..'' then (Inl BadRequest, rl)
      else if is_public_path (normalize_path path) then (Inr (), rl)
      else case gate t1 rl of
        (Some st, rl1) \<Rightarrow> (Inl st, rl1)
      | (None, rl1) \<Rightarrow>
          (if key_check expected hdr then (Inr (), rl1)
           else (Inl Unauthorized, record_failure t2 rl1)))"

text \<open>Interleaving: the steps of concurrent requests, at times that do not go back. A poisoned lock
  can appear at any time.\<close>

datatype limiter_event = Gate instant "status option" | Failure instant | Poison

inductive lstep :: "instant \<times> rate_limiter \<Rightarrow> limiter_event \<Rightarrow> instant \<times> rate_limiter \<Rightarrow> bool" where
  step_gate: "t \<le> t' \<Longrightarrow> gate t' rl = (st, rl') \<Longrightarrow> lstep (t, rl) (Gate t' st) (t', rl')"
| step_failure: "t \<le> t' \<Longrightarrow> lstep (t, rl) (Failure t') (t', record_failure t' rl)"
| step_poison: "lstep (t, rl) Poison (t, rl\<lparr>poisoned := True\<rparr>)"

inductive lrun :: "instant \<times> rate_limiter \<Rightarrow> limiter_event list \<Rightarrow> instant \<times> rate_limiter \<Rightarrow> bool" where
  lrun_Nil: "lrun s [] s"
| lrun_Cons: "lstep s e s' \<Longrightarrow> lrun s' es s'' \<Longrightarrow> lrun s (e # es) s''"

inductive_cases lstep_cases: "lstep s e s'"
inductive_simps lrun_simps: "lrun s [] s'" "lrun s (e # es) s'"

section \<open>Lemmas\<close>

lemma fold_or_zero:
  "fold (\<lambda>i diff. diff OR f i) xs (d :: u8) = 0 \<longleftrightarrow> d = 0 \<and> (\<forall>i \<in> set xs. f i = 0)"
  by (induction xs arbitrary: d) (auto simp: or_eq_0_iff)

lemma xor_zero: "(a :: u8) XOR b = 0 \<longleftrightarrow> a = b"
  by (metis xor.assoc xor.left_neutral xor.right_neutral xor_self_eq)

lemma byte_word_inject: "(word_of_nat (byte_of a) :: u8) = word_of_nat (byte_of b) \<longleftrightarrow> a = b"
proof
  assume "(word_of_nat (byte_of a) :: u8) = word_of_nat (byte_of b)"
  then have "unat (word_of_nat (byte_of a) :: u8) = unat (word_of_nat (byte_of b) :: u8)" by simp
  then have "byte_of a = byte_of b"
    using nat_of_char_less_256 [of a] nat_of_char_less_256 [of b] by (simp add: unat_of_nat)
  then show "a = b" by (simp add: of_char_eq_iff)
qed simp

lemma key_diff_zero: "key_diff key expected = 0 \<longleftrightarrow> key = expected"
proof
  assume "key_diff key expected = 0"
  then have len: "length key = length expected"
    and bytes: "\<forall>i < length key. get_or 0xFF key i = get_or 0xFE expected i"
    unfolding key_diff_def or_eq_0_iff fold_or_zero by (auto simp: xor_zero split: if_splits)
  show "key = expected"
  proof (rule nth_equalityI [OF len])
    fix i assume i: "i < length key"
    with bytes len have "(word_of_nat (byte_of (key ! i)) :: u8) = word_of_nat (byte_of (expected ! i))"
      by (auto simp: get_or_def)
    then show "key ! i = expected ! i" by (simp add: byte_word_inject)
  qed
next
  assume "key = expected"
  then show "key_diff key expected = 0"
    by (simp add: key_diff_def or_eq_0_iff fold_or_zero get_or_def)
qed

lemma key_check_iff: "key_check expected hdr \<longleftrightarrow> hdr = Some expected"
  by (auto simp: key_check_def key_diff_zero split: option.splits)

text \<open>Slash collapsing.\<close>

fun no_double_slash :: "string \<Rightarrow> bool" where
  "no_double_slash (a # b # cs) = (\<not> (a = CHR ''/'' \<and> b = CHR ''/'') \<and> no_double_slash (b # cs))"
| "no_double_slash _ = True"

lemma collapse_slashes_ok:
  "no_double_slash (collapse_slashes p s) \<and> (p \<longrightarrow> collapse_slashes p s = [] \<or> hd (collapse_slashes p s) \<noteq> CHR ''/'')"
proof (induction p s rule: collapse_slashes.induct)
  case (2 p c cs)
  then show ?case
    by (cases "collapse_slashes True cs"; cases "collapse_slashes False cs") auto
qed simp

lemma no_double_slash_butlast: "no_double_slash s \<Longrightarrow> no_double_slash (butlast s)"
proof (induction s rule: no_double_slash.induct)
  case (1 a b cs)
  then show ?case by (cases cs) auto
qed auto

lemma no_double_slash_end: "no_double_slash (s @ [CHR ''/'', CHR ''/'']) \<Longrightarrow> False"
  by (induction s rule: no_double_slash.induct) auto

lemma ends_with_slash: "ends_with s ''/'' \<longleftrightarrow> s \<noteq> [] \<and> last s = CHR ''/''"
  by (cases s rule: rev_cases) (auto simp: ends_with_def)

lemma collapse_no_slash_id:
  "no_double_slash s \<Longrightarrow> p \<longrightarrow> s = [] \<or> hd s \<noteq> CHR ''/'' \<Longrightarrow> collapse_slashes p s = s"
proof (induction s arbitrary: p)
  case (Cons c cs)
  then show ?case by (cases cs) auto
qed simp

text \<open>The limiter.\<close>

definition limiter_ok :: "rate_limiter \<Rightarrow> bool" where
  "limiter_ok rl \<longleftrightarrow>
     length (failures rl) < MAX_FAILED_ATTEMPTS \<and> (locked_until rl = None \<or> failures rl = [])"

lemma prune_length: "length (prune_failures now fs) \<le> length fs"
  by (simp add: prune_failures_def)

lemma gate_cases:
  "gate now rl = (None, rl') \<longleftrightarrow>
     \<not> poisoned rl
     \<and> (case locked_until rl of
          None \<Rightarrow> rl' = rl\<lparr>failures := prune_failures now (failures rl)\<rparr>
        | Some u \<Rightarrow> u \<le> now \<and> rl' = rl\<lparr>locked_until := None, failures := []\<rparr>)"
  by (auto simp: gate_def split: option.splits)

lemma gate_reject: "gate now rl = (Some st, rl') \<Longrightarrow> rl' = rl"
  by (auto simp: gate_def split: option.splits if_splits)

lemma gate_ok: "limiter_ok rl \<Longrightarrow> gate now rl = (st, rl') \<Longrightarrow> limiter_ok rl'"
  using prune_length [of now "failures rl"]
  by (auto simp: gate_def limiter_ok_def MAX_FAILED_ATTEMPTS_def split: option.splits if_splits)

lemma gate_pass_unlocked: "gate now rl = (None, rl') \<Longrightarrow> locked_until rl' = None \<and> \<not> poisoned rl'"
  by (auto simp: gate_cases split: option.splits)

lemma record_failure_ok: "limiter_ok rl \<Longrightarrow> locked_until rl = None \<Longrightarrow> limiter_ok (record_failure now rl)"
  by (auto simp: record_failure_def limiter_ok_def Let_def MAX_FAILED_ATTEMPTS_def)

lemma auth_ok: "limiter_ok rl \<Longrightarrow> limiter_ok (snd (api_key_auth e t1 t2 p h rl))"
  by (auto simp: api_key_auth_def split: prod.splits option.splits
      dest: gate_ok gate_pass_unlocked intro: record_failure_ok)

section \<open>Requests one after the other\<close>

type_synonym timed_request = "instant \<times> instant \<times> string \<times> string option"

fun serve :: "string \<Rightarrow> timed_request list \<Rightarrow> rate_limiter \<Rightarrow> (status + unit) list \<times> rate_limiter" where
  "serve e [] rl = ([], rl)"
| "serve e ((t1, t2, p, h) # rs) rl =
     (let (r, rl1) = api_key_auth e t1 t2 p h rl; (out, rl2) = serve e rs rl1 in (r # out, rl2))"

definition within :: "instant \<Rightarrow> instant \<Rightarrow> timed_request list \<Rightarrow> bool" where
  "within a b rs \<longleftrightarrow> list_all (\<lambda>(t1, t2, p, h). a \<le> t1 \<and> t1 \<le> t2 \<and> t2 < b) rs"

definition unauthorized :: "(status + unit) list \<Rightarrow> nat" where
  "unauthorized out = length (List.filter (\<lambda>r. r = Inl Unauthorized) out)"

text \<open>How many more keys can be refused as wrong before \<open>b\<close>.\<close>

definition budget :: "instant \<Rightarrow> instant \<Rightarrow> rate_limiter \<Rightarrow> nat" where
  "budget a b rl =
     (case locked_until rl of
        Some u \<Rightarrow> if b < u then 0 else MAX_FAILED_ATTEMPTS
      | None \<Rightarrow> MAX_FAILED_ATTEMPTS - length (List.filter (\<lambda>t. a \<le> t) (failures rl)))"

lemma prune_window:
  assumes "a \<le> now" and "now < a + secs WINDOW_SECS"
  shows "List.filter (\<lambda>t. a \<le> t) (prune_failures now fs) = List.filter (\<lambda>t. a \<le> t) fs"
proof -
  have "(a \<le> t \<and> now - secs WINDOW_SECS < t) = (a \<le> t)" for t
    using assms by auto
  then show ?thesis by (simp add: prune_failures_def conj_commute cong: filter_cong)
qed

lemma gate_budget:
  assumes "limiter_ok rl" "gate now rl = (None, rl')" "a \<le> now" "now < b" "b \<le> a + secs WINDOW_SECS"
  shows "budget a b rl' = budget a b rl"
proof (cases "locked_until rl")
  case None
  with assms have rl': "rl' = rl\<lparr>failures := prune_failures now (failures rl)\<rparr>"
    by (simp add: gate_cases)
  from assms have "now < a + secs WINDOW_SECS" by simp
  with None rl' show ?thesis
    by (simp add: budget_def prune_window [OF assms(3)])
next
  case (Some u)
  with assms show ?thesis
    by (auto simp: gate_cases budget_def)
qed

lemma record_failure_budget:
  assumes "limiter_ok rl" "locked_until rl = None" "\<not> poisoned rl" "a \<le> now" "now < b"
    "b \<le> a + secs WINDOW_SECS"
  shows "Suc (budget a b (record_failure now rl)) \<le> budget a b rl"
proof -
  let ?n = "length (List.filter (\<lambda>t. a \<le> t) (failures rl))"
  let ?fs = "prune_failures now (failures rl @ [now])"
  have lt: "?n < MAX_FAILED_ATTEMPTS"
    using assms(1) length_filter_le [of "\<lambda>t. a \<le> t" "failures rl"]
    unfolding limiter_ok_def by linarith
  from assms have "now < a + secs WINDOW_SECS" by simp
  then have win: "List.filter (\<lambda>t. a \<le> t) ?fs = List.filter (\<lambda>t. a \<le> t) (failures rl) @ [now]"
    using prune_window [OF assms(4)] assms(4) by simp
  show ?thesis
  proof (cases "MAX_FAILED_ATTEMPTS \<le> length ?fs")
    case True
    with assms(3) have "locked_until (record_failure now rl) = Some (now + secs LOCKOUT_SECS)"
      by (simp add: record_failure_def Let_def)
    moreover have "b < now + secs LOCKOUT_SECS"
      using assms by (simp add: secs_def WINDOW_SECS_def LOCKOUT_SECS_def)
    ultimately have "budget a b (record_failure now rl) = 0"
      by (simp add: budget_def)
    with assms(2) lt show ?thesis by (simp add: budget_def)
  next
    case False
    with assms(3) have "record_failure now rl = rl\<lparr>failures := ?fs\<rparr>"
      by (simp add: record_failure_def Let_def)
    with assms(2) lt win show ?thesis by (simp add: budget_def)
  qed
qed

lemma auth_budget:
  assumes "limiter_ok rl" "a \<le> t1" "t1 \<le> t2" "t2 < b" "b \<le> a + secs WINDOW_SECS"
    and "api_key_auth e t1 t2 p h rl = (r, rl')"
  shows "(if r = Inl Unauthorized then 1 else 0) + budget a b rl' \<le> budget a b rl"
proof (cases "gate t1 rl")
  case (Pair st rl1)
  show ?thesis
  proof (cases st)
    case None
    from Pair None have g: "gate t1 rl = (None, rl1)" by simp
    have "budget a b rl1 = budget a b rl"
      using gate_budget [OF assms(1) g assms(2) _ assms(5)] assms(3,4) by simp
    moreover have "Suc (budget a b (record_failure t2 rl1)) \<le> budget a b rl1"
      using record_failure_budget [of rl1 a t2 b] gate_pass_unlocked [OF g] gate_ok [OF assms(1) g] assms
      by simp
    ultimately show ?thesis
      using assms(6) g by (auto simp: api_key_auth_def split: if_splits)
  next
    case (Some s)
    with Pair gate_reject have "rl1 = rl" by blast
    with Pair Some assms(6) show ?thesis
      by (auto simp: api_key_auth_def gate_def split: if_splits option.splits)
  qed
qed

lemma serve_budget:
  "limiter_ok rl \<Longrightarrow> within a b rs \<Longrightarrow> b \<le> a + secs WINDOW_SECS \<Longrightarrow>
     unauthorized (fst (serve e rs rl)) + budget a b (snd (serve e rs rl)) \<le> budget a b rl"
proof (induction rs arbitrary: rl)
  case (Cons q rs)
  obtain t1 t2 p h where q: "q = (t1, t2, p, h)" by (cases q)
  obtain r rl1 where r: "api_key_auth e t1 t2 p h rl = (r, rl1)" by fastforce
  obtain out rl2 where s: "serve e rs rl1 = (out, rl2)" by fastforce
  have "limiter_ok rl1" using auth_ok [OF Cons.prems(1), of e t1 t2 p h] r by simp
  moreover have "within a b rs" using Cons.prems(2) by (simp add: within_def)
  ultimately have "unauthorized (fst (serve e rs rl1)) + budget a b (snd (serve e rs rl1)) \<le> budget a b rl1"
    using Cons.IH Cons.prems(3) by blast
  moreover have "(if r = Inl Unauthorized then 1 else 0) + budget a b rl1 \<le> budget a b rl"
    using auth_budget [OF Cons.prems(1) _ _ _ Cons.prems(3) r] Cons.prems(2) q by (simp add: within_def)
  ultimately show ?case
    using q r s by (simp add: unauthorized_def split: if_splits)
qed (simp add: unauthorized_def)

lemma serve_ok: "limiter_ok rl \<Longrightarrow> limiter_ok (snd (serve e rs rl))"
proof (induction rs arbitrary: rl)
  case (Cons q rs)
  obtain t1 t2 p h where q: "q = (t1, t2, p, h)" by (cases q)
  show ?case
    using Cons.IH [OF auth_ok [OF Cons.prems, of e t1 t2 p h]] q by (simp add: case_prod_beta)
qed simp

lemma lrun_failures:
  "lrun (t, rl) (replicate n (Failure t)) (t, (record_failure t ^^ n) rl)"
proof (induction n arbitrary: rl)
  case (Suc n)
  have "lstep (t, rl) (Failure t) (t, record_failure t rl)" by (rule step_failure) simp
  from lrun_Cons [OF this Suc.IH] show ?case by (simp add: funpow_swap1)
qed (simp add: lrun_Nil)

lemma record_failures_below:
  "n < 10 \<Longrightarrow> (record_failure t ^^ n) initial_limiter
     = \<lparr>failures = replicate n t, locked_until = None, poisoned = False\<rparr>"
proof (induction n)
  case (Suc n)
  have "List.filter (\<lambda>x. t - secs WINDOW_SECS < x) (replicate n t) = replicate n t"
    by (simp add: secs_def WINDOW_SECS_def)
  with Suc show ?case
    by (simp add: record_failure_def prune_failures_def MAX_FAILED_ATTEMPTS_def secs_def
        WINDOW_SECS_def replicate_append_same)
qed (simp add: initial_limiter_def)

lemma budget_max: "budget a b rl \<le> MAX_FAILED_ATTEMPTS"
  by (simp add: budget_def split: option.splits)

text \<open>Under any interleaving a lock is only ever extended.\<close>

lemma lstep_time: "lstep (t, rl) e (t', rl') \<Longrightarrow> t \<le> t'"
  by (auto elim: lstep_cases)

lemma lrun_time: "lrun s es s' \<Longrightarrow> fst s \<le> fst s'"
proof (induction rule: lrun.induct)
  case (lrun_Cons s e s' es s'')
  then show ?case using lstep_time [of "fst s" "snd s" e "fst s'" "snd s'"] by simp
qed simp

definition lock_bounded :: "instant \<times> rate_limiter \<Rightarrow> bool" where
  "lock_bounded s \<longleftrightarrow> (\<forall>u. locked_until (snd s) = Some u \<longrightarrow> u \<le> fst s + secs LOCKOUT_SECS)"

lemma lstep_lock_bounded: "lstep s e s' \<Longrightarrow> lock_bounded s \<Longrightarrow> lock_bounded s'"
  by (induction rule: lstep.induct)
    (auto simp: lock_bounded_def gate_def record_failure_def Let_def split: option.splits if_splits)

lemma lrun_lock_bounded: "lrun s es s' \<Longrightarrow> lock_bounded s \<Longrightarrow> lock_bounded s'"
  by (induction rule: lrun.induct) (auto dest: lstep_lock_bounded)

definition locked_beyond :: "instant \<Rightarrow> instant \<times> rate_limiter \<Rightarrow> bool" where
  "locked_beyond u s \<longleftrightarrow> (\<exists>v. locked_until (snd s) = Some v \<and> u \<le> v)"

lemma lstep_locked:
  "lstep s e s' \<Longrightarrow> lock_bounded s \<Longrightarrow> locked_beyond u s \<Longrightarrow> fst s' < u \<Longrightarrow>
     locked_beyond u s' \<and> (\<forall>g. e \<noteq> Gate g None)"
proof (induction rule: lstep.induct)
  case (step_gate t t' rl st rl')
  then show ?case by (auto simp: locked_beyond_def gate_def split: if_splits)
next
  case (step_failure t t' rl)
  then show ?case
    by (auto simp: locked_beyond_def lock_bounded_def record_failure_def Let_def)
qed (auto simp: locked_beyond_def)

lemma lrun_locked:
  "lrun s es s' \<Longrightarrow> lock_bounded s \<Longrightarrow> locked_beyond u s \<Longrightarrow> fst s' < u \<Longrightarrow>
     locked_beyond u s' \<and> (\<forall>g. Gate g None \<notin> set es)"
proof (induction rule: lrun.induct)
  case (lrun_Cons s e s' es s'')
  have "fst s' < u" using lrun_time [OF lrun_Cons.hyps(2)] lrun_Cons.prems(3) by simp
  with lrun_Cons lstep_locked [of s e s' u] lstep_lock_bounded [of s e s'] show ?case by auto
qed simp

section \<open>Properties\<close>


text \<open>C4: In any 60 seconds the middleware, handling one request after the other, tells at most ten
  times that a key is wrong, from any state that it can be in.\<close>

theorem wrong_keys_bounded:
  assumes "limiter_ok rl" and "within a b rs" and "b \<le> a + secs WINDOW_SECS"
  shows "unauthorized (fst (serve expected rs rl)) \<le> 10
    \<and> limiter_ok (snd (serve expected rs rl))"
proof
  show "unauthorized (fst (serve expected rs rl)) \<le> 10"
    using serve_budget [OF assms, of expected] budget_max [of a b rl] by (simp add: MAX_FAILED_ATTEMPTS_def)
  show "limiter_ok (snd (serve expected rs rl))"
    by (rule serve_ok [OF assms(1)])
qed

theorem wrong_keys_bounded_witness:
  "unauthorized (fst (serve ''k'' (replicate 40 (5, 6, ''/api/v1/vms'', Some ''x'')) initial_limiter)) \<le> 10"
proof -
  have "limiter_ok initial_limiter"
    by (simp add: limiter_ok_def initial_limiter_def MAX_FAILED_ATTEMPTS_def)
  moreover have "within 0 (secs 60) (replicate 40 (5, 6, ''/api/v1/vms'', Some ''x''))"
    by (simp add: within_def list_all_iff secs_def)
  ultimately show ?thesis
    using wrong_keys_bounded by (simp add: WINDOW_SECS_def)
qed

text \<open>C5: However concurrent requests interleave, once the limiter is locked until a time, every
  request that is checked before that time is rejected; failures recorded late only extend the
  lock.\<close>

theorem lockout_holds:
  assumes "lrun (t0, initial_limiter) es1 (t, rl)" and "locked_until rl = Some u"
    and "lrun (t, rl) es2 (t', rl')" and "t' < u"
  shows "Gate g None \<notin> set es2 \<and> (\<exists>v. locked_until rl' = Some v \<and> u \<le> v)"
proof -
  have "lock_bounded (t0, initial_limiter)"
    by (simp add: lock_bounded_def initial_limiter_def)
  with assms(1) have "lock_bounded (t, rl)" by (rule lrun_lock_bounded)
  moreover have "locked_beyond u (t, rl)"
    using assms(2) by (simp add: locked_beyond_def)
  ultimately show ?thesis
    using lrun_locked [OF assms(3), of u] assms(4) by (auto simp: locked_beyond_def)
qed

theorem lockout_holds_witness:
  "locked_until ((record_failure 0 ^^ 10) initial_limiter) = Some (secs 300)
   \<and> Gate (secs 299) None \<notin> set [Gate (secs 299) (Some TooManyRequests)]"
proof -
  have ten: "(record_failure 0 ^^ 10) initial_limiter = \<lparr>failures = [], locked_until = Some (secs 300), poisoned = False\<rparr>"
    using record_failures_below [of 9 0] funpow_add [of 1 9 "record_failure 0"]
    by (simp add: record_failure_def prune_failures_def MAX_FAILED_ATTEMPTS_def WINDOW_SECS_def
        LOCKOUT_SECS_def secs_def replicate_app_Cons_same)
  let ?rl = "(record_failure 0 ^^ 10) initial_limiter"
  have lock: "locked_until ?rl = Some (secs 300)" by (simp add: ten)
  have "lstep (0, ?rl) (Gate (secs 299) (Some TooManyRequests)) (secs 299, ?rl)"
    by (rule step_gate) (simp_all add: ten gate_def secs_def)
  then have "lrun (0, ?rl) [Gate (secs 299) (Some TooManyRequests)] (secs 299, ?rl)"
    by (auto intro: lrun.intros)
  from lockout_holds [OF lrun_failures [of 0 initial_limiter 10] lock this] lock
  show ?thesis by (simp add: secs_def)
qed

text \<open>A path with percent-encoded dots is not taken for a traversal: it passes the test for two
  dots, is decoded after it, and is then public by its prefix.\<close>

theorem encoded_traversal_is_public:
  "fst (api_key_auth expected t1 t2 ''/api/v1/docs/%2e%2e/vms'' None rl) = Inr ()
   \<and> normalize_path ''/api/v1/docs/%2e%2e/vms'' = ''/api/v1/docs/../vms''"
proof -
  have norm: "normalize_path ''/api/v1/docs/%2e%2e/vms'' = ''/api/v1/docs/../vms''"
    by code_simp
  moreover have "\<not> str_contains ''/api/v1/docs/%2e%2e/vms'' ''..''" by simp
  moreover have "is_public_path ''/api/v1/docs/../vms''" by (simp add: is_public_path_def)
  ultimately show ?thesis by (simp add: api_key_auth_def)
qed

end
