(* ===== verification/Net_Addr.thy ===== *)
theory Net_Addr
  imports Prelude
begin

text \<open>
  The address parser of the Rust standard library, \<open>IpAddr::from_str\<close>, as far as
  port\_forward.rs uses it: dotted IPv4 (one to three digits without a leading zero), IPv6 with
  one \<open>::\<close> and an embedded IPv4 tail; and the address classes. Parsers take a text and return the
  value and the rest.
\<close>

datatype ip_addr = V4 u8 u8 u8 u8 | V6 "u16 list"

type_synonym 'a parser = "string \<Rightarrow> ('a \<times> string) option"

definition digit_of :: "nat \<Rightarrow> char \<Rightarrow> nat option" where
  "digit_of radix c =
     (let n = byte_of c;
          d = (if 48 \<le> n \<and> n \<le> 57 then n - 48
               else if 97 \<le> n \<and> n \<le> 122 then n - 97 + 10
               else if 65 \<le> n \<and> n \<le> 90 then n - 65 + 10 else radix)
      in if d < radix then Some d else None)"

text \<open>\<open>read_number\<close>: the loop reads digits while there are any and fails on overflow of \<open>m\<close> or when
  there are more than \<open>max_digits\<close>. The state is the value and the number of digits.\<close>

fun read_digits :: "nat \<Rightarrow> nat \<Rightarrow> nat \<Rightarrow> nat \<Rightarrow> nat \<Rightarrow> (nat \<times> nat) parser" where
  "read_digits radix max_digits m v k [] = Some ((v, k), [])"
| "read_digits radix max_digits m v k (c # cs) =
     (case digit_of radix c of
        None \<Rightarrow> Some ((v, k), c # cs)
      | Some d \<Rightarrow>
          (if m < v * radix + d \<or> max_digits \<le> k then None
           else read_digits radix max_digits m (v * radix + d) (Suc k) cs))"

definition read_number :: "nat \<Rightarrow> nat \<Rightarrow> nat \<Rightarrow> bool \<Rightarrow> nat parser" where
  "read_number radix max_digits m allow_zero_prefix s =
     (case read_digits radix max_digits m 0 0 s of
        None \<Rightarrow> None
      | Some ((v, k), rest) \<Rightarrow>
          (if k = 0 then None
           else if \<not> allow_zero_prefix \<and> hd s = CHR ''0'' \<and> 1 < k then None
           else Some (v, rest)))"

definition read_char :: "char \<Rightarrow> unit parser" where
  "read_char c s = (case s of x # xs \<Rightarrow> if x = c then Some ((), xs) else None | [] \<Rightarrow> None)"

text \<open>\<open>read_separator\<close>: before every element but the first.\<close>

definition read_separator :: "char \<Rightarrow> nat \<Rightarrow> 'a parser \<Rightarrow> 'a parser" where
  "read_separator sep i inner s =
     (if 0 < i then Option.bind (read_char sep s) (\<lambda>(_, r). inner r) else inner s)"

abbreviation read_octet :: "nat parser" where
  "read_octet \<equiv> read_number 10 3 255 False"

fun read_octets :: "nat \<Rightarrow> nat \<Rightarrow> nat list parser" where
  "read_octets i 0 s = Some ([], s)"
| "read_octets i (Suc n) s =
     (case read_separator (CHR ''.'') i read_octet s of
        None \<Rightarrow> None
      | Some (v, r) \<Rightarrow> map_option (\<lambda>(vs, r'). (v # vs, r')) (read_octets (Suc i) n r))"

definition read_ipv4 :: "nat list parser" where
  "read_ipv4 s = read_octets 0 4 s"

text \<open>\<open>read_groups\<close>: at most \<open>n\<close> more of \<open>limit\<close> groups, from position \<open>i\<close>; the flag tells that an
  IPv4 tail ended them. It always succeeds with what could be read.\<close>

fun read_groups :: "nat \<Rightarrow> nat \<Rightarrow> string \<Rightarrow> nat list \<times> bool \<times> string" where
  "read_groups i 0 s = ([], False, s)"
| "read_groups i (Suc n) s =
     (case (if 0 < n then read_separator (CHR '':'') i read_ipv4 s else None) of
        Some (q, r) \<Rightarrow> ([q ! 0 * 256 + q ! 1, q ! 2 * 256 + q ! 3], True, r)
      | None \<Rightarrow>
          (case read_separator (CHR '':'') i (read_number 16 4 65535 True) s of
             None \<Rightarrow> ([], False, s)
           | Some (g, r) \<Rightarrow>
               (let (gs, v4, r') = read_groups (Suc i) n r in (g # gs, v4, r'))))"

definition read_ipv6 :: "nat list parser" where
  "read_ipv6 s =
     (let (head, head_ipv4, r) = read_groups 0 8 s in
      if length head = 8 then Some (head, r)
      else if head_ipv4 then None
      else case Option.bind (read_char (CHR '':'') r) (\<lambda>(_, r'). read_char (CHR '':'') r') of
        None \<Rightarrow> None
      | Some (_, r2) \<Rightarrow>
          (let (tl_groups, _, r3) = read_groups 0 (8 - (length head + 1)) r2
           in Some (head @ replicate (8 - length head - length tl_groups) 0 @ tl_groups, r3)))"

definition parse_ip :: "string \<Rightarrow> ip_addr option" where
  "parse_ip s =
     (case read_ipv4 s of
        Some ([a, b, c, d], []) \<Rightarrow> Some (V4 (of_nat a) (of_nat b) (of_nat c) (of_nat d))
      | Some _ \<Rightarrow> None
      | None \<Rightarrow>
          (case read_ipv6 s of
             Some (gs, []) \<Rightarrow> Some (V6 (map of_nat gs))
           | _ \<Rightarrow> None))"

fun is_loopback :: "ip_addr \<Rightarrow> bool" where
  "is_loopback (V4 a b c d) = (a = 127)"
| "is_loopback (V6 gs) = (gs = [0, 0, 0, 0, 0, 0, 0, 1])"

fun is_multicast :: "ip_addr \<Rightarrow> bool" where
  "is_multicast (V4 a b c d) = (224 \<le> a \<and> a \<le> 239)"
| "is_multicast (V6 gs) = (case gs of g # _ \<Rightarrow> drop_bit 8 g = 0xFF | [] \<Rightarrow> False)"

fun is_unspecified :: "ip_addr \<Rightarrow> bool" where
  "is_unspecified (V4 a b c d) = (a = 0 \<and> b = 0 \<and> c = 0 \<and> d = 0)"
| "is_unspecified (V6 gs) = (gs = [0, 0, 0, 0, 0, 0, 0, 0])"

definition is_broadcast :: "ip_addr \<Rightarrow> bool" where
  "is_broadcast a = (a = V4 255 255 255 255)"

definition show_ipv4 :: "u8 \<Rightarrow> u8 \<Rightarrow> u8 \<Rightarrow> u8 \<Rightarrow> string" where
  "show_ipv4 a b c d = dec_w a @ ''.'' @ dec_w b @ ''.'' @ dec_w c @ ''.'' @ dec_w d"

section \<open>The parser consumes only address characters\<close>

definition addr_char :: "char \<Rightarrow> bool" where
  "addr_char c \<longleftrightarrow> ascii_hexdigit c \<or> c = CHR ''.'' \<or> c = CHR '':''"

definition eats :: "'a parser \<Rightarrow> bool" where
  "eats p \<longleftrightarrow> (\<forall>s v r. p s = Some (v, r) \<longrightarrow> (\<exists>u. s = u @ r \<and> list_all addr_char u))"

lemma eatsD: "eats p \<Longrightarrow> p s = Some (v, r) \<Longrightarrow> \<exists>u. s = u @ r \<and> list_all addr_char u"
  by (auto simp: eats_def)

lemma digit_of_hex: "digit_of radix c = Some d \<Longrightarrow> radix \<le> 16 \<Longrightarrow> addr_char c"
  by (auto simp: digit_of_def addr_char_def ascii_defs Let_def split: if_splits)

lemma eats_digits: "radix \<le> 16 \<Longrightarrow> eats (read_digits radix k m v n)"
  unfolding eats_def
proof (intro allI impI)
  fix s w r
  assume "radix \<le> 16" "read_digits radix k m v n s = Some (w, r)"
  then show "\<exists>u. s = u @ r \<and> list_all addr_char u"
  proof (induction s arbitrary: v n)
    case (Cons c cs)
    show ?case
    proof (cases "digit_of radix c")
      case (Some d)
      with Cons.prems obtain u where "cs = u @ r" "list_all addr_char u"
        using Cons.IH by (fastforce split: if_splits)
      with digit_of_hex [OF Some Cons.prems(1)] show ?thesis
        by (intro exI [of _ "c # u"]) simp
    qed (use Cons.prems in auto)
  qed auto
qed

lemma eats_number: "radix \<le> 16 \<Longrightarrow> eats (read_number radix k m z)"
  using eats_digits [of radix k m 0 0]
  by (auto simp: eats_def read_number_def split: option.splits if_splits)

lemma eats_char: "addr_char c \<Longrightarrow> eats (read_char c)"
  by (auto simp: eats_def read_char_def split: list.splits if_splits)

lemma eats_separator:
  assumes "addr_char c" and "eats p"
  shows "eats (read_separator c i p)"
  unfolding eats_def
proof (intro allI impI)
  fix s v r
  assume run: "read_separator c i p s = Some (v, r)"
  show "\<exists>u. s = u @ r \<and> list_all addr_char u"
  proof (cases "0 < i")
    case True
    with run obtain s' where "s = c # s'" "p s' = Some (v, r)"
      by (auto simp: read_separator_def read_char_def split: list.splits if_splits)
    with eatsD [OF assms(2)] assms(1) show ?thesis
      by (metis append_Cons list.pred_inject(2))
  next
    case False
    with run eatsD [OF assms(2)] show ?thesis by (simp add: read_separator_def)
  qed
qed

lemma addr_seps [simp]: "addr_char (CHR ''.'')" "addr_char (CHR '':'')"
  by (simp_all add: addr_char_def)

lemma eats_octets: "eats (read_octets i n)"
  unfolding eats_def
proof (intro allI impI)
  fix s v r
  assume "read_octets i n s = Some (v, r)"
  then show "\<exists>u. s = u @ r \<and> list_all addr_char u"
  proof (induction i n s arbitrary: v r rule: read_octets.induct)
    case (2 i n s)
    then obtain w r1 vs where one: "read_separator (CHR ''.'') i read_octet s = Some (w, r1)"
      and more: "read_octets (Suc i) n r1 = Some (vs, r)"
      by (auto split: option.splits)
    have "eats (read_separator (CHR ''.'') i read_octet)"
      by (intro eats_separator eats_number) simp_all
    from eatsD [OF this one] 2(1) [OF one _ more] show ?case
      by (metis (no_types, lifting) append.assoc list_all_append)
  qed simp
qed

lemma eats_ipv4: "eats read_ipv4"
  using eats_octets [of 0 4] by (simp add: eats_def read_ipv4_def)

lemma eats_groups: "read_groups i n s = (gs, v4, r) \<Longrightarrow> \<exists>u. s = u @ r \<and> list_all addr_char u"
proof (induction i n s arbitrary: gs v4 r rule: read_groups.induct)
  case (2 i n s)
  have eats: "eats (read_separator (CHR '':'') i read_ipv4)"
    "eats (read_separator (CHR '':'') i (read_number 16 4 65535 True))"
    by (intro eats_separator eats_ipv4 eats_number; simp)+
  show ?case
  proof (cases "if 0 < n then read_separator (CHR '':'') i read_ipv4 s else None")
    case (Some qr)
    then obtain q r' where qr: "qr = (q, r')" by (cases qr)
    with Some 2(2) have "r' = r" by simp
    with Some qr have "read_separator (CHR '':'') i read_ipv4 s = Some (q, r)"
      by (auto split: if_splits)
    from eatsD [OF eats(1) this] show ?thesis .
  next
    case None
    note v4_none = this
    show ?thesis
    proof (cases "read_separator (CHR '':'') i (read_number 16 4 65535 True) s")
      case None
      with v4_none 2(2) have "s = r" by simp
      then show ?thesis by (intro exI [of _ "[]"]) simp
    next
      case (Some gr)
      obtain g r1 where gr: "gr = (g, r1)" by (cases gr)
      obtain gs1 w r2 where rest: "read_groups (Suc i) n r1 = (gs1, w, r2)" by (cases "read_groups (Suc i) n r1")
      with v4_none Some gr 2(2) have "r2 = r" by simp
      with 2(1) [OF v4_none Some gr [symmetric]] rest obtain u where "r1 = u @ r" "list_all addr_char u" by blast
      with eatsD [OF eats(2)] Some gr show ?thesis
        by (metis append.assoc list_all_append)
    qed
  qed
qed simp

lemma eats_ipv6: "eats read_ipv6"
  unfolding eats_def
proof (intro allI impI)
  fix s v r
  assume run: "read_ipv6 s = Some (v, r)"
  obtain hd_groups h4 r1 where head: "read_groups 0 8 s = (hd_groups, h4, r1)"
    by (cases "read_groups 0 8 s")
  from eats_groups [OF head] obtain u where u: "s = u @ r1" "list_all addr_char u" by blast
  show "\<exists>u. s = u @ r \<and> list_all addr_char u"
  proof (cases "length hd_groups = 8")
    case True
    with run head u show ?thesis by (auto simp: read_ipv6_def)
  next
    case False
    with run head obtain r2 where colons: "r1 = CHR '':'' # CHR '':'' # r2"
      and tl: "snd (snd (read_groups 0 (8 - (length hd_groups + 1)) r2)) = r"
      by (auto simp: read_ipv6_def read_char_def Let_def case_prod_beta
          split: if_splits option.splits list.splits bind_splits)
    obtain gs w r3 where "read_groups 0 (8 - (length hd_groups + 1)) r2 = (gs, w, r3)"
      by (cases "read_groups 0 (8 - (length hd_groups + 1)) r2")
    with tl eats_groups obtain u2 where "r2 = u2 @ r" "list_all addr_char u2" by fastforce
    with u colons show ?thesis
      by (intro exI [of _ "u @ '':'' @ '':'' @ u2"]) simp
  qed
qed

lemma parse_ip_chars: "parse_ip s = Some a \<Longrightarrow> list_all addr_char s"
  using eatsD [OF eats_ipv4, of s _ "[]"] eatsD [OF eats_ipv6, of s _ "[]"]
  by (auto simp: parse_ip_def split: option.splits list.splits)

text \<open>Dotted decimals are read back.\<close>

lemma is_digit_of: "ascii_digit c \<Longrightarrow> digit_of 10 c = Some (byte_of c - 48)"
  by (auto simp: digit_of_def ascii_digit_def Let_def)

lemma digit_of_digit_char: "d < 10 \<Longrightarrow> digit_of 10 (digit_char d) = Some d"
  using digit_char_digit [of d] by (simp add: is_digit_of)

definition ends_number :: "string \<Rightarrow> bool" where
  "ends_number r \<longleftrightarrow> (case r of [] \<Rightarrow> True | c # _ \<Rightarrow> digit_of 10 c = None)"

lemma read_digits_end: "ends_number r \<Longrightarrow> read_digits 10 k m v n r = Some ((v, n), r)"
  by (cases r) (auto simp: ends_number_def)

lemma digit_char_nonzero: "0 < d \<Longrightarrow> d < 10 \<Longrightarrow> digit_char d \<noteq> CHR ''0''"
  using digit_char_digit [of d] by auto

lemma read_octet_dec:
  assumes "n \<le> 255" and "ends_number r"
  shows "read_octet (dec n @ r) = Some (n, r)"
proof -
  consider "n < 10" | "10 \<le> n" "n < 100" | "100 \<le> n" by linarith
  then show ?thesis
  proof cases
    case 1
    with assms(2) show ?thesis
      by (simp add: read_number_def dec_small digit_of_digit_char read_digits_end)
  next
    case 2
    then have dec: "dec n = [digit_char (n div 10), digit_char (n mod 10)]"
      by (subst dec.simps) (simp add: dec_small)
    have "digit_char (n div 10) \<noteq> CHR ''0''"
      using 2 by (intro digit_char_nonzero) linarith+
    with 2 assms show ?thesis
      by (simp add: read_number_def dec digit_of_digit_char read_digits_end)
  next
    case 3
    with assms have "n div 100 < 10" "n div 10 mod 10 < 10" by simp_all
    have dec: "dec n = [digit_char (n div 100), digit_char (n div 10 mod 10), digit_char (n mod 10)]"
      using 3 assms by (subst dec.simps, subst dec.simps) (simp add: dec_small div_mult2_eq [symmetric])
    have "digit_char (n div 100) \<noteq> CHR ''0''"
      using 3 assms by (intro digit_char_nonzero) linarith+
    moreover have "100 * (n div 100) + n div 10 mod 10 * 10 + n mod 10 = n"
    proof -
      have "n div 100 = n div 10 div 10" by (simp add: div_mult2_eq [symmetric])
      moreover have "n div 10 div 10 * 10 + n div 10 mod 10 = n div 10" "n div 10 * 10 + n mod 10 = n"
        by (rule div_mult_mod_eq)+
      ultimately show ?thesis by linarith
    qed
    ultimately show ?thesis
      using 3 assms by (simp add: read_number_def dec digit_of_digit_char read_digits_end)
  qed
qed

lemma ends_number_simps [simp]: "ends_number []" "ends_number (CHR ''.'' # s)"
  by (simp_all add: ends_number_def digit_of_def)

lemma read_sep_octet:
  "n \<le> 255 \<Longrightarrow> ends_number r \<Longrightarrow>
     read_separator (CHR ''.'') (Suc i) read_octet (CHR ''.'' # dec n @ r) = Some (n, r)"
  by (simp add: read_separator_def read_char_def read_octet_dec)

lemma u8_small: "unat (a :: u8) \<le> 255"
proof -
  have "unat a < 2 ^ LENGTH(8)" by (rule unsigned_less)
  then show ?thesis by simp
qed

lemma read_show_ipv4:
  "read_ipv4 (show_ipv4 a b c d) = Some ([unat a, unat b, unat c, unat d], [])"
proof -
  have "read_separator (CHR ''.'') 0 read_octet (dec_w a @ CHR ''.'' # s) = Some (unat a, CHR ''.'' # s)" for s
    by (simp add: read_separator_def dec_w_def read_octet_dec u8_small)
  moreover have "read_separator (CHR ''.'') (Suc i) read_octet (CHR ''.'' # dec_w x @ r) = Some (unat x, r)"
    if "ends_number r" for i and x :: u8 and r
    using that by (simp add: dec_w_def read_sep_octet u8_small)
  moreover have "read_separator (CHR ''.'') (Suc i) read_octet (CHR ''.'' # dec_w x) = Some (unat x, [])"
    for i and x :: u8
    using calculation(2) [of "[]" i x] by simp
  ultimately show ?thesis
    by (simp add: read_ipv4_def show_ipv4_def eval_nat_numeral)
qed

lemma parse_show_ipv4: "parse_ip (show_ipv4 a b c d) = Some (V4 a b c d)"
  by (simp add: parse_ip_def read_show_ipv4)

end
