(* ===== verification/Port_Forward.thy ===== *)
theory Port_Forward
  imports Names Net_Addr Text_Lines "HOL-Library.AList" "HOL-Library.Multiset"
begin

text \<open>
  Port forwarding of vmm-core/src/port\_forward.rs: the checks, the iptables commands, the parser
  of the rule listing, and the automatic forwards, whose table (VM name to guest port to host
  port) is the state.

  iptables and virsh are outside: \<open>run history args\<close> is what the command \<open>args\<close> answers after the
  commands in \<open>history\<close>, and every call adds itself to the history. A \<open>HashMap\<close> or \<open>HashSet\<close> is an
  association list or list without repetitions, whose order is the (arbitrary) iteration order.
  The calls to one VM's synchronisation are taken one at a time.
\<close>

datatype cmd_output = NotRun string | Exited bool string string

type_synonym history = "string list list"
type_synonym runner = "history \<Rightarrow> string list \<Rightarrow> cmd_output"

section \<open>Checks\<close>

definition validate_guest_ip :: "string \<Rightarrow> ip_addr vmm_result" where
  "validate_guest_ip ip_str =
     (case parse_ip ip_str of
        None \<Rightarrow> Inl (Other (''Invalid guest IP address: '' @ sq ip_str))
      | Some addr \<Rightarrow>
          (case addr of
             V4 _ _ _ _ \<Rightarrow>
               (if is_unspecified addr then
                  Inl (Other ''Guest IP 0.0.0.0 (unspecified) is not allowed'')
                else if is_broadcast addr then
                  Inl (Other ''Guest IP 255.255.255.255 (broadcast) is not allowed'')
                else if is_loopback addr then
                  Inl (Other ''Guest IP in loopback range (127.0.0.0/8) is not allowed'')
                else if is_multicast addr then
                  Inl (Other ''Guest IP in multicast range (224.0.0.0/4) is not allowed'')
                else Inr addr)
           | V6 _ \<Rightarrow>
               (if is_unspecified addr then Inl (Other ''Guest IP :: (unspecified) is not allowed'')
                else if is_loopback addr then Inl (Other ''Guest IP ::1 (loopback) is not allowed'')
                else if is_multicast addr then
                  Inl (Other ''Guest IP in multicast range (ff00::/8) is not allowed'')
                else Inr addr)))"

definition is_pure_loopback :: "string \<Rightarrow> bool" where
  "is_pure_loopback addr = (case parse_ip addr of Some ip \<Rightarrow> is_loopback ip | None \<Rightarrow> False)"

section \<open>The commands\<close>

definition proto_name :: "port_protocol \<Rightarrow> string" where
  "proto_name p = (case p of Tcp \<Rightarrow> ''tcp'' | Udp \<Rightarrow> ''udp'')"

definition forward_args :: "string \<Rightarrow> string \<Rightarrow> string \<Rightarrow> port_forward_rule \<Rightarrow> string list" where
  "forward_args op vm guest_ip rule =
     [''iptables'', ''-t'', ''nat'', op, ''PREROUTING'', ''-p'', proto_name (pf_protocol rule),
      ''--dport'', dec_w (host_port rule), ''-j'', ''DNAT'', ''--to-destination'',
      guest_ip @ '':'' @ dec_w (guest_port rule), ''-m'', ''comment'', ''--comment'',
      ''libre-vmm:'' @ vm]"

definition apply_port_forward ::
  "runner \<Rightarrow> history \<Rightarrow> string \<Rightarrow> string \<Rightarrow> port_forward_rule \<Rightarrow> unit vmm_result \<times> history" where
  "apply_port_forward run hist vm guest_ip rule =
     (case pf_validate_vm_name vm of
        Inl e \<Rightarrow> (Inl e, hist)
      | Inr _ \<Rightarrow>
          if host_port rule = 0 \<or> guest_port rule = 0
          then (Inl (Other ''Invalid port number (must be 1-65535)''), hist)
          else (case validate_guest_ip guest_ip of
            Inl e \<Rightarrow> (Inl e, hist)
          | Inr _ \<Rightarrow>
              (let args = forward_args ''-A'' vm guest_ip rule; hist' = hist @ [args] in
               case run hist args of
                 NotRun e \<Rightarrow> (Inl (Other (''iptables not found: '' @ e)), hist')
               | Exited ok out stderr \<Rightarrow>
                   (if \<not> ok then (Inl (Other (''Port forward failed (may need root): '' @ stderr)), hist')
                    else (Inr (), hist')))))"

definition remove_port_forward ::
  "runner \<Rightarrow> history \<Rightarrow> string \<Rightarrow> string \<Rightarrow> port_forward_rule \<Rightarrow> unit vmm_result \<times> history" where
  "remove_port_forward run hist vm guest_ip rule =
     (case pf_validate_vm_name vm of
        Inl e \<Rightarrow> (Inl e, hist)
      | Inr _ \<Rightarrow>
          (case validate_guest_ip guest_ip of
            Inl e \<Rightarrow> (Inl e, hist)
          | Inr _ \<Rightarrow>
              (let args = forward_args ''-D'' vm guest_ip rule; hist' = hist @ [args] in
               case run hist args of
                 NotRun e \<Rightarrow> (Inl (Other (''iptables not found: '' @ e)), hist')
               | Exited ok out stderr \<Rightarrow>
                   (if \<not> ok \<and> \<not> str_contains stderr ''No chain''
                       \<and> \<not> str_contains stderr ''does a matching rule exist''
                    then (Inl (Other (''Failed to remove rule: '' @ stderr)), hist')
                    else (Inr (), hist')))))"

text \<open>\<open>sync_forwards\<close> counts the rules that were applied.\<close>

fun sync_forwards ::
  "runner \<Rightarrow> history \<Rightarrow> string \<Rightarrow> string \<Rightarrow> port_forward_rule list \<Rightarrow> nat \<times> history" where
  "sync_forwards run hist vm guest_ip [] = (0, hist)"
| "sync_forwards run hist vm guest_ip (rule # desired) =
     (let (r, hist1) = apply_port_forward run hist vm guest_ip rule;
          (n, hist2) = sync_forwards run hist1 vm guest_ip desired
      in (case r of Inl _ \<Rightarrow> n | Inr _ \<Rightarrow> Suc n, hist2))"

section \<open>Reading command output\<close>

definition or_zero :: "nat option \<Rightarrow> nat" where
  "or_zero x = (case x of Some n \<Rightarrow> n | None \<Rightarrow> 0)"

definition parse_forward_line :: "string \<Rightarrow> string \<Rightarrow> (u16 \<times> u16 \<times> string) option" where
  "parse_forward_line marker line =
     (if \<not> str_contains line marker then None
      else case str_find line ''dpt:'' of
        None \<Rightarrow> None
      | Some dpt_pos \<Rightarrow>
          (let hp = or_zero (parse_u16 (takeWhile ascii_digit (drop (dpt_pos + 4) line))) in
           case str_find line ''to:'' of
             None \<Rightarrow> None
           | Some to_pos \<Rightarrow>
               (let dest = takeWhile (\<lambda>c. c \<noteq> CHR '' '') (drop (to_pos + 3) line);
                    gp = or_zero (parse_u16 (last (split_on (CHR '':'') dest)));
                    proto = (if str_contains line ''udp'' then ''udp'' else ''tcp'')
                in if 0 < hp \<and> 0 < gp then Some (of_nat hp, of_nat gp, proto) else None)))"

definition list_args :: "string list" where
  "list_args = [''iptables'', ''-t'', ''nat'', ''-L'', ''PREROUTING'', ''-n'', ''--line-numbers'']"

definition list_active_forwards ::
  "runner \<Rightarrow> history \<Rightarrow> string \<Rightarrow> (u16 \<times> u16 \<times> string) list vmm_result \<times> history" where
  "list_active_forwards run hist vm =
     (case pf_validate_vm_name vm of
        Inl e \<Rightarrow> (Inl e, hist)
      | Inr _ \<Rightarrow>
          (case run hist list_args of
             NotRun e \<Rightarrow> (Inl (Other (''iptables not found: '' @ e)), hist @ [list_args])
           | Exited ok out err \<Rightarrow>
               (Inr (List.map_filter (parse_forward_line (''libre-vmm:'' @ vm)) (str_lines out)),
                hist @ [list_args])))"

definition lease_ip :: "string \<Rightarrow> string option" where
  "lease_ip line =
     (if str_contains line ''ipv4'' then
        (case split_whitespace line of
           [] \<Rightarrow> None
         | parts \<Rightarrow> (let ip = hd (split_on (CHR ''/'') (last parts)) in if ip \<noteq> [] then Some ip else None))
      else None)"

definition get_guest_ip :: "runner \<Rightarrow> history \<Rightarrow> string \<Rightarrow> string vmm_result \<times> history" where
  "get_guest_ip run hist vm =
     (case pf_validate_vm_name vm of
        Inl e \<Rightarrow> (Inl e, hist)
      | Inr _ \<Rightarrow>
          (let args = [''virsh'', ''domifaddr'', ''--'', vm] in
           case run hist args of
             NotRun e \<Rightarrow> (Inl (Other (''virsh not found: '' @ e)), hist @ [args])
           | Exited ok out err \<Rightarrow>
               (case List.map_filter lease_ip (str_lines out) of
                  ip # _ \<Rightarrow> (Inr ip, hist @ [args])
                | [] \<Rightarrow> (Inl (Other ''Could not determine guest IP address''), hist @ [args]))))"

section \<open>Automatic forwards\<close>

record auto_forward_report =
  added :: "u16 list"
  removed :: "u16 list"
  kept :: "u16 list"

definition default_report :: auto_forward_report where
  "default_report = \<lparr>added = [], removed = [], kept = []\<rparr>"

type_synonym forward_table = "(string \<times> (u16 \<times> u16) list) list"

definition tracked_ports :: "forward_table \<Rightarrow> string \<Rightarrow> (u16 \<times> u16) list" where
  "tracked_ports tab vm = (case map_of tab vm of Some m \<Rightarrow> m | None \<Rightarrow> [])"

definition used_host_ports :: "forward_table \<Rightarrow> u16 list" where
  "used_host_ports tab = concat (map (\<lambda>(vm, m). map snd m) tab)"

definition auto_host_ports :: "u16 list" where
  "auto_host_ports = map of_nat [30000..<40000]"

definition pick_host_port :: "u16 \<Rightarrow> u16 list \<Rightarrow> u16 option" where
  "pick_host_port gp used =
     (if gp \<notin> set used \<and> gp > 0 then Some gp
      else List.find (\<lambda>p. p \<notin> set used) auto_host_ports)"

definition auto_rule :: "string \<Rightarrow> u16 \<Rightarrow> u16 \<Rightarrow> port_forward_rule" where
  "auto_rule vm gp hp = \<lparr>pf_protocol = Tcp, host_port = hp, guest_port = gp,
     pf_description = ''libre-vmm-auto:'' @ vm\<rparr>"

definition untrack :: "string \<Rightarrow> u16 \<Rightarrow> forward_table \<Rightarrow> forward_table" where
  "untrack vm gp tab = map (\<lambda>(v, m). if v = vm then (v, AList.delete gp m) else (v, m)) tab"

definition track :: "string \<Rightarrow> u16 \<Rightarrow> u16 \<Rightarrow> forward_table \<Rightarrow> forward_table" where
  "track vm gp hp tab = AList.update vm (AList.update gp hp (tracked_ports tab vm)) tab"

text \<open>One round of the removal loop, and one of the addition loop.\<close>

definition remove_one ::
  "runner \<Rightarrow> string \<Rightarrow> string \<Rightarrow> u16 \<times> u16 \<Rightarrow> forward_table \<times> history \<Rightarrow> forward_table \<times> history" where
  "remove_one run vm ip gh s =
     (case (gh, s) of ((gp, hp), (tab, hist)) \<Rightarrow>
        (untrack vm gp tab, snd (remove_port_forward run hist vm ip (auto_rule vm gp hp))))"

definition add_one ::
  "runner \<Rightarrow> string \<Rightarrow> string \<Rightarrow> u16 \<Rightarrow> (forward_table \<times> history) \<times> u16 list
     \<Rightarrow> (forward_table \<times> history) \<times> u16 list" where
  "add_one run vm ip gp s =
     (case s of ((tab, hist), done) \<Rightarrow>
        (case pick_host_port gp (used_host_ports tab) of
           None \<Rightarrow> s
         | Some hp \<Rightarrow>
             (case apply_port_forward run hist vm ip (auto_rule vm gp hp) of
                (Inr _, hist') \<Rightarrow> ((track vm gp hp tab, hist'), done @ [gp])
              | (Inl _, hist') \<Rightarrow> ((tab, hist'), done))))"

definition diff_and_apply ::
  "runner \<Rightarrow> string \<Rightarrow> string \<Rightarrow> u16 list \<Rightarrow> forward_table \<times> history
     \<Rightarrow> auto_forward_report \<times> forward_table \<times> history" where
  "diff_and_apply run vm ip live s =
     (let tracked = tracked_ports (fst s) vm;
          to_remove = List.filter (\<lambda>(gp, hp). gp \<notin> set live) tracked;
          to_add = List.filter (\<lambda>gp. gp \<notin> set (map fst tracked)) live;
          s1 = fold (remove_one run vm ip) to_remove s;
          (s2, done) = fold (add_one run vm ip) to_add (s1, [])
      in (\<lparr>added = sort done, removed = sort (map fst to_remove),
           kept = sort (List.filter (\<lambda>gp. gp \<in> set live) (map fst tracked))\<rparr>, s2))"

text \<open>\<open>listeners\<close> is the answer of the guest agent: ports and bind addresses.\<close>

definition live_ports :: "bool \<Rightarrow> (u16 \<times> string) list \<Rightarrow> u16 list" where
  "live_ports skip_privileged listeners =
     remdups (map fst (List.filter (\<lambda>(p, a). \<not> (skip_privileged \<and> p < 1024) \<and> \<not> is_pure_loopback a) listeners))"

definition sync_auto_forwards ::
  "runner \<Rightarrow> string \<Rightarrow> bool \<Rightarrow> (u16 \<times> string) list vmm_result \<Rightarrow> forward_table \<times> history
     \<Rightarrow> auto_forward_report vmm_result \<times> forward_table \<times> history" where
  "sync_auto_forwards run vm skip_privileged listeners s =
     (case pf_validate_vm_name vm of
        Inl e \<Rightarrow> (Inl e, s)
      | Inr _ \<Rightarrow>
          (case listeners of
             Inl e \<Rightarrow> (Inl e, s)
           | Inr ls \<Rightarrow>
               (case get_guest_ip run (snd s) vm of
                  (Inl _, hist) \<Rightarrow> (Inr default_report, fst s, hist)
                | (Inr ip, hist) \<Rightarrow>
                    (let (rep, s') = diff_and_apply run vm ip (live_ports skip_privileged ls) (fst s, hist)
                     in (Inr rep, s')))))"

definition clear_one :: "runner \<Rightarrow> string \<Rightarrow> string option \<Rightarrow> u16 \<times> u16 \<Rightarrow> history \<Rightarrow> history" where
  "clear_one run vm ip gh hist =
     (case ip of
        None \<Rightarrow> hist
      | Some a \<Rightarrow> snd (remove_port_forward run hist vm a (auto_rule vm (fst gh) (snd gh))))"

definition clear_auto_forwards ::
  "runner \<Rightarrow> string \<Rightarrow> forward_table \<times> history \<Rightarrow> auto_forward_report \<times> forward_table \<times> history" where
  "clear_auto_forwards run vm s =
     (let tracked = tracked_ports (fst s) vm;
          tab = AList.delete vm (fst s);
          (r, hist) = get_guest_ip run (snd s) vm;
          ip = (case r of Inr a \<Rightarrow> Some a | Inl _ \<Rightarrow> None)
      in (default_report\<lparr>removed := sort (map fst tracked)\<rparr>, tab,
          fold (clear_one run vm ip) tracked hist))"

section \<open>The forward table\<close>

text \<open>Every host port is used once over all machines, every guest port once per machine.\<close>

definition table_ok :: "forward_table \<Rightarrow> bool" where
  "table_ok tab \<longleftrightarrow>
     distinct (map fst tab) \<and> list_all (\<lambda>(v, m). distinct (map fst m)) tab
     \<and> distinct (used_host_ports tab) \<and> 0 \<notin> set (used_host_ports tab)"

lemma used_host_ports_Cons [simp]:
  "used_host_ports [] = []" "used_host_ports ((v, m) # tab) = map snd m @ used_host_ports tab"
  by (simp_all add: used_host_ports_def)

lemma tracked_ports_Cons:
  "tracked_ports [] vm = []"
  "tracked_ports ((v, m) # tab) vm = (if v = vm then m else tracked_ports tab vm)"
  by (simp_all add: tracked_ports_def)

lemma update_new: "k \<notin> fst ` set al \<Longrightarrow> AList.update k v al = al @ [(k, v)]"
  by (induction al) auto

lemma tracked_update: "tracked_ports (AList.update vm m tab) v = (if v = vm then m else tracked_ports tab v)"
  by (simp add: tracked_ports_def update_conv')

lemma tracked_track:
  "tracked_ports (track vm gp hp tab) v
     = (if v = vm then AList.update gp hp (tracked_ports tab vm) else tracked_ports tab v)"
  by (simp add: track_def tracked_update)

lemma untrack_simps [simp]:
  "untrack vm gp [] = []"
  "untrack vm gp ((v, m) # tab) = (v, if v = vm then AList.delete gp m else m) # untrack vm gp tab"
  by (simp_all add: untrack_def)

lemma tracked_untrack:
  "tracked_ports (untrack vm gp tab) v
     = (if v = vm then AList.delete gp (tracked_ports tab vm) else tracked_ports tab v)"
  by (induction tab) (auto simp: tracked_ports_Cons)

lemma mset_used_update:
  "distinct (map fst tab) \<Longrightarrow>
     mset (used_host_ports (AList.update vm (tracked_ports tab vm @ [(gp, hp)]) tab))
       = add_mset hp (mset (used_host_ports tab))"
proof (induction tab)
  case (Cons vmm tab)
  obtain v m where vmm: "vmm = (v, m)" by (cases vmm)
  show ?case
  proof (cases "v = vm")
    case True
    with vmm show ?thesis by (simp add: tracked_ports_Cons)
  next
    case False
    with Cons vmm show ?thesis by (simp add: tracked_ports_Cons)
  qed
qed (simp add: tracked_ports_Cons)

lemma tracked_distinct: "table_ok tab \<Longrightarrow> distinct (map fst (tracked_ports tab vm))"
  by (auto simp: table_ok_def tracked_ports_def list_all_iff dest!: map_of_SomeD split: option.splits)

lemma table_ok_untrack: "table_ok tab \<Longrightarrow> table_ok (untrack vm gp tab)"
proof -
  assume ok: "table_ok tab"
  have sub: "set (used_host_ports (untrack vm gp t)) \<subseteq> set (used_host_ports t)" for t
  proof (induction t)
    case (Cons vm_m t)
    obtain v m where vm_m: "vm_m = (v, m)" by (cases vm_m)
    have "set (map snd (if v = vm then AList.delete gp m else m)) \<subseteq> set (map snd m)"
      by (auto simp: AList.delete_eq)
    with Cons vm_m show ?case by (simp only: untrack_simps used_host_ports_Cons set_append) blast
  qed simp
  have "distinct (used_host_ports t) \<Longrightarrow> distinct (used_host_ports (untrack vm gp t))" for t
  proof (induction t)
    case (Cons vm_m t)
    obtain v m where vm_m: "vm_m = (v, m)" by (cases vm_m)
    have "distinct (map snd (AList.delete gp m))"
      using Cons.prems vm_m by (simp add: AList.delete_eq distinct_map_filter)
    moreover have "set (map snd (AList.delete gp m)) \<subseteq> set (map snd m)" by (auto simp: AList.delete_eq)
    ultimately show ?case
      using Cons vm_m sub [of t] by auto
  qed simp
  moreover have "map fst (untrack vm gp tab) = map fst tab"
    by (induction tab) auto
  moreover have "list_all (\<lambda>(v, m). distinct (map fst m)) t
      \<Longrightarrow> list_all (\<lambda>(v, m). distinct (map fst m)) (untrack vm gp t)" for t
    by (induction t) (auto simp: distinct_delete)
  ultimately show ?thesis using ok sub [of tab] by (auto simp: table_ok_def)
qed

lemma update_all:
  "list_all (\<lambda>(v, m). P m) tab \<Longrightarrow> P m' \<Longrightarrow> list_all (\<lambda>(v, m). P m) (AList.update k m' tab)"
  by (induction tab) auto

text \<open>The table relies on the allocator for two laws only: the port it returns is not in use, and is
  a port.\<close>

locale port_allocator =
  fixes pick :: "u16 \<Rightarrow> u16 list \<Rightarrow> u16 option"
  assumes pick_fresh: "pick gp used = Some hp \<Longrightarrow> hp \<notin> set used"
    and pick_valid: "pick gp used = Some hp \<Longrightarrow> 0 < hp"
begin

lemma track_ok:
  assumes ok: "table_ok tab" and pick: "pick gp (used_host_ports tab) = Some hp"
    and new: "gp \<notin> fst ` set (tracked_ports tab vm)"
  shows "table_ok (track vm gp hp tab)"
proof -
  let ?tab = "AList.update vm (tracked_ports tab vm @ [(gp, hp)]) tab"
  have track: "track vm gp hp tab = ?tab"
    using new by (simp add: track_def update_new)
  have "mset (used_host_ports ?tab) = mset (hp # used_host_ports tab)"
    using mset_used_update [of tab vm gp hp] ok by (simp add: table_ok_def)
  moreover from this have "set (used_host_ports ?tab) = insert hp (set (used_host_ports tab))"
    by (metis list.set(2) mset_eq_setD)
  moreover from calculation(1) have "distinct (used_host_ports ?tab) = distinct (hp # used_host_ports tab)"
    by (rule mset_eq_imp_distinct_iff)
  ultimately have "distinct (used_host_ports ?tab)" "0 \<notin> set (used_host_ports ?tab)"
    using ok pick_fresh [OF pick] pick_valid [OF pick] by (auto simp: table_ok_def)
  moreover have "distinct (map fst ?tab)"
    using ok by (auto simp: table_ok_def intro: distinct_update)
  moreover have "list_all (\<lambda>(v, m). distinct (map fst m)) ?tab"
    using ok new tracked_distinct [OF ok, of vm]
    by (intro update_all) (auto simp: table_ok_def image_iff)
  ultimately show ?thesis unfolding track table_ok_def by blast
qed

end

lemma find_None_Some:
  "List.find P xs = Some x \<Longrightarrow> x \<in> set xs \<and> P x" "List.find P xs = None \<longleftrightarrow> (\<forall>x \<in> set xs. \<not> P x)"
  by (auto simp: find_Some_iff find_None_iff)

lemma auto_host_ports_bounds: "p \<in> set auto_host_ports \<Longrightarrow> 30000 \<le> unat p \<and> unat p < 40000"
  unfolding auto_host_ports_def set_map set_upt by (auto simp: unat_of_nat)

lemma auto_host_ports_iff: "p \<in> set auto_host_ports \<longleftrightarrow> 30000 \<le> unat p \<and> unat p < 40000"
proof
  assume "30000 \<le> unat p \<and> unat p < 40000"
  then have "p = of_nat (unat p)" "unat p \<in> {30000..<40000}" by auto
  then show "p \<in> set auto_host_ports" unfolding auto_host_ports_def by (metis imageI set_map set_upt)
qed (rule auto_host_ports_bounds)

lemma pick_host_port_Some:
  "pick_host_port gp used = Some hp \<Longrightarrow> hp \<notin> set used \<and> 0 < hp"
proof -
  assume pick: "pick_host_port gp used = Some hp"
  show ?thesis
  proof (cases "gp \<notin> set used \<and> gp > 0")
    case True
    with pick show ?thesis by (simp add: pick_host_port_def)
  next
    case False
    with pick have "hp \<in> set auto_host_ports" "hp \<notin> set used"
      by (auto simp: pick_host_port_def dest: find_None_Some(1))
    then show ?thesis
      using auto_host_ports_bounds [of hp] by (auto simp: word_less_nat_alt)
  qed
qed

interpretation host_ports: port_allocator pick_host_port
  by unfold_locales (auto dest: pick_host_port_Some)

lemma remove_one_fold:
  "table_ok tab \<Longrightarrow> fold (remove_one run vm ip) rm (tab, hist) = (tab', hist') \<Longrightarrow>
     table_ok tab'
     \<and> fst ` set (tracked_ports tab' vm) = fst ` set (tracked_ports tab vm) - fst ` set rm
     \<and> (\<forall>v. v \<noteq> vm \<longrightarrow> tracked_ports tab' v = tracked_ports tab v)"
proof (induction rm arbitrary: tab hist)
  case (Cons gh rm)
  obtain gp hp where gh: "gh = (gp, hp)" by (cases gh)
  let ?tab = "untrack vm gp tab"
  have "fst ` set (tracked_ports ?tab vm) = fst ` set (tracked_ports tab vm) - {gp}"
    by (auto simp: tracked_untrack AList.delete_eq)
  moreover have "v \<noteq> vm \<Longrightarrow> tracked_ports ?tab v = tracked_ports tab v" for v
    by (simp add: tracked_untrack)
  moreover have "table_ok ?tab" using Cons.prems(1) by (rule table_ok_untrack)
  ultimately show ?case
    using Cons.IH [of ?tab] Cons.prems(2) gh by (auto simp: remove_one_def)
qed simp

lemma add_one_cases:
  obtains (skip) hist' where "add_one run vm ip gp ((tab, hist), done) = ((tab, hist'), done)"
  | (new) hp hist' where "pick_host_port gp (used_host_ports tab) = Some hp"
      "add_one run vm ip gp ((tab, hist), done) = ((track vm gp hp tab, hist'), done @ [gp])"
proof (cases "pick_host_port gp (used_host_ports tab)")
  case None
  then show ?thesis by (intro skip [of hist]) (simp add: add_one_def)
next
  case (Some hp)
  obtain r hist' where "apply_port_forward run hist vm ip (auto_rule vm gp hp) = (r, hist')" by fastforce
  with Some skip [of hist'] new [OF Some, of hist'] show ?thesis
    by (cases r) (simp_all add: add_one_def)
qed

lemma add_one_fold:
  "table_ok tab \<Longrightarrow> distinct gps \<Longrightarrow> set gps \<inter> fst ` set (tracked_ports tab vm) = {} \<Longrightarrow>
     fold (add_one run vm ip) gps ((tab, hist), done) = ((tab', hist'), done') \<Longrightarrow>
     table_ok tab' \<and> (\<exists>d. done' = done @ d \<and> set d \<subseteq> set gps \<and> distinct d
       \<and> fst ` set (tracked_ports tab' vm) = fst ` set (tracked_ports tab vm) \<union> set d)
     \<and> (\<forall>v. v \<noteq> vm \<longrightarrow> tracked_ports tab' v = tracked_ports tab v)"
proof (induction gps arbitrary: tab hist "done")
  case (Cons gp gps)
  show ?case
  proof (cases rule: add_one_cases [of run vm ip gp tab hist "done"])
    case (skip hist1)
    with Cons.prems have "fold (add_one run vm ip) gps ((tab, hist1), done) = ((tab', hist'), done')"
      by simp
    with Cons.IH [of tab] Cons.prems show ?thesis by fastforce
  next
    case (new hp hist1)
    let ?tab = "track vm gp hp tab"
    have gp: "gp \<notin> fst ` set (tracked_ports tab vm)" using Cons.prems(3) by auto
    have ok: "table_ok ?tab" using host_ports.track_ok [OF Cons.prems(1) new(1) gp] .
    have keys: "fst ` set (tracked_ports ?tab vm) = insert gp (fst ` set (tracked_ports tab vm))"
      using gp by (simp add: tracked_track update_new)
    have run: "fold (add_one run vm ip) gps ((?tab, hist1), done @ [gp]) = ((tab', hist'), done')"
      using Cons.prems(4) new by simp
    have disj: "set gps \<inter> fst ` set (tracked_ports ?tab vm) = {}"
      using Cons.prems(2,3) keys by auto
    have dist: "distinct gps" using Cons.prems(2) by simp
    from Cons.IH [OF ok dist disj run] obtain d where d: "table_ok tab'" "done' = (done @ [gp]) @ d" "set d \<subseteq> set gps" "distinct d"
      and k: "fst ` set (tracked_ports tab' vm) = fst ` set (tracked_ports ?tab vm) \<union> set d"
      and o: "\<forall>v. v \<noteq> vm \<longrightarrow> tracked_ports tab' v = tracked_ports ?tab v"
      by blast
    from o have "\<forall>v. v \<noteq> vm \<longrightarrow> tracked_ports tab' v = tracked_ports tab v"
      by (simp add: tracked_track)
    moreover have "done' = done @ (gp # d)" using d(2) by simp
    moreover have "set (gp # d) \<subseteq> set (gp # gps)" using d(3) by auto
    moreover have "distinct (gp # d)" using d(3,4) Cons.prems(2) by auto
    moreover have "fst ` set (tracked_ports tab' vm) = fst ` set (tracked_ports tab vm) \<union> set (gp # d)"
      unfolding k keys by simp
    ultimately show ?thesis using d(1) by blast
  qed
qed simp

lemma diff_and_apply_spec:
  assumes "table_ok tab" and "distinct live"
    and "diff_and_apply run vm ip live (tab, hist) = (rep, tab', hist')"
  shows "table_ok tab'
    \<and> set (removed rep) = fst ` set (tracked_ports tab vm) - set live
    \<and> set (kept rep) = fst ` set (tracked_ports tab vm) \<inter> set live
    \<and> set (added rep) \<subseteq> set live - fst ` set (tracked_ports tab vm)
    \<and> fst ` set (tracked_ports tab' vm) = set (added rep) \<union> set (kept rep)
    \<and> (\<forall>v. v \<noteq> vm \<longrightarrow> tracked_ports tab' v = tracked_ports tab v)
    \<and> sorted (added rep) \<and> sorted (removed rep) \<and> sorted (kept rep)"
proof -
  define tracked where "tracked = tracked_ports tab vm"
  define rm where "rm = List.filter (\<lambda>(gp, hp). gp \<notin> set live) tracked"
  define ad where "ad = List.filter (\<lambda>gp. gp \<notin> set (map fst tracked)) live"
  obtain tab1 hist1 where rmf: "fold (remove_one run vm ip) rm (tab, hist) = (tab1, hist1)" by fastforce
  obtain tab2 hist2 d where adf: "fold (add_one run vm ip) ad ((tab1, hist1), []) = ((tab2, hist2), d)"
    by (metis prod.exhaust)
  have rep: "rep = \<lparr>added = sort d, removed = sort (map fst rm),
      kept = sort (List.filter (\<lambda>gp. gp \<in> set live) (map fst tracked))\<rparr>" and tab': "tab' = tab2"
    using assms(3) rmf adf by (auto simp: diff_and_apply_def Let_def tracked_def rm_def ad_def)
  have keys_rm: "fst ` set rm = fst ` set tracked - set live" by (force simp: rm_def)
  from remove_one_fold [OF assms(1) rmf] have 1: "table_ok tab1"
    "fst ` set (tracked_ports tab1 vm) = fst ` set tracked \<inter> set live"
    "\<forall>v. v \<noteq> vm \<longrightarrow> tracked_ports tab1 v = tracked_ports tab v"
    unfolding keys_rm tracked_def [symmetric] by auto
  have "distinct ad" "set ad = set live - fst ` set tracked"
    using assms(2) by (auto simp: ad_def)
  with add_one_fold [OF 1(1) _ _ adf] 1(2) have 2: "table_ok tab2" "set d \<subseteq> set live - fst ` set tracked"
    "fst ` set (tracked_ports tab2 vm) = fst ` set (tracked_ports tab1 vm) \<union> set d"
    "\<forall>v. v \<noteq> vm \<longrightarrow> tracked_ports tab2 v = tracked_ports tab1 v"
    by auto
  show ?thesis
    using 1 2 keys_rm unfolding rep tab' tracked_def [symmetric] by auto
qed

lemma table_ok_delete: "table_ok tab \<Longrightarrow> table_ok (AList.delete vm tab)"
proof -
  have used: "set (used_host_ports (AList.delete vm t)) \<subseteq> set (used_host_ports t)" for t
    by (induction t) auto
  have "distinct (used_host_ports t) \<Longrightarrow> distinct (used_host_ports (AList.delete vm t))" for t
  proof (induction t)
    case (Cons x t)
    then show ?case using used [of t] by (cases x) auto
  qed simp
  moreover have "list_all (\<lambda>(v, m). distinct (map fst m)) t
      \<Longrightarrow> list_all (\<lambda>(v, m). distinct (map fst m)) (AList.delete vm t)" for t
    by (induction t) auto
  moreover assume "table_ok tab"
  ultimately show ?thesis
    using used [of tab] by (auto simp: table_ok_def distinct_delete)
qed

text \<open>The states the table can be in: synchronisations and clean-ups of any machines, in any order,
  with whatever the guests and the commands answer.\<close>

inductive auto_reach :: "runner \<Rightarrow> forward_table \<times> history \<Rightarrow> bool" for run where
  reach_init: "auto_reach run ([], [])"
| reach_sync: "auto_reach run s \<Longrightarrow> sync_auto_forwards run vm skip ls s = (r, s') \<Longrightarrow> auto_reach run s'"
| reach_clear: "auto_reach run s \<Longrightarrow> clear_auto_forwards run vm s = (rep, s') \<Longrightarrow> auto_reach run s'"
| reach_other: "auto_reach run (tab, hist) \<Longrightarrow> auto_reach run (tab, hist @ cmds)"

lemma sync_table_ok:
  assumes "table_ok (fst s)" and "sync_auto_forwards run vm skip ls s = (r, s')"
  shows "table_ok (fst s')"
proof -
  have live: "distinct (live_ports skip l)" for l by (simp add: live_ports_def)
  have "table_ok t'" if "diff_and_apply run vm ip (live_ports skip l) (fst s, h) = (rep, t', h')" for ip l h rep t' h'
    using diff_and_apply_spec [OF assms(1) live that] by blast
  then have "table_ok (fst (snd (diff_and_apply run vm ip (live_ports skip l) (fst s, h))))" for ip l h
    by (metis fst_conv prod.exhaust snd_conv)
  with assms show ?thesis
    by (auto simp: sync_auto_forwards_def case_prod_beta split: sum.splits prod.splits)
qed

lemma reach_table_ok: "auto_reach run s \<Longrightarrow> table_ok (fst s)"
proof (induction rule: auto_reach.induct)
  case reach_init
  then show ?case by (simp add: table_ok_def)
next
  case (reach_sync s vm skip ls r s')
  then show ?case by (blast intro: sync_table_ok)
next
  case (reach_clear s vm rep s')
  then show ?case
    by (auto simp: clear_auto_forwards_def Let_def table_ok_delete split: prod.splits)
qed simp

section \<open>Addresses that can be forwarded to\<close>

lemma validate_guest_ip_Inr:
  "validate_guest_ip s = Inr a \<longleftrightarrow>
     parse_ip s = Some a \<and> \<not> is_unspecified a \<and> \<not> is_loopback a \<and> \<not> is_multicast a \<and> \<not> is_broadcast a"
  by (auto simp: validate_guest_ip_def is_broadcast_def split: option.splits ip_addr.splits if_splits)

lemma demo_ip: "validate_guest_ip ''10.0.0.5'' = Inr (V4 10 0 0 5)"
proof -
  have "show_ipv4 10 0 0 5 = ''10.0.0.5''"
    by (simp add: show_ipv4_def dec_w_def str_simps)
  then have "parse_ip ''10.0.0.5'' = Some (V4 10 0 0 5)" by (metis parse_show_ipv4)
  then show ?thesis by (simp add: validate_guest_ip_Inr is_broadcast_def)
qed

lemma demo_names [simp]: "pf_validate_vm_name ''a'' = Inr ()" "pf_validate_vm_name ''b'' = Inr ()"
  by (simp_all add: pf_validate_vm_name_def check_cli_name_def ascii_char_def cli_name_char_def ascii_defs)

section \<open>Properties\<close>

text \<open>An address passes the guest check exactly when it parses and is neither unspecified, loopback,
  multicast nor broadcast; then it consists of hexadecimal digits, dots and colons only, so the
  destination argument of iptables is address and port and nothing else.\<close>

theorem guest_ip_accepted_iff:
  "(validate_guest_ip s = Inr a \<longleftrightarrow>
     parse_ip s = Some a \<and> \<not> is_unspecified a \<and> \<not> is_loopback a \<and> \<not> is_multicast a \<and> \<not> is_broadcast a)
   \<and> (validate_guest_ip s = Inr a \<longrightarrow> list_all addr_char s)"
  using parse_ip_chars [of s a] by (simp add: validate_guest_ip_Inr)

theorem guest_ip_accepted_iff_witness: "list_all addr_char ''10.0.0.5''"
  using guest_ip_accepted_iff [of "''10.0.0.5''" "V4 10 0 0 5"] demo_ip by blast


text \<open>One synchronisation reports as removed the tracked ports that no longer listen, as kept those
  that still do, as added only listening ports that were not tracked; afterwards exactly the kept
  and the added ports are tracked, and no other machine's table has changed.\<close>

theorem synchronisation_report:
  assumes "table_ok tab" and "distinct live"
    and "diff_and_apply run vm ip live (tab, hist) = (rep, tab', hist')"
  shows "set (removed rep) = fst ` set (tracked_ports tab vm) - set live
    \<and> set (kept rep) = fst ` set (tracked_ports tab vm) \<inter> set live
    \<and> set (added rep) \<subseteq> set live - fst ` set (tracked_ports tab vm)
    \<and> fst ` set (tracked_ports tab' vm) = set (added rep) \<union> set (kept rep)
    \<and> (v \<noteq> vm \<longrightarrow> tracked_ports tab' v = tracked_ports tab v)
    \<and> sorted (added rep) \<and> sorted (removed rep) \<and> sorted (kept rep)"
  using diff_and_apply_spec [OF assms] by blast

text \<open>Commands that all succeed, and commands of which the deletions fail.\<close>

definition all_succeed :: runner where
  "all_succeed h args = Exited True [] []"

definition deletions_fail :: runner where
  "deletions_fail h args =
     (if ''-D'' \<in> set args then Exited False [] ''Another app is currently holding the xtables lock''
      else Exited True [] [])"

lemma pick_free: "gp \<notin> set used \<Longrightarrow> 0 < gp \<Longrightarrow> pick_host_port gp used = Some gp"
  by (simp add: pick_host_port_def)

lemma apply_succeeds:
  assumes "pf_validate_vm_name vm = Inr ()" "validate_guest_ip ip = Inr a" "hp \<noteq> 0" "gp \<noteq> 0"
    and "run hist (forward_args ''-A'' vm ip (auto_rule vm gp hp)) = Exited True out err"
  shows "apply_port_forward run hist vm ip (auto_rule vm gp hp)
    = (Inr (), hist @ [forward_args ''-A'' vm ip (auto_rule vm gp hp)])"
  using assms by (simp add: apply_port_forward_def auto_rule_def Let_def)

definition demo_run :: runner where
  "demo_run h args =
     (if hd args = ''virsh'' then Exited True ''vnet0 52:54 ipv4 10.0.0.5/24'' [] else Exited True [] [])"

lemma demo_guest_ip:
  "get_guest_ip demo_run h ''a'' = (Inr ''10.0.0.5'', h @ [[''virsh'', ''domifaddr'', ''--'', ''a'']])"
  by (simp add: get_guest_ip_def demo_run_def str_lines_def lease_ip_def split_whitespace_def
      map_filter_def is_whitespace_def ascii_defs)


lemma deletion_result:
  assumes "pf_validate_vm_name vm = Inr ()" "validate_guest_ip ip = Inr a"
  shows "snd (remove_port_forward run hist vm ip r) = hist @ [forward_args ''-D'' vm ip r]"
  using assms by (simp add: remove_port_forward_def Let_def split: cmd_output.splits)

theorem synchronisation_report_witness:
  "\<exists>rep tab hist. diff_and_apply all_succeed ''a'' ''10.0.0.5'' [22, 8080]
       ([(''a'', [(22, 22), (3000, 3000)])], []) = (rep, tab, hist)
     \<and> set (removed rep) = {3000} \<and> set (kept rep) = {22}
     \<and> fst ` set (tracked_ports tab ''a'') = set (added rep) \<union> {22}"
proof -
  let ?tab = "[(''a'', [(22, 22), (3000, 3000)])] :: forward_table"
  obtain rep tab hist where run: "diff_and_apply all_succeed ''a'' ''10.0.0.5'' [22, 8080] (?tab, []) = (rep, tab, hist)"
    by (metis prod.exhaust)
  have "table_ok ?tab" "distinct [22, 8080 :: u16]"
    by (simp_all add: table_ok_def)
  from synchronisation_report [OF this run]
  have "set (removed rep) = {3000}" "set (kept rep) = {22}"
    "fst ` set (tracked_ports tab ''a'') = set (added rep) \<union> set (kept rep)"
    by (auto simp: tracked_ports_def)
  with run show ?thesis by auto
qed

text \<open>When iptables refuses to delete a rule (its lock is held), the forward is still reported as
  removed and forgotten; the host port counts as free and the next machine gets it, while the old
  rule still catches the traffic.\<close>

theorem failed_removal_frees_port:
  "let (rep1, s1) = diff_and_apply deletions_fail ''a'' ''10.0.0.5'' [] ([(''a'', [(80, 8080)])], []);
       (rep2, s2) = diff_and_apply deletions_fail ''b'' ''10.0.0.5'' [8080] s1
   in fst (remove_port_forward deletions_fail [] ''a'' ''10.0.0.5'' (auto_rule ''a'' 80 8080)) \<noteq> Inr ()
      \<and> removed rep1 = [80] \<and> added rep2 = [8080] \<and> tracked_ports (fst s2) ''b'' = [(8080, 8080)]"
proof -
  have fails: "fst (remove_port_forward deletions_fail [] ''a'' ''10.0.0.5'' (auto_rule ''a'' 80 8080)) \<noteq> Inr ()"
    by (simp add: remove_port_forward_def demo_ip deletions_fail_def forward_args_def Let_def)
  obtain h where 1: "diff_and_apply deletions_fail ''a'' ''10.0.0.5'' [] ([(''a'', [(80, 8080)])], [])
      = (\<lparr>added = [], removed = [80], kept = []\<rparr>, [(''a'', [])], h)"
    by (simp add: diff_and_apply_def tracked_ports_def remove_one_def)
  have "deletions_fail h (forward_args ''-A'' ''b'' ''10.0.0.5'' (auto_rule ''b'' 8080 8080)) = Exited True [] []"
    by (simp add: deletions_fail_def forward_args_def auto_rule_def proto_name_def dec_w_def str_simps)
  then have "apply_port_forward deletions_fail h ''b'' ''10.0.0.5'' (auto_rule ''b'' 8080 8080)
      = (Inr (), h @ [forward_args ''-A'' ''b'' ''10.0.0.5'' (auto_rule ''b'' 8080 8080)])"
    by (intro apply_succeeds) (simp_all add: demo_ip)
  then have 2: "fst (diff_and_apply deletions_fail ''b'' ''10.0.0.5'' [8080] ([(''a'', [])], h))
      = \<lparr>added = [8080], removed = [], kept = []\<rparr>
    \<and> fst (snd (diff_and_apply deletions_fail ''b'' ''10.0.0.5'' [8080] ([(''a'', [])], h)))
      = [(''a'', []), (''b'', [(8080, 8080)])]"
    by (simp add: diff_and_apply_def tracked_ports_def add_one_def pick_free track_def)
  show ?thesis
    using fails 1 2 by (auto simp: case_prod_beta tracked_ports_def)
qed

text \<open>The listing of a machine's rules takes every line in which the machine's name begins the
  comment, so it shows the rules of another machine, and calls every rule UDP whose line contains
  those letters anywhere.\<close>

theorem listing_mixes_machines:
  "parse_forward_line ''libre-vmm:web''
     ''1 DNAT tcp -- 0.0.0.0/0 0.0.0.0/0 tcp dpt:8080 /* libre-vmm:web-udp */ to:10.0.0.5:80''
     = Some (8080, 80, ''udp'')"
  by (simp add: parse_forward_line_def ascii_defs parse_unsigned_def or_zero_def)

end
