(* ===== verification/Tasks.thy ===== *)
theory Tasks
  imports Prelude
begin

text \<open>
  The background tasks of vmm-core/src/task.rs. A \<open>TaskHandle\<close> is a shared pointer to a mutex: the
  model has a store of cells and a handle is the index of its cell, so that the worker and the
  manager see the same task. A cell also knows whether its mutex is poisoned and whether its
  thread has ended. A fraction is the bit pattern of an \<open>f64\<close>, an identifier its bytes, an instant
  a number; fresh identifiers and the clock are arguments.
\<close>

datatype task_status = Pending | Running | Completed | Failed string | Cancelled

record task_progress =
  fraction :: u64
  message :: string

definition f64_one :: u64 where "f64_one = 0x3FF0000000000000"
definition f64_minus_one :: u64 where "f64_minus_one = 0xBFF0000000000000"

definition default_progress :: task_progress where
  "default_progress = \<lparr>fraction = f64_minus_one, message = []\<rparr>"

record task_info =
  task_id :: "u8 list"
  description :: string
  task_category :: string
  created_at :: int
  status :: task_status
  progress :: task_progress

record task_cell =
  info :: task_info
  poisoned :: bool
  thread_ended :: bool

type_synonym handle = nat

record task_world =
  cells :: "task_cell list"
  tasks :: "handle list"
  join_handles :: "(u8 list \<times> handle) list"
  max_history :: nat

definition MAX_ACTIVE_TASKS :: nat where "MAX_ACTIVE_TASKS = 64"

definition new_manager :: "task_cell list \<Rightarrow> task_world" where
  "new_manager cs = \<lparr>cells = cs, tasks = [], join_handles = [], max_history = 50\<rparr>"

section \<open>Handles\<close>

definition corrupted :: task_status where
  "corrupted = Failed ''Internal error: task state corrupted''"

definition nil_id :: "u8 list" where
  "nil_id = replicate 16 0"

definition cell_info :: "int \<Rightarrow> task_cell \<Rightarrow> task_info" where
  "cell_info now c =
     (if poisoned c then \<lparr>task_id = nil_id, description = ''(task state corrupted)'', task_category = [],
        created_at = now, status = corrupted, progress = default_progress\<rparr>
      else info c)"

definition cell_status :: "task_cell \<Rightarrow> task_status" where
  "cell_status c = (if poisoned c then corrupted else status (info c))"

definition cell_id :: "task_cell \<Rightarrow> u8 list" where
  "cell_id c = (if poisoned c then nil_id else task_id (info c))"

definition is_cancelled :: "task_cell \<Rightarrow> bool" where
  "is_cancelled c = (if poisoned c then True else status (info c) = Cancelled)"

text \<open>An update under the lock does nothing when the lock is poisoned.\<close>

definition with_lock :: "(task_info \<Rightarrow> task_info) \<Rightarrow> task_cell \<Rightarrow> task_cell" where
  "with_lock f c = (if poisoned c then c else c\<lparr>info := f (info c)\<rparr>)"

definition set_progress :: "u64 \<Rightarrow> string \<Rightarrow> task_cell \<Rightarrow> task_cell" where
  "set_progress f m = with_lock (\<lambda>i. i\<lparr>progress := \<lparr>fraction = f, message = m\<rparr>\<rparr>)"

definition set_completed :: "task_cell \<Rightarrow> task_cell" where
  "set_completed = with_lock (\<lambda>i. i\<lparr>status := Completed, progress := (progress i)\<lparr>fraction := f64_one\<rparr>\<rparr>)"

definition set_failed :: "string \<Rightarrow> task_cell \<Rightarrow> task_cell" where
  "set_failed e = with_lock (\<lambda>i. i\<lparr>status := Failed e\<rparr>)"

definition request_cancel :: "task_cell \<Rightarrow> task_cell" where
  "request_cancel = with_lock (\<lambda>i.
     if status i = Running \<or> status i = Pending then i\<lparr>status := Cancelled\<rparr> else i)"

definition on_cell :: "handle \<Rightarrow> (task_cell \<Rightarrow> task_cell) \<Rightarrow> task_world \<Rightarrow> task_world" where
  "on_cell h f w =
     (if h < length (cells w) then w\<lparr>cells := (cells w)[h := f (cells w ! h)]\<rparr> else w)"

section \<open>The manager\<close>

definition active_status :: "task_status \<Rightarrow> bool" where
  "active_status s \<longleftrightarrow> s = Running \<or> s = Pending"

definition handle_active :: "task_cell list \<Rightarrow> handle \<Rightarrow> bool" where
  "handle_active cs h \<longleftrightarrow> active_status (cell_status (cs ! h))"

definition active_tasks :: "task_world \<Rightarrow> handle list" where
  "active_tasks w = List.filter (handle_active (cells w)) (tasks w)"

definition active_count :: "task_world \<Rightarrow> nat" where
  "active_count w = length (List.filter (handle_active (cells w)) (tasks w))"

definition handle_finished :: "task_cell list \<Rightarrow> handle \<Rightarrow> bool" where
  "handle_finished cs h \<longleftrightarrow>
     (case cell_status (cs ! h) of Completed \<Rightarrow> True | Failed _ \<Rightarrow> True | Cancelled \<Rightarrow> True | _ \<Rightarrow> False)"

definition remove_at :: "nat \<Rightarrow> 'a list \<Rightarrow> 'a list" where
  "remove_at i xs = take i xs @ drop (Suc i) xs"

text \<open>\<open>prune_history\<close>: the positions of the finished tasks, the first of them removed from the last
  to the first so that the positions stay right.\<close>

definition finished_positions :: "('a \<Rightarrow> bool) \<Rightarrow> 'a list \<Rightarrow> nat list" where
  "finished_positions fin ts = List.filter (\<lambda>i. fin (ts ! i)) [0..<length ts]"

definition prune_list :: "('a \<Rightarrow> bool) \<Rightarrow> nat \<Rightarrow> 'a list \<Rightarrow> 'a list" where
  "prune_list fin maxh ts =
     (let completed = finished_positions fin ts in
      if length completed > maxh
      then fold remove_at (rev (take (length completed - maxh) completed)) ts
      else ts)"

definition prune_history :: "task_world \<Rightarrow> task_world" where
  "prune_history w = w\<lparr>tasks := prune_list (handle_finished (cells w)) (max_history w) (tasks w)\<rparr>"

definition reap_finished_threads :: "task_world \<Rightarrow> task_world" where
  "reap_finished_threads w =
     w\<lparr>join_handles := List.filter (\<lambda>(i, h). \<not> thread_ended (cells w ! h)) (join_handles w)\<rparr>"

definition clear_history :: "task_world \<Rightarrow> task_world" where
  "clear_history w = w\<lparr>tasks := List.filter (handle_active (cells w)) (tasks w)\<rparr>"

definition cancel :: "u8 list \<Rightarrow> task_world \<Rightarrow> task_world" where
  "cancel tid w =
     (case List.find (\<lambda>h. cell_id (cells w ! h) = tid) (tasks w) of
        None \<Rightarrow> w
      | Some h \<Rightarrow> on_cell h request_cancel w)"

definition join_all :: "task_world \<Rightarrow> task_world" where
  "join_all w = w\<lparr>join_handles := []\<rparr>"

definition new_cell :: "u8 list \<Rightarrow> string \<Rightarrow> string \<Rightarrow> int \<Rightarrow> task_status \<Rightarrow> task_cell" where
  "new_cell tid desc cat now st =
     \<lparr>info = \<lparr>task_id = tid, description = desc, task_category = cat, created_at = now, status = st,
        progress = default_progress\<rparr>, poisoned = False, thread_ended = False\<rparr>"

text \<open>\<open>spawn\<close>: \<open>thread\<close> is \<open>None\<close> if the operating system starts the thread and the error otherwise.\<close>

definition spawn ::
  "u8 list \<Rightarrow> string \<Rightarrow> string \<Rightarrow> int \<Rightarrow> string option \<Rightarrow> task_world \<Rightarrow> handle \<times> task_world" where
  "spawn tid desc cat now thread w =
     (let h = length (cells w) in
      if MAX_ACTIVE_TASKS \<le> active_count w
      then (h, w\<lparr>cells := cells w @ [new_cell tid desc cat now (Failed ''Too many active tasks (max 64)'')]\<rparr>)
      else
        (let w1 = w\<lparr>cells := cells w @ [new_cell tid desc cat now Running], tasks := tasks w @ [h]\<rparr>;
             w2 = (case thread of
                     None \<Rightarrow> w1\<lparr>join_handles := join_handles w1 @ [(tid, h)]\<rparr>
                   | Some e \<Rightarrow> on_cell h (set_failed (''Thread spawn failed: '' @ e)) w1)
         in (h, reap_finished_threads (prune_history w2))))"

text \<open>Everything that can happen to the tasks: calls of the manager, of the workers, a panic of a
  worker (caught: the task fails), a lock poisoned, a thread that ends.\<close>

inductive task_step :: "task_world \<Rightarrow> task_world \<Rightarrow> bool" where
  t_spawn: "spawn tid desc cat now thread w = (h, w') \<Longrightarrow> task_step w w'"
| t_progress: "task_step w (on_cell h (set_progress f m) w)"
| t_completed: "task_step w (on_cell h set_completed w)"
| t_failed: "task_step w (on_cell h (set_failed e) w)"
| t_cancel: "task_step w (cancel tid w)"
| t_clear: "task_step w (clear_history w)"
| t_join: "task_step w (join_all w)"
| t_poison: "task_step w (on_cell h (\<lambda>c. c\<lparr>poisoned := True\<rparr>) w)"
| t_ended: "task_step w (on_cell h (\<lambda>c. c\<lparr>thread_ended := True\<rparr>) w)"

inductive task_reach :: "task_world \<Rightarrow> bool" where
  reach_new: "task_reach (new_manager cs)"
| reach_step: "task_reach w \<Longrightarrow> task_step w w' \<Longrightarrow> task_reach w'"

section \<open>Pruning\<close>

text \<open>The reference: skip the first \<open>n\<close> finished tasks, keep everything else in order.\<close>

fun skip_finished :: "('a \<Rightarrow> bool) \<Rightarrow> nat \<Rightarrow> 'a list \<Rightarrow> 'a list" where
  "skip_finished fin n [] = []"
| "skip_finished fin n (t # ts) =
     (if fin t \<and> 0 < n then skip_finished fin (n - 1) ts else t # skip_finished fin n ts)"

lemma finished_positions_Cons:
  "finished_positions fin (t # ts) =
     (if fin t then [0] else []) @ map Suc (finished_positions fin ts)"
proof -
  have "[0..<length (t # ts)] = 0 # map Suc [0..<length ts]"
    by (metis length_Cons map_Suc_upt upt_conv_Cons zero_less_Suc)
  then show ?thesis by (simp add: finished_positions_def filter_map comp_def)
qed

lemma length_finished_positions: "length (finished_positions fin ts) = length (List.filter fin ts)"
  by (induction ts) (simp_all add: finished_positions_Cons finished_positions_def [of fin "[]"])

lemma remove_at_Suc: "foldr remove_at (map Suc is) (t # ts) = t # foldr remove_at is ts"
  by (induction "is") (auto simp: remove_at_def)

lemma remove_positions:
  "foldr remove_at (take n (finished_positions fin ts)) ts = skip_finished fin n ts"
proof (induction ts arbitrary: n)
  case Nil
  then show ?case by (simp add: finished_positions_def)
next
  case (Cons t ts)
  show ?case
  proof (cases "fin t \<and> 0 < n")
    case True
    then obtain m where n: "n = Suc m" by (cases n) auto
    have "foldr remove_at (take n (finished_positions fin (t # ts))) (t # ts)
        = remove_at 0 (foldr remove_at (map Suc (take m (finished_positions fin ts))) (t # ts))"
      using True n by (simp add: finished_positions_Cons take_map)
    also have "\<dots> = foldr remove_at (take m (finished_positions fin ts)) ts"
      unfolding remove_at_Suc by (simp add: remove_at_def)
    finally show ?thesis using True n Cons.IH by simp
  next
    case False
    then have "take n (finished_positions fin (t # ts)) = map Suc (take n (finished_positions fin ts))"
      by (cases n) (auto simp: finished_positions_Cons take_map)
    with False Cons.IH show ?thesis by (auto simp: remove_at_Suc)
  qed
qed

lemma prune_list_ref:
  "prune_list fin maxh ts = skip_finished fin (length (List.filter fin ts) - maxh) ts"
proof -
  have "skip_finished fin 0 xs = xs" for xs by (induction xs) auto
  then show ?thesis
    using remove_positions [of _ fin ts]
    by (simp add: prune_list_def Let_def foldr_conv_fold [symmetric] length_finished_positions)
qed

lemma skip_finished_counts:
  "length (List.filter fin (skip_finished fin n ts)) = length (List.filter fin ts) - n"
  "List.filter (\<lambda>t. \<not> fin t) (skip_finished fin n ts) = List.filter (\<lambda>t. \<not> fin t) ts"
  "List.filter fin (skip_finished fin n ts) = drop n (List.filter fin ts)"
  "set (skip_finished fin n ts) \<subseteq> set ts"
  "distinct ts \<Longrightarrow> distinct (skip_finished fin n ts)"
proof -
  show sub: "set (skip_finished fin n ts) \<subseteq> set ts" for n ts
    by (induction fin n ts rule: skip_finished.induct) auto
  show "List.filter fin (skip_finished fin n ts) = drop n (List.filter fin ts)"
    by (induction fin n ts rule: skip_finished.induct) (auto simp: drop_Cons')
  then show "length (List.filter fin (skip_finished fin n ts)) = length (List.filter fin ts) - n"
    by simp
  show "List.filter (\<lambda>t. \<not> fin t) (skip_finished fin n ts) = List.filter (\<lambda>t. \<not> fin t) ts"
    by (induction fin n ts rule: skip_finished.induct) auto
  show "distinct ts \<Longrightarrow> distinct (skip_finished fin n ts)"
    using sub by (induction fin n ts rule: skip_finished.induct) auto
qed

section \<open>The invariant\<close>

definition tasks_ok :: "task_world \<Rightarrow> bool" where
  "tasks_ok w \<longleftrightarrow>
     distinct (tasks w) \<and> (\<forall>h \<in> set (tasks w). h < length (cells w))
     \<and> active_count w \<le> MAX_ACTIVE_TASKS \<and> length (tasks w) \<le> MAX_ACTIVE_TASKS + 50
     \<and> max_history w = 50"

lemma active_or_finished: "handle_finished cs h \<longleftrightarrow> \<not> handle_active cs h"
  by (cases "cell_status (cs ! h)") (auto simp: handle_finished_def handle_active_def active_status_def)

lemma finished_fun: "handle_finished cs = (\<lambda>h. \<not> handle_active cs h)"
  using active_or_finished by blast

lemma length_active_finished:
  "length ts = length (List.filter (handle_active cs) ts) + length (List.filter (handle_finished cs) ts)"
  using sum_length_filter_compl [of "handle_active cs" ts]
  by (simp add: finished_fun)

text \<open>An update that never makes a task active keeps the count.\<close>

definition never_activates :: "(task_cell \<Rightarrow> task_cell) \<Rightarrow> bool" where
  "never_activates f \<longleftrightarrow> (\<forall>c. active_status (cell_status (f c)) \<longrightarrow> active_status (cell_status c))"

lemma never_activates_ops [simp]:
  "never_activates (set_progress f m)" "never_activates set_completed" "never_activates (set_failed e)"
  "never_activates request_cancel" "never_activates (\<lambda>c. c\<lparr>poisoned := True\<rparr>)"
  "never_activates (\<lambda>c. c\<lparr>thread_ended := True\<rparr>)"
  by (auto simp: never_activates_def set_progress_def set_completed_def set_failed_def
      request_cancel_def with_lock_def cell_status_def active_status_def corrupted_def)

lemma filter_length_mono: "(\<And>x. x \<in> set xs \<Longrightarrow> P x \<Longrightarrow> Q x) \<Longrightarrow> length (List.filter P xs) \<le> length (List.filter Q xs)"
  by (induction xs) auto

lemma on_cell_active:
  assumes "never_activates f"
  shows "active_count (on_cell h f w) \<le> active_count w"
proof (cases "h < length (cells w)")
  case True
  have "handle_active ((cells w)[h := f (cells w ! h)]) x \<Longrightarrow> handle_active (cells w) x" for x
    using assms True by (cases "x = h") (auto simp: handle_active_def never_activates_def)
  then show ?thesis
    using True by (auto simp: active_count_def on_cell_def intro: filter_length_mono)
qed (simp add: on_cell_def)

lemma on_cell_simps [simp]:
  "tasks (on_cell h f w) = tasks w" "length (cells (on_cell h f w)) = length (cells w)"
  "max_history (on_cell h f w) = max_history w"
  by (simp_all add: on_cell_def)

lemma on_cell_ok: "tasks_ok w \<Longrightarrow> never_activates f \<Longrightarrow> tasks_ok (on_cell h f w)"
  using on_cell_active [of f h w] by (simp add: tasks_ok_def)

lemma prune_ok:
  assumes "distinct (tasks w)" "\<forall>h \<in> set (tasks w). h < length (cells w)"
    and "active_count w \<le> MAX_ACTIVE_TASKS" "max_history w = 50"
  shows "tasks_ok (prune_history w)"
proof -
  let ?n = "length (List.filter (handle_finished (cells w)) (tasks w)) - 50"
  let ?ts = "skip_finished (handle_finished (cells w)) ?n (tasks w)"
  have eq: "tasks (prune_history w) = ?ts" "cells (prune_history w) = cells w"
    "max_history (prune_history w) = 50"
    using assms(4) by (simp_all add: prune_history_def prune_list_ref)
  have fin: "length (List.filter (handle_finished (cells w)) ?ts) \<le> 50"
    by (simp add: skip_finished_counts(1))
  have "List.filter (handle_active (cells w)) ?ts = List.filter (handle_active (cells w)) (tasks w)"
    using skip_finished_counts(2) [of "handle_finished (cells w)" ?n "tasks w"]
    by (simp add: active_or_finished)
  then have act: "length (List.filter (handle_active (cells w)) ?ts) \<le> MAX_ACTIVE_TASKS"
    using assms(3) by (simp add: active_count_def)
  have "length ?ts \<le> MAX_ACTIVE_TASKS + 50"
    using length_active_finished [of ?ts "cells w"] fin act by linarith
  moreover have "distinct ?ts" using assms(1) by (rule skip_finished_counts(5))
  moreover have "\<forall>h \<in> set ?ts. h < length (cells w)"
    using assms(2) skip_finished_counts(4) [of "handle_finished (cells w)" ?n "tasks w"] by auto
  ultimately show ?thesis using eq act by (simp add: tasks_ok_def active_count_def)
qed

lemma reap_ok: "tasks_ok w \<Longrightarrow> tasks_ok (reap_finished_threads w)"
  by (simp add: tasks_ok_def reap_finished_threads_def active_count_def)

lemma push_cell_active:
  "\<forall>h \<in> set ts. h < length cs \<Longrightarrow>
     List.filter (handle_active (cs @ [c])) ts = List.filter (handle_active cs) ts"
  by (intro filter_cong) (auto simp: handle_active_def nth_append)

lemma spawn_ok:
  assumes ok: "tasks_ok w" and sp: "spawn tid desc cat now thread w = (h, w')"
  shows "tasks_ok w'"
proof (cases "MAX_ACTIVE_TASKS \<le> active_count w")
  case True
  with sp have "w' = w\<lparr>cells := cells w @ [new_cell tid desc cat now (Failed ''Too many active tasks (max 64)'')]\<rparr>"
    by (simp add: spawn_def Let_def)
  with ok show ?thesis
    by (auto simp: tasks_ok_def active_count_def push_cell_active less_Suc_eq)
next
  case False
  let ?h = "length (cells w)"
  let ?w1 = "w\<lparr>cells := cells w @ [new_cell tid desc cat now Running], tasks := tasks w @ [?h]\<rparr>"
  let ?w2 = "case thread of None \<Rightarrow> ?w1\<lparr>join_handles := join_handles ?w1 @ [(tid, ?h)]\<rparr>
    | Some e \<Rightarrow> on_cell ?h (set_failed (''Thread spawn failed: '' @ e)) ?w1"
  have w': "w' = reap_finished_threads (prune_history ?w2)"
    using sp False by (simp add: spawn_def Let_def)
  have 1: "distinct (tasks ?w1)" "\<forall>h \<in> set (tasks ?w1). h < length (cells ?w1)"
    using ok by (auto simp: tasks_ok_def)
  have "active_count ?w1 \<le> Suc (active_count w)"
    using ok by (simp add: active_count_def push_cell_active tasks_ok_def)
  with False have 2: "active_count ?w1 \<le> MAX_ACTIVE_TASKS" by simp
  have "tasks ?w2 = tasks ?w1" "length (cells ?w2) = length (cells ?w1)" "max_history ?w2 = 50"
    using ok by (auto simp: tasks_ok_def split: option.splits)
  moreover have "active_count ?w2 \<le> active_count ?w1"
  proof (cases thread)
    case None
    then show ?thesis by (simp add: active_count_def)
  next
    case (Some e)
    then show ?thesis
      using on_cell_active [of "set_failed (''Thread spawn failed: '' @ e)" ?h ?w1] by simp
  qed
  ultimately have "tasks_ok (prune_history ?w2)"
    using 1 2 by (intro prune_ok) auto
  then show ?thesis unfolding w' by (rule reap_ok)
qed

lemma task_step_ok: "task_step w w' \<Longrightarrow> tasks_ok w \<Longrightarrow> tasks_ok w'"
proof (induction rule: task_step.induct)
  case (t_spawn tid desc cat now thread w h w')
  then show ?case by (blast intro: spawn_ok)
next
  case (t_cancel w tid)
  then show ?case by (auto simp: cancel_def on_cell_ok split: option.splits)
next
  case (t_clear w)
  then show ?case
    by (auto simp: tasks_ok_def clear_history_def active_count_def
        intro: order_trans [OF length_filter_le])
next
  case (t_join w)
  then show ?case by (simp add: tasks_ok_def join_all_def active_count_def)
qed (auto intro: on_cell_ok)

lemma reach_tasks_ok: "task_reach w \<Longrightarrow> tasks_ok w"
proof (induction rule: task_reach.induct)
  case (reach_new cs)
  then show ?case by (simp add: tasks_ok_def new_manager_def active_count_def MAX_ACTIVE_TASKS_def)
qed (blast intro: task_step_ok)

section \<open>Properties\<close>

text \<open>C7: In every state that calls of the manager and of the workers, panics and poisoned locks can
  lead to, at most 64 tasks are active, at most 114 are listed, and none is listed twice.\<close>

theorem task_list_bounded:
  assumes "task_reach w"
  shows "active_count w \<le> 64 \<and> length (tasks w) \<le> 114 \<and> distinct (tasks w)"
  using reach_tasks_ok [OF assms] by (simp add: tasks_ok_def MAX_ACTIVE_TASKS_def)

theorem task_list_bounded_witness:
  "task_reach (snd (spawn [1] ''Cloning'' ''clone'' 0 None (new_manager [])))
   \<and> active_count (snd (spawn [1] ''Cloning'' ''clone'' 0 None (new_manager []))) \<le> 64"
proof -
  have "task_reach (snd (spawn [1] ''Cloning'' ''clone'' 0 None (new_manager [])))"
    by (rule reach_step [OF reach_new]) (rule t_spawn [OF prod.collapse [symmetric]])
  from task_list_bounded [OF this] this show ?thesis by blast
qed

text \<open>Pruning keeps every task that is not finished and the newest fifty finished ones, all in
  their order; the loop over positions from the back removes what it means to.\<close>

theorem prune_keeps_newest:
  "List.filter (handle_active (cells w)) (tasks (prune_history w)) = active_tasks w
   \<and> List.filter (handle_finished (cells w)) (tasks (prune_history w))
     = (let fin = List.filter (handle_finished (cells w)) (tasks w)
        in drop (length fin - max_history w) fin)
   \<and> tasks (prune_history w)
     = skip_finished (handle_finished (cells w))
         (length (List.filter (handle_finished (cells w)) (tasks w)) - max_history w) (tasks w)"
  using skip_finished_counts(2) [of "handle_finished (cells w)" _ "tasks w"]
    skip_finished_counts(3) [of "handle_finished (cells w)" _ "tasks w"]
  by (simp add: prune_history_def prune_list_ref active_tasks_def active_or_finished Let_def)

text \<open>Cancelling is not final: a worker that reports its end after the request overwrites the
  status, so a cancelled task ends as completed or failed.\<close>

theorem cancelled_is_overwritten:
  "cell_status (request_cancel (new_cell tid d cat now Running)) = Cancelled
   \<and> cell_status (set_completed (request_cancel (new_cell tid d cat now Running))) = Completed
   \<and> cell_status (set_failed e (request_cancel (new_cell tid d cat now Running))) = Failed e"
  by (simp add: request_cancel_def set_completed_def set_failed_def with_lock_def cell_status_def
      new_cell_def)

end
