(* ===== verification/Policy.thy ===== *)
theory Policy
  imports Errors
begin

text \<open>
  Restriction policies: vmm-core/src/restricted.rs and \<open>enforce_policy\<close> of connection.rs. Files are
  a map from paths to contents; serde\_json is the pair \<open>enc\<close>, \<open>dec\<close>; the clock is an argument
  (seconds). \<open>save\<close> is the sequence of file-system calls it makes, so that a crash between any
  two of them, or inside the write, is a state of the model.
\<close>

section \<open>Operations and policies\<close>

datatype operation =
    ModifyConfig | AttachUsb | AddSharedFolder | TakeSnapshot | RevertSnapshot | Clone | Export
  | ForceStop | Delete | ChangeNetwork

primrec operation_label :: "operation \<Rightarrow> string" where
  "operation_label ModifyConfig = ''modify VM configuration''"
| "operation_label AttachUsb = ''attach USB device''"
| "operation_label AddSharedFolder = ''add shared folder''"
| "operation_label TakeSnapshot = ''take snapshot''"
| "operation_label RevertSnapshot = ''revert snapshot''"
| "operation_label Clone = ''clone VM''"
| "operation_label Export = ''export VM''"
| "operation_label ForceStop = ''force-stop VM''"
| "operation_label Delete = ''delete VM''"
| "operation_label ChangeNetwork = ''change network configuration''"

record restriction_policy =
  policy_name :: string
  issuer :: string
  expires_at :: "int option"
  read_only_config :: bool
  block_usb :: bool
  block_shared_folders :: bool
  block_snapshots :: bool
  block_clone_export :: bool
  block_force_stop :: bool
  block_delete :: bool
  block_network_change :: bool
  user_message :: string

definition default_policy :: restriction_policy where
  "default_policy = \<lparr>policy_name = [], issuer = [], expires_at = None, read_only_config = False,
     block_usb = False, block_shared_folders = False, block_snapshots = False,
     block_clone_export = False, block_force_stop = False, block_delete = False,
     block_network_change = False, user_message = []\<rparr>"

definition is_expired :: "int \<Rightarrow> restriction_policy \<Rightarrow> bool" where
  "is_expired now p = (case expires_at p of Some deadline \<Rightarrow> deadline < now | None \<Rightarrow> False)"

definition op_blocked :: "restriction_policy \<Rightarrow> operation \<Rightarrow> bool" where
  "op_blocked p op =
     (case op of
        ModifyConfig \<Rightarrow> read_only_config p
      | AttachUsb \<Rightarrow> block_usb p
      | AddSharedFolder \<Rightarrow> block_shared_folders p
      | TakeSnapshot \<Rightarrow> block_snapshots p
      | RevertSnapshot \<Rightarrow> block_snapshots p
      | Clone \<Rightarrow> block_clone_export p
      | Export \<Rightarrow> block_clone_export p
      | ForceStop \<Rightarrow> block_force_stop p
      | Delete \<Rightarrow> block_delete p
      | ChangeNetwork \<Rightarrow> block_network_change p)"

definition check_policy :: "int \<Rightarrow> restriction_policy \<Rightarrow> operation \<Rightarrow> string option" where
  "check_policy now p op =
     (if is_expired now p then
        Some (''policy '' @ [CHR 0x27] @ (if policy_name p = [] then ''restriction'' else policy_name p)
          @ [CHR 0x27] @ '' expired; VM is locked'')
      else if op_blocked p op then
        Some (''operation '' @ [CHR 0x27] @ operation_label op @ [CHR 0x27]
          @ '' blocked by restriction policy''
          @ (if user_message p = [] then [] else '' ('' @ user_message p @ '')''))
      else None)"

definition check_or_err :: "int \<Rightarrow> restriction_policy \<Rightarrow> operation \<Rightarrow> unit vmm_result" where
  "check_or_err now p op =
     (case check_policy now p op of
        Some reason \<Rightarrow> Inl (InvalidConfig (''Restricted VM: '' @ reason))
      | None \<Rightarrow> Inr ())"

section \<open>Files\<close>

type_synonym files = "string \<Rightarrow> string option"

definition policy_path :: "string \<Rightarrow> string \<Rightarrow> string" where
  "policy_path dir vm_id = dir @ ''/'' @ vm_id @ ''.policy.json''"

definition policy_tmp_path :: "string \<Rightarrow> string \<Rightarrow> nat \<Rightarrow> string" where
  "policy_tmp_path dir vm_id pid = dir @ ''/.'' @ vm_id @ ''.policy.json.tmp.'' @ dec pid"

text \<open>What the calls of one \<open>save\<close> answer; a write that fails has written a prefix.\<close>

record save_io =
  mkdir_ok :: bool
  open_ok :: bool
  write_stops_at :: "nat option"
  sync_ok :: bool
  rename_ok :: bool

definition policy_save ::
  "(restriction_policy \<Rightarrow> string) \<Rightarrow> string \<Rightarrow> string \<Rightarrow> nat \<Rightarrow> save_io \<Rightarrow> restriction_policy \<Rightarrow> files
     \<Rightarrow> unit vmm_result \<times> files" where
  "policy_save enc dir vm_id pid io p fs =
     (let final = policy_path dir vm_id; tmp = policy_tmp_path dir vm_id pid; json = enc p in
      if \<not> mkdir_ok io then (Inl (Io ''mkdir''), fs)
      else if fs tmp \<noteq> None \<or> \<not> open_ok io then (Inl (Io ''open''), fs)
      else case write_stops_at io of
        Some k \<Rightarrow> (Inl (Io ''write''), fs(tmp \<mapsto> take k json))
      | None \<Rightarrow>
          (if \<not> sync_ok io then (Inl (Io ''sync''), fs(tmp \<mapsto> json))
           else if \<not> rename_ok io then (Inl (Io ''rename''), fs(tmp := None))
           else (Inr (), fs(final \<mapsto> json, tmp := None))))"

text \<open>The states between the calls: file created, any prefix written, renamed.\<close>

definition save_states ::
  "(restriction_policy \<Rightarrow> string) \<Rightarrow> string \<Rightarrow> string \<Rightarrow> nat \<Rightarrow> restriction_policy \<Rightarrow> files \<Rightarrow> files list" where
  "save_states enc dir vm_id pid p fs =
     (let final = policy_path dir vm_id; tmp = policy_tmp_path dir vm_id pid; json = enc p in
      fs # map (\<lambda>k. fs(tmp \<mapsto> take k json)) [0..<Suc (length json)]
      @ [fs(final \<mapsto> json, tmp := None)])"

definition policy_load ::
  "(string \<Rightarrow> restriction_policy option) \<Rightarrow> string \<Rightarrow> string \<Rightarrow> files
     \<Rightarrow> restriction_policy option vmm_result" where
  "policy_load dec_json dir vm_id fs =
     (case fs (policy_path dir vm_id) of
        None \<Rightarrow> Inr None
      | Some json \<Rightarrow>
          (case dec_json json of
             None \<Rightarrow> Inl (Serde ''invalid policy'')
           | Some p \<Rightarrow> Inr (Some p)))"

definition policy_delete :: "string \<Rightarrow> string \<Rightarrow> files \<Rightarrow> files" where
  "policy_delete dir vm_id fs = fs(policy_path dir vm_id := None)"

text \<open>\<open>enforce_policy\<close>: \<open>canonical\<close> is \<open>Uuid::parse_str\<close> followed by printing.\<close>

definition enforce_policy ::
  "(string \<Rightarrow> restriction_policy option) \<Rightarrow> (string \<Rightarrow> string option) \<Rightarrow> string \<Rightarrow> int \<Rightarrow> files
     \<Rightarrow> string \<Rightarrow> operation \<Rightarrow> unit vmm_result" where
  "enforce_policy dec_json canonical dir now fs vm_uuid op =
     (case canonical vm_uuid of
        None \<Rightarrow> Inr ()
      | Some vm_id \<Rightarrow>
          (case policy_load dec_json dir vm_id fs of
             Inl e \<Rightarrow> Inl e
           | Inr None \<Rightarrow> Inr ()
           | Inr (Some p) \<Rightarrow> check_or_err now p op))"

section \<open>Lemmas\<close>

lemma tmp_not_final: "policy_tmp_path dir vm_id pid \<noteq> policy_path dir vm_id'" if "length vm_id = length vm_id'"
proof
  assume "policy_tmp_path dir vm_id pid = policy_path dir vm_id'"
  then have "length (policy_tmp_path dir vm_id pid) = length (policy_path dir vm_id')" by simp
  with that show False by (simp add: policy_tmp_path_def policy_path_def)
qed

lemma check_policy_None: "check_policy now p op = None \<longleftrightarrow> \<not> is_expired now p \<and> \<not> op_blocked p op"
  by (simp add: check_policy_def)

lemma check_or_err_Inr: "check_or_err now p op = Inr () \<longleftrightarrow> \<not> is_expired now p \<and> \<not> op_blocked p op"
  using check_policy_None [of now p op] by (auto simp: check_or_err_def split: option.splits)

text \<open>What each flag of a policy is there to refuse.\<close>

definition refused_operations :: "restriction_policy \<Rightarrow> operation set" where
  "refused_operations p =
     (if read_only_config p then {ModifyConfig} else {})
     \<union> (if block_usb p then {AttachUsb} else {})
     \<union> (if block_shared_folders p then {AddSharedFolder} else {})
     \<union> (if block_snapshots p then {TakeSnapshot, RevertSnapshot} else {})
     \<union> (if block_clone_export p then {Clone, Export} else {})
     \<union> (if block_force_stop p then {ForceStop} else {})
     \<union> (if block_delete p then {Delete} else {})
     \<union> (if block_network_change p then {ChangeNetwork} else {})"

lemma op_blocked_refused: "op_blocked p op \<longleftrightarrow> op \<in> refused_operations p"
  by (cases op) (simp_all add: op_blocked_def refused_operations_def)

section \<open>Properties\<close>




text \<open>After one write that fails (a full disk) the temporary file stays, and because it is opened
  with \<open>create_new\<close> under a name that depends on the process only, every later save of that
  machine's policy by the same process fails, even when the disk has room again.\<close>

theorem failed_write_blocks_saving:
  assumes "mkdir_ok io" "fs (policy_tmp_path dir vm_id pid) = None" "open_ok io" "write_stops_at io = Some k"
  shows "fst (policy_save enc dir vm_id pid io' q (snd (policy_save enc dir vm_id pid io p fs))) \<noteq> Inr ()"
  using assms by (simp add: policy_save_def Let_def)

theorem failed_write_blocks_saving_witness:
  "fst (policy_save (\<lambda>_. ''{}'') ''/c'' ''id'' 7
       \<lparr>mkdir_ok = True, open_ok = True, write_stops_at = None, sync_ok = True, rename_ok = True\<rparr> default_policy
       (snd (policy_save (\<lambda>_. ''{}'') ''/c'' ''id'' 7
         \<lparr>mkdir_ok = True, open_ok = True, write_stops_at = Some 1, sync_ok = True, rename_ok = True\<rparr>
         default_policy (\<lambda>_. None)))) \<noteq> Inr ()"
  by (rule failed_write_blocks_saving) simp_all

end
