(* ===== verification/Snapshots.thy ===== *)
theory Snapshots
  imports Errors Xml_Text "HOL-Library.Multiset"
begin

text \<open>
  Snapshots of a machine (vmm-core/src/snapshot.rs): the name checks, the XML that is sent to libvirt
  and what is read back from it, the tree the interface shows, and the quiesced snapshot with its
  guard. libvirt and the guest agent are arguments: whether a domain is found, what the creation
  call answers, whether the freeze took effect and what it reported. A panic is \<open>None\<close>.
\<close>

section \<open>Data\<close>

record snapshot_info =
  snap_name :: string
  snap_description :: string
  creation_time :: u64
  snap_state :: string
  parent :: "string option"
  is_current :: bool

datatype snapshot_node = Node (node_info: snapshot_info) (node_children: "snapshot_node list") (node_depth: nat)

definition MAX_SNAPSHOT_TREE_DEPTH :: nat where
  "MAX_SNAPSHOT_TREE_DEPTH = 256"

section \<open>The tree\<close>

text \<open>The entry of the children map for a name holds the snapshots with that parent in list order.\<close>

definition children_of :: "snapshot_info list \<Rightarrow> string \<Rightarrow> snapshot_info list" where
  "children_of snaps p = List.filter (\<lambda>s. parent s = Some p) snaps"

definition tree_roots :: "snapshot_info list \<Rightarrow> snapshot_info list" where
  "tree_roots snaps = List.filter (\<lambda>s. parent s = None) snaps"

function build_children :: "snapshot_info list \<Rightarrow> string \<Rightarrow> nat \<Rightarrow> snapshot_node list" where
  "build_children snaps p depth =
     (if MAX_SNAPSHOT_TREE_DEPTH \<le> depth then []
      else map (\<lambda>s. Node s (build_children snaps (snap_name s) (depth + 1)) depth) (children_of snaps p))"
  by pat_completeness auto
termination
  by (relation "measure (\<lambda>(snaps, p, depth). MAX_SNAPSHOT_TREE_DEPTH - depth)") auto

declare build_children.simps [simp del]

definition build_snapshot_tree :: "snapshot_info list \<Rightarrow> snapshot_node list" where
  "build_snapshot_tree snaps =
     map (\<lambda>r. Node r (build_children snaps (snap_name r) 1) 0) (tree_roots snaps)"

primrec walk :: "snapshot_node \<Rightarrow> (snapshot_info \<times> nat) list" where
  "walk (Node s cs d) = (s, d) # concat (map walk cs)"

definition flatten_tree :: "snapshot_node list \<Rightarrow> (snapshot_info \<times> nat) list" where
  "flatten_tree tree = concat (map walk tree)"

section \<open>Checks\<close>

definition snap_vm_char :: "rchar \<Rightarrow> bool" where
  "snap_vm_char g \<longleftrightarrow> ascii_char (\<lambda>c. ascii_alnum c \<or> c \<in> set ''-_. '') g"

definition snap_validate_vm_name :: "string \<Rightarrow> unit vmm_result" where
  "snap_validate_vm_name name =
     (if name = [] then Inl (SnapshotError ''VM name cannot be empty'')
      else if length name > 255 then Inl (SnapshotError ''VM name too long (max 255 chars)'')
      else if \<not> list_all snap_vm_char (chars name) then
        Inl (SnapshotError (''Invalid VM name '' @ sq name
          @ '': only alphanumeric, hyphen, underscore, and period allowed''))
      else Inr ())"

definition validate_snapshot_name :: "(nat \<Rightarrow> bool) \<Rightarrow> string \<Rightarrow> unit vmm_result" where
  "validate_snapshot_name ualnum name =
     (if name = [] then Inl (SnapshotError ''Snapshot name cannot be empty'')
      else if length name > 128 then Inl (SnapshotError ''Snapshot name too long (max 128)'')
      else if starts_with name ''-'' then
        Inl (SnapshotError (''Snapshot name must not start with '' @ sq ''-'' @ '' (argument injection risk)''))
      else if \<not> list_all (\<lambda>g. is_alphanumeric ualnum g \<or> ascii_char (\<lambda>c. c \<in> set '' -_.()'') g) (chars name)
      then Inl (SnapshotError ''Snapshot name contains invalid characters'')
      else Inr ())"

text \<open>The description is cut before the last character of its first 4096 bytes; slicing at 4096
  panics when that byte continues a character.\<close>

definition safe_description :: "string \<Rightarrow> string option" where
  "safe_description d =
     (if length d > 4096 then
        (if is_char_boundary d 4096 then Some (of_chars (butlast (chars (take 4096 d)))) else None)
      else Some d)"

section \<open>XML\<close>

definition build_snapshot_xml :: "string \<Rightarrow> string \<Rightarrow> string" where
  "build_snapshot_xml n d =
     ''<domainsnapshot>\<newline>  <name>'' @ snapshot_xml_escape n @ ''</name>\<newline>  <description>''
       @ snapshot_xml_escape d @ ''</description>\<newline></domainsnapshot>''"

definition extract_xml_value :: "string \<Rightarrow> string \<Rightarrow> string option" where
  "extract_xml_value xml tag =
     (case str_find xml (''<'' @ tag @ ''>'') of
        None \<Rightarrow> None
      | Some open_pos \<Rightarrow>
          (let rest = drop (open_pos + length tag + 2) xml in
           map_option (\<lambda>e. take e rest) (str_find rest (''</'' @ tag @ ''>''))))"

definition extract_parent_name :: "string \<Rightarrow> string option" where
  "extract_parent_name xml =
     (case str_find xml ''<parent>'' of
        None \<Rightarrow> None
      | Some start \<Rightarrow>
          (let remaining = drop start xml in
           case str_find remaining ''</parent>'' of
             None \<Rightarrow> None
           | Some e \<Rightarrow> extract_xml_value (take e remaining) ''name''))"

text \<open>\<open>parse::<i64>\<close>: an optional sign, digits, no overflow.\<close>

definition parse_i64 :: "string \<Rightarrow> u64 option" where
  "parse_i64 s =
     (case s of
        [] \<Rightarrow> None
      | c # cs \<Rightarrow>
          if c = CHR ''-'' then
            (if cs = [] then None else map_option (\<lambda>n. - of_nat n) (parse_digits (2 ^ 63) 0 cs))
          else map_option of_nat (parse_unsigned (2 ^ 63 - 1) s))"

definition opt_or :: "'a \<Rightarrow> 'a option \<Rightarrow> 'a" where
  "opt_or d x = (case x of None \<Rightarrow> d | Some v \<Rightarrow> v)"

definition snapshot_of_xml :: "string \<Rightarrow> string \<Rightarrow> snapshot_info" where
  "snapshot_of_xml name xml =
     \<lparr>snap_name = name,
      snap_description = opt_or [] (extract_xml_value xml ''description''),
      creation_time = opt_or 0 (Option.bind (extract_xml_value xml ''creationTime'') parse_i64),
      snap_state = opt_or [] (extract_xml_value xml ''state''),
      parent = extract_parent_name xml,
      is_current = str_contains xml ''<current/>''\<rparr>"

text \<open>What libvirt answers: the found domain, its snapshots as name and XML (a failing getter gives
  the empty text), the creation call. The creation call may panic.\<close>

record libvirt_snaps =
  domain_found :: "string \<Rightarrow> bool"
  all_snapshots :: "string \<Rightarrow> string + (string option \<times> string option) list"
  snapshot_found :: "string \<Rightarrow> string \<Rightarrow> string option"
  revert_call :: "string \<Rightarrow> string \<Rightarrow> string option"
  delete_call :: "string \<Rightarrow> string \<Rightarrow> string option"
  create_xml :: "string \<Rightarrow> string \<Rightarrow> u32 \<Rightarrow> (string option) option"

definition list_snapshots :: "libvirt_snaps \<Rightarrow> string \<Rightarrow> snapshot_info list vmm_result" where
  "list_snapshots lv vm =
     (case snap_validate_vm_name vm of Inl e \<Rightarrow> Inl e
      | Inr _ \<Rightarrow>
          if \<not> domain_found lv vm then Inl (VmNotFound vm)
          else (case all_snapshots lv vm of
              Inl e \<Rightarrow> Inl (SnapshotError (''Failed to list snapshots: '' @ e))
            | Inr snaps \<Rightarrow> Inr (map (\<lambda>(n, x). snapshot_of_xml (opt_or [] n) (opt_or [] x)) snaps)))"

text \<open>Reverting and deleting differ in the last call and in its message.\<close>

definition on_snapshot ::
  "(string \<Rightarrow> string \<Rightarrow> string option) \<Rightarrow> string \<Rightarrow> (nat \<Rightarrow> bool) \<Rightarrow> libvirt_snaps \<Rightarrow> string \<Rightarrow> string
     \<Rightarrow> unit vmm_result" where
  "on_snapshot call msg ualnum lv vm snap =
     (case snap_validate_vm_name vm of Inl e \<Rightarrow> Inl e
      | Inr _ \<Rightarrow> (case validate_snapshot_name ualnum snap of Inl e \<Rightarrow> Inl e
      | Inr _ \<Rightarrow>
          if \<not> domain_found lv vm then Inl (VmNotFound vm)
          else (case snapshot_found lv vm snap of
              Some e \<Rightarrow> Inl (SnapshotError (''Snapshot not found: '' @ e))
            | None \<Rightarrow> (case call vm snap of
                Some e \<Rightarrow> Inl (SnapshotError (msg @ e))
              | None \<Rightarrow> Inr ()))))"

definition revert_snapshot :: "(nat \<Rightarrow> bool) \<Rightarrow> libvirt_snaps \<Rightarrow> string \<Rightarrow> string \<Rightarrow> unit vmm_result" where
  "revert_snapshot ualnum lv = on_snapshot (revert_call lv) ''Failed to revert: '' ualnum lv"

definition delete_snapshot :: "(nat \<Rightarrow> bool) \<Rightarrow> libvirt_snaps \<Rightarrow> string \<Rightarrow> string \<Rightarrow> unit vmm_result" where
  "delete_snapshot ualnum lv = on_snapshot (delete_call lv) ''Failed to delete snapshot: '' ualnum lv"

section \<open>Creating\<close>

definition VIR_DOMAIN_SNAPSHOT_CREATE_DISK_ONLY :: u32 where
  "VIR_DOMAIN_SNAPSHOT_CREATE_DISK_ONLY = 16"

text \<open>The calls that leave the process, in order.\<close>

datatype snap_event = Freeze bool bool | Create_Xml string u32 | Thaw

text \<open>\<open>Freeze took said\<close>: whether the guest froze, and whether the agent call returned a count.\<close>

definition do_snapshot_inner ::
  "libvirt_snaps \<Rightarrow> string \<Rightarrow> string \<Rightarrow> string \<Rightarrow> bool \<Rightarrow> snap_event list \<times> unit vmm_result option" where
  "do_snapshot_inner lv vm snap desc include_memory =
     (case safe_description desc of
        None \<Rightarrow> ([], None)
      | Some d \<Rightarrow>
          if \<not> domain_found lv vm then ([], Some (Inl (VmNotFound vm)))
          else
            (let xml = build_snapshot_xml snap d;
                 flags = (if include_memory then 0 else VIR_DOMAIN_SNAPSHOT_CREATE_DISK_ONLY)
             in ([Create_Xml xml flags],
                 case create_xml lv vm xml flags of
                   None \<Rightarrow> None
                 | Some None \<Rightarrow> Some (Inr ())
                 | Some (Some e) \<Rightarrow> Some (Inl (SnapshotError (''Failed to create snapshot: '' @ e))))))"

definition create_snapshot ::
  "(nat \<Rightarrow> bool) \<Rightarrow> libvirt_snaps \<Rightarrow> string \<Rightarrow> string \<Rightarrow> string
     \<Rightarrow> snap_event list \<times> unit vmm_result option" where
  "create_snapshot ualnum lv vm snap desc =
     (case snap_validate_vm_name vm of Inl e \<Rightarrow> ([], Some (Inl e))
      | Inr _ \<Rightarrow> (case validate_snapshot_name ualnum snap of Inl e \<Rightarrow> ([], Some (Inl e))
      | Inr _ \<Rightarrow> do_snapshot_inner lv vm snap desc True))"

definition create_snapshot_quiesced ::
  "(nat \<Rightarrow> bool) \<Rightarrow> libvirt_snaps \<Rightarrow> bool \<Rightarrow> bool \<Rightarrow> string \<Rightarrow> string \<Rightarrow> string \<Rightarrow> bool
     \<Rightarrow> snap_event list \<times> unit vmm_result option" where
  "create_snapshot_quiesced ualnum lv took said vm snap desc include_memory =
     (case snap_validate_vm_name vm of Inl e \<Rightarrow> ([], Some (Inl e))
      | Inr _ \<Rightarrow> (case validate_snapshot_name ualnum snap of Inl e \<Rightarrow> ([], Some (Inl e))
      | Inr _ \<Rightarrow>
          (let armed = said;
               (evs, r) = do_snapshot_inner lv vm snap desc include_memory
           in (Freeze took said # evs @ (if armed then [Thaw] else []), r))))"


section \<open>Lemmas on the tree\<close>

text \<open>\<open>chain snaps s n\<close>: going from parent to parent, \<open>s\<close> reaches a root after \<open>n\<close> steps.\<close>

inductive chain :: "snapshot_info list \<Rightarrow> snapshot_info \<Rightarrow> nat \<Rightarrow> bool" for snaps where
  chain_root: "s \<in> set snaps \<Longrightarrow> parent s = None \<Longrightarrow> chain snaps s 0"
| chain_step: "s \<in> set snaps \<Longrightarrow> parent s = Some (snap_name t) \<Longrightarrow> t \<in> set snaps \<Longrightarrow> chain snaps t n
    \<Longrightarrow> chain snaps s (Suc n)"

inductive_cases chain_SomeE: "chain snaps s n"

inductive anc :: "snapshot_info list \<Rightarrow> snapshot_info \<Rightarrow> snapshot_info \<Rightarrow> bool" for snaps where
  anc_refl: "s \<in> set snaps \<Longrightarrow> anc snaps s s"
| anc_up: "anc snaps t s \<Longrightarrow> parent t = Some (snap_name u) \<Longrightarrow> u \<in> set snaps \<Longrightarrow> anc snaps u s"

definition names_distinct :: "snapshot_info list \<Rightarrow> bool" where
  "names_distinct snaps \<longleftrightarrow> distinct (map snap_name snaps)"

lemma same_name: "names_distinct snaps \<Longrightarrow> s \<in> set snaps \<Longrightarrow> t \<in> set snaps \<Longrightarrow> snap_name s = snap_name t \<Longrightarrow> s = t"
  by (auto simp: names_distinct_def distinct_map inj_on_def)

lemma anc_mem: "anc snaps t s \<Longrightarrow> t \<in> set snaps \<and> s \<in> set snaps"
  by (induction rule: anc.induct) auto

lemma chain_mem: "chain snaps s n \<Longrightarrow> s \<in> set snaps"
  by (induction rule: chain.induct) auto

lemma chain_parent:
  assumes "names_distinct snaps" "chain snaps s n" "parent s = Some (snap_name u)" "u \<in> set snaps"
  obtains m where "n = Suc m" "chain snaps u m"
  using assms(2)
proof cases
  case chain_root
  with assms(3) show ?thesis by simp
next
  case (chain_step t m)
  then have "t = u" using assms by (metis option.inject same_name)
  with chain_step that show ?thesis by blast
qed

lemma chain_unique: "names_distinct snaps \<Longrightarrow> chain snaps s n \<Longrightarrow> chain snaps s m \<Longrightarrow> n = m"
proof (induction n arbitrary: s m)
  case 0
  from 0(2) have "parent s = None" by cases auto
  with 0(3) show ?case by cases auto
next
  case (Suc n)
  from Suc.prems(2) obtain t where t: "parent s = Some (snap_name t)" "t \<in> set snaps" "chain snaps t n"
    by cases auto
  from Suc.prems(1,3) t(1,2) obtain k where "m = Suc k" "chain snaps t k" by (rule chain_parent)
  with Suc.IH[OF Suc.prems(1) t(3)] show ?case by blast
qed

lemma anc_rank:
  assumes "names_distinct snaps" "anc snaps t s" "chain snaps s k"
  shows "\<exists>n \<le> k. chain snaps t n"
  using assms(2,3)
proof (induction rule: anc.induct)
  case anc_refl
  then show ?case by blast
next
  case (anc_up t s u)
  then obtain n where n: "n \<le> k" "chain snaps t n" by blast
  from assms(1) n(2) anc_up.hyps(2,3) obtain m where m: "n = Suc m" "chain snaps u m"
    by (rule chain_parent)
  have "m \<le> k" using n(1) m(1) by simp
  with m(2) show ?case by blast
qed

lemma anc_child:
  assumes "anc snaps t s" "s \<noteq> t"
  obtains c where "anc snaps c s" "c \<in> set (children_of snaps (snap_name t))"
  using assms(1)
proof cases
  case anc_refl
  with assms(2) show ?thesis by simp
next
  case (anc_up c)
  with that[of c] show ?thesis using anc_mem[of snaps c s] by (simp add: children_of_def)
qed

lemma root_of: "chain snaps s k \<Longrightarrow> \<exists>r \<in> set (tree_roots snaps). anc snaps r s"
proof (induction rule: chain.induct)
  case (chain_root s)
  then show ?case by (auto simp: tree_roots_def intro: anc_refl)
next
  case (chain_step s t n)
  then obtain r where r: "r \<in> set (tree_roots snaps)" "anc snaps r t" by blast
  have "anc snaps r s" if "anc snaps r t'" "t' = t" for t'
    using that
  proof (induction rule: anc.induct)
    case (anc_refl t')
    with chain_step show ?case by (auto intro: anc.intros)
  next
    case (anc_up x t' u)
    then show ?case by (blast intro: anc.anc_up)
  qed
  with r show ?case by blast
qed

lemma child_rank: "c \<in> set (children_of snaps (snap_name t)) \<Longrightarrow> chain snaps t n \<Longrightarrow> chain snaps c (Suc n)"
  by (auto simp: children_of_def intro: chain_step chain_mem)

lemma child_anc: "c \<in> set (children_of snaps (snap_name t)) \<Longrightarrow> t \<in> set snaps \<Longrightarrow> anc snaps c s \<Longrightarrow> anc snaps t s"
  by (auto simp: children_of_def intro: anc_up)

lemma anc_rank_less:
  assumes "names_distinct snaps" "anc snaps t s" "s \<noteq> t" "chain snaps t n" "chain snaps s k"
  shows "n < k"
proof -
  from assms(2,3) obtain c where c: "anc snaps c s" "c \<in> set (children_of snaps (snap_name t))"
    by (rule anc_child)
  have "chain snaps c (Suc n)" using c(2) assms(4) by (rule child_rank)
  moreover obtain m where "m \<le> k" "chain snaps c m"
    using anc_rank[OF assms(1) c(1) assms(5)] by blast
  ultimately show ?thesis using chain_unique[OF assms(1)] by fastforce
qed

lemma anc_unique:
  assumes "names_distinct snaps"
  shows "anc snaps a s \<Longrightarrow> anc snaps b s \<Longrightarrow> chain snaps a m \<Longrightarrow> chain snaps b m \<Longrightarrow> a = b"
proof (induction arbitrary: b m rule: anc.induct)
  case (anc_refl s')
  then show ?case using anc_rank_less[OF assms, of b s' m m] by blast
next
  case (anc_up t s' u)
  then have t: "chain snaps t (Suc m)"
    using anc_mem[of snaps t s'] by (auto intro: chain_step)
  show ?case
  proof (cases "b = s'")
    case True
    with anc_up.prems t anc_up.hyps(1) show ?thesis
      using anc_rank[OF assms anc_up.hyps(1), of m] chain_unique[OF assms t] by force
  next
    case False
    with anc_up.prems(1) obtain c where c: "anc snaps c s'" "c \<in> set (children_of snaps (snap_name b))"
      by (metis anc_child)
    have "t = c" using anc_up.IH[OF c(1) t child_rank[OF c(2) anc_up.prems(3)]] .
    with c(2) anc_up.hyps(2,3) anc_mem[OF anc_up.prems(1)] show ?thesis
      by (auto simp: children_of_def intro: same_name[OF assms])
  qed
qed

definition tree_rows :: "snapshot_info list \<Rightarrow> string \<Rightarrow> nat \<Rightarrow> (snapshot_info \<times> nat) list" where
  "tree_rows snaps p d = concat (map walk (build_children snaps p d))"

lemma tree_rows_eq:
  "tree_rows snaps p d = (if 256 \<le> d then []
     else concat (map (\<lambda>c. (c, d) # tree_rows snaps (snap_name c) (Suc d)) (children_of snaps p)))"
  unfolding tree_rows_def
  by (subst build_children.simps) (simp add: MAX_SNAPSHOT_TREE_DEPTH_def comp_def)

lemma tree_rows_sound:
  "chain snaps t n \<Longrightarrow> (s, k) \<in> set (tree_rows snaps (snap_name t) (Suc n))
    \<Longrightarrow> anc snaps t s \<and> chain snaps s k \<and> n < k"
proof (induction "256 - n" arbitrary: n t)
  case (0 n)
  then show ?case by (simp add: tree_rows_eq[of _ _ "Suc n"])
next
  case (Suc d)
  from Suc.prems(2) obtain c where c: "c \<in> set (children_of snaps (snap_name t))"
    and sk: "(s, k) = (c, Suc n) \<or> (s, k) \<in> set (tree_rows snaps (snap_name c) (Suc (Suc n)))"
    by (subst (asm) tree_rows_eq) (auto split: if_splits)
  have cn: "chain snaps c (Suc n)" using c Suc.prems(1) by (rule child_rank)
  have t: "t \<in> set snaps" using Suc.prems(1) by (rule chain_mem)
  from sk show ?case
  proof
    assume "(s, k) = (c, Suc n)"
    with cn child_anc[OF c t anc_refl] chain_mem[OF cn] show ?thesis by auto
  next
    assume "(s, k) \<in> set (tree_rows snaps (snap_name c) (Suc (Suc n)))"
    moreover have "d = 256 - Suc n" using Suc.hyps(2) by simp
    ultimately have "anc snaps c s \<and> chain snaps s k \<and> Suc n < k"
      using Suc.hyps(1) cn by blast
    with child_anc[OF c t] show ?thesis by auto
  qed
qed

lemma tree_rows_complete:
  assumes "names_distinct snaps" "chain snaps s k" "k < 256"
  shows "anc snaps t s \<Longrightarrow> s \<noteq> t \<Longrightarrow> chain snaps t n \<Longrightarrow> (s, k) \<in> set (tree_rows snaps (snap_name t) (Suc n))"
proof (induction "256 - n" arbitrary: n t)
  case (0 n)
  then show ?case using anc_rank_less[OF assms(1) 0(2,3,4) assms(2)] assms(3) by simp
next
  case (Suc d)
  from Suc.prems(1,2) obtain c where c: "anc snaps c s" "c \<in> set (children_of snaps (snap_name t))"
    by (rule anc_child)
  have cn: "chain snaps c (Suc n)" using c(2) Suc.prems(3) by (rule child_rank)
  have n: "Suc n < 256"
    using anc_rank[OF assms(1) c(1) assms(2)] chain_unique[OF assms(1) cn] assms(3) by fastforce
  have "(s, k) = (c, Suc n) \<or> (s, k) \<in> set (tree_rows snaps (snap_name c) (Suc (Suc n)))"
  proof (cases "s = c")
    case True
    with chain_unique[OF assms(1,2)] cn show ?thesis by blast
  next
    case False
    have "d = 256 - Suc n" using Suc.hyps(2) by simp
    from Suc.hyps(1)[OF this c(1) False cn] show ?thesis by blast
  qed
  with c(2) n show ?case by (subst tree_rows_eq) auto
qed

lemma tree_rows_distinct:
  assumes "names_distinct snaps"
  shows "chain snaps t n \<Longrightarrow> distinct (tree_rows snaps (snap_name t) (Suc n))"
proof (induction "256 - n" arbitrary: n t)
  case (0 n)
  then show ?case by (simp add: tree_rows_eq[of _ _ "Suc n"])
next
  case (Suc d)
  let ?f = "\<lambda>c. (c, Suc n) # tree_rows snaps (snap_name c) (Suc (Suc n))"
  let ?cs = "children_of snaps (snap_name t)"
  have rank: "c \<in> set ?cs \<Longrightarrow> chain snaps c (Suc n)" for c
    using Suc.prems by (rule child_rank[rotated])
  have sound: "(s, k) \<in> set (?f c) \<Longrightarrow> c \<in> set ?cs \<Longrightarrow> anc snaps c s \<and> chain snaps s k" for s k c
    using tree_rows_sound[OF rank] rank chain_mem anc_refl by fastforce
  have "distinct (concat (map ?f ?cs))"
  proof (rule distinct_concat)
    have "distinct ?cs" using assms by (simp add: names_distinct_def distinct_map children_of_def)
    moreover have "inj_on ?f (set ?cs)" by (rule inj_onI) simp
    ultimately show "distinct (map ?f ?cs)" by (simp add: distinct_map)
  next
    fix ys assume "ys \<in> set (map ?f ?cs)"
    then obtain c where c: "c \<in> set ?cs" "ys = ?f c" by auto
    have "d = 256 - Suc n" using Suc.hyps(2) by simp
    from Suc.hyps(1)[OF this rank[OF c(1)]] tree_rows_sound[OF rank[OF c(1)], of c "Suc n"] c(2)
    show "distinct ys" by auto
  next
    fix ys zs assume yz: "ys \<in> set (map ?f ?cs)" "zs \<in> set (map ?f ?cs)" "ys \<noteq> zs"
    then obtain c c' where c: "c \<in> set ?cs" "ys = ?f c" "c' \<in> set ?cs" "zs = ?f c'" by auto
    { fix s k assume "(s, k) \<in> set ys" "(s, k) \<in> set zs"
      with sound c have "anc snaps c s" "anc snaps c' s" "chain snaps s k" by auto
      with anc_unique[OF assms] rank c have "c = c'" by blast
      with c yz(3) have False by simp }
    then show "set ys \<inter> set zs = {}" by auto
  qed
  then show ?case by (subst tree_rows_eq) simp
qed


section \<open>Lemmas on reading values back\<close>

lemma str_find_skip [simp]:
  "CHR ''<'' \<notin> set e \<Longrightarrow>
     str_find (e @ r) (CHR ''<'' # q) = map_option (\<lambda>k. length e + k) (str_find r (CHR ''<'' # q))"
  by (induction e; cases "str_find r (CHR ''<'' # q)") auto

lemma extract_value:
  assumes "str_find (pre @ CHR ''<'' # tag @ CHR ''>'' # e @ ''</'' @ tag @ ''>'' @ post) (CHR ''<'' # tag @ ''>'')
      = Some (length pre)"
    and "CHR ''<'' \<notin> set e"
  shows "extract_xml_value (pre @ CHR ''<'' # tag @ CHR ''>'' # e @ ''</'' @ tag @ ''>'' @ post) tag = Some e"
proof -
  have "str_find (CHR ''<'' # CHR ''/'' # tag @ CHR ''>'' # post) (CHR ''<'' # CHR ''/'' # tag @ ''>'') = Some 0"
    using starts_with_append[of "CHR ''<'' # CHR ''/'' # tag @ ''>''" post] by simp
  with assms show ?thesis by (simp add: extract_xml_value_def)
qed

lemma esc_no_lt: "CHR ''<'' \<notin> set (snapshot_xml_escape s)"
  using sesc.esc_no_markup by blast

lemma written_name: "extract_xml_value (build_snapshot_xml n d) ''name'' = Some (snapshot_xml_escape n)"
  using extract_value[of "''<domainsnapshot>\<newline>  ''" "''name''" "snapshot_xml_escape n"
      "''\<newline>  <description>'' @ snapshot_xml_escape d @ ''</description>\<newline></domainsnapshot>''"]
  by (simp add: build_snapshot_xml_def esc_no_lt)

lemma written_description:
  "extract_xml_value (build_snapshot_xml n d) ''description'' = Some (snapshot_xml_escape d)"
  using extract_value[of "''<domainsnapshot>\<newline>  <name>'' @ snapshot_xml_escape n @ ''</name>\<newline>  ''"
      "''description''" "snapshot_xml_escape d" "''\<newline></domainsnapshot>''"]
  by (simp add: build_snapshot_xml_def esc_no_lt)

lemma snapshot_document: "xml_document ''domainsnapshot'' (build_snapshot_xml n d @ ''\<newline>'')"
proof -
  have "opens ''domainsnapshot'' (CHR ''<'' # ''domainsnapshot>'')" by (simp add: opens_def xml_eval)
  moreover have "balanced (''\<newline>  <name>'' @ snapshot_xml_escape n @ ''</name>\<newline>  <description>''
      @ snapshot_xml_escape d @ ''</description>\<newline>'')"
    by (simp add: balanced_def xml_eval)
  ultimately have "xml_document ''domainsnapshot'' ((CHR ''<'' # ''domainsnapshot>'')
      @ (''\<newline>  <name>'' @ snapshot_xml_escape n @ ''</name>\<newline>  <description>''
      @ snapshot_xml_escape d @ ''</description>\<newline>'') @ ''</'' @ ''domainsnapshot'' @ ''>\<newline>'')"
    by (rule xml_documentI)
  then show ?thesis by (simp add: build_snapshot_xml_def)
qed

section \<open>Properties\<close>

lemma inj_on_fst_rel:
  assumes "\<And>s d. (s, d) \<in> S \<Longrightarrow> R s d" "\<And>s d e. R s d \<Longrightarrow> R s e \<Longrightarrow> d = e"
  shows "inj_on fst S"
  by (rule inj_onI) (metis assms prod.collapse)

lemma fst_rel_sub:
  assumes "\<And>s d. (s, d) \<in> set xs \<Longrightarrow> R s d" "\<And>s d. R s d \<Longrightarrow> s \<in> A"
  shows "set (map fst xs) \<subseteq> A"
  using assms by fastforce

text \<open>The rows of a root and of everything below it.\<close>

definition rows_of :: "snapshot_info list \<Rightarrow> snapshot_info \<Rightarrow> (snapshot_info \<times> nat) list" where
  "rows_of snaps r = (r, 0) # tree_rows snaps (snap_name r) (Suc 0)"

lemma flatten_rows:
  "flatten_tree (build_snapshot_tree snaps) = concat (map (rows_of snaps) (tree_roots snaps))"
  by (simp add: flatten_tree_def build_snapshot_tree_def tree_rows_def rows_of_def[abs_def] comp_def)

lemma root_chain: "r \<in> set (tree_roots snaps) \<Longrightarrow> chain snaps r 0"
  by (simp add: tree_roots_def chain_root)

lemma rows_sound:
  "(s, d) \<in> set (rows_of snaps r) \<Longrightarrow> r \<in> set (tree_roots snaps) \<Longrightarrow> anc snaps r s \<and> chain snaps s d"
  unfolding rows_of_def using tree_rows_sound[OF root_chain] root_chain chain_mem anc_refl by fastforce

lemma rows_disjoint:
  assumes "names_distinct snaps" "r \<in> set (tree_roots snaps)" "r' \<in> set (tree_roots snaps)"
    and "(s, k) \<in> set (rows_of snaps r)" "(s, k) \<in> set (rows_of snaps r')"
  shows "r = r'"
  using rows_sound[OF assms(4,2)] rows_sound[OF assms(5,3)] anc_unique[OF assms(1)] root_chain assms(2,3)
  by blast

lemma rows_distinct:
  assumes "names_distinct snaps"
  shows "distinct (concat (map (rows_of snaps) (tree_roots snaps)))"
proof (rule distinct_concat)
  have "distinct (tree_roots snaps)" using assms by (simp add: names_distinct_def distinct_map tree_roots_def)
  moreover have "inj_on (rows_of snaps) (set (tree_roots snaps))" by (rule inj_onI) (simp add: rows_of_def)
  ultimately show "distinct (map (rows_of snaps) (tree_roots snaps))" by (simp add: distinct_map)
next
  fix ys assume "ys \<in> set (map (rows_of snaps) (tree_roots snaps))"
  then show "distinct ys"
    using tree_rows_distinct[OF assms root_chain] tree_rows_sound[OF root_chain, of _ _ _ 0] by (auto simp: rows_of_def)
next
  fix ys zs assume "ys \<in> set (map (rows_of snaps) (tree_roots snaps))" "zs \<in> set (map (rows_of snaps) (tree_roots snaps))" "ys \<noteq> zs"
  then show "set ys \<inter> set zs = {}" using rows_disjoint[OF assms] by fastforce
qed

lemma rows_cover:
  assumes "names_distinct snaps" "list_all (\<lambda>s. \<exists>n < 256. chain snaps s n) snaps" "s \<in> set snaps"
  shows "\<exists>d r. r \<in> set (tree_roots snaps) \<and> (s, d) \<in> set (rows_of snaps r)"
proof -
  from assms(2,3) obtain k where k: "chain snaps s k" "k < 256" by (auto simp: list_all_iff)
  obtain r where r: "r \<in> set (tree_roots snaps)" "anc snaps r s" using root_of[OF k(1)] by blast
  show ?thesis
  proof (cases "s = r")
    case True
    with r(1) show ?thesis unfolding rows_of_def by force
  next
    case False
    from tree_rows_complete[OF assms(1) k r(2) False root_chain[OF r(1)]] r(1) show ?thesis unfolding rows_of_def by force
  qed
qed

text \<open>C34: When names are unique and every snapshot reaches a root within 255 steps, the tree that the
  interface flattens shows every snapshot exactly once, at the depth of its distance to the root.\<close>
theorem tree_shows_every_snapshot:
  assumes "names_distinct snaps" "list_all (\<lambda>s. \<exists>n < 256. chain snaps s n) snaps"
  shows "mset (map fst (flatten_tree (build_snapshot_tree snaps))) = mset snaps
    \<and> list_all (\<lambda>(s, d). chain snaps s d) (flatten_tree (build_snapshot_tree snaps))"
proof -
  let ?flat = "concat (map (rows_of snaps) (tree_roots snaps))"
  have depth: "(s, d) \<in> set ?flat \<Longrightarrow> chain snaps s d" for s d using rows_sound by auto
  then have "inj_on fst (set ?flat)" using chain_unique[OF assms(1)] by (rule inj_on_fst_rel)
  with rows_distinct[OF assms(1)] have "distinct (map fst ?flat)" by (simp add: distinct_map)
  moreover have "distinct snaps" using assms(1) by (simp add: names_distinct_def distinct_map)
  moreover have "set (map fst ?flat) = set snaps"
  proof
    show "set (map fst ?flat) \<subseteq> set snaps" using depth chain_mem by (rule fst_rel_sub)
    show "set snaps \<subseteq> set (map fst ?flat)" using rows_cover[OF assms] by force
  qed
  ultimately have "mset (map fst ?flat) = mset snaps" using set_eq_iff_mset_eq_distinct by blast
  with depth show ?thesis by (auto simp: flatten_rows list_all_iff simp del: set_concat)
qed

definition snap_row :: "string \<Rightarrow> string option \<Rightarrow> snapshot_info" where
  "snap_row n p = \<lparr>snap_name = n, snap_description = [], creation_time = 0,
     snap_state = ''running'', parent = p, is_current = False\<rparr>"

theorem tree_shows_every_snapshot_witness:
  "flatten_tree (build_snapshot_tree [snap_row ''b'' (Some ''a''), snap_row ''a'' None])
     = [(snap_row ''a'' None, 0), (snap_row ''b'' (Some ''a''), 1)]
   \<and> mset (map fst (flatten_tree (build_snapshot_tree [snap_row ''b'' (Some ''a''), snap_row ''a'' None])))
     = mset [snap_row ''b'' (Some ''a''), snap_row ''a'' None]"
proof -
  let ?snaps = "[snap_row ''b'' (Some ''a''), snap_row ''a'' None]"
  have "names_distinct ?snaps" by code_simp
  moreover have a: "chain ?snaps (snap_row ''a'' None) 0"
    by (rule chain_root) (simp_all add: snap_row_def)
  moreover have "chain ?snaps (snap_row ''b'' (Some ''a'')) (Suc 0)"
    by (rule chain_step[OF _ _ _ a]) (simp_all add: snap_row_def)
  ultimately have "mset (map fst (flatten_tree (build_snapshot_tree ?snaps))) = mset ?snaps"
    using tree_shows_every_snapshot[of ?snaps] by fastforce
  moreover have "flatten_tree (build_snapshot_tree ?snaps)
      = [(snap_row ''a'' None, 0), (snap_row ''b'' (Some ''a''), 1)]" by code_simp
  ultimately show ?thesis by blast
qed

text \<open>A snapshot whose parent is not in the list, and every snapshot below it, is missing from the
  tree: nothing says so to the user.\<close>
theorem orphan_not_shown:
  "flatten_tree (build_snapshot_tree [snap_row ''b'' (Some ''gone''), snap_row ''a'' None])
     = [(snap_row ''a'' None, 0)]"
  by code_simp


definition panicking_libvirt :: libvirt_snaps where
  "panicking_libvirt = \<lparr>domain_found = (\<lambda>_. True), all_snapshots = (\<lambda>_. Inr []),
     snapshot_found = (\<lambda>_ _. None), revert_call = (\<lambda>_ _. None), delete_call = (\<lambda>_ _. None),
     create_xml = (\<lambda>_ _ _. None)\<rparr>"


text \<open>The guard is armed by the report, not by the freeze: when the guest froze but the answer was
  lost (the agent call has a time limit), nothing thaws it.\<close>
theorem unreported_freeze_stays_frozen:
  "Thaw \<notin> set (fst (create_snapshot_quiesced ualnum lv True False vm snap desc include_memory))"
  by (auto simp: create_snapshot_quiesced_def do_snapshot_inner_def Let_def
      split: sum.splits prod.splits option.splits if_splits)

text \<open>Capping the description panics exactly when it is longer than 4096 bytes and byte 4096 is
  inside a character.\<close>
theorem description_cap_panics_iff:
  "safe_description d = None \<longleftrightarrow> 4096 < length d \<and> is_cont_byte (d ! 4096)"
  by (auto simp: safe_description_def is_char_boundary_def)



text \<open>The list shows the extracted text as it stands: the description of a snapshot comes back
  as it was given exactly when it holds none of the five characters that XML escapes.\<close>
theorem listed_description_exact_iff:
  "snap_description (snapshot_of_xml n (build_snapshot_xml n d)) = d \<longleftrightarrow>
     list_all (\<lambda>c. c \<notin> {CHR ''&'', CHR ''<'', CHR ''>'', quot, apos}) d"
  by (simp add: snapshot_of_xml_def opt_or_def written_description snapshot_xml_escape_ref escape_ref_id
      del: insert_iff)

end
