(* ===== verification/Retention.thy ===== *)
theory Retention
  imports Snapshots
begin

text \<open>
  Automatic snapshots: rollback points (vmm-core/src/rollback.rs) and AutoProtect
  (vmm-core/src/auto\_snapshot.rs). The snapshot calls themselves (snapshot.rs over libvirt) are
  arguments: the list that \<open>list_snapshots\<close> returns and, per name, whether \<open>delete_snapshot\<close> or
  \<open>revert_snapshot\<close> succeeds. Times are 64-bit as in the code, signed for \<open>creation_time\<close>.
\<close>

text \<open>\<open>creation_time\<close> is an \<open>i64\<close>: its order is that of the signed value.\<close>

definition time_of :: "snapshot_info \<Rightarrow> int" where
  "time_of s = sint (creation_time s)"

section \<open>Rollback points\<close>

definition ROLLBACK_PREFIX :: string where
  "ROLLBACK_PREFIX = ''libre-vmm-rollback-''"

record rollback_config =
  rb_enabled :: bool
  max_rollback_points :: nat
  auto_snapshot_on_start :: bool

definition default_rollback :: rollback_config where
  "default_rollback = \<lparr>rb_enabled = False, max_rollback_points = 5, auto_snapshot_on_start = True\<rparr>"

definition rollback_name :: "u64 \<Rightarrow> string" where
  "rollback_name timestamp = ROLLBACK_PREFIX @ dec_w timestamp"

definition chrono_like_format :: "u64 \<Rightarrow> string" where
  "chrono_like_format unix_secs = ''unix:'' @ dec_w unix_secs"

text \<open>\<open>create\<close> is the answer of \<open>create_snapshot\<close> to a name and a description.\<close>

definition create_rollback_point ::
  "(string \<Rightarrow> string \<Rightarrow> unit vmm_result) \<Rightarrow> u64 \<Rightarrow> string vmm_result" where
  "create_rollback_point create timestamp =
     (let name = rollback_name timestamp;
          desc = ''Auto-rollback point created at '' @ chrono_like_format timestamp
      in case create name desc of Inl e \<Rightarrow> Inl e | Inr _ \<Rightarrow> Inr name)"

definition list_rollback_points :: "snapshot_info list \<Rightarrow> snapshot_info list" where
  "list_rollback_points snaps =
     sort_key time_of (List.filter (\<lambda>s. starts_with (snap_name s) ROLLBACK_PREFIX) snaps)"

definition revert_latest ::
  "(string \<Rightarrow> unit vmm_result) \<Rightarrow> string \<Rightarrow> snapshot_info list \<Rightarrow> string vmm_result" where
  "revert_latest revert vm snaps =
     (let points = list_rollback_points snaps in
      if points = [] then
        Inl (SnapshotError (''No rollback points found for VM '' @ [CHR 0x27] @ vm @ [CHR 0x27]))
      else case revert (snap_name (last points)) of
        Inl e \<Rightarrow> Inl e | Inr _ \<Rightarrow> Inr (snap_name (last points)))"

text \<open>The snapshots the loop tries to delete, and the number that \<open>delete\<close> accepts.\<close>

definition rollback_victims :: "nat \<Rightarrow> snapshot_info list \<Rightarrow> snapshot_info list" where
  "rollback_victims max_keep snaps =
     (let points = list_rollback_points snaps in
      if length points \<le> max_keep then [] else take (length points - max_keep) points)"

definition prune_rollback_points ::
  "(string \<Rightarrow> bool) \<Rightarrow> nat \<Rightarrow> snapshot_info list \<Rightarrow> nat \<times> snapshot_info list" where
  "prune_rollback_points delete max_keep snaps =
     (let vs = rollback_victims max_keep snaps in
      (length (List.filter (\<lambda>s. delete (snap_name s)) vs),
       List.filter (\<lambda>s. \<not> (s \<in> set vs \<and> delete (snap_name s))) snaps))"

section \<open>AutoProtect\<close>

definition auto_snaps :: "snapshot_info list \<Rightarrow> snapshot_info list" where
  "auto_snaps snaps = List.filter (\<lambda>s. starts_with (snap_name s) ''auto-'') snaps"

text \<open>The interval in seconds and the age of the newest snapshot, both \<open>u64\<close>; the difference of two
  \<open>i64\<close> is cast to \<open>u64\<close>.\<close>

definition interval_secs :: "u32 \<Rightarrow> u64" where
  "interval_secs hours = ucast hours * 3600"

definition needs_snapshot :: "u64 \<Rightarrow> u32 \<Rightarrow> snapshot_info list \<Rightarrow> bool" where
  "needs_snapshot now hours snaps =
     (case rev (sort_key time_of (auto_snaps snaps)) of
        latest # _ \<Rightarrow> interval_secs hours < now - creation_time latest
      | [] \<Rightarrow> True)"

definition auto_victims :: "nat \<Rightarrow> snapshot_info list \<Rightarrow> snapshot_info list" where
  "auto_victims retention existing =
     (let total = length existing + 1 in
      if total \<le> retention then [] else take (total - retention) (sort_key time_of existing))"

text \<open>One check of one machine: the name that is created, and what is left afterwards of the
  snapshots listed before.\<close>

definition check_vm_snapshot ::
  "(string \<Rightarrow> string \<Rightarrow> unit vmm_result) \<Rightarrow> (string \<Rightarrow> bool) \<Rightarrow> u64 \<Rightarrow> string \<Rightarrow> u32 \<Rightarrow> u32
     \<Rightarrow> snapshot_info list \<Rightarrow> string option \<times> snapshot_info list" where
  "check_vm_snapshot create delete now stamp hours retention snaps =
     (if \<not> needs_snapshot now hours snaps then (None, snaps)
      else case create (''auto-'' @ stamp) (''AutoProtect snapshot (every '' @ dec_w hours @ ''h)'') of
        Inl e \<Rightarrow> (None, snaps)
      | Inr _ \<Rightarrow>
          (let vs = auto_victims (unat retention) (auto_snaps snaps) in
           (Some (''auto-'' @ stamp),
            List.filter (\<lambda>s. \<not> (s \<in> set vs \<and> delete (snap_name s))) snaps)))"

section \<open>The pruning contract\<close>

text \<open>
  Both loops promise the same: of the candidates, as many as are too many are removed, each of
  them no newer than any that stays, and nothing that is no candidate is touched.
\<close>

locale oldest_first =
  fixes candidates :: "snapshot_info list \<Rightarrow> snapshot_info list"
    and victims :: "nat \<Rightarrow> snapshot_info list \<Rightarrow> snapshot_info list"
    and room :: "nat \<Rightarrow> nat"
  assumes victims_take:
    "victims keep snaps = take (length (candidates snaps) - room keep) (sort_key time_of (candidates snaps))"
    and candidates_sub: "set (candidates snaps) \<subseteq> set snaps"
begin

lemma victims_count: "length (victims keep snaps) = length (candidates snaps) - room keep"
  by (simp add: victims_take)

lemma victims_only_candidates: "set (victims keep snaps) \<subseteq> set (candidates snaps)"
  unfolding victims_take using set_take_subset by fastforce

lemma victims_oldest:
  assumes "distinct (candidates snaps)" "v \<in> set (victims keep snaps)"
    and "k \<in> set (candidates snaps)" "k \<notin> set (victims keep snaps)"
  shows "time_of v \<le> time_of k"
proof -
  let ?xs = "sort_key time_of (candidates snaps)"
  let ?n = "length (candidates snaps) - room keep"
  have "sorted (map time_of (take ?n ?xs @ drop ?n ?xs))"
    by (simp only: append_take_drop_id sorted_sort_key)
  then have "\<forall>x \<in> set (take ?n ?xs). \<forall>y \<in> set (drop ?n ?xs). time_of x \<le> time_of y"
    by (simp only: map_append sorted_append) simp
  moreover have "k \<in> set (drop ?n ?xs)"
    using assms(3,4) unfolding victims_take
    by (metis Un_iff append_take_drop_id set_append set_sort)
  ultimately show ?thesis
    using assms(2) unfolding victims_take by blast
qed

lemma kept_count:
  assumes "distinct snaps" "distinct (candidates snaps)"
  shows "length (List.filter (\<lambda>s. s \<notin> set (victims keep snaps)) (candidates snaps))
    = min (length (candidates snaps)) (room keep)"
proof -
  have "card (set (candidates snaps) - set (victims keep snaps))
      = card (set (candidates snaps)) - card (set (victims keep snaps))"
    using victims_only_candidates by (intro card_Diff_subset) auto
  moreover have "distinct (victims keep snaps)"
    unfolding victims_take using assms(2) by (intro distinct_take) simp
  ultimately have "card (set (candidates snaps) - set (victims keep snaps))
      = length (candidates snaps) - (length (candidates snaps) - room keep)"
    using assms(2) victims_count by (simp add: distinct_card)
  moreover have "card (set (List.filter (\<lambda>s. s \<notin> set (victims keep snaps)) (candidates snaps)))
      = length (List.filter (\<lambda>s. s \<notin> set (victims keep snaps)) (candidates snaps))"
    using assms(2) by (intro distinct_card) simp
  moreover have "set (List.filter (\<lambda>s. s \<notin> set (victims keep snaps)) (candidates snaps))
      = set (candidates snaps) - set (victims keep snaps)" by auto
  ultimately show ?thesis by simp
qed

end

lemma rollback_candidates:
  "rollback_victims keep snaps = take (length (list_rollback_points snaps) - keep) (list_rollback_points snaps)"
  by (simp add: rollback_victims_def Let_def)

interpretation rollback: oldest_first list_rollback_points rollback_victims "\<lambda>keep. keep"
proof unfold_locales
  fix keep snaps
  have "sort_key time_of (list_rollback_points snaps) = list_rollback_points snaps"
    unfolding list_rollback_points_def by (intro sort_key_id_if_sorted sorted_sort_key)
  then show "rollback_victims keep snaps
      = take (length (list_rollback_points snaps) - keep) (sort_key time_of (list_rollback_points snaps))"
    by (simp add: rollback_candidates)
  show "set (list_rollback_points snaps) \<subseteq> set snaps"
    by (auto simp: list_rollback_points_def)
qed

interpretation auto_protect: oldest_first auto_snaps "\<lambda>keep snaps. auto_victims keep (auto_snaps snaps)"
  "\<lambda>keep. keep - 1"
proof unfold_locales
  fix keep :: nat and snaps
  show "auto_victims keep (auto_snaps snaps)
      = take (length (auto_snaps snaps) - (keep - 1)) (sort_key time_of (auto_snaps snaps))"
    by (cases keep) (auto simp: auto_victims_def Let_def)
  show "set (auto_snaps snaps) \<subseteq> set snaps"
    by (auto simp: auto_snaps_def)
qed


section \<open>Properties\<close>

lemma distinct_candidates:
  assumes "distinct (map snap_name snaps)"
  shows "distinct snaps" "distinct (list_rollback_points snaps)" "distinct (auto_snaps snaps)"
proof -
  show "distinct snaps" using assms by (simp add: distinct_map)
  then show "distinct (list_rollback_points snaps)" "distinct (auto_snaps snaps)"
    by (simp_all add: list_rollback_points_def auto_snaps_def)
qed

lemma rollback_points_sorted: "sorted (map time_of (list_rollback_points snaps))"
  by (simp add: list_rollback_points_def)

lemma last_is_newest:
  assumes "sorted (map f xs)" "x \<in> set xs"
  shows "(f x :: int) \<le> f (last xs)"
proof (cases xs rule: rev_cases)
  case Nil
  with assms(2) show ?thesis by simp
next
  case (snoc ys y)
  with assms show ?thesis by (auto simp: sorted_append)
qed

lemma points_of_kept:
  "list_rollback_points (List.filter P snaps) = List.filter P (list_rollback_points snaps)"
  by (simp add: list_rollback_points_def filter_sort conj_commute)

text \<open>C10: When libvirt accepts every deletion, pruning the rollback points of a machine removes
  as many as are over the limit and reports that number, keeps the newest points up to the limit,
  and keeps every snapshot that is not a rollback point.\<close>
theorem rollback_pruning_keeps_newest:
  assumes "distinct (map snap_name snaps)" "\<And>n. delete n"
    and "prune_rollback_points delete max_keep snaps = (pruned, left)"
  shows "pruned = length (list_rollback_points snaps) - max_keep
    \<and> length (list_rollback_points left) = min (length (list_rollback_points snaps)) max_keep
    \<and> (\<forall>s \<in> set snaps. starts_with (snap_name s) ROLLBACK_PREFIX \<or> s \<in> set left)
    \<and> (\<forall>v \<in> set snaps - set left. \<forall>k \<in> set (list_rollback_points left). time_of v \<le> time_of k)"
proof -
  let ?vs = "rollback_victims max_keep snaps"
  have left: "left = List.filter (\<lambda>s. s \<notin> set ?vs) snaps" and pruned: "pruned = length ?vs"
    using assms(2,3) by (auto simp: prune_rollback_points_def Let_def)
  have sub: "set ?vs \<subseteq> set (list_rollback_points snaps)"
    by (rule rollback.victims_only_candidates)
  note d = distinct_candidates[OF assms(1)]
  have "length (list_rollback_points left) = min (length (list_rollback_points snaps)) max_keep"
    unfolding left points_of_kept by (rule rollback.kept_count[OF d(1,2)])
  moreover have "\<forall>s \<in> set snaps. starts_with (snap_name s) ROLLBACK_PREFIX \<or> s \<in> set left"
    using sub by (auto simp: left list_rollback_points_def)
  moreover have "\<forall>v \<in> set snaps - set left. \<forall>k \<in> set (list_rollback_points left). time_of v \<le> time_of k"
    unfolding left points_of_kept using rollback.victims_oldest[OF d(2)] by auto
  ultimately show ?thesis by (simp add: pruned rollback.victims_count)
qed

definition demo_snap :: "string \<Rightarrow> u64 \<Rightarrow> snapshot_info" where
  "demo_snap n t = \<lparr>snap_name = n, snap_description = [], creation_time = t,
     snap_state = ''running'', parent = None, is_current = False\<rparr>"

definition demo_snaps :: "snapshot_info list" where
  "demo_snaps = [demo_snap ''libre-vmm-rollback-30'' 30, demo_snap ''before-upgrade'' 5,
     demo_snap ''libre-vmm-rollback-10'' 10]"

theorem rollback_pruning_keeps_newest_witness:
  "prune_rollback_points (\<lambda>_. True) 1 demo_snaps
     = (1, [demo_snap ''libre-vmm-rollback-30'' 30, demo_snap ''before-upgrade'' 5])
   \<and> length (list_rollback_points demo_snaps) = 2
   \<and> 1 = length (list_rollback_points demo_snaps) - 1"
proof -
  have run: "prune_rollback_points (\<lambda>_. True) 1 demo_snaps
     = (1, [demo_snap ''libre-vmm-rollback-30'' 30, demo_snap ''before-upgrade'' 5])"
    by code_simp
  have "distinct (map snap_name demo_snaps)" by code_simp
  note rollback_pruning_keeps_newest[OF this _ run]
  moreover have "length (list_rollback_points demo_snaps) = 2" by code_simp
  ultimately show ?thesis using run by simp
qed

text \<open>Reverting to the latest rollback point reverts to a snapshot of the machine that carries
  the rollback prefix and is no older than any other rollback point; it fails exactly when there is
  none or libvirt refuses, and then nothing is reverted.\<close>
theorem revert_latest_is_newest:
  "case revert_latest revert vm snaps of
     Inr n \<Rightarrow> (\<exists>s \<in> set snaps. snap_name s = n \<and> starts_with n ROLLBACK_PREFIX
        \<and> (\<forall>s' \<in> set (list_rollback_points snaps). time_of s' \<le> time_of s) \<and> revert n = Inr ())
   | Inl e \<Rightarrow> list_rollback_points snaps = []
        \<or> revert (snap_name (last (list_rollback_points snaps))) = Inl e"
proof (cases "list_rollback_points snaps = []")
  case True
  then show ?thesis by (simp add: revert_latest_def)
next
  case False
  let ?l = "last (list_rollback_points snaps)"
  have "?l \<in> set (list_rollback_points snaps)" using False by (rule last_in_set)
  then have "?l \<in> set snaps" "starts_with (snap_name ?l) ROLLBACK_PREFIX"
    by (auto simp: list_rollback_points_def)
  moreover have "\<forall>s' \<in> set (list_rollback_points snaps). time_of s' \<le> time_of ?l"
    using last_is_newest[OF rollback_points_sorted] by blast
  ultimately show ?thesis
    using False by (cases "revert (snap_name ?l)") (auto simp: revert_latest_def Let_def)
qed

theorem revert_latest_is_newest_witness:
  "revert_latest (\<lambda>_. Inr ()) ''vm'' demo_snaps = Inr ''libre-vmm-rollback-30''
   \<and> ''libre-vmm-rollback-30'' \<in> set (map snap_name demo_snaps)"
proof -
  have run: "revert_latest (\<lambda>_. Inr ()) ''vm'' demo_snaps = Inr ''libre-vmm-rollback-30''"
    by code_simp
  with revert_latest_is_newest [where revert = "\<lambda>_. Inr ()" and vm = "''vm''" and snaps = demo_snaps] show ?thesis
    by (simp only: sum.case set_map) (metis imageI)
qed

text \<open>An AutoProtect check never removes a snapshot without the \<open>auto-\<close> prefix, and after a
  check that made a snapshot (every deletion accepted) the automatic snapshots, the new one
  included, number at most the retention, or one when the retention is 0; those removed are no
  newer than those that stay.\<close>
theorem auto_protect_retention:
  assumes "distinct (map snap_name snaps)" "\<And>n. delete n"
    and "check_vm_snapshot create delete now stamp hours retention snaps = (Some n, left)"
  shows "length (auto_snaps left) + 1 \<le> max 1 (unat retention)
    \<and> (\<forall>s \<in> set snaps. starts_with (snap_name s) ''auto-'' \<or> s \<in> set left)
    \<and> (\<forall>v \<in> set snaps - set left. \<forall>k \<in> set (auto_snaps left). time_of v \<le> time_of k)"
proof -
  let ?vs = "auto_victims (unat retention) (auto_snaps snaps)"
  have left: "left = List.filter (\<lambda>s. s \<notin> set ?vs) snaps"
    using assms(2,3) by (auto simp: check_vm_snapshot_def Let_def split: if_splits sum.splits)
  have autos: "auto_snaps left = List.filter (\<lambda>s. s \<notin> set ?vs) (auto_snaps snaps)"
    by (simp add: left auto_snaps_def conj_commute)
  note d = distinct_candidates[OF assms(1)]
  have "length (auto_snaps left) = min (length (auto_snaps snaps)) (unat retention - 1)"
    unfolding autos by (rule auto_protect.kept_count[OF d(1,3)])
  moreover have "\<forall>s \<in> set snaps. starts_with (snap_name s) ''auto-'' \<or> s \<in> set left"
    using auto_protect.victims_only_candidates[of "unat retention" snaps]
    by (auto simp: left auto_snaps_def)
  moreover have "\<forall>v \<in> set snaps - set left. \<forall>k \<in> set (auto_snaps left). time_of v \<le> time_of k"
    unfolding autos using auto_protect.victims_oldest[OF d(3)] by (auto simp: left)
  ultimately show ?thesis by simp
qed

theorem auto_protect_retention_witness:
  "check_vm_snapshot (\<lambda>_ _. Inr ()) (\<lambda>_. True) 100000 ''d'' 1 1 [demo_snap ''auto-a'' 5, demo_snap ''mine'' 3]
     = (Some ''auto-d'', [demo_snap ''mine'' 3])
   \<and> length (auto_snaps [demo_snap ''mine'' 3]) + 1 \<le> max 1 (unat (1 :: u32))"
proof -
  have run: "check_vm_snapshot (\<lambda>_ _. Inr ()) (\<lambda>_. True) 100000 ''d'' 1 1
      [demo_snap ''auto-a'' 5, demo_snap ''mine'' 3] = (Some ''auto-d'', [demo_snap ''mine'' 3])"
    by code_simp
  have "distinct (map snap_name [demo_snap ''auto-a'' 5, demo_snap ''mine'' 3])" by code_simp
  from auto_protect_retention[OF this _ run] run show ?thesis by simp
qed

lemma uint_nonneg_sint: "0 \<le> sint t \<Longrightarrow> uint (t :: u64) = sint t"
  using sint_range_size[of t] by (simp add: uint_sint take_bit_int_eq_self word_size)

lemma wrapped_age:
  assumes "0 \<le> sint now" "sint now < sint t"
  shows "2 ^ 63 \<le> uint (now - t :: u64)"
proof -
  have st: "sint t < 2 ^ 63" using sint_range_size[of t] by (simp add: word_size)
  have u: "uint now = sint now" "uint t = sint t"
    using assms by (simp_all add: uint_nonneg_sint)
  have "uint (now - t) = (sint now - sint t) mod 2 ^ 64" by (simp add: uint_word_ariths u)
  also have "\<dots> = (sint now - sint t + 2 ^ 64) mod 2 ^ 64" by simp
  also have "\<dots> = sint now - sint t + 2 ^ 64"
    using assms st by (intro mod_pos_pos_trivial) auto
  finally show ?thesis using assms st by simp
qed

lemma interval_small: "uint (interval_secs hours) < 2 ^ 44"
proof -
  have h: "uint hours < 2 ^ 32" using uint_lt2p[of hours] by simp
  have "uint (ucast hours :: u64) = uint hours"
    using h by (simp add: unsigned_ucast_eq take_bit_int_eq_self)
  then have "uint (interval_secs hours) = (uint hours * 3600) mod 2 ^ 64"
    by (simp add: interval_secs_def uint_word_ariths)
  also have "\<dots> = uint hours * 3600" using h by (intro mod_pos_pos_trivial) auto
  finally show ?thesis using h by simp
qed

lemma newest_auto:
  assumes "s \<in> set (auto_snaps snaps)"
  obtains l rest where "rev (sort_key time_of (auto_snaps snaps)) = l # rest"
    "time_of s \<le> time_of l"
proof (cases "rev (sort_key time_of (auto_snaps snaps))")
  case Nil
  then have "length (auto_snaps snaps) = 0" by (metis length_rev length_sort list.size(3))
  with assms show ?thesis by simp
next
  case (Cons l rest)
  then have s: "sort_key time_of (auto_snaps snaps) = rev rest @ [l]" by (metis rev.simps(2) rev_rev_ident)
  have "sorted (map time_of (sort_key time_of (auto_snaps snaps)))" by simp
  then have "\<forall>s \<in> set (sort_key time_of (auto_snaps snaps)). time_of s \<le> time_of l"
    unfolding s by (auto simp: sorted_append)
  then show ?thesis using that[OF Cons] assms by simp
qed

text \<open>The age of the newest automatic snapshot is a signed difference cast to \<open>u64\<close>. When the
  clock is behind that snapshot, every check therefore takes another snapshot, whatever interval
  is configured.\<close>
theorem clock_behind_forces_snapshot:
  assumes "latest \<in> set snaps" "starts_with (snap_name latest) ''auto-''"
    and "0 \<le> sint now" "sint now < time_of latest"
  shows "needs_snapshot now hours snaps"
proof -
  have "latest \<in> set (auto_snaps snaps)" using assms(1,2) by (simp add: auto_snaps_def)
  then obtain l rest where l: "rev (sort_key time_of (auto_snaps snaps)) = l # rest"
      "time_of latest \<le> time_of l"
    by (rule newest_auto)
  have "2 ^ 63 \<le> uint (now - creation_time l)"
    using assms(3,4) l(2) by (intro wrapped_age) (auto simp: time_of_def)
  then show ?thesis
    using interval_small[of hours] by (simp add: needs_snapshot_def l(1) word_less_def)
qed

theorem clock_behind_forces_snapshot_witness:
  "needs_snapshot 99 24 [demo_snap ''auto-20260101-000000'' 100]
   \<and> \<not> needs_snapshot 101 24 [demo_snap ''auto-20260101-000000'' 100]"
proof
  show "needs_snapshot 99 24 [demo_snap ''auto-20260101-000000'' 100]"
    by (rule clock_behind_forces_snapshot[where latest = "demo_snap ''auto-20260101-000000'' 100"])
      (simp_all add: demo_snap_def time_of_def starts_with_def)
  show "\<not> needs_snapshot 101 24 [demo_snap ''auto-20260101-000000'' 100]" by code_simp
qed


text \<open>Rollback points go through \<open>create_snapshot\<close>: their names pass its check.\<close>

lemma dec_length: "n < 10 ^ Suc k \<Longrightarrow> length (dec n) \<le> Suc k"
proof (induction k arbitrary: n)
  case 0
  then show ?case by (simp add: dec_small)
next
  case (Suc k)
  show ?case
  proof (cases "n < 10")
    case True
    then show ?thesis by (simp add: dec_small)
  next
    case False
    have "n div 10 < 10 ^ Suc k" using Suc.prems by (simp add: less_mult_imp_div_less)
    from Suc.IH[OF this] False show ?thesis by (simp add: dec.simps[of n])
  qed
qed

lemma dec_w_length: "length (dec_w (w :: u64)) \<le> 20"
proof -
  have "unat w < 2 ^ 64" using unsigned_less[of w] by simp
  then have "unat w < 10 ^ Suc 19" by (rule less_trans) simp
  from dec_length[OF this] show ?thesis by (simp add: dec_w_def)
qed

lemma rollback_name_valid: "validate_snapshot_name u (rollback_name ts) = Inr ()"
proof -
  have "list_all (ascii_char (\<lambda>c. ascii_alnum c \<or> c = CHR ''-'')) (chars (rollback_name ts))"
    unfolding ascii_char_all using dec_digits[of _ "unat ts"] ascii_subsets
    by (auto simp: list_all_iff rollback_name_def ROLLBACK_PREFIX_def dec_w_def) (auto simp: ascii_defs)
  moreover have "ascii_char (\<lambda>c. ascii_alnum c \<or> c = CHR ''-'') g \<Longrightarrow>
      is_alphanumeric u g \<or> ascii_char (\<lambda>c. c \<in> set '' -_.()'') g" for g
    by (auto simp: ascii_char_def split: list.splits)
  ultimately have "list_all (\<lambda>g. is_alphanumeric u g \<or> ascii_char (\<lambda>c. c \<in> set '' -_.()'') g)
      (chars (rollback_name ts))"
    by (auto simp: list_all_iff)
  moreover have "length (rollback_name ts) \<le> 128" "rollback_name ts \<noteq> []"
    "\<not> starts_with (rollback_name ts) ''-''"
    using dec_w_length[of ts] by (simp_all add: rollback_name_def ROLLBACK_PREFIX_def)
  ultimately show ?thesis by (simp add: validate_snapshot_name_def)
qed

lemma rollback_desc_short: "length (''Auto-rollback point created at '' @ chrono_like_format ts) \<le> 4096"
  using dec_w_length[of ts] by (simp add: chrono_like_format_def)

text \<open>For a machine that libvirt knows and a creation call that succeeds, a rollback point is
  made under a name that \<open>list_rollback_points\<close> recognises and that AutoProtect does not touch.\<close>
theorem rollback_point_created:
  assumes "snap_validate_vm_name vm = Inr ()" "domain_found lv vm" "\<And>x. create_xml lv vm x 0 = Some None"
  shows "create_rollback_point (\<lambda>n d. the (snd (create_snapshot u lv vm n d))) ts = Inr (rollback_name ts)
    \<and> starts_with (rollback_name ts) ROLLBACK_PREFIX \<and> \<not> starts_with (rollback_name ts) ''auto-''"
proof -
  let ?d = "''Auto-rollback point created at '' @ chrono_like_format ts"
  have "safe_description ?d = Some ?d"
    unfolding safe_description_def using rollback_desc_short[of ts] by (simp only: if_False not_less[symmetric])
  then have "snd (create_snapshot u lv vm (rollback_name ts) ?d) = Some (Inr ())"
    using assms by (simp add: create_snapshot_def do_snapshot_inner_def rollback_name_valid)
  then have "create_rollback_point (\<lambda>n d. the (snd (create_snapshot u lv vm n d))) ts = Inr (rollback_name ts)"
    unfolding create_rollback_point_def Let_def by (simp only: option.sel sum.case)
  then show ?thesis by (simp add: rollback_name_def ROLLBACK_PREFIX_def)
qed

definition willing_libvirt :: libvirt_snaps where
  "willing_libvirt = panicking_libvirt\<lparr>create_xml := (\<lambda>_ _ _. Some None)\<rparr>"

theorem rollback_point_created_witness:
  "create_rollback_point (\<lambda>n d. the (snd (create_snapshot (\<lambda>_. False) willing_libvirt ''vm'' n d))) 77
     = Inr ''libre-vmm-rollback-77''"
proof -
  have "snap_validate_vm_name ''vm'' = Inr ()" by code_simp
  moreover have "domain_found willing_libvirt ''vm''"
    by (simp add: willing_libvirt_def panicking_libvirt_def)
  moreover have "create_xml willing_libvirt ''vm'' x 0 = Some None" for x
    by (simp add: willing_libvirt_def)
  ultimately have "create_rollback_point (\<lambda>n d. the (snd (create_snapshot (\<lambda>_. False) willing_libvirt ''vm'' n d))) 77
      = Inr (rollback_name 77)"
    using rollback_point_created by blast
  moreover have "rollback_name 77 = ''libre-vmm-rollback-77''" by code_simp
  ultimately show ?thesis by simp
qed

end
