(* ===== verification/Vnc_Des.thy ===== *)
theory Vnc_Des
  imports Prelude
begin

text \<open>
  The DES of the VNC client (vmm-gui/src/vnc.rs), with which the 16-byte challenge of the server is
  encrypted under the password. Tables and bit positions are those of the code: position 1 is the
  most significant bit of the first byte. Blocks are byte lists, intermediate values 64-bit words.
\<close>

section \<open>Tables\<close>

definition DES_IP :: "nat list" where
  "DES_IP =
    [58, 50, 42, 34, 26, 18, 10, 2, 60, 52, 44, 36, 28, 20, 12, 4, 62, 54, 46, 38, 30, 22, 14,
     6, 64, 56, 48, 40, 32, 24, 16, 8, 57, 49, 41, 33, 25, 17, 9, 1, 59, 51, 43, 35, 27, 19,
     11, 3, 61, 53, 45, 37, 29, 21, 13, 5, 63, 55, 47, 39, 31, 23, 15, 7]"

definition DES_FP :: "nat list" where
  "DES_FP =
    [40, 8, 48, 16, 56, 24, 64, 32, 39, 7, 47, 15, 55, 23, 63, 31, 38, 6, 46, 14, 54, 22, 62,
     30, 37, 5, 45, 13, 53, 21, 61, 29, 36, 4, 44, 12, 52, 20, 60, 28, 35, 3, 43, 11, 51, 19,
     59, 27, 34, 2, 42, 10, 50, 18, 58, 26, 33, 1, 41, 9, 49, 17, 57, 25]"

definition DES_E :: "nat list" where
  "DES_E =
    [32, 1, 2, 3, 4, 5, 4, 5, 6, 7, 8, 9, 8, 9, 10, 11, 12, 13, 12, 13, 14, 15, 16, 17, 16,
     17, 18, 19, 20, 21, 20, 21, 22, 23, 24, 25, 24, 25, 26, 27, 28, 29, 28, 29, 30, 31, 32, 1]"

definition DES_PC1 :: "nat list" where
  "DES_PC1 =
    [57, 49, 41, 33, 25, 17, 9, 1, 58, 50, 42, 34, 26, 18, 10, 2, 59, 51, 43, 35, 27, 19, 11,
     3, 60, 52, 44, 36, 63, 55, 47, 39, 31, 23, 15, 7, 62, 54, 46, 38, 30, 22, 14, 6, 61, 53,
     45, 37, 29, 21, 13, 5, 28, 20, 12, 4]"

definition DES_PC2 :: "nat list" where
  "DES_PC2 =
    [14, 17, 11, 24, 1, 5, 3, 28, 15, 6, 21, 10, 23, 19, 12, 4, 26, 8, 16, 7, 27, 20, 13, 2,
     41, 52, 31, 37, 47, 55, 30, 40, 51, 45, 33, 48, 44, 49, 39, 56, 34, 53, 46, 42, 50, 36,
     29, 32]"

definition DES_P :: "nat list" where
  "DES_P =
    [16, 7, 20, 21, 29, 12, 28, 17, 1, 15, 23, 26, 5, 18, 31, 10, 2, 8, 24, 14, 32, 27, 3, 9,
     19, 13, 30, 6, 22, 11, 4, 25]"

definition DES_SHIFTS :: "nat list" where
  "DES_SHIFTS =
    [1, 1, 2, 2, 2, 2, 2, 2, 1, 2, 2, 2, 2, 2, 2, 1]"

definition DES_SBOXES :: "nat list list" where
  "DES_SBOXES =
    [[14, 4, 13, 1, 2, 15, 11, 8, 3, 10, 6, 12, 5, 9, 0, 7, 0, 15, 7, 4, 14, 2, 13, 1, 10, 6,
      12, 11, 9, 5, 3, 8, 4, 1, 14, 8, 13, 6, 2, 11, 15, 12, 9, 7, 3, 10, 5, 0, 15, 12, 8, 2,
      4, 9, 1, 7, 5, 11, 3, 14, 10, 0, 6, 13],
     [15, 1, 8, 14, 6, 11, 3, 4, 9, 7, 2, 13, 12, 0, 5, 10, 3, 13, 4, 7, 15, 2, 8, 14, 12, 0,
      1, 10, 6, 9, 11, 5, 0, 14, 7, 11, 10, 4, 13, 1, 5, 8, 12, 6, 9, 3, 2, 15, 13, 8, 10, 1,
      3, 15, 4, 2, 11, 6, 7, 12, 0, 5, 14, 9],
     [10, 0, 9, 14, 6, 3, 15, 5, 1, 13, 12, 7, 11, 4, 2, 8, 13, 7, 0, 9, 3, 4, 6, 10, 2, 8, 5,
      14, 12, 11, 15, 1, 13, 6, 4, 9, 8, 15, 3, 0, 11, 1, 2, 12, 5, 10, 14, 7, 1, 10, 13, 0, 6,
      9, 8, 7, 4, 15, 14, 3, 11, 5, 2, 12],
     [7, 13, 14, 3, 0, 6, 9, 10, 1, 2, 8, 5, 11, 12, 4, 15, 13, 8, 11, 5, 6, 15, 0, 3, 4, 7, 2,
      12, 1, 10, 14, 9, 10, 6, 9, 0, 12, 11, 7, 13, 15, 1, 3, 14, 5, 2, 8, 4, 3, 15, 0, 6, 10,
      1, 13, 8, 9, 4, 5, 11, 12, 7, 2, 14],
     [2, 12, 4, 1, 7, 10, 11, 6, 8, 5, 3, 15, 13, 0, 14, 9, 14, 11, 2, 12, 4, 7, 13, 1, 5, 0,
      15, 10, 3, 9, 8, 6, 4, 2, 1, 11, 10, 13, 7, 8, 15, 9, 12, 5, 6, 3, 0, 14, 11, 8, 12, 7,
      1, 14, 2, 13, 6, 15, 0, 9, 10, 4, 5, 3],
     [12, 1, 10, 15, 9, 2, 6, 8, 0, 13, 3, 4, 14, 7, 5, 11, 10, 15, 4, 2, 7, 12, 9, 5, 6, 1,
      13, 14, 0, 11, 3, 8, 9, 14, 15, 5, 2, 8, 12, 3, 7, 0, 4, 10, 1, 13, 11, 6, 4, 3, 2, 12,
      9, 5, 15, 10, 11, 14, 1, 7, 6, 0, 8, 13],
     [4, 11, 2, 14, 15, 0, 8, 13, 3, 12, 9, 7, 5, 10, 6, 1, 13, 0, 11, 7, 4, 9, 1, 10, 14, 3,
      5, 12, 2, 15, 8, 6, 1, 4, 11, 13, 12, 3, 7, 14, 10, 15, 6, 8, 0, 5, 9, 2, 6, 11, 13, 8,
      1, 4, 10, 7, 9, 5, 0, 15, 14, 2, 3, 12],
     [13, 2, 8, 4, 6, 15, 11, 1, 10, 9, 3, 14, 5, 0, 12, 7, 1, 15, 13, 8, 10, 3, 7, 4, 12, 5,
      6, 2, 0, 14, 9, 11, 7, 0, 9, 3, 4, 6, 10, 2, 8, 5, 14, 12, 11, 15, 1, 13, 4, 8, 2, 14,
      13, 6, 9, 12, 7, 1, 5, 11, 3, 10, 0, 15]]"

section \<open>The cipher\<close>

definition reverse_bits :: "u8 \<Rightarrow> u8" where
  "reverse_bits b =
     fold (\<lambda>i r. or r (push_bit (7 - i) (and (drop_bit i b) 1))) [0..<8] 0"

definition get_bit :: "u8 list \<Rightarrow> nat \<Rightarrow> u64" where
  "get_bit data pos =
     (let byte_idx = (pos - 1) div 8; bit_idx = 7 - (pos - 1) mod 8
      in ucast (and (drop_bit bit_idx (data ! byte_idx)) 1))"

definition permute :: "u8 list \<Rightarrow> nat list \<Rightarrow> u64" where
  "permute data table =
     fold (\<lambda>i result. or result (push_bit (length table - 1 - i) (get_bit data (table ! i))))
       [0..<length table] 0"

definition u64_to_bytes :: "u64 \<Rightarrow> nat \<Rightarrow> u8 list" where
  "u64_to_bytes val nbits =
     map (\<lambda>i. ucast (and (drop_bit (nbits - 8 - i * 8) val) 0xFF)) [0..<(nbits + 7) div 8]"

definition rotate28 :: "u64 \<Rightarrow> nat \<Rightarrow> u64" where
  "rotate28 c shift = and (or (push_bit shift c) (drop_bit (28 - shift) c)) 0x0FFFFFFF"

definition subkey :: "u64 \<Rightarrow> u64 \<Rightarrow> u64" where
  "subkey c d = permute (u64_to_bytes (or (push_bit 28 c) d) 56) DES_PC2"

fun key_rounds :: "u64 \<Rightarrow> u64 \<Rightarrow> nat list \<Rightarrow> u64 list" where
  "key_rounds c d [] = []"
| "key_rounds c d (s # ss) =
     (let c' = rotate28 c s; d' = rotate28 d s in subkey c' d' # key_rounds c' d' ss)"

definition key_schedule :: "u8 list \<Rightarrow> u64 list" where
  "key_schedule key =
     (let cd = permute key DES_PC1
      in key_rounds (and (drop_bit 28 cd) 0x0FFFFFFF) (and cd 0x0FFFFFFF) DES_SHIFTS)"

definition sbox :: "u64 \<Rightarrow> nat \<Rightarrow> u32" where
  "sbox xored i =
     (let bits = unat (and (drop_bit (42 - i * 6) xored) 0x3F);
          row = or (push_bit 1 (drop_bit 5 bits)) (and bits 1);
          col = and (drop_bit 1 bits) 0xF
      in of_nat (DES_SBOXES ! i ! (row * 16 + col)))"

definition feistel :: "u64 \<Rightarrow> u64 \<Rightarrow> u64" where
  "feistel k r =
     (let expanded = permute (u64_to_bytes r 32) DES_E;
          xored = xor expanded k;
          s_out = fold (\<lambda>i s. or s (push_bit (28 - i * 4) (sbox xored i))) [0..<8] 0
      in and (permute (u64_to_bytes (ucast s_out) 32) DES_P) 0xFFFFFFFF)"

definition des_round :: "u64 \<Rightarrow> u64 \<times> u64 \<Rightarrow> u64 \<times> u64" where
  "des_round k lr = (snd lr, xor (fst lr) (feistel k (snd lr)))"

definition initial_halves :: "u8 list \<Rightarrow> u64 \<times> u64" where
  "initial_halves input =
     (let ip_val = permute input DES_IP
      in (and (drop_bit 32 ip_val) 0xFFFFFFFF, and ip_val 0xFFFFFFFF))"

definition final_block :: "u64 \<times> u64 \<Rightarrow> u8 list" where
  "final_block lr =
     (let pre_fp = or (push_bit 32 (snd lr)) (fst lr)
      in u64_to_bytes (permute (u64_to_bytes pre_fp 64) DES_FP) 64)"

definition des_with :: "u64 list \<Rightarrow> u8 list \<Rightarrow> u8 list" where
  "des_with ks input = final_block (fold des_round ks (initial_halves input))"

definition des_encrypt_block :: "u8 list \<Rightarrow> u8 list \<Rightarrow> u8 list" where
  "des_encrypt_block key input = des_with (key_schedule key) input"

text \<open>The key is the first eight bytes of the password, bits reversed, padded with zeros.\<close>

definition vnc_key :: "string \<Rightarrow> u8 list" where
  "vnc_key password =
     map (\<lambda>i. if i < length password then reverse_bits (of_nat (byte_of (password ! i))) else 0) [0..<8]"

definition vnc_des_encrypt :: "u8 list \<Rightarrow> string \<Rightarrow> u8 list" where
  "vnc_des_encrypt challenge password =
     des_encrypt_block (vnc_key password) (take 8 challenge)
     @ des_encrypt_block (vnc_key password) (take 8 (drop 8 challenge))"

section \<open>The textbook cipher on bit lists\<close>

definition dbits :: "u8 list \<Rightarrow> bool list" where
  "dbits d = map (\<lambda>i. bit (d ! (i div 8)) (7 - i mod 8)) [0..<8 * length d]"

definition wbits :: "nat \<Rightarrow> u64 \<Rightarrow> bool list" where
  "wbits n v = map (\<lambda>i. bit v (n - 1 - i)) [0..<n]"

definition perm :: "nat list \<Rightarrow> bool list \<Rightarrow> bool list" where
  "perm table bs = map (\<lambda>p. bs ! (p - 1)) table"

definition xor_bits :: "bool list \<Rightarrow> bool list \<Rightarrow> bool list" where
  "xor_bits a b = map2 (\<noteq>) a b"

fun key_rounds_ref :: "bool list \<Rightarrow> bool list \<Rightarrow> nat list \<Rightarrow> bool list list" where
  "key_rounds_ref c d [] = []"
| "key_rounds_ref c d (s # ss) =
     (let c' = rotate s c; d' = rotate s d in perm DES_PC2 (c' @ d') # key_rounds_ref c' d' ss)"

definition key_schedule_ref :: "bool list \<Rightarrow> bool list list" where
  "key_schedule_ref kb =
     (let cd = perm DES_PC1 kb in key_rounds_ref (take 28 cd) (drop 28 cd) DES_SHIFTS)"

definition six_bits :: "bool list \<Rightarrow> nat \<Rightarrow> nat" where
  "six_bits xs i = horner_sum of_bool 2 (rev (take 6 (drop (6 * i) xs)))"

text \<open>The S-boxes are an argument, so that the code's can be compared with those of the standard.\<close>

definition sbox_at :: "nat list list \<Rightarrow> nat \<Rightarrow> nat \<Rightarrow> nat" where
  "sbox_at sb i v = sb ! i ! ((2 * (v div 32) + v mod 2) * 16 + (v div 2) mod 16)"

definition sbox_ref :: "nat list list \<Rightarrow> bool list \<Rightarrow> bool list" where
  "sbox_ref sb xs =
     map (\<lambda>j. odd (sbox_at sb (j div 4) (six_bits xs (j div 4)) div 2 ^ (3 - j mod 4))) [0..<32]"

text \<open>For the kernel evaluation of test vectors the S-box step looks its numbers up.\<close>

definition SBOX_INDEX :: "nat list" where
  "SBOX_INDEX =
    [0, 16, 1, 17, 2, 18, 3, 19, 4, 20, 5, 21, 6, 22, 7, 23, 8, 24, 9, 25, 10, 26, 11, 27,
     12, 28, 13, 29, 14, 30, 15, 31, 32, 48, 33, 49, 34, 50, 35, 51, 36, 52, 37, 53, 38, 54,
     39, 55, 40, 56, 41, 57, 42, 58, 43, 59, 44, 60, 45, 61, 46, 62, 47, 63]"

definition nibble :: "nat \<Rightarrow> bool list" where
  "nibble v = map (\<lambda>k. odd (v div 2 ^ (3 - k))) [0..<4]"

definition NIBBLES :: "bool list list" where
  "NIBBLES =
    [[False, False, False, False], [False, False, False, True], [False, False, True, False],
     [False, False, True, True], [False, True, False, False], [False, True, False, True],
     [False, True, True, False], [False, True, True, True], [True, False, False, False],
     [True, False, False, True], [True, False, True, False], [True, False, True, True],
     [True, True, False, False], [True, True, False, True], [True, True, True, False],
     [True, True, True, True]]"

lemma sbox_at_code [code]:
  "sbox_at sb i v = sb ! i !
     (if v < 64 then SBOX_INDEX ! v else (2 * (v div 32) + v mod 2) * 16 + (v div 2) mod 16)"
proof -
  have "list_all (\<lambda>v. SBOX_INDEX ! v = (2 * (v div 32) + v mod 2) * 16 + (v div 2) mod 16) [0..<64]"
    by code_simp
  then show ?thesis by (auto simp: sbox_at_def list_all_iff)
qed

lemma nibble_code [code]:
  "nibble v = (if v < 16 then NIBBLES ! v else map (\<lambda>k. odd (v div 2 ^ (3 - k))) [0..<4])"
proof -
  have "list_all (\<lambda>v. NIBBLES ! v = map (\<lambda>k. odd (v div 2 ^ (3 - k))) [0..<4]) [0..<16]"
    by code_simp
  then show ?thesis by (auto simp: nibble_def list_all_iff)
qed

lemma sbox_ref_code [code]:
  "sbox_ref sb xs = concat (map (\<lambda>i. nibble (sbox_at sb i (six_bits xs i))) [0..<8])"
proof -
  have "[0..<32] = concat (map (\<lambda>i. map (\<lambda>k. 4 * i + k) [0..<4]) [0..<8])" by code_simp
  then show ?thesis
    unfolding sbox_ref_def nibble_def
    by (auto simp: map_concat comp_def intro!: arg_cong[of _ _ concat] map_cong)
qed

definition feistel_ref :: "nat list list \<Rightarrow> bool list \<Rightarrow> bool list \<Rightarrow> bool list" where
  "feistel_ref sb k r = perm DES_P (sbox_ref sb (xor_bits (perm DES_E r) k))"

definition round_ref ::
  "nat list list \<Rightarrow> bool list \<Rightarrow> bool list \<times> bool list \<Rightarrow> bool list \<times> bool list" where
  "round_ref sb k lr = (snd lr, xor_bits (fst lr) (feistel_ref sb k (snd lr)))"

definition des_ref :: "nat list list \<Rightarrow> bool list list \<Rightarrow> bool list \<Rightarrow> bool list" where
  "des_ref sb ks b =
     (let b' = perm DES_IP b; lr = fold (round_ref sb) ks (take 32 b', drop 32 b')
      in perm DES_FP (snd lr @ fst lr))"

text \<open>The eighth S-box of FIPS 46-3.\<close>

definition FIPS_S8 :: "nat list" where
  "FIPS_S8 =
    [13, 2, 8, 4, 6, 15, 11, 1, 10, 9, 3, 14, 5, 0, 12, 7,
     1, 15, 13, 8, 10, 3, 7, 4, 12, 5, 6, 11, 0, 14, 9, 2,
     7, 11, 4, 1, 9, 12, 14, 2, 0, 6, 10, 13, 15, 3, 5, 8,
     2, 1, 14, 7, 4, 10, 8, 13, 15, 12, 9, 0, 3, 5, 6, 11]"

section \<open>Bits of words and of byte lists\<close>

lemma dbits_length [simp]: "length (dbits d) = 8 * length d"
  by (simp add: dbits_def)

lemma wbits_length [simp]: "length (wbits n v) = n"
  by (simp add: wbits_def)

lemma perm_length [simp]: "length (perm T bs) = length T"
  by (simp add: perm_def)

lemma xor_bits_length [simp]: "length (xor_bits a b) = min (length a) (length b)"
  by (simp add: xor_bits_def)

lemma dbits_nth: "i < 8 * length d \<Longrightarrow> dbits d ! i = bit (d ! (i div 8)) (7 - i mod 8)"
  by (simp add: dbits_def)

lemma wbits_nth: "i < n \<Longrightarrow> wbits n v ! i = bit v (n - 1 - i)"
  by (simp add: wbits_def)

lemma fold_or_bit:
  "bit (fold (\<lambda>i r. or r (g i)) is a) j \<longleftrightarrow> bit (a :: 'a::len word) j \<or> (\<exists>i \<in> set is. bit (g i) j)"
  by (induction "is" arbitrary: a) (auto simp: bit_or_iff)

lemma get_bit_bit: "bit (get_bit d p) k \<longleftrightarrow> k = 0 \<and> bit (d ! ((p - 1) div 8)) (7 - (p - 1) mod 8)"
  by (auto simp: get_bit_def Let_def bit_ucast_iff bit_and_iff bit_drop_bit_eq bit_1_iff)

lemma pushed_bit: "bit (push_bit m (get_bit d p)) j \<longleftrightarrow>
    j = m \<and> m < 64 \<and> bit (d ! ((p - 1) div 8)) (7 - (p - 1) mod 8)"
  by (auto simp: bit_push_bit_iff get_bit_bit)

lemma permute_bit:
  assumes "length T \<le> 64"
  shows "bit (permute d T) j \<longleftrightarrow> j < length T
    \<and> bit (d ! ((T ! (length T - 1 - j) - 1) div 8)) (7 - (T ! (length T - 1 - j) - 1) mod 8)"
proof -
  have "bit (permute d T) j \<longleftrightarrow> (\<exists>i \<in> set [0..<length T]. j = length T - 1 - i
      \<and> length T - 1 - i < 64 \<and> bit (d ! ((T ! i - 1) div 8)) (7 - (T ! i - 1) mod 8))"
    unfolding permute_def fold_or_bit by (simp add: pushed_bit)
  also have "\<dots> \<longleftrightarrow> j < length T
    \<and> bit (d ! ((T ! (length T - 1 - j) - 1) div 8)) (7 - (T ! (length T - 1 - j) - 1) mod 8)"
    (is "?l \<longleftrightarrow> ?r")
  proof
    assume ?l
    then obtain i where "i < length T" "j = length T - 1 - i"
      "bit (d ! ((T ! i - 1) div 8)) (7 - (T ! i - 1) mod 8)" by auto
    moreover from this have "length T - 1 - j = i" by simp
    ultimately show ?r by auto
  next
    assume ?r
    then show ?l using assms by (intro bexI[of _ "length T - 1 - j"]) auto
  qed
  finally show ?thesis .
qed

definition table_ok :: "nat \<Rightarrow> nat list \<Rightarrow> bool" where
  "table_ok n T \<longleftrightarrow> length T \<le> 64 \<and> list_all (\<lambda>p. 1 \<le> p \<and> p \<le> n) T"

lemma table_okD: "table_ok n T \<Longrightarrow> i < length T \<Longrightarrow> T ! i - 1 < n"
  by (fastforce simp: table_ok_def list_all_length)

lemma permute_bits:
  assumes "table_ok (8 * length d) T"
  shows "wbits (length T) (permute d T) = perm T (dbits d)"
proof (rule nth_equalityI)
  fix i assume "i < length (wbits (length T) (permute d T))"
  then have i: "i < length T" by simp
  moreover have "T ! i - 1 < 8 * length d" using assms i by (rule table_okD)
  moreover have "length T \<le> 64" using assms by (simp add: table_ok_def)
  moreover have "length T - Suc i < length T" using i by simp
  ultimately show "wbits (length T) (permute d T) ! i = perm T (dbits d) ! i"
    by (simp add: wbits_nth permute_bit perm_def dbits_nth)
qed simp

lemma bytes_length [simp]: "length (u64_to_bytes v n) = (n + 7) div 8"
  by (simp add: u64_to_bytes_def)

lemma and_masks:
  "and w (0xFF :: u64) = take_bit 8 w" "and w (0x3F :: u64) = take_bit 6 w"
  "and w (0xFFFFFFFF :: u64) = take_bit 32 w" "and w (0x0FFFFFFF :: u64) = take_bit 28 w"
  by (simp_all add: take_bit_eq_mask mask_numeral)

lemma bytes_bits:
  assumes "n = 8 * m"
  shows "dbits (u64_to_bytes v n) = wbits n v"
proof (rule nth_equalityI)
  show "length (dbits (u64_to_bytes v n)) = length (wbits n v)" using assms by simp
next
  fix i assume "i < length (dbits (u64_to_bytes v n))"
  then have i: "i < n" using assms by simp
  then have "i div 8 < m" using assms by auto
  moreover have "n - 8 - i div 8 * 8 + (7 - i mod 8) = n - 1 - i"
    using i assms \<open>i div 8 < m\<close> mult_div_mod_eq[of 8 i] by linarith
  moreover have "7 - i mod 8 < 8" by simp
  ultimately show "dbits (u64_to_bytes v n) ! i = wbits n v ! i"
    using i assms by (simp add: dbits_nth wbits_nth u64_to_bytes_def bit_ucast_iff and_masks bit_take_bit_iff
        bit_drop_bit_eq)
qed

definition fits :: "nat \<Rightarrow> u64 \<Rightarrow> bool" where
  "fits n v \<longleftrightarrow> (\<forall>j. bit v j \<longrightarrow> j < n)"

lemma fits_permute: "length T \<le> 64 \<Longrightarrow> length T = n \<Longrightarrow> fits n (permute d T)"
  by (simp add: fits_def permute_bit)

lemma fits_take_bit: "fits n (take_bit n v)"
  by (simp add: fits_def bit_take_bit_iff)

lemma fits_xor: "fits n a \<Longrightarrow> fits n b \<Longrightarrow> fits n (xor a b)"
  by (auto simp: fits_def bit_xor_iff)

lemma wbits_inject: "fits n a \<Longrightarrow> fits n b \<Longrightarrow> wbits n a = wbits n b \<Longrightarrow> a = b"
proof (rule bit_eqI)
  fix j assume f: "fits n a" "fits n b" "wbits n a = wbits n b"
  show "bit a j \<longleftrightarrow> bit b j"
  proof (cases "j < n")
    case True
    then have "n - 1 - (n - 1 - j) = j" by simp
    moreover have "n - 1 - j < n" using True by simp
    ultimately show ?thesis using f(3) wbits_nth[of "n - 1 - j" n] by metis
  next
    case False
    with f show ?thesis by (auto simp: fits_def)
  qed
qed

lemma wbits_xor: "wbits n (xor a b) = xor_bits (wbits n a) (wbits n b)"
  by (rule nth_equalityI) (auto simp: wbits_nth xor_bits_def bit_xor_iff)

lemma wbits_split:
  assumes "n \<le> 32"
  shows "wbits n (take_bit n (drop_bit n v)) = take n (wbits (2 * n) v)"
    and "wbits n (take_bit n v) = drop n (wbits (2 * n) v)"
proof -
  have 1: "n + (n - Suc i) = 2 * n - Suc i" if "i < n" for i using that by simp
  show "wbits n (take_bit n (drop_bit n v)) = take n (wbits (2 * n) v)"
    using 1 by (intro nth_equalityI) (auto simp: wbits_nth bit_take_bit_iff bit_drop_bit_eq)
  have 2: "2 * n - Suc (n + i) = n - Suc i" if "i < n" for i using that by simp
  show "wbits n (take_bit n v) = drop n (wbits (2 * n) v)"
    using 2 by (intro nth_equalityI) (auto simp: wbits_nth bit_take_bit_iff)
qed

lemma wbits_join:
  assumes "fits n d" "n \<le> 32"
  shows "wbits (2 * n) (or (push_bit n c) d) = wbits n c @ wbits n d"
proof (rule nth_equalityI)
  fix i assume "i < length (wbits (2 * n) (or (push_bit n c) d))"
  then have i: "i < 2 * n" by simp
  show "wbits (2 * n) (or (push_bit n c) d) ! i = (wbits n c @ wbits n d) ! i"
  proof (cases "i < n")
    case True
    then have "2 * n - Suc i - n = n - Suc i" "n \<le> 2 * n - Suc i" "2 * n - Suc i < 64" using assms(2) by auto
    moreover have "\<not> bit d (2 * n - Suc i)" using assms(1) True by (auto simp: fits_def)
    ultimately show ?thesis using True i
      by (simp add: wbits_nth nth_append bit_or_iff bit_push_bit_iff)
  next
    case False
    then have "2 * n - Suc i < n" "n - Suc (i - n) = 2 * n - Suc i" using i by auto
    then show ?thesis using False i
      by (simp add: wbits_nth nth_append bit_or_iff bit_push_bit_iff)
  qed
qed simp

lemma rotate28_bit:
  assumes "fits 28 c" "s \<le> 28"
  shows "bit (rotate28 c s) j \<longleftrightarrow> j < 28 \<and> (s \<le> j \<and> bit c (j - s) \<or> bit c (28 - s + j))"
  using assms by (auto simp: rotate28_def and_masks bit_take_bit_iff bit_or_iff bit_push_bit_iff
      bit_drop_bit_eq fits_def)

lemma rotate28_bits:
  assumes "fits 28 c" "s \<le> 28"
  shows "wbits 28 (rotate28 c s) = rotate s (wbits 28 c)" and "fits 28 (rotate28 c s)"
proof -
  show "wbits 28 (rotate28 c s) = rotate s (wbits 28 c)"
  proof (rule nth_equalityI)
    fix i assume "i < length (wbits 28 (rotate28 c s))"
    then have i: "i < 28" by simp
    show "wbits 28 (rotate28 c s) ! i = rotate s (wbits 28 c) ! i"
    proof (cases "i + s < 28")
      case True
      then have "\<not> bit c (28 - s + (27 - i))" "27 - i - s = 27 - (i + s)" "s \<le> 27 - i" "27 - i < 28"
        using assms by (auto simp: fits_def)
      with i True assms show ?thesis by (simp add: wbits_nth nth_rotate rotate28_bit add.commute)
    next
      case False
      then have "(i + s) mod 28 = i + s - 28" using i assms(2) by (simp add: le_mod_geq)
      moreover have "27 - (i + s - 28) = 28 - s + (27 - i)" "\<not> s \<le> 27 - i" using False i assms(2) by auto
      ultimately show ?thesis using i assms by (simp add: wbits_nth nth_rotate rotate28_bit add.commute)
    qed
  qed simp
  show "fits 28 (rotate28 c s)" using assms by (simp add: fits_def rotate28_bit)
qed

section \<open>The S-boxes\<close>

lemma sbox_value: "i < 8 \<Longrightarrow> v < 64 \<Longrightarrow> sbox_at DES_SBOXES i v < 16"
proof -
  assume i: "i < 8" and v: "v < 64"
  have "list_all (\<lambda>row. length row = 64 \<and> list_all (\<lambda>x. x < 16) row) DES_SBOXES" "length DES_SBOXES = 8"
    by code_simp+
  then have "length (DES_SBOXES ! i) = 64" "list_all (\<lambda>x. x < 16) (DES_SBOXES ! i)"
    using i by (auto simp: list_all_length)
  moreover have "(2 * (v div 32) + v mod 2) * 16 + v div 2 mod 16 < 64"
  proof -
    have "v div 32 \<le> 1" "v mod 2 \<le> 1" "v div 2 mod 16 \<le> 15" using v by auto
    then show ?thesis by simp
  qed
  ultimately show ?thesis by (simp add: sbox_at_def list_all_length)
qed

lemma row_col:
  fixes v :: nat
  assumes "v < 64"
  shows "or (push_bit 1 (drop_bit 5 v)) (and v 1) = 2 * (v div 32) + v mod 2"
    and "and (drop_bit 1 v) 0xF = (v div 2) mod 16"
proof -
  have "v div 32 = 0 \<or> v div 32 = 1" using assms by auto
  moreover have "v mod 2 = 0 \<or> v mod 2 = 1" by auto
  ultimately show "or (push_bit 1 (drop_bit 5 v)) (and v 1) = 2 * (v div 32) + v mod 2"
    by (auto simp: push_bit_eq_mult drop_bit_eq_div and_one_eq)
  have "and (drop_bit 1 v) 0xF = take_bit 4 (drop_bit 1 v)" by (simp add: take_bit_eq_mask mask_numeral)
  then show "and (drop_bit 1 v) 0xF = (v div 2) mod 16" by (simp add: take_bit_eq_mod drop_bit_eq_div)
qed

lemma six_bits_word: "i < 8 \<Longrightarrow> unat (take_bit 6 (drop_bit (42 - i * 6) x)) = six_bits (wbits 48 x) i"
proof -
  assume i: "i < 8"
  let ?w = "drop_bit (42 - i * 6) x"
  have "rev (take 6 (drop (6 * i) (wbits 48 x))) = map (bit ?w) [0..<6]"
  proof (rule nth_equalityI)
    show "length (rev (take 6 (drop (6 * i) (wbits 48 x)))) = length (map (bit ?w) [0..<6])"
      using i by simp
  next
    fix m assume "m < length (rev (take 6 (drop (6 * i) (wbits 48 x))))"
    then have m: "m < 6" using i by simp
    then have "6 * i + (5 - m) < 48" "47 - (6 * i + (5 - m)) = 42 - i * 6 + m" using i by auto
    then show "rev (take 6 (drop (6 * i) (wbits 48 x))) ! m = map (bit ?w) [0..<6] ! m"
      using m i by (simp add: rev_nth wbits_nth bit_drop_bit_eq)
  qed
  moreover have "unat (take_bit 6 ?w) = take_bit 6 (unat ?w)" by (simp add: unsigned_take_bit_eq)
  moreover have "take_bit 6 (unat ?w) = horner_sum of_bool 2 (map (bit (unat ?w)) [0..<6])"
    by (simp add: horner_sum_bit_eq_take_bit)
  moreover have "map (bit (unat ?w)) [0..<6] = map (bit ?w) [0..<6]"
    by (simp add: bit_unsigned_iff)
  ultimately show ?thesis by (simp add: six_bits_def)
qed

lemma sbox_word: "i < 8 \<Longrightarrow> sbox x i = of_nat (sbox_at DES_SBOXES i (six_bits (wbits 48 x) i))"
proof -
  assume i: "i < 8"
  let ?v = "unat (take_bit 6 (drop_bit (42 - i * 6) x))"
  have "take_bit 6 (unat (drop_bit (42 - i * 6) x)) < 64" by (simp add: take_bit_eq_mod)
  then have v: "?v < 64" by (simp add: unsigned_take_bit_eq)
  show ?thesis
    unfolding sbox_def Let_def and_masks row_col[OF v] sbox_at_def six_bits_word[OF i, symmetric] ..
qed

lemma six_bits_small: "six_bits xs i < 64"
proof -
  have "horner_sum of_bool 2 bs < (2 :: nat) ^ length bs" for bs
    by (induction bs) auto
  from this[of "rev (take 6 (drop (6 * i) xs))"]
  have "six_bits xs i < 2 ^ length (rev (take 6 (drop (6 * i) xs)))" by (simp add: six_bits_def)
  also have "\<dots> \<le> 2 ^ 6" by (rule power_increasing) auto
  finally show ?thesis by simp
qed

lemma sbox_bits:
  "wbits 32 (ucast (fold (\<lambda>i s. or s (push_bit (28 - i * 4) (sbox x i))) [0..<8] 0)) = sbox_ref DES_SBOXES (wbits 48 x)"
  (is "wbits 32 (ucast ?s) = _")
proof (rule nth_equalityI)
  fix m assume "m < length (wbits 32 (ucast ?s))"
  then have m: "m < 32" by simp
  let ?n = "\<lambda>i. sbox_at DES_SBOXES i (six_bits (wbits 48 x) i)"
  have small: "bit (?n i) k \<Longrightarrow> k < 4" if "i < 8" for i k
  proof -
    assume b: "bit (?n i) k"
    have "?n i < 2 ^ 4" using sbox_value[OF that six_bits_small] by simp
    then have "take_bit 4 (?n i) = ?n i" by (simp add: take_bit_nat_eq_self)
    with b show "k < 4" by (metis bit_take_bit_iff)
  qed
  have "bit ?s (31 - m) \<longleftrightarrow> (\<exists>i < 8. 28 - i * 4 \<le> 31 - m \<and> bit (?n i) (31 - m - (28 - i * 4)))"
    unfolding fold_or_bit
    by (auto simp: sbox_word bit_push_bit_iff bit_of_nat_iff)
  also have "\<dots> \<longleftrightarrow> bit (?n (m div 4)) (3 - m mod 4)"
  proof
    assume "\<exists>i < 8. 28 - i * 4 \<le> 31 - m \<and> bit (?n i) (31 - m - (28 - i * 4))"
    then obtain i where i: "i < 8" "28 - i * 4 \<le> 31 - m" "bit (?n i) (31 - m - (28 - i * 4))" by blast
    have "31 - m - (28 - i * 4) < 4" using small i by blast
    with i(1,2) m have "4 * i \<le> m" "m \<le> 4 * i + 3" by linarith+
    then have r: "m = 4 * i + (m - 4 * i)" "m - 4 * i < 4" by simp_all
    then have "m div 4 = i" "m mod 4 = m - 4 * i"
      by (metis div_mult_self4 div_less add.right_neutral zero_neq_numeral, metis mod_mult_self4 mod_less)
    moreover from this have "31 - m - (28 - i * 4) = 3 - m mod 4" using i(1,2) m r by linarith
    ultimately show "bit (?n (m div 4)) (3 - m mod 4)" using i(3) by simp
  next
    assume *: "bit (?n (m div 4)) (3 - m mod 4)"
    obtain q r where qr: "m div 4 = q" "m mod 4 = r" by blast
    then have "m = 4 * q + r" "r < 4" by auto
    then have "q < 8" "28 - q * 4 \<le> 31 - m" "31 - m - (28 - q * 4) = 3 - r"
      using m by auto
    with * qr show "\<exists>i < 8. 28 - i * 4 \<le> 31 - m \<and> bit (?n i) (31 - m - (28 - i * 4))"
      by (intro exI[of _ q]) simp
  qed
  finally show "wbits 32 (ucast ?s) ! m = sbox_ref DES_SBOXES (wbits 48 x) ! m"
    using m less_imp_diff_less[of 31 64 m] by (simp add: wbits_nth sbox_ref_def bit_ucast_iff flip: bit_iff_odd)
qed (simp add: sbox_ref_def)

section \<open>The code's cipher is the cipher on bits\<close>

lemma tables_ok:
  "table_ok 64 DES_IP" "table_ok 64 DES_FP" "table_ok 32 DES_E" "table_ok 64 DES_PC1"
  "table_ok 56 DES_PC2" "table_ok 32 DES_P" "list_all (\<lambda>s. s \<le> 28) DES_SHIFTS"
  by code_simp+

lemma table_lengths:
  "length DES_IP = 64" "length DES_FP = 64" "length DES_E = 48" "length DES_PC1 = 56"
  "length DES_PC2 = 48" "length DES_P = 32" "length DES_SHIFTS = 16"
  by code_simp+

lemma permute_word_bits:
  assumes "n = 8 * m" "table_ok n T" "length T = k"
  shows "wbits k (permute (u64_to_bytes v n) T) = perm T (wbits n v)"
proof -
  have "table_ok (8 * length (u64_to_bytes v n)) T" using assms(1,2) by simp
  from permute_bits[OF this] assms show ?thesis by (simp add: bytes_bits)
qed

lemma subkey_bits:
  "fits 28 d \<Longrightarrow> wbits 48 (subkey c d) = perm DES_PC2 (wbits 28 c @ wbits 28 d)"
  using wbits_join[of 28 d c] permute_word_bits[of 56 7 DES_PC2 48]
  by (simp add: subkey_def tables_ok table_lengths)

lemma key_rounds_bits:
  "fits 28 c \<Longrightarrow> fits 28 d \<Longrightarrow> list_all (\<lambda>s. s \<le> 28) ss \<Longrightarrow>
     map (wbits 48) (key_rounds c d ss) = key_rounds_ref (wbits 28 c) (wbits 28 d) ss"
  by (induction ss arbitrary: c d) (auto simp: Let_def subkey_bits rotate28_bits)

lemma key_schedule_bits:
  assumes "length key = 8"
  shows "map (wbits 48) (key_schedule key) = key_schedule_ref (dbits key)"
proof -
  let ?cd = "permute key DES_PC1"
  have b: "wbits 56 ?cd = perm DES_PC1 (dbits key)"
    using permute_bits[of key DES_PC1] assms by (simp add: tables_ok table_lengths)
  have "map (wbits 48) (key_schedule key)
      = key_rounds_ref (wbits 28 (take_bit 28 (drop_bit 28 ?cd))) (wbits 28 (take_bit 28 ?cd)) DES_SHIFTS"
    unfolding key_schedule_def Let_def and_masks
    by (rule key_rounds_bits) (simp_all add: fits_take_bit tables_ok)
  then show ?thesis
    using wbits_split[of 28 ?cd] b by (simp add: key_schedule_ref_def Let_def)
qed

lemma feistel_bits: "wbits 32 (feistel k r) = feistel_ref DES_SBOXES (wbits 48 k) (wbits 32 r)"
proof -
  have e: "wbits 48 (permute (u64_to_bytes r 32) DES_E) = perm DES_E (wbits 32 r)"
    by (rule permute_word_bits) (simp_all add: tables_ok table_lengths)
  have t: "wbits 32 (take_bit 32 v) = wbits 32 v" for v
    by (rule nth_equalityI) (auto simp: wbits_nth bit_take_bit_iff)
  have "wbits 32 (permute (u64_to_bytes v 32) DES_P) = perm DES_P (wbits 32 v)" for v
    by (rule permute_word_bits) (simp_all add: tables_ok table_lengths)
  then show ?thesis
    unfolding feistel_def Let_def and_masks t
    by (simp only: sbox_bits wbits_xor e feistel_ref_def)
qed

lemma fits_feistel: "fits 32 (feistel k r)"
  unfolding feistel_def Let_def and_masks by (rule fits_take_bit)

definition halves_bits :: "u64 \<times> u64 \<Rightarrow> bool list \<times> bool list" where
  "halves_bits lr = (wbits 32 (fst lr), wbits 32 (snd lr))"

definition halves_fit :: "u64 \<times> u64 \<Rightarrow> bool" where
  "halves_fit lr \<longleftrightarrow> fits 32 (fst lr) \<and> fits 32 (snd lr)"

lemma round_bits: "halves_bits (des_round k lr) = round_ref DES_SBOXES (wbits 48 k) (halves_bits lr)"
  by (simp add: halves_bits_def des_round_def round_ref_def wbits_xor feistel_bits)

lemma round_fits: "halves_fit lr \<Longrightarrow> halves_fit (des_round k lr)"
  by (simp add: halves_fit_def des_round_def fits_xor fits_feistel)

lemma rounds_bits:
  "halves_bits (fold des_round ks lr) = fold (round_ref DES_SBOXES) (map (wbits 48) ks) (halves_bits lr)"
  by (induction ks arbitrary: lr) (simp_all add: round_bits)

lemma rounds_fit: "halves_fit lr \<Longrightarrow> halves_fit (fold des_round ks lr)"
  by (induction ks arbitrary: lr) (simp_all add: round_fits)

lemma initial_bits:
  assumes "length input = 8"
  shows "halves_bits (initial_halves input) = (take 32 (perm DES_IP (dbits input)), drop 32 (perm DES_IP (dbits input)))"
    and "halves_fit (initial_halves input)"
proof -
  have "wbits 64 (permute input DES_IP) = perm DES_IP (dbits input)"
    using permute_bits[of input DES_IP] assms by (simp add: tables_ok table_lengths)
  then show "halves_bits (initial_halves input) = (take 32 (perm DES_IP (dbits input)), drop 32 (perm DES_IP (dbits input)))"
    unfolding halves_bits_def initial_halves_def Let_def and_masks
    using wbits_split[of 32 "permute input DES_IP"] by simp
  show "halves_fit (initial_halves input)"
    unfolding halves_fit_def initial_halves_def Let_def and_masks by (simp add: fits_take_bit)
qed

lemma final_bits: "halves_fit lr \<Longrightarrow> dbits (final_block lr) = perm DES_FP (wbits 32 (snd lr) @ wbits 32 (fst lr))"
  using wbits_join[of 32 "fst lr" "snd lr"] permute_word_bits[of 64 8 DES_FP 64]
  by (simp add: final_block_def Let_def halves_fit_def bytes_bits[of 64 8] tables_ok table_lengths)

lemma des_with_bits:
  assumes "length input = 8"
  shows "dbits (des_with ks input) = des_ref DES_SBOXES (map (wbits 48) ks) (dbits input)"
proof -
  let ?lr = "fold des_round ks (initial_halves input)"
  have "halves_fit ?lr" using initial_bits(2)[OF assms] by (rule rounds_fit)
  moreover have "halves_bits ?lr = fold (round_ref DES_SBOXES) (map (wbits 48) ks)
      (take 32 (perm DES_IP (dbits input)), drop 32 (perm DES_IP (dbits input)))"
    by (simp add: rounds_bits initial_bits(1)[OF assms])
  ultimately show ?thesis
    by (simp add: des_with_def final_bits des_ref_def Let_def halves_bits_def prod_eq_iff)
qed

section \<open>Decryption\<close>

lemma xor_bits_cancel: "length b = length a \<Longrightarrow> xor_bits (xor_bits a b) b = a"
  by (auto simp: xor_bits_def list_eq_iff_nth_eq)

lemma feistel_ref_length [simp]: "length (feistel_ref sb k r) = 32"
  by (simp add: feistel_ref_def table_lengths)

definition swap_halves :: "'a \<times> 'a \<Rightarrow> 'a \<times> 'a" where
  "swap_halves lr = (snd lr, fst lr)"

definition halves32 :: "bool list \<times> bool list \<Rightarrow> bool" where
  "halves32 lr \<longleftrightarrow> length (fst lr) = 32 \<and> length (snd lr) = 32"

lemma round_halves32: "halves32 lr \<Longrightarrow> halves32 (round_ref sb k lr)"
  by (simp add: halves32_def round_ref_def)

lemma rounds_halves32: "halves32 lr \<Longrightarrow> halves32 (fold (round_ref sb) ks lr)"
  by (induction ks arbitrary: lr) (simp_all add: round_halves32)

lemma round_undo: "halves32 lr \<Longrightarrow> round_ref sb k (swap_halves (round_ref sb k lr)) = swap_halves lr"
  by (simp add: halves32_def round_ref_def swap_halves_def xor_bits_cancel)

lemma rounds_undo:
  "halves32 lr \<Longrightarrow> fold (round_ref sb) (rev ks) (swap_halves (fold (round_ref sb) ks lr)) = swap_halves lr"
  by (induction ks arbitrary: lr) (simp_all add: round_halves32 round_undo)

lemma perm_inverse:
  assumes "length bs = 64"
  shows "perm DES_IP (perm DES_FP bs) = bs" and "perm DES_FP (perm DES_IP bs) = bs"
proof -
  have fp: "list_all (\<lambda>i. DES_FP ! (DES_IP ! i - 1) - 1 = i \<and> DES_IP ! i - 1 < 64) [0..<64]"
    and ip: "list_all (\<lambda>i. DES_IP ! (DES_FP ! i - 1) - 1 = i \<and> DES_FP ! i - 1 < 64) [0..<64]"
    by code_simp+
  show "perm DES_IP (perm DES_FP bs) = bs"
  proof (rule nth_equalityI)
    fix i assume "i < length (perm DES_IP (perm DES_FP bs))"
    then have "i < 64" by (simp add: table_lengths)
    with fp have "DES_FP ! (DES_IP ! i - 1) - 1 = i" "DES_IP ! i - 1 < 64" by (auto simp: list_all_iff)
    with \<open>i < 64\<close> show "perm DES_IP (perm DES_FP bs) ! i = bs ! i"
      by (simp add: perm_def table_lengths)
  qed (simp add: table_lengths assms)
  show "perm DES_FP (perm DES_IP bs) = bs"
  proof (rule nth_equalityI)
    fix i assume "i < length (perm DES_FP (perm DES_IP bs))"
    then have "i < 64" by (simp add: table_lengths)
    with ip have "DES_IP ! (DES_FP ! i - 1) - 1 = i" "DES_FP ! i - 1 < 64" by (auto simp: list_all_iff)
    with \<open>i < 64\<close> show "perm DES_FP (perm DES_IP bs) ! i = bs ! i"
      by (simp add: perm_def table_lengths)
  qed (simp add: table_lengths assms)
qed

lemma des_ref_undo:
  assumes "length b = 64"
  shows "des_ref sb (rev ks) (des_ref sb ks b) = b"
proof -
  let ?h = "(take 32 (perm DES_IP b), drop 32 (perm DES_IP b))"
  let ?lr = "fold (round_ref sb) ks ?h"
  have h: "halves32 ?h" by (simp add: halves32_def table_lengths)
  then have "halves32 ?lr" by (rule rounds_halves32)
  then have l: "length (snd ?lr) = 32" "length (fst ?lr) = 32" by (simp_all add: halves32_def)
  have "perm DES_IP (des_ref sb ks b) = snd ?lr @ fst ?lr"
    using l by (simp add: des_ref_def Let_def perm_inverse)
  then have "(take 32 (perm DES_IP (des_ref sb ks b)), drop 32 (perm DES_IP (des_ref sb ks b))) = swap_halves ?lr"
    using l by (simp add: swap_halves_def)
  then have "des_ref sb (rev ks) (des_ref sb ks b) = perm DES_FP (fst ?h @ snd ?h)"
    unfolding des_ref_def[of sb "rev ks"] Let_def
    by (simp only: rounds_undo[OF h]) (simp add: swap_halves_def)
  with assms show ?thesis by (simp add: perm_inverse)
qed

lemma dbits_inject:
  assumes "length a = length b" "dbits a = dbits b"
  shows "a = b"
proof (rule nth_equalityI)
  fix i assume i: "i < length a"
  show "a ! i = b ! i"
  proof (rule bit_eqI)
    fix k assume "possible_bit TYPE(8 word) k"
    then have k: "k < 8" by simp
    obtain m where m: "7 - k = m" "m < 8" "7 - m = k" using k by auto
    have j: "8 * i + m < 8 * length a" "(8 * i + m) div 8 = i" "(8 * i + m) mod 8 = m"
      using i m(2) by auto
    from assms(2) have "dbits a ! (8 * i + m) = dbits b ! (8 * i + m)" by simp
    with j m assms(1) show "bit (a ! i) k = bit (b ! i) k" by (simp add: dbits_nth)
  qed
qed (rule assms(1))

lemma des_length [simp]: "length (des_with ks input) = 8"
  by (simp add: des_with_def final_block_def Let_def)

section \<open>Properties\<close>

text \<open>C37: The word arithmetic of the block function computes, for every key and block, the Feistel
  cipher of the textbook on bit lists, with the code's S-boxes.\<close>
theorem des_is_feistel:
  assumes "length key = 8" "length input = 8"
  shows "dbits (des_encrypt_block key input) = des_ref DES_SBOXES (key_schedule_ref (dbits key)) (dbits input)"
  by (simp add: des_encrypt_block_def des_with_bits[OF assms(2)] key_schedule_bits[OF assms(1)])

definition test_key :: "u8 list" where
  "test_key = [0x13, 0x34, 0x57, 0x79, 0x9B, 0xBC, 0xDF, 0xF1]"

definition test_block :: "u8 list" where
  "test_block = [0x01, 0x23, 0x45, 0x67, 0x89, 0xAB, 0xCD, 0xEF]"

theorem des_is_feistel_witness:
  "dbits (des_encrypt_block test_key test_block) = dbits [0x7D, 0x71, 0x65, 0xD7, 0x99, 0x2D, 0x69, 0x0D]"
proof -
  have "length test_key = 8" "length test_block = 8" by (simp_all add: test_key_def test_block_def)
  moreover have "des_ref DES_SBOXES (key_schedule_ref (dbits test_key)) (dbits test_block)
      = dbits [0x7D, 0x71, 0x65, 0xD7, 0x99, 0x2D, 0x69, 0x0D]" by code_simp
  ultimately show ?thesis by (simp add: des_is_feistel)
qed

text \<open>For every key the block function is invertible: running the rounds with the subkeys in
  reverse gives the block back, so no two challenges get the same response.\<close>
theorem des_decrypts:
  assumes "length input = 8"
  shows "des_with (rev (key_schedule key)) (des_encrypt_block key input) = input"
proof (rule dbits_inject)
  show "dbits (des_with (rev (key_schedule key)) (des_encrypt_block key input)) = dbits input"
    using assms by (simp add: des_encrypt_block_def des_with_bits rev_map[symmetric] des_ref_undo)
qed (simp add: assms)

theorem des_decrypts_witness:
  "des_with (rev (key_schedule test_key)) (des_encrypt_block test_key test_block) = test_block"
  by (rule des_decrypts) (simp add: test_block_def)


text \<open>Passwords that agree in their first eight bytes give the same response.\<close>
theorem password_cut_at_eight: "vnc_des_encrypt challenge p = vnc_des_encrypt challenge (take 8 p)"
proof -
  have "vnc_key p = vnc_key (take 8 p)" by (simp add: vnc_key_def)
  then show ?thesis by (simp add: vnc_des_encrypt_def)
qed

end
