(* ===== verification/Vnc_Raster.thy ===== *)
theory Vnc_Raster
  imports Prelude
begin

text \<open>
  The pixel buffer of the VNC client (vmm-gui/src/vnc.rs): rows of RGBA pixels, written by the Raw and
  CopyRect rectangles of the server. The functions are the loops of the code; \<open>None\<close> is an index or a
  slice out of range, at which the code panics. Properties: a rectangle inside the surface changes
  exactly its pixels, and a copy takes all its pixels from the surface as it was.
\<close>

section \<open>The loops of the code\<close>

definition blank :: "u16 \<Rightarrow> u16 \<Rightarrow> u8 list" where
  "blank w h = replicate (unat w * unat h * 4) 0"

text \<open>\<open>usize\<close> products with \<open>checked_mul\<close>, sums with \<open>checked_add\<close>.\<close>

definition usize_mul :: "nat \<Rightarrow> nat \<Rightarrow> nat option" where
  "usize_mul a b = (if a * b < 2 ^ 64 then Some (a * b) else None)"

definition usize_add :: "nat \<Rightarrow> nat \<Rightarrow> nat option" where
  "usize_add a b = (if a + b < 2 ^ 64 then Some (a + b) else None)"

text \<open>One row of a raw rectangle, pixel by pixel; \<open>None\<close> is an index out of range.\<close>

fun draw_px :: "u8 list \<Rightarrow> nat \<Rightarrow> nat \<Rightarrow> nat list \<Rightarrow> u8 list \<Rightarrow> u8 list option" where
  "draw_px data src dst [] p = Some p"
| "draw_px data src dst (px # pxs) p =
     (let si = src + px * 4; di = dst + px * 4 in
      if si + 2 < length data \<and> di + 3 < length p
      then draw_px data src dst pxs
             (p[di := data ! si, di + 1 := data ! (si + 1), di + 2 := data ! (si + 2), di + 3 := 255])
      else None)"

definition raw_offsets :: "nat \<Rightarrow> u16 \<Rightarrow> u16 \<Rightarrow> u16 \<Rightarrow> nat \<Rightarrow> (nat \<times> nat) option" where
  "raw_offsets fb_w rx ry rw row =
     Option.bind (Option.bind (usize_mul row (unat rw)) (\<lambda>v. usize_mul v 4)) (\<lambda>src.
       map_option (\<lambda>dst. (src, dst))
         (Option.bind (Option.bind (usize_mul (unat ry + row) fb_w) (\<lambda>v. usize_add v (unat rx)))
           (\<lambda>v. usize_mul v 4)))"

fun draw_rows :: "nat \<Rightarrow> u16 \<Rightarrow> u16 \<Rightarrow> u16 \<Rightarrow> u8 list \<Rightarrow> nat list \<Rightarrow> u8 list \<Rightarrow> u8 list option" where
  "draw_rows fb_w rx ry rw data [] p = Some p"
| "draw_rows fb_w rx ry rw data (row # rows) p =
     (case raw_offsets fb_w rx ry rw row of
        None \<Rightarrow> Some p
      | Some (src, dst) \<Rightarrow>
          if dst + unat rw * 4 \<le> length p \<and> src + unat rw * 4 \<le> length data then
            Option.bind (draw_px data src dst [0..<unat rw] p) (draw_rows fb_w rx ry rw data rows)
          else draw_rows fb_w rx ry rw data rows p)"

text \<open>\<open>copy_from_slice\<close> into a range; \<open>None\<close> when the range is not inside.\<close>

definition splice :: "nat \<Rightarrow> u8 list \<Rightarrow> u8 list \<Rightarrow> u8 list option" where
  "splice off xs dst =
     (if off + length xs \<le> length dst then Some (take off dst @ xs @ drop (off + length xs) dst) else None)"

fun grab_rows :: "nat \<Rightarrow> u16 \<Rightarrow> u16 \<Rightarrow> nat \<Rightarrow> u8 list \<Rightarrow> nat list \<Rightarrow> u8 list \<Rightarrow> u8 list option" where
  "grab_rows fb_w sx sy row_bytes p [] temp = Some temp"
| "grab_rows fb_w sx sy row_bytes p (row # rows) temp =
     (let src_off = ((unat sy + row) * fb_w + unat sx) * 4 in
      if src_off + row_bytes \<le> length p then
        Option.bind (splice (row * row_bytes) (take row_bytes (drop src_off p)) temp)
          (grab_rows fb_w sx sy row_bytes p rows)
      else grab_rows fb_w sx sy row_bytes p rows temp)"

fun put_rows :: "nat \<Rightarrow> u16 \<Rightarrow> u16 \<Rightarrow> nat \<Rightarrow> u8 list \<Rightarrow> nat list \<Rightarrow> u8 list \<Rightarrow> u8 list option" where
  "put_rows fb_w rx ry row_bytes temp [] p = Some p"
| "put_rows fb_w rx ry row_bytes temp (row # rows) p =
     (let dst_off = ((unat ry + row) * fb_w + unat rx) * 4 in
      if dst_off + row_bytes \<le> length p then
        Option.bind (splice dst_off (take row_bytes (drop (row * row_bytes) temp)) p)
          (put_rows fb_w rx ry row_bytes temp rows)
      else put_rows fb_w rx ry row_bytes temp rows p)"

definition copy_pixels :: "nat \<Rightarrow> u16 \<Rightarrow> u16 \<Rightarrow> u16 \<Rightarrow> u16 \<Rightarrow> u16 \<Rightarrow> u16 \<Rightarrow> u8 list \<Rightarrow> u8 list option" where
  "copy_pixels fb_w sx sy rx ry rw rh p =
     (let row_bytes = unat rw * 4 in
      Option.bind (grab_rows fb_w sx sy row_bytes p [0..<unat rh] (replicate (row_bytes * unat rh) 0))
        (\<lambda>temp. put_rows fb_w rx ry row_bytes temp [0..<unat rh] p))"

section \<open>Painting a run of bytes\<close>

definition paint :: "nat \<Rightarrow> u8 list \<Rightarrow> u8 list \<Rightarrow> u8 list" where
  "paint off xs p = take off p @ xs @ drop (off + length xs) p"

lemma paint_length [simp]: "off + length xs \<le> length p \<Longrightarrow> length (paint off xs p) = length p"
  by (simp add: paint_def)

lemma paint_nth: "off + length xs \<le> length p \<Longrightarrow> i < length p \<Longrightarrow>
    paint off xs p ! i = (if off \<le> i \<and> i < off + length xs then xs ! (i - off) else p ! i)"
  by (auto simp: paint_def nth_append min_def)

lemma splice_paint: "off + length xs \<le> length p \<Longrightarrow> splice off xs p = Some (paint off xs p)"
  by (simp add: splice_def paint_def)

text \<open>The bytes of a row as they are drawn: the fourth of each pixel becomes opaque.\<close>

definition opaque :: "u8 list \<Rightarrow> u8 list" where
  "opaque xs = map (\<lambda>i. if i mod 4 = 3 then 255 else xs ! i) [0..<length xs]"

lemma opaque_length [simp]: "length (opaque xs) = length xs"
  by (simp add: opaque_def)

lemma opaque_nth: "i < length xs \<Longrightarrow> opaque xs ! i = (if i mod 4 = 3 then 255 else xs ! i)"
  by (simp add: opaque_def)

lemma draw_px_append:
  "draw_px data src dst (as @ bs) p = Option.bind (draw_px data src dst as p) (draw_px data src dst bs)"
  by (induction as arbitrary: p) (simp_all add: Let_def)

lemma paint_next_pixel:
  assumes "dst + n * 4 + 4 \<le> length p" "src + n * 4 + 4 \<le> length data"
  shows "(paint dst (opaque (take (n * 4) (drop src data))) p)
      [dst + n * 4 := data ! (src + n * 4), dst + n * 4 + 1 := data ! (src + n * 4 + 1),
       dst + n * 4 + 2 := data ! (src + n * 4 + 2), dst + n * 4 + 3 := 255]
    = paint dst (opaque (take (n * 4 + 4) (drop src data))) p" (is "?l = ?r")
proof (rule nth_equalityI)
  show "length ?l = length ?r" using assms by simp
  have m: "Suc (n * 4) mod 4 = 1" "Suc (Suc (n * 4)) mod 4 = 2" by presburger+
  fix i assume "i < length ?l"
  then have i: "i < length p" using assms by simp
  consider "i < dst + n * 4" | "i = dst + n * 4" | "i = dst + n * 4 + 1" | "i = dst + n * 4 + 2"
    | "i = dst + n * 4 + 3" | "dst + n * 4 + 4 \<le> i" by linarith
  then show "?l ! i = ?r ! i"
    using assms i by cases (auto simp: nth_list_update paint_nth opaque_nth m)
qed

lemma draw_px_paint:
  "dst + n * 4 \<le> length p \<Longrightarrow> src + n * 4 \<le> length data \<Longrightarrow>
     draw_px data src dst [0..<n] p = Some (paint dst (opaque (take (n * 4) (drop src data))) p)"
proof (induction n)
  case 0
  then show ?case by (simp add: paint_def opaque_def)
next
  case (Suc n)
  then show ?case
    using paint_next_pixel[of dst n p src data]
    by (simp add: draw_px_append Let_def add.commute[of "n * 4" 4] add.assoc)
qed

section \<open>Painting a rectangle\<close>

text \<open>Byte \<open>c\<close> of the pixel at column \<open>x\<close> of row \<open>y\<close> on a surface \<open>fb_w\<close> pixels wide.\<close>

definition channel :: "nat \<Rightarrow> u8 list \<Rightarrow> nat \<Rightarrow> nat \<Rightarrow> nat \<Rightarrow> u8" where
  "channel fb_w p x y c = p ! ((y * fb_w + x) * 4 + c)"

definition paint_rows :: "nat \<Rightarrow> nat \<Rightarrow> nat \<Rightarrow> (nat \<Rightarrow> u8 list) \<Rightarrow> nat list \<Rightarrow> u8 list \<Rightarrow> u8 list" where
  "paint_rows fb_w x0 y0 B rows = fold (\<lambda>r. paint (((y0 + r) * fb_w + x0) * 4) (B r)) rows"

lemma pixel_in_row:
  fixes x y x0 y0 w fb_w c :: nat
  assumes "x < fb_w" "x0 + w \<le> fb_w" "c < 4"
  shows "((y0 * fb_w + x0) * 4 \<le> (y * fb_w + x) * 4 + c \<and> (y * fb_w + x) * 4 + c < (y0 * fb_w + x0) * 4 + w * 4)
    \<longleftrightarrow> y = y0 \<and> x0 \<le> x \<and> x < x0 + w"
proof -
  have "y < y0 \<Longrightarrow> Suc y * fb_w \<le> y0 * fb_w" "y0 < y \<Longrightarrow> Suc y0 * fb_w \<le> y * fb_w"
    by (simp_all only: mult_le_mono1 Suc_leI)
  with assms show ?thesis by (cases y y0 rule: linorder_cases) auto
qed

lemma row_fits:
  fixes fb_w fb_h y0 x0 r w n :: nat
  assumes "x0 + w \<le> fb_w" "y0 + n \<le> fb_h" "r < n"
  shows "((y0 + r) * fb_w + x0) * 4 + w * 4 \<le> fb_w * fb_h * 4"
proof -
  have "(y0 + r) * fb_w + fb_w = Suc (y0 + r) * fb_w" by simp
  also have "\<dots> \<le> fb_h * fb_w" using assms by (intro mult_le_mono1) simp
  finally show ?thesis using assms(1) by (simp add: mult.commute)
qed

lemma pixel_fits: "x < fb_w \<Longrightarrow> y < fb_h \<Longrightarrow> c < 4 \<Longrightarrow> (y * fb_w + x) * 4 + c < fb_w * fb_h * 4" for x y c fb_w fb_h :: nat
  using row_fits[of x 1 fb_w y 1 fb_h 0] by simp

lemma paint_rows_length:
  assumes "x0 + w \<le> fb_w" "y0 + n \<le> fb_h" "\<And>r. r < n \<Longrightarrow> length (B r) = w * 4"
  shows "length p = fb_w * fb_h * 4 \<Longrightarrow> set rows \<subseteq> {..<n} \<Longrightarrow> length (paint_rows fb_w x0 y0 B rows p) = fb_w * fb_h * 4"
  using row_fits[OF assms(1,2)] assms(3)
  by (induction rows arbitrary: p) (simp_all add: paint_rows_def)

lemma paint_rows_channel:
  assumes "x0 + w \<le> fb_w" "length p = fb_w * fb_h * 4" "x < fb_w" "y < fb_h" "c < 4"
  shows "y0 + n \<le> fb_h \<Longrightarrow> (\<And>r. r < n \<Longrightarrow> length (B r) = w * 4) \<Longrightarrow>
    channel fb_w (paint_rows fb_w x0 y0 B [0..<n] p) x y c =
      (if y0 \<le> y \<and> y < y0 + n \<and> x0 \<le> x \<and> x < x0 + w then B (y - y0) ! ((x - x0) * 4 + c)
       else channel fb_w p x y c)"
proof (induction n)
  case 0
  have "\<not> (y0 \<le> y \<and> y < y0 + 0 \<and> x0 \<le> x \<and> x < x0 + w)" by simp
  then show ?case by (simp only: paint_rows_def upt_0 fold_simps if_False simp_thms)
next
  case (Suc n)
  let ?q = "paint_rows fb_w x0 y0 B [0..<n] p" and ?off = "((y0 + n) * fb_w + x0) * 4"
  have q: "length ?q = fb_w * fb_h * 4" "?off + w * 4 \<le> fb_w * fb_h * 4" "length (B n) = w * 4"
    using Suc.prems assms paint_rows_length[of x0 w fb_w y0 n fb_h B p "[0..<n]"] row_fits[of x0 w fb_w y0 "Suc n" fb_h n]
    by (auto simp: lessThan_atLeast0)
  have split: "paint_rows fb_w x0 y0 B [0..<Suc n] p = paint ?off (B n) ?q"
    by (simp add: paint_rows_def)
  have "channel fb_w (paint ?off (B n) ?q) x y c =
      (if y = y0 + n \<and> x0 \<le> x \<and> x < x0 + w then B n ! ((y * fb_w + x) * 4 + c - ?off) else channel fb_w ?q x y c)"
    using pixel_in_row[OF assms(3,1,5), of "y0 + n" y] pixel_fits[OF assms(3,4,5)] q
    by (simp add: channel_def paint_nth del: add_mult_distrib)
  moreover have "(y * fb_w + x) * 4 + c - ?off = (x - x0) * 4 + c" if "y = y0 + n" "x0 \<le> x"
    using that by (simp add: diff_mult_distrib)
  ultimately show ?case
    using Suc by (auto simp: split less_Suc_eq simp del: upt_Suc)
qed

section \<open>Raw rectangles\<close>

lemma unat16: "unat w \<le> 65535" for w :: u16
  using unsigned_less[where 'a = nat, of w] by simp

lemma surface_size: "a \<le> 65535 \<Longrightarrow> b \<le> 65535 \<Longrightarrow> a * b * 4 < (2::nat) ^ 64" for a b :: nat
  using mult_le_mono[of a 65535 b 65535] by simp

definition raw_row :: "nat \<Rightarrow> u8 list \<Rightarrow> nat \<Rightarrow> u8 list" where
  "raw_row w data r = opaque (take (w * 4) (drop (r * w * 4) data))"

lemma raw_row_length: "(r + 1) * w * 4 \<le> length data \<Longrightarrow> length (raw_row w data r) = w * 4"
  by (simp add: raw_row_def algebra_simps)

lemma raw_row_in: "r < h \<Longrightarrow> length data = w * h * 4 \<Longrightarrow> length (raw_row w data r) = w * 4"
  using mult_le_mono1[of "r + 1" h w] by (intro raw_row_length) (simp add: mult.commute)

lemma raw_offsets_in:
  fixes rx ry rw rh :: u16
  assumes "unat rx + unat rw \<le> fb_w" "unat ry + unat rh \<le> fb_h" "fb_w \<le> 65535" "fb_h \<le> 65535" "r < unat rh"
  shows "raw_offsets fb_w rx ry rw r = Some (r * unat rw * 4, ((unat ry + r) * fb_w + unat rx) * 4)"
proof -
  have "r * unat rw * 4 < 2 ^ 64"
    using surface_size[of r "unat rw"] assms(5) unat16[of rh] unat16[of rw] by simp
  moreover have "((unat ry + r) * fb_w + unat rx) * 4 < 2 ^ 64"
    using row_fits[OF assms(1,2,5)] surface_size[OF assms(3,4)] by linarith
  ultimately show ?thesis by (simp add: raw_offsets_def usize_mul_def usize_add_def)
qed

lemma draw_rows_paint:
  fixes rx ry rw rh :: u16
  assumes "unat rx + unat rw \<le> fb_w" "unat ry + unat rh \<le> fb_h" "fb_w \<le> 65535" "fb_h \<le> 65535"
    and "length data = unat rw * unat rh * 4"
  shows "length p = fb_w * fb_h * 4 \<Longrightarrow> set rows \<subseteq> {..<unat rh} \<Longrightarrow>
    draw_rows fb_w rx ry rw data rows p
      = Some (paint_rows fb_w (unat rx) (unat ry) (raw_row (unat rw) data) rows p)"
proof (induction rows arbitrary: p)
  case Nil
  then show ?case by (simp add: paint_rows_def)
next
  case (Cons r rows)
  then have r: "r < unat rh" by simp
  let ?dst = "((unat ry + r) * fb_w + unat rx) * 4"
  have src: "r * unat rw * 4 + unat rw * 4 \<le> length data"
    using row_fits[of 0 "unat rw" "unat rw" 0 "unat rh" "unat rh" r] r assms(5) by simp
  have dst: "?dst + unat rw * 4 \<le> length p"
    using row_fits[OF assms(1,2) r] Cons.prems(1) by simp
  have len: "length (paint ?dst (raw_row (unat rw) data r) p) = fb_w * fb_h * 4"
    using dst Cons.prems(1) raw_row_in[OF r assms(5)] by simp
  show ?case
    using Cons.IH[OF len] Cons.prems(2) draw_px_paint[OF dst src] src dst
    by (simp add: raw_offsets_in[OF assms(1-4) r] paint_rows_def raw_row_def)
qed

lemma draw_rows_total:
  fixes rx ry rw rh :: u16
  assumes "unat rx + unat rw \<le> fb_w" "unat ry + unat rh \<le> fb_h" "fb_w \<le> 65535" "fb_h \<le> 65535"
    and "length data = unat rw * unat rh * 4" "length p = fb_w * fb_h * 4"
  obtains q where "draw_rows fb_w rx ry rw data [0..<unat rh] p = Some q" "length q = length p"
    and "q = paint_rows fb_w (unat rx) (unat ry) (raw_row (unat rw) data) [0..<unat rh] p"
  using draw_rows_paint[OF assms(1-6), where rows = "[0..<unat rh]"]
    paint_rows_length[OF assms(1,2) raw_row_in[OF _ assms(5)] assms(6), where rows = "[0..<unat rh]"] assms(6)
  by (simp add: lessThan_atLeast0)

section \<open>Copied rectangles\<close>

definition surface_row :: "nat \<Rightarrow> nat \<Rightarrow> nat \<Rightarrow> nat \<Rightarrow> u8 list \<Rightarrow> nat \<Rightarrow> u8 list" where
  "surface_row fb_w w sx sy p r = take (w * 4) (drop (((sy + r) * fb_w + sx) * 4) p)"

lemma surface_row_length:
  "sx + w \<le> fb_w \<Longrightarrow> sy + n \<le> fb_h \<Longrightarrow> r < n \<Longrightarrow> length p = fb_w * fb_h * 4 \<Longrightarrow>
     length (surface_row fb_w w sx sy p r) = w * 4"
  using row_fits[of sx w fb_w sy n fb_h r] by (simp add: surface_row_def)

lemma surface_row_nth:
  assumes "sx + w \<le> fb_w" "sy + n \<le> fb_h" "r < n" "length p = fb_w * fb_h * 4" "x < w" "c < 4"
  shows "surface_row fb_w w sx sy p r ! (x * 4 + c) = channel fb_w p (sx + x) (sy + r) c"
proof -
  have "x * 4 + c < w * 4" using assms(5,6) by linarith
  then show ?thesis
    using row_fits[OF assms(1-3)] assms(4)
    by (simp add: surface_row_def channel_def add_mult_distrib add.assoc)
qed

lemma grab_rows_paint:
  assumes "unat sx + w \<le> fb_w" "unat sy + n \<le> fb_h" "length p = fb_w * fb_h * 4"
  shows "length temp = w * n * 4 \<Longrightarrow> set rows \<subseteq> {..<n} \<Longrightarrow>
    grab_rows fb_w sx sy (w * 4) p rows temp
      = Some (paint_rows w 0 0 (surface_row fb_w w (unat sx) (unat sy) p) rows temp)"
proof (induction rows arbitrary: temp)
  case Nil
  then show ?case by (simp add: paint_rows_def)
next
  case (Cons r rows)
  then have r: "r < n" by simp
  let ?row = "surface_row fb_w w (unat sx) (unat sy) p r"
  have row: "length ?row = w * 4" "?row = take (w * 4) (drop (((unat sy + r) * fb_w + unat sx) * 4) p)"
    using surface_row_length[OF assms(1,2) r assms(3)] by (simp_all add: surface_row_def)
  have dst: "r * w * 4 + length ?row \<le> length temp"
    using row_fits[of 0 w w 0 n n r] r Cons.prems(1) row by simp
  show ?case
    using Cons.IH[of "paint (r * w * 4) ?row temp"] Cons.prems dst splice_paint[OF dst] row
      row_fits[OF assms(1,2) r] assms(3)
    by (simp add: Let_def paint_rows_def mult.assoc)
qed

lemma put_rows_paint:
  assumes "unat rx + w \<le> fb_w" "unat ry + n \<le> fb_h" "length temp = w * n * 4"
  shows "length p = fb_w * fb_h * 4 \<Longrightarrow> set rows \<subseteq> {..<n} \<Longrightarrow>
    put_rows fb_w rx ry (w * 4) temp rows p
      = Some (paint_rows fb_w (unat rx) (unat ry) (surface_row w w 0 0 temp) rows p)"
proof (induction rows arbitrary: p)
  case Nil
  then show ?case by (simp add: paint_rows_def)
next
  case (Cons r rows)
  then have r: "r < n" by simp
  let ?row = "surface_row w w 0 0 temp r" and ?dst = "((unat ry + r) * fb_w + unat rx) * 4"
  have row: "length ?row = w * 4" "?row = take (w * 4) (drop (r * (w * 4)) temp)"
    using surface_row_length[of 0 w w 0 n n r temp] r assms(3) by (simp_all add: surface_row_def mult.assoc)
  have dst: "?dst + length ?row \<le> length p"
    using row_fits[OF assms(1,2) r] Cons.prems(1) row by simp
  show ?case
    using Cons.IH[of "paint ?dst ?row p"] Cons.prems dst splice_paint[OF dst] row
    by (simp add: Let_def paint_rows_def)
qed

section \<open>Properties\<close>

lemma raw_row_nth:
  assumes "r < h" "length data = w * h * 4" "x < w" "c < 4"
  shows "raw_row w data r ! (x * 4 + c) = (if c = 3 then 255 else channel w data x r c)"
proof -
  have m: "(x * 4 + c) mod 4 = c" "x * 4 + c < w * 4" using assms(3,4) by simp_all
  have "r * w * 4 + w * 4 \<le> length data" using row_fits[of 0 w w 0 h h r] assms by simp
  with m show ?thesis
    by (simp add: raw_row_def opaque_nth channel_def add_mult_distrib add.assoc)
qed

text \<open>A Raw rectangle inside the surface is drawn without a panic and changes exactly its own pixels:
  red, green and blue come from the data at the same place, alpha becomes 255.\<close>
theorem raw_draws_rectangle:
  fixes rx ry rw rh :: u16
  assumes "unat rx + unat rw \<le> fb_w" "unat ry + unat rh \<le> fb_h" "fb_w \<le> 65535" "fb_h \<le> 65535"
    and "length data = unat rw * unat rh * 4" "length p = fb_w * fb_h * 4"
  shows "\<exists>q. draw_rows fb_w rx ry rw data [0..<unat rh] p = Some q \<and> length q = length p \<and>
    (\<forall>x y c. x < fb_w \<longrightarrow> y < fb_h \<longrightarrow> c < 4 \<longrightarrow>
       channel fb_w q x y c =
         (if unat ry \<le> y \<and> y < unat ry + unat rh \<and> unat rx \<le> x \<and> x < unat rx + unat rw
          then (if c = 3 then 255 else channel (unat rw) data (x - unat rx) (y - unat ry) c)
          else channel fb_w p x y c))"
proof -
  obtain q where q: "draw_rows fb_w rx ry rw data [0..<unat rh] p = Some q" "length q = length p"
    and "q = paint_rows fb_w (unat rx) (unat ry) (raw_row (unat rw) data) [0..<unat rh] p"
    by (rule draw_rows_total[OF assms])
  then show ?thesis
    using paint_rows_channel[OF assms(1,6) _ _ _ assms(2) raw_row_in[OF _ assms(5)]] raw_row_nth[OF _ assms(5)]
    by auto
qed

theorem raw_draws_rectangle_witness:
  "\<exists>q. draw_rows 3 1 1 1 [7, 8, 9, 10] [0..<1] (replicate 24 0) = Some q
     \<and> channel 3 q 1 1 0 = 7 \<and> channel 3 q 1 1 2 = 9 \<and> channel 3 q 1 1 3 = 255 \<and> channel 3 q 2 1 0 = 0"
proof -
  let ?p = "replicate 24 0 :: u8 list"
  obtain q where q: "draw_rows 3 1 1 1 [7, 8, 9, 10] [0..<unat (1 :: u16)] ?p = Some q"
    and px: "\<And>x y c. x < 3 \<Longrightarrow> y < 2 \<Longrightarrow> c < 4 \<Longrightarrow> channel 3 q x y c =
       (if unat (1 :: u16) \<le> y \<and> y < unat (1 :: u16) + unat (1 :: u16) \<and> unat (1 :: u16) \<le> x
          \<and> x < unat (1 :: u16) + unat (1 :: u16)
        then (if c = 3 then 255 else channel (unat (1 :: u16)) [7, 8, 9, 10] (x - unat (1 :: u16)) (y - unat (1 :: u16)) c)
        else channel 3 ?p x y c)"
    using raw_draws_rectangle[of 1 1 3 1 1 2 "[7, 8, 9, 10]" ?p] by auto
  have "channel 3 q 1 1 0 = 7" "channel 3 q 1 1 2 = 9" "channel 3 q 1 1 3 = 255" "channel 3 q 2 1 0 = 0"
    by (simp_all add: px) (simp_all add: channel_def)
  with q show ?thesis by (simp add: numeral_eq_Suc)
qed

lemma copy_pixels_paint:
  fixes sx sy rx ry rw rh :: u16
  assumes "unat sx + unat rw \<le> fb_w" "unat sy + unat rh \<le> fb_h"
    and "unat rx + unat rw \<le> fb_w" "unat ry + unat rh \<le> fb_h" "length p = fb_w * fb_h * 4"
  defines "temp \<equiv> paint_rows (unat rw) 0 0 (surface_row fb_w (unat rw) (unat sx) (unat sy) p) [0..<unat rh]
     (replicate (unat rw * 4 * unat rh) 0)"
  shows "length temp = unat rw * unat rh * 4"
    and "copy_pixels fb_w sx sy rx ry rw rh p =
      Some (paint_rows fb_w (unat rx) (unat ry) (surface_row (unat rw) (unat rw) 0 0 temp) [0..<unat rh] p)"
proof -
  show len: "length temp = unat rw * unat rh * 4"
    unfolding temp_def
    by (rule paint_rows_length[of 0 "unat rw" "unat rw" 0 "unat rh" "unat rh"])
       (use surface_row_length[OF assms(1,2) _ assms(5)] in \<open>auto simp: lessThan_atLeast0\<close>)
  show "copy_pixels fb_w sx sy rx ry rw rh p =
      Some (paint_rows fb_w (unat rx) (unat ry) (surface_row (unat rw) (unat rw) 0 0 temp) [0..<unat rh] p)"
    using grab_rows_paint[OF assms(1,2,5), of "replicate (unat rw * 4 * unat rh) 0" "[0..<unat rh]"]
      put_rows_paint[OF assms(3,4) len assms(5), of "[0..<unat rh]"]
    by (simp add: copy_pixels_def Let_def temp_def lessThan_atLeast0 mult.commute mult.left_commute)
qed

lemma copy_pixels_total:
  fixes sx sy rx ry rw rh :: u16
  assumes "unat sx + unat rw \<le> fb_w" "unat sy + unat rh \<le> fb_h"
    and "unat rx + unat rw \<le> fb_w" "unat ry + unat rh \<le> fb_h" "length p = fb_w * fb_h * 4"
  obtains q where "copy_pixels fb_w sx sy rx ry rw rh p = Some q" "length q = length p"
  using copy_pixels_paint[OF assms] assms(5)
    paint_rows_length[OF assms(3,4) surface_row_length[of 0 "unat rw" "unat rw" 0 "unat rh" "unat rh"] assms(5),
      where rows = "[0..<unat rh]"]
  by (simp add: lessThan_atLeast0)

text \<open>Copying a rectangle inside the surface to another place inside it never panics and moves all
  its pixels at once: every pixel of the destination becomes what its source was before the copy,
  however the two rectangles overlap, and no other pixel changes.\<close>
theorem copy_is_simultaneous:
  fixes sx sy rx ry rw rh :: u16
  assumes "unat sx + unat rw \<le> fb_w" "unat sy + unat rh \<le> fb_h"
    and "unat rx + unat rw \<le> fb_w" "unat ry + unat rh \<le> fb_h" "length p = fb_w * fb_h * 4"
  shows "\<exists>q. copy_pixels fb_w sx sy rx ry rw rh p = Some q \<and> length q = length p \<and>
    (\<forall>x y c. x < fb_w \<longrightarrow> y < fb_h \<longrightarrow> c < 4 \<longrightarrow>
       channel fb_w q x y c =
         (if unat ry \<le> y \<and> y < unat ry + unat rh \<and> unat rx \<le> x \<and> x < unat rx + unat rw
          then channel fb_w p (unat sx + (x - unat rx)) (unat sy + (y - unat ry)) c
          else channel fb_w p x y c))"
proof -
  let ?w = "unat rw" and ?S = "surface_row fb_w (unat rw) (unat sx) (unat sy) p"
  define temp where "temp = paint_rows ?w 0 0 ?S [0..<unat rh] (replicate (?w * 4 * unat rh) 0)"
  let ?B = "surface_row ?w ?w 0 0 temp"
  let ?q = "paint_rows fb_w (unat rx) (unat ry) ?B [0..<unat rh] p"
  have len: "length temp = ?w * unat rh * 4"
    and run: "copy_pixels fb_w sx sy rx ry rw rh p = Some ?q"
    using copy_pixels_paint[OF assms] by (simp_all add: temp_def)
  have S: "r < unat rh \<Longrightarrow> length (?S r) = ?w * 4" for r by (rule surface_row_length[OF assms(1,2) _ assms(5)])
  have B: "r < unat rh \<Longrightarrow> length (?B r) = ?w * 4" for r by (rule surface_row_length[of 0 ?w ?w 0 "unat rh" "unat rh"]) (simp_all add: len)
  have row: "?B r ! (x * 4 + c) = channel fb_w p (unat sx + x) (unat sy + r) c"
    if "r < unat rh" "x < ?w" "c < 4" for r x c
    using surface_row_nth[of 0 ?w ?w 0 "unat rh" "unat rh" r temp x c] len that S
      paint_rows_channel[of 0 ?w ?w "replicate (?w * 4 * unat rh) 0" "unat rh" x r c 0 "unat rh" ?S]
      surface_row_nth[OF assms(1,2) that(1) assms(5) that(2,3)]
    by (simp add: temp_def)
  have "length ?q = length p"
    using paint_rows_length[OF assms(3,4) B assms(5), where rows = "[0..<unat rh]"] assms(5)
    by (simp add: lessThan_atLeast0)
  with run show ?thesis
    using paint_rows_channel[OF assms(3,5) _ _ _ assms(4) B] row by auto
qed

theorem copy_is_simultaneous_witness:
  "copy_pixels 3 0 0 1 0 2 1 [1, 1, 1, 1, 2, 2, 2, 2, 3, 3, 3, 3] = Some [1, 1, 1, 1, 1, 1, 1, 1, 2, 2, 2, 2]
   \<and> (\<exists>q. copy_pixels 3 0 0 1 0 2 1 [1, 1, 1, 1, 2, 2, 2, 2, 3, 3, 3, 3] = Some q \<and> length q = 12)"
proof -
  have "\<exists>q. copy_pixels 3 0 0 1 0 2 1 [1, 1, 1, 1, 2, 2, 2, 2, 3, 3, 3, 3] = Some q \<and> length q = 12"
    using copy_is_simultaneous[of 0 2 3 0 1 1 1 0 "[1, 1, 1, 1, 2, 2, 2, 2, 3, 3, 3, 3]"] by auto
  moreover have "copy_pixels 3 0 0 1 0 2 1 [1, 1, 1, 1, 2, 2, 2, 2, 3, 3, 3, 3] = Some [1, 1, 1, 1, 1, 1, 1, 1, 2, 2, 2, 2]"
    by code_simp
  ultimately show ?thesis by blast
qed

end
