(* ===== verification/Vnc_Client.thy ===== *)
theory Vnc_Client
  imports Vnc_Des Vnc_Raster
begin

text \<open>
  The VNC client of the console (vmm-gui/src/vnc.rs): the state shared between the interface and
  the client thread, the RFB handshake, the main loop over the server's messages and the messages
  it sends. The server is the list of bytes it has sent and not yet been read; a read that finds too
  few of them fails, as it does after the read time limit of the socket or at its end. Writes are
  taken to succeed. Instants are nanoseconds, read from a clock \<open>now\<close> that counts its readings.
  An index out of range panics: the end \<open>Panicked\<close>.
\<close>

section \<open>Shared state and its operations\<close>

record key_event =
  key_down :: bool
  key_sym :: u32

record mouse_event =
  mouse_x :: u16
  mouse_y :: u16
  mouse_buttons :: u8

record vnc_state =
  fb_width :: u16
  fb_height :: u16
  pixels :: "u8 list"
  connected :: bool
  vnc_err :: "string option"
  pending_keys :: "key_event list"
  pending_mouse :: "mouse_event option"
  needs_refresh :: bool
  pending_resize :: "(u16 \<times> u16) option"
  pixel_generation :: u64
  lock_poisoned :: bool

definition vnc_new :: vnc_state where
  "vnc_new = \<lparr>fb_width = 0, fb_height = 0, pixels = [], connected = False, vnc_err = None,
     pending_keys = [], pending_mouse = None, needs_refresh = True, pending_resize = None,
     pixel_generation = 0, lock_poisoned = False\<rparr>"

text \<open>Every operation takes the lock; on a poisoned lock it does nothing.\<close>

definition locked :: "(vnc_state \<Rightarrow> vnc_state) \<Rightarrow> vnc_state \<Rightarrow> vnc_state" where
  "locked f s = (if lock_poisoned s then s else f s)"

definition get_state :: "vnc_state \<Rightarrow> vnc_state option" where
  "get_state s = (if lock_poisoned s then None else Some s)"

definition MAX_PENDING_KEYS :: nat where
  "MAX_PENDING_KEYS = 1024"

definition send_key :: "bool \<Rightarrow> u32 \<Rightarrow> vnc_state \<Rightarrow> vnc_state" where
  "send_key down keysym = locked (\<lambda>s.
     if length (pending_keys s) < MAX_PENDING_KEYS
     then s\<lparr>pending_keys := pending_keys s @ [\<lparr>key_down = down, key_sym = keysym\<rparr>]\<rparr> else s)"

definition send_mouse :: "u16 \<Rightarrow> u16 \<Rightarrow> u8 \<Rightarrow> vnc_state \<Rightarrow> vnc_state" where
  "send_mouse x y b = locked (\<lambda>s. s\<lparr>pending_mouse := Some \<lparr>mouse_x = x, mouse_y = y, mouse_buttons = b\<rparr>\<rparr>)"

definition request_refresh :: "vnc_state \<Rightarrow> vnc_state" where
  "request_refresh = locked (\<lambda>s. s\<lparr>needs_refresh := True\<rparr>)"

definition request_resolution :: "u16 \<Rightarrow> u16 \<Rightarrow> vnc_state \<Rightarrow> vnc_state" where
  "request_resolution width height = locked (\<lambda>s.
     let w = max 320 (min 8192 width); h = max 200 (min 8192 height)
     in if fb_width s \<noteq> w \<or> fb_height s \<noteq> h then s\<lparr>pending_resize := Some (w, h)\<rparr> else s)"

definition disconnect :: "vnc_state \<Rightarrow> vnc_state" where
  "disconnect = locked (\<lambda>s. s\<lparr>connected := False\<rparr>)"

text \<open>\<open>connect_with_password\<close> starts the thread only for these hosts.\<close>

definition ALLOWED_HOSTS :: "string list" where
  "ALLOWED_HOSTS = [''127.0.0.1'', ''::1'', ''localhost'']"

definition connect_with_password :: "string \<Rightarrow> u16 \<Rightarrow> vnc_state \<Rightarrow> string option \<times> vnc_state" where
  "connect_with_password vhost vport s =
     (if vhost \<notin> set ALLOWED_HOSTS then
        (None, locked (\<lambda>s. s\<lparr>vnc_err := Some (''VNC connection blocked: only localhost allowed, got ''
           @ [CHR 0x27] @ vhost @ [CHR 0x27])\<rparr>) s)
      else (Some (vhost @ '':'' @ dec_w vport), s))"

section \<open>The client thread\<close>

datatype vnc_end =
    Closed
  | Read_Failed
  | Lock_Poisoned
  | Auth_Failed "u8 list"
  | Unsupported_Auth
  | Security_Failed
  | Bad_Dimensions u16 u16
  | Too_Many_Rects u16
  | Rect_Outside
  | Size_Overflow
  | Update_Too_Large
  | Cumulative_Too_Large
  | Copy_Source_Outside
  | Copy_Dest_Outside
  | Desktop_Size_Range
  | Unsupported_Encoding u32
  | Unknown_Message u8
  | Panicked

record vnc_client =
  shared :: vnc_state
  cl_width :: u16
  cl_height :: u16
  resizes :: "nat list"
  clock_reads :: nat
  sent :: "u8 list"
  input :: "u8 list"

type_synonym vnc_outcome = "vnc_client \<times> vnc_end option"

definition go_on :: "vnc_client \<Rightarrow> vnc_outcome" where
  "go_on c = (c, None)"

definition stop_with :: "vnc_end \<Rightarrow> vnc_client \<Rightarrow> vnc_outcome" where
  "stop_with e c = (c, Some e)"

definition and_then :: "vnc_outcome \<Rightarrow> (vnc_client \<Rightarrow> vnc_outcome) \<Rightarrow> vnc_outcome" where
  "and_then r f = (case r of (c, None) \<Rightarrow> f c | (c, Some e) \<Rightarrow> (c, Some e))"

definition read_exact :: "nat \<Rightarrow> (u8 list \<Rightarrow> vnc_client \<Rightarrow> vnc_outcome) \<Rightarrow> vnc_client \<Rightarrow> vnc_outcome" where
  "read_exact n f c =
     (if length (input c) < n then stop_with Read_Failed c
      else f (take n (input c)) (c\<lparr>input := drop n (input c)\<rparr>))"

definition write_all :: "u8 list \<Rightarrow> vnc_client \<Rightarrow> vnc_client" where
  "write_all bs c = c\<lparr>sent := sent c @ bs\<rparr>"

text \<open>The lock of the shared state inside the thread: poisoned is fatal.\<close>

definition with_state :: "(vnc_state \<Rightarrow> vnc_state) \<Rightarrow> vnc_client \<Rightarrow> vnc_outcome" where
  "with_state f c =
     (if lock_poisoned (shared c) then stop_with Lock_Poisoned c
      else go_on (c\<lparr>shared := f (shared c)\<rparr>))"

section \<open>Integers on the wire\<close>

definition be16 :: "u16 \<Rightarrow> u8 list" where
  "be16 w = [ucast (drop_bit 8 w), ucast w]"

definition be32 :: "u32 \<Rightarrow> u8 list" where
  "be32 w = [ucast (drop_bit 24 w), ucast (drop_bit 16 w), ucast (drop_bit 8 w), ucast w]"

definition from_be16 :: "u8 list \<Rightarrow> nat \<Rightarrow> u16" where
  "from_be16 bs i = or (push_bit 8 (ucast (bs ! i))) (ucast (bs ! (i + 1)))"

definition from_be32 :: "u8 list \<Rightarrow> nat \<Rightarrow> u32" where
  "from_be32 bs i = or (push_bit 24 (ucast (bs ! i))) (or (push_bit 16 (ucast (bs ! (i + 1))))
     (or (push_bit 8 (ucast (bs ! (i + 2)))) (ucast (bs ! (i + 3)))))"

section \<open>Client messages\<close>

definition fb_update_request :: "bool \<Rightarrow> u16 \<Rightarrow> u16 \<Rightarrow> u16 \<Rightarrow> u16 \<Rightarrow> u8 list" where
  "fb_update_request incremental x y w h =
     [3, if incremental then 1 else 0] @ be16 x @ be16 y @ be16 w @ be16 h"

definition key_event_msg :: "key_event \<Rightarrow> u8 list" where
  "key_event_msg k = [4, if key_down k then 1 else 0, 0, 0] @ be32 (key_sym k)"

definition pointer_event_msg :: "mouse_event \<Rightarrow> u8 list" where
  "pointer_event_msg m = [5, mouse_buttons m] @ be16 (mouse_x m) @ be16 (mouse_y m)"

definition set_desktop_size_msg :: "u16 \<Rightarrow> u16 \<Rightarrow> u8 list" where
  "set_desktop_size_msg w h =
     [251, 0] @ be16 w @ be16 h @ [1, 0] @ be32 0 @ be16 0 @ be16 0 @ be16 w @ be16 h @ be32 0"

definition set_pixel_format_msg :: "u8 list" where
  "set_pixel_format_msg = [0, 0, 0, 0, 32, 24, 0, 1, 0, 255, 0, 255, 0, 255, 0, 8, 16, 0, 0, 0]"

definition set_encodings_msg :: "u8 list" where
  "set_encodings_msg = [2, 0] @ be16 4 @ be32 0 @ be32 1 @ be32 (- 223) @ be32 (- 308)"

section \<open>The handshake\<close>

definition MAX_VNC_DIMENSION :: u16 where
  "MAX_VNC_DIMENSION = 8192"

definition dims_ok :: "u16 \<Rightarrow> u16 \<Rightarrow> bool" where
  "dims_ok w h \<longleftrightarrow> w \<noteq> 0 \<and> h \<noteq> 0 \<and> w \<le> MAX_VNC_DIMENSION \<and> h \<le> MAX_VNC_DIMENSION"

definition choose_security :: "u8 list \<Rightarrow> string option \<Rightarrow> (vnc_client \<Rightarrow> vnc_outcome) \<Rightarrow> vnc_client \<Rightarrow> vnc_outcome" where
  "choose_security sec_types password k c =
     (if 1 \<in> set sec_types then k (write_all [1] c)
      else if 2 \<in> set sec_types then
        read_exact 16 (\<lambda>challenge c.
          k (write_all (vnc_des_encrypt challenge (case password of None \<Rightarrow> [] | Some p \<Rightarrow> p)) c))
          (write_all [2] c)
      else stop_with Unsupported_Auth c)"

definition server_init :: "vnc_client \<Rightarrow> vnc_outcome" where
  "server_init = read_exact 24 (\<lambda>si.
     read_exact (min (unat (from_be32 si 20)) 4096) (\<lambda>_ c.
       let width = from_be16 si 0; height = from_be16 si 2;
           c = write_all set_encodings_msg (write_all set_pixel_format_msg c)
       in if \<not> dims_ok width height then stop_with (Bad_Dimensions width height) c
          else and_then
            (with_state (\<lambda>s. s\<lparr>fb_width := width, fb_height := height, pixels := blank width height,
                 pixel_generation := pixel_generation s + 1, connected := True, vnc_err := None\<rparr>)
               (c\<lparr>cl_width := width, cl_height := height\<rparr>))
            (\<lambda>c. go_on (write_all (fb_update_request False 0 0 width height) c))))"

definition vnc_handshake :: "string option \<Rightarrow> vnc_client \<Rightarrow> vnc_outcome" where
  "vnc_handshake password =
     read_exact 12 (\<lambda>_ c.
       read_exact 1 (\<lambda>num_sec.
         let n = unat (num_sec ! 0) in
         if n = 0 then
           read_exact 4 (\<lambda>len_buf.
             read_exact (min (unat (from_be32 len_buf 0)) 4096) (\<lambda>reason. stop_with (Auth_Failed reason)))
         else
           read_exact n (\<lambda>sec_types.
             choose_security sec_types password
               (read_exact 4 (\<lambda>result c.
                 if from_be32 result 0 \<noteq> 0 then stop_with Security_Failed c
                 else server_init (write_all [1] c)))))
         (write_all (map (\<lambda>ch. of_nat (byte_of ch)) ''RFB 003.008\<newline>'') c))"

section \<open>Rectangles\<close>

definition MAX_PIXEL_ALLOC :: nat where
  "MAX_PIXEL_ALLOC = 64 * 1024 * 1024"

definition MAX_CUMULATIVE_ALLOC :: nat where
  "MAX_CUMULATIVE_ALLOC = 256 * 1024 * 1024"

definition resize_state :: "u16 \<Rightarrow> u16 \<Rightarrow> vnc_state \<Rightarrow> vnc_state" where
  "resize_state w h s = s\<lparr>fb_width := w, fb_height := h, pixels := blank w h,
     pixel_generation := pixel_generation s + 1\<rparr>"

definition outside :: "u16 \<Rightarrow> u16 \<Rightarrow> u16 \<Rightarrow> u16 \<Rightarrow> vnc_client \<Rightarrow> bool" where
  "outside x y w h c \<longleftrightarrow>
     unat x + unat w > unat (cl_width c) \<or> unat y + unat h > unat (cl_height c)"

definition implicit_resize :: "u16 \<Rightarrow> u16 \<Rightarrow> u16 \<Rightarrow> u16 \<Rightarrow> vnc_client \<Rightarrow> vnc_outcome" where
  "implicit_resize rx ry rw rh c =
     (if rx = 0 \<and> ry = 0 \<and> dims_ok rw rh then
        with_state (resize_state rw rh) (c\<lparr>cl_width := rw, cl_height := rh\<rparr>)
      else stop_with Rect_Outside c)"

definition draw_raw :: "u16 \<Rightarrow> u16 \<Rightarrow> u16 \<Rightarrow> u16 \<Rightarrow> u8 list \<Rightarrow> vnc_client \<Rightarrow> vnc_outcome" where
  "draw_raw rx ry rw rh data c =
     (if lock_poisoned (shared c) then stop_with Lock_Poisoned c
      else (case draw_rows (unat (fb_width (shared c))) rx ry rw data [0..<unat rh] (pixels (shared c)) of
          None \<Rightarrow> stop_with Panicked c
        | Some p \<Rightarrow> go_on (c\<lparr>shared := (shared c)\<lparr>pixels := p,
            pixel_generation := pixel_generation (shared c) + 1\<rparr>\<rparr>)))"

definition raw_rect ::
  "u16 \<Rightarrow> u16 \<Rightarrow> u16 \<Rightarrow> u16 \<Rightarrow> nat \<Rightarrow> (nat \<Rightarrow> vnc_client \<Rightarrow> vnc_outcome) \<Rightarrow> vnc_client \<Rightarrow> vnc_outcome" where
  "raw_rect rx ry rw rh cum k c =
     (if rw = 0 \<or> rh = 0 then k cum c
      else and_then (if outside rx ry rw rh c then implicit_resize rx ry rw rh c else go_on c) (\<lambda>c.
        case Option.bind (usize_mul (unat rw) (unat rh)) (\<lambda>v. usize_mul v 4) of
          None \<Rightarrow> stop_with Size_Overflow c
        | Some pixel_bytes \<Rightarrow>
            if pixel_bytes > MAX_PIXEL_ALLOC then stop_with Update_Too_Large c
            else (let cum' = min (cum + pixel_bytes) (2 ^ 64 - 1) in
              if cum' > MAX_CUMULATIVE_ALLOC then stop_with Cumulative_Too_Large c
              else read_exact pixel_bytes (\<lambda>data c. and_then (draw_raw rx ry rw rh data c) (k cum')) c)))"

definition copy_rect ::
  "u16 \<Rightarrow> u16 \<Rightarrow> u16 \<Rightarrow> u16 \<Rightarrow> (vnc_client \<Rightarrow> vnc_outcome) \<Rightarrow> vnc_client \<Rightarrow> vnc_outcome" where
  "copy_rect rx ry rw rh k = read_exact 4 (\<lambda>src c.
     let sx = from_be16 src 0; sy = from_be16 src 2 in
     if rw = 0 \<or> rh = 0 then k c
     else if outside sx sy rw rh c then stop_with Copy_Source_Outside c
     else if outside rx ry rw rh c then stop_with Copy_Dest_Outside c
     else if lock_poisoned (shared c) then stop_with Lock_Poisoned c
     else (case copy_pixels (unat (fb_width (shared c))) sx sy rx ry rw rh (pixels (shared c)) of
         None \<Rightarrow> stop_with Panicked c
       | Some p \<Rightarrow> k (c\<lparr>shared := (shared c)\<lparr>pixels := p,
           pixel_generation := pixel_generation (shared c) + 1\<rparr>\<rparr>)))"

section \<open>Resizes\<close>

definition MAX_RESIZES_PER_WINDOW :: nat where
  "MAX_RESIZES_PER_WINDOW = 50"

definition RESIZE_WINDOW :: nat where
  "RESIZE_WINDOW = 10 * 1000000000"

text \<open>The sliding window: old time stamps leave at the front, and with fifty left nothing is admitted.\<close>

definition admit_resize :: "nat \<Rightarrow> nat list \<Rightarrow> nat list \<times> bool" where
  "admit_resize t stamps =
     (let kept = dropWhile (\<lambda>t'. t - t' > RESIZE_WINDOW) stamps
      in if length kept \<ge> MAX_RESIZES_PER_WINDOW then (kept, False) else (kept @ [t], True))"

definition limited_resize ::
  "(nat \<Rightarrow> nat) \<Rightarrow> u16 \<Rightarrow> u16 \<Rightarrow> (vnc_client \<Rightarrow> vnc_outcome) \<Rightarrow> vnc_client \<Rightarrow> vnc_outcome" where
  "limited_resize now rw rh k c =
     (let (stamps, admitted) = admit_resize (now (clock_reads c)) (resizes c);
          c = c\<lparr>clock_reads := clock_reads c + 1, resizes := stamps\<rparr>
      in if \<not> admitted then k c
         else and_then
           (with_state (resize_state rw rh) (c\<lparr>cl_width := rw, cl_height := rh\<rparr>))
           (\<lambda>c. k (write_all (fb_update_request False 0 0 rw rh) c)))"

definition extended_desktop_size ::
  "(nat \<Rightarrow> nat) \<Rightarrow> u16 \<Rightarrow> u16 \<Rightarrow> (vnc_client \<Rightarrow> vnc_outcome) \<Rightarrow> vnc_client \<Rightarrow> vnc_outcome" where
  "extended_desktop_size now rw rh k = read_exact 4 (\<lambda>header.
     read_exact (min (unat (header ! 0)) 16 * 16) (\<lambda>_ c.
       if dims_ok rw rh then limited_resize now rw rh k c else k c))"

definition desktop_size ::
  "(nat \<Rightarrow> nat) \<Rightarrow> u16 \<Rightarrow> u16 \<Rightarrow> (vnc_client \<Rightarrow> vnc_outcome) \<Rightarrow> vnc_client \<Rightarrow> vnc_outcome" where
  "desktop_size now rw rh k c =
     (if \<not> dims_ok rw rh then stop_with Desktop_Size_Range c else limited_resize now rw rh k c)"

section \<open>The main loop\<close>

definition one_rect :: "(nat \<Rightarrow> nat) \<Rightarrow> nat \<Rightarrow> (nat \<Rightarrow> vnc_client \<Rightarrow> vnc_outcome) \<Rightarrow> vnc_client \<Rightarrow> vnc_outcome" where
  "one_rect now cum k = read_exact 12 (\<lambda>r c.
     let rx = from_be16 r 0; ry = from_be16 r 2; rw = from_be16 r 4; rh = from_be16 r 6;
         encoding = from_be32 r 8
     in if encoding = 0 then raw_rect rx ry rw rh cum k c
        else if encoding = 1 then copy_rect rx ry rw rh (k cum) c
        else if encoding = - 308 then extended_desktop_size now rw rh (k cum) c
        else if encoding = - 223 then desktop_size now rw rh (k cum) c
        else stop_with (Unsupported_Encoding encoding) c)"

primrec handle_rects :: "nat \<Rightarrow> (nat \<Rightarrow> nat) \<Rightarrow> nat \<Rightarrow> vnc_client \<Rightarrow> vnc_outcome" where
  "handle_rects 0 now = (\<lambda>cum c. go_on c)"
| "handle_rects (Suc n) now = (\<lambda>cum. one_rect now cum (handle_rects n now))"

definition server_message :: "(nat \<Rightarrow> nat) \<Rightarrow> u8 \<Rightarrow> vnc_client \<Rightarrow> vnc_outcome" where
  "server_message now msg_type c =
     (if msg_type = 0 then
        read_exact 3 (\<lambda>header c.
          let num_rects = from_be16 header 1 in
          if num_rects > 4096 then stop_with (Too_Many_Rects num_rects) c
          else handle_rects (unat num_rects) now 0 c) c
      else if msg_type = 1 then
        read_exact 5 (\<lambda>header.
          read_exact (min (unat (from_be16 header 3)) 4096 * 6) (\<lambda>_. go_on)) c
      else if msg_type = 2 then go_on c
      else if msg_type = 3 then
        read_exact 7 (\<lambda>header.
          read_exact (min (unat (from_be32 header 3)) (1024 * 1024)) (\<lambda>_. go_on)) c
      else stop_with (Unknown_Message msg_type) c)"

text \<open>What the interface has queued is taken in one go under the lock, then sent.\<close>

definition send_pending :: "vnc_client \<Rightarrow> vnc_client" where
  "send_pending c =
     (let s = shared c;
          c = c\<lparr>shared := s\<lparr>pending_keys := [], pending_mouse := None, needs_refresh := False,
                pending_resize := None\<rparr>\<rparr>;
          c = write_all (concat (map key_event_msg (pending_keys s))) c;
          c = write_all (case pending_mouse s of None \<Rightarrow> [] | Some m \<Rightarrow> pointer_event_msg m) c;
          c = write_all (if needs_refresh s
                then fb_update_request False 0 0 (cl_width c) (cl_height c) else []) c;
          c = write_all (case pending_resize s of None \<Rightarrow> [] | Some (w, h) \<Rightarrow> set_desktop_size_msg w h) c
      in write_all (fb_update_request True 0 0 (cl_width c) (cl_height c)) c)"

text \<open>One turn of the loop. Nothing to read is the time limit of the first byte: the loop goes on.\<close>

definition vnc_iteration :: "(nat \<Rightarrow> nat) \<Rightarrow> vnc_client \<Rightarrow> vnc_outcome" where
  "vnc_iteration now c =
     (if lock_poisoned (shared c) then stop_with Lock_Poisoned c
      else if \<not> connected (shared c) then stop_with Closed c
      else (let c = send_pending c in
        if input c = [] then go_on c
        else read_exact 1 (\<lambda>msg_type. server_message now (msg_type ! 0)) c))"

definition fresh_client :: "vnc_state \<Rightarrow> u8 list \<Rightarrow> vnc_client" where
  "fresh_client s bytes =
     \<lparr>shared = s, cl_width = 0, cl_height = 0, resizes = [], clock_reads = 0, sent = [], input = bytes\<rparr>"

section \<open>Wire integers\<close>

lemma byte_bit: "bit (ucast (w :: 'a::len word) :: u8) n \<longleftrightarrow> n < 8 \<and> bit w n"
  by (auto simp: bit_ucast_iff dest: bit_imp_le_length)

lemma be16_read: "or (push_bit 8 (ucast (ucast (drop_bit 8 w) :: u8))) (ucast (ucast w :: u8)) = w" (is "?l = w") for w :: u16
proof (rule bit_word_eqI)
  fix n assume "n < LENGTH(16)"
  then have "n < 16" by simp
  then show "bit ?l n = bit w n"
    by (cases "n < 8") (auto simp: bit_or_iff bit_push_bit_iff bit_ucast_iff bit_drop_bit_eq byte_bit)
qed

lemma be32_read: "or (push_bit 24 (ucast (ucast (drop_bit 24 w) :: u8))) (or (push_bit 16 (ucast (ucast (drop_bit 16 w) :: u8)))
     (or (push_bit 8 (ucast (ucast (drop_bit 8 w) :: u8))) (ucast (ucast w :: u8)))) = w" (is "?l = w") for w :: u32
proof (rule bit_word_eqI)
  fix n assume "n < LENGTH(32)"
  then consider "n < 8" | "8 \<le> n" "n < 16" | "16 \<le> n" "n < 24" | "24 \<le> n" "n < 32" by fastforce
  then show "bit ?l n = bit w n"
    by cases (auto simp: bit_or_iff bit_push_bit_iff bit_ucast_iff bit_drop_bit_eq byte_bit)
qed

lemma from_be16_at: "drop i bs = be16 w @ rest \<Longrightarrow> from_be16 bs i = w"
proof -
  assume d: "drop i bs = be16 w @ rest"
  then have i: "i \<le> length bs" by (metis append_is_Nil_conv be16_def drop_eq_Nil2 linorder_le_cases list.distinct(1))
  have "bs ! (i + k) = (be16 w @ rest) ! k" for k using nth_drop[OF i, of k] d by simp
  from this[of 0] this[of 1] show ?thesis by (simp add: from_be16_def be16_def be16_read)
qed

lemma from_be32_at: "drop i bs = be32 w @ rest \<Longrightarrow> from_be32 bs i = w"
proof -
  assume d: "drop i bs = be32 w @ rest"
  then have i: "i \<le> length bs" by (metis append_is_Nil_conv be32_def drop_eq_Nil2 linorder_le_cases list.distinct(1))
  have "bs ! (i + k) = (be32 w @ rest) ! k" for k using nth_drop[OF i, of k] d by simp
  from this[of 0] this[of 1] this[of 2] this[of 3]
  show ?thesis by (simp add: from_be32_def be32_def be32_read)
qed

section \<open>Properties\<close>

text \<open>A message that the client sends is read back by a big-endian reader at the fixed offsets of the
  protocol, for every value.\<close>
theorem requests_decode:
  "from_be16 (fb_update_request inc x y w h) 2 = x \<and> from_be16 (fb_update_request inc x y w h) 4 = y
   \<and> from_be16 (fb_update_request inc x y w h) 6 = w \<and> from_be16 (fb_update_request inc x y w h) 8 = h
   \<and> from_be32 (key_event_msg k) 4 = key_sym k
   \<and> from_be16 (pointer_event_msg m) 2 = mouse_x m \<and> from_be16 (pointer_event_msg m) 4 = mouse_y m
   \<and> from_be16 (set_desktop_size_msg w h) 2 = w \<and> from_be16 (set_desktop_size_msg w h) 4 = h
   \<and> from_be16 (set_desktop_size_msg w h) 16 = w \<and> from_be16 (set_desktop_size_msg w h) 18 = h"
  by (auto simp: fb_update_request_def key_event_msg_def pointer_event_msg_def set_desktop_size_msg_def
      intro!: from_be16_at from_be32_at) (simp_all add: be16_def be32_def)

text \<open>A clipboard text longer than 1 MiB is read only that far: its end stays in the stream and is read
  as the next server messages, the loss of synchronisation that the code ends the connection for
  elsewhere.\<close>
theorem long_clipboard_desynchronises:
  assumes "input c = header @ cut_text @ rest" "length header = 7" "length cut_text = unat (from_be32 header 3)"
  shows "server_message now 3 c = (c\<lparr>input := drop (1024 * 1024) cut_text @ rest\<rparr>, None)"
proof -
  have "from_be32 (take 7 (header @ xs)) 3 = from_be32 header 3" for xs using assms(2) by simp
  then show ?thesis
    using assms by (auto simp: server_message_def read_exact_def go_on_def min_def)
qed

theorem long_clipboard_desynchronises_witness:
  "server_message (\<lambda>_. 0) 3 ((fresh_client vnc_new [])\<lparr>input := [0, 0, 0, 0, 16, 0, 1] @ replicate 1048577 1 @ [2]\<rparr>)
     = ((fresh_client vnc_new [])\<lparr>input := [1, 2]\<rparr>, None)"
proof -
  have "from_be32 [0, 0, 0, 0, 16, 0, 1] 3 = 1048577" by code_simp
  then have n: "unat (from_be32 [0, 0, 0, 0, 16, 0, 1] 3) = 1048577" by simp
  have d: "drop (1024 * 1024) (replicate 1048577 (1 :: u8)) = [1]" by (simp add: drop_replicate)
  show ?thesis
    using long_clipboard_desynchronises[of "(fresh_client vnc_new [])\<lparr>input := [0, 0, 0, 0, 16, 0, 1] @ replicate 1048577 1 @ [2]\<rparr>"
        "[0, 0, 0, 0, 16, 0, 1]" "replicate 1048577 1" "[2]" "\<lambda>_. 0"] n d
    by simp
qed

lemma read_exact_append: "input c = xs @ ys \<Longrightarrow> length xs = n \<Longrightarrow> read_exact n f c = f xs (c\<lparr>input := ys\<rparr>)"
  by (simp add: read_exact_def)

definition small_server :: "u8 list" where
  "small_server = replicate 12 0 @ [1, 1] @ [0, 0, 0, 0] @ [0, 2, 0, 1] @ replicate 20 0"

definition session_start :: "u8 list \<Rightarrow> u8 list" where
  "session_start init = [1] @ set_pixel_format_msg @ set_encodings_msg
     @ fb_update_request False 0 0 (from_be16 init 0) (from_be16 init 2)"

lemma server_init_runs:
  assumes "input c = init @ name @ rest" "length init = 24" "length name = unat (from_be32 init 20)" "length name \<le> 4096"
    and "dims_ok (from_be16 init 0) (from_be16 init 2)" "\<not> lock_poisoned (shared c)"
  shows "\<exists>d. server_init (write_all [1] c) = (d, None) \<and> input d = rest \<and> sent d = sent c @ session_start init
    \<and> cl_width d = from_be16 init 0 \<and> cl_height d = from_be16 init 2 \<and> connected (shared d)
    \<and> pixels (shared d) = blank (cl_width d) (cl_height d)"
proof -
  have i: "input (write_all [1] c) = init @ name @ rest" using assms(1) by (simp add: write_all_def)
  have n: "length name = min (unat (from_be32 init 20)) 4096" using assms(3,4) by simp
  have i': "input ((write_all [1] c)\<lparr>input := name @ rest\<rparr>) = name @ rest" by simp
  show ?thesis
    using assms(5,6) unfolding server_init_def read_exact_append[OF i assms(2)] read_exact_append[OF i' n]
    by (simp add: Let_def with_state_def and_then_def go_on_def write_all_def session_start_def)
qed

text \<open>C40: The handshake with a server that offers access without authentication, or else password
  authentication, and accepts: the first is preferred and then the password plays no part; with the
  second the challenge is answered by its encryption under the password; in both cases the client goes
  on with the size that the server announced and has sent exactly these bytes.\<close>
theorem handshake_with_server:
  assumes "input c = version @ [of_nat (length types)] @ types
      @ (if 1 \<in> set types then [] else challenge) @ [0, 0, 0, 0] @ init @ name @ rest"
    and "length version = 12" "0 < length types" "length types < 256" "1 \<in> set types \<or> 2 \<in> set types"
    and "length challenge = 16" "length init = 24" "length name = unat (from_be32 init 20)" "length name \<le> 4096"
    and "dims_ok (from_be16 init 0) (from_be16 init 2)" "\<not> lock_poisoned (shared c)"
  shows "\<exists>d. vnc_handshake password c = (d, None) \<and> input d = rest
    \<and> sent d = sent c @ map (\<lambda>ch. of_nat (byte_of ch)) ''RFB 003.008\<newline>''
        @ (if 1 \<in> set types then [1] else 2 # vnc_des_encrypt challenge (case password of None \<Rightarrow> [] | Some p \<Rightarrow> p))
        @ session_start init
    \<and> cl_width d = from_be16 init 0 \<and> cl_height d = from_be16 init 2 \<and> connected (shared d)
    \<and> pixels (shared d) = blank (cl_width d) (cl_height d)"
proof -
  define c1 where "c1 = c\<lparr>sent := sent c @ map (\<lambda>ch. of_nat (byte_of ch)) ''RFB 003.008\<newline>'',
      input := (if 1 \<in> set types then [] else challenge) @ [0, 0, 0, 0] @ init @ name @ rest\<rparr>"
  define tail where "tail = read_exact 4 (\<lambda>result c. if from_be32 result 0 \<noteq> 0 then stop_with Security_Failed c
      else server_init (write_all [1] c))"
  have n: "unat (of_nat (length types) :: u8) = length types" using assms(4) by (simp add: unat_of_nat)
  have zero: "from_be32 [0, 0, 0, 0] 0 = 0" by code_simp
  have tail: "\<exists>d. tail e = (d, None) \<and> input d = rest \<and> sent d = sent e @ session_start init
      \<and> cl_width d = from_be16 init 0 \<and> cl_height d = from_be16 init 2 \<and> connected (shared d)
      \<and> pixels (shared d) = blank (cl_width d) (cl_height d)"
    if "input e = [0, 0, 0, 0] @ init @ name @ rest" "shared e = shared c" for e
    using server_init_runs[of "e\<lparr>input := init @ name @ rest\<rparr>" init name rest] assms(7-11) that
    by (simp add: tail_def read_exact_append[OF that(1)] zero)
  have "vnc_handshake password c = choose_security types password tail c1"
    using assms(1-3) n
    by (simp add: vnc_handshake_def read_exact_append[of _ version] read_exact_append[of _ "[of_nat (length types)]"]
        read_exact_append[of _ types] write_all_def c1_def tail_def)
  moreover have "read_exact 16 f (write_all [2] c1) = f challenge ((write_all [2] c1)\<lparr>input := [0, 0, 0, 0] @ init @ name @ rest\<rparr>)"
    if "1 \<notin> set types" for f
    using that assms(6) by (simp add: read_exact_append[of _ challenge] c1_def write_all_def)
  ultimately show ?thesis
    using assms(5) tail[of "write_all [1] c1"]
      tail[of "write_all (vnc_des_encrypt challenge (case password of None \<Rightarrow> [] | Some p \<Rightarrow> p))
        ((write_all [2] c1)\<lparr>input := [0, 0, 0, 0] @ init @ name @ rest\<rparr>)"]
    by (auto simp: choose_security_def write_all_def c1_def)
qed

theorem handshake_with_server_witness:
  "\<exists>d. vnc_handshake (Some ''secret'') (fresh_client vnc_new small_server) = (d, None)
     \<and> cl_width d = 2 \<and> cl_height d = 1 \<and> input d = []"
proof -
  let ?init = "[0, 2, 0, 1] @ replicate 20 0 :: u8 list"
  have "from_be32 ?init 20 = 0" "from_be16 ?init 0 = 2" "from_be16 ?init 2 = 1" by code_simp+
  then show ?thesis
    using handshake_with_server[of "fresh_client vnc_new small_server" "replicate 12 0" "[1]" "replicate 16 0" ?init "[]" "[]"
        "Some ''secret''"]
    by (auto simp: small_server_def fresh_client_def vnc_new_def dims_ok_def MAX_VNC_DIMENSION_def)
qed

end
