(* ===== verification/Vnc_Session.thy ===== *)
theory Vnc_Session
  imports Vnc_Client
begin

text \<open>
  The VNC client thread (vmm-gui/src/vnc.rs) together with the interface that shares its state: all
  states the two can reach, the invariant of the surface and of the queues, and the window that limits
  resizes. The interface acts between the turns of the thread, which take the lock several times; no
  operation of the interface changes the surface, so a turn is taken as one step.
\<close>

section \<open>The world around the thread\<close>

text \<open>What the interface does, each under the lock. A thread that ends with an error says so in the
  shared state; \<open>text\<close> is the text of the error.\<close>

datatype gui_op =
    Send_Key bool u32
  | Send_Mouse u16 u16 u8
  | Request_Refresh
  | Request_Resolution u16 u16
  | Disconnect
  | Connect_Blocked string u16

fun gui_step :: "gui_op \<Rightarrow> vnc_state \<Rightarrow> vnc_state" where
  "gui_step (Send_Key d k) s = send_key d k s"
| "gui_step (Send_Mouse x y b) s = send_mouse x y b s"
| "gui_step Request_Refresh s = request_refresh s"
| "gui_step (Request_Resolution w h) s = request_resolution w h s"
| "gui_step Disconnect s = disconnect s"
| "gui_step (Connect_Blocked h p) s = snd (connect_with_password h p s)"

definition thread_over :: "(vnc_end \<Rightarrow> string) \<Rightarrow> vnc_end \<Rightarrow> vnc_state \<Rightarrow> vnc_state" where
  "thread_over text e = (if e = Closed then id
     else locked (\<lambda>s. s\<lparr>connected := False, vnc_err := Some (text e)\<rparr>))"

definition after_turn :: "(vnc_end \<Rightarrow> string) \<Rightarrow> vnc_outcome \<Rightarrow> vnc_client \<times> bool" where
  "after_turn text r =
     (case r of (c, None) \<Rightarrow> (c, True)
      | (c, Some e) \<Rightarrow> (c\<lparr>shared := thread_over text e (shared c)\<rparr>, False))"

text \<open>All states of one framebuffer with at most one client thread (the flag: it is running) that
  the interface, any server and any clock can bring about; a panic elsewhere can poison the lock.\<close>

inductive vnc_world :: "vnc_client \<Rightarrow> bool \<Rightarrow> bool" where
  world_new: "vnc_world (fresh_client vnc_new []) False"
| world_connect: "vnc_world c False \<Longrightarrow>
    (c', b) = after_turn text (vnc_handshake password (fresh_client (shared c) bytes)) \<Longrightarrow> vnc_world c' b"
| world_turn: "vnc_world c True \<Longrightarrow> (c', b) = after_turn text (vnc_iteration now c) \<Longrightarrow> vnc_world c' b"
| world_gui: "vnc_world c b \<Longrightarrow> vnc_world (c\<lparr>shared := gui_step g (shared c)\<rparr>) b"
| world_bytes: "vnc_world c b \<Longrightarrow> vnc_world (c\<lparr>input := input c @ bytes\<rparr>) b"
| world_poison: "vnc_world c b \<Longrightarrow> vnc_world (c\<lparr>shared := (shared c)\<lparr>lock_poisoned := True\<rparr>\<rparr>) b"

section \<open>The invariant\<close>

definition state_ok :: "vnc_state \<Rightarrow> bool" where
  "state_ok s \<longleftrightarrow> length (pixels s) = unat (fb_width s) * unat (fb_height s) * 4
     \<and> fb_width s \<le> MAX_VNC_DIMENSION \<and> fb_height s \<le> MAX_VNC_DIMENSION
     \<and> length (pending_keys s) \<le> MAX_PENDING_KEYS"

definition client_ok :: "vnc_client \<Rightarrow> bool" where
  "client_ok c \<longleftrightarrow> state_ok (shared c) \<and> length (resizes c) \<le> MAX_RESIZES_PER_WINDOW
     \<and> (lock_poisoned (shared c) \<or>
        cl_width c = fb_width (shared c) \<and> cl_height c = fb_height (shared c)
        \<and> dims_ok (cl_width c) (cl_height c))"

text \<open>\<open>keeps Q r\<close>: the invariant holds at the end, nothing panicked, and \<open>Q\<close> holds when the code goes on.\<close>

definition keeps :: "(vnc_client \<Rightarrow> bool) \<Rightarrow> vnc_outcome \<Rightarrow> bool" where
  "keeps Q r \<longleftrightarrow> client_ok (fst r) \<and> (case snd r of None \<Rightarrow> Q (fst r) | Some e \<Rightarrow> e \<noteq> Panicked)"

lemma client_ok_frame [simp]:
  "client_ok (c\<lparr>input := i\<rparr>) = client_ok c" "client_ok (c\<lparr>sent := bs\<rparr>) = client_ok c"
  "client_ok (c\<lparr>clock_reads := n\<rparr>) = client_ok c" "client_ok (write_all bs c) = client_ok c"
  by (simp_all add: client_ok_def write_all_def)

lemma outside_frame [simp]: "outside x y w h (c\<lparr>input := i\<rparr>) = outside x y w h c"
  by (simp add: outside_def)

lemma keeps_go_on: "client_ok c \<Longrightarrow> Q c \<Longrightarrow> keeps Q (go_on c)"
  by (simp add: keeps_def go_on_def)

lemma keeps_stop: "client_ok c \<Longrightarrow> e \<noteq> Panicked \<Longrightarrow> keeps Q (stop_with e c)"
  by (simp add: keeps_def stop_with_def)

lemma keeps_mono: "keeps P r \<Longrightarrow> (\<And>c. P c \<Longrightarrow> Q c) \<Longrightarrow> keeps Q r"
  by (auto simp: keeps_def split: option.splits)

lemma keeps_and_then:
  "keeps P r \<Longrightarrow> (\<And>c. client_ok c \<Longrightarrow> P c \<Longrightarrow> keeps Q (f c)) \<Longrightarrow> keeps Q (and_then r f)"
  by (cases r; cases "snd r") (auto simp: keeps_def and_then_def)

lemma keeps_read:
  assumes "client_ok c" "\<And>bs. length bs = n \<Longrightarrow> keeps Q (f bs (c\<lparr>input := drop n (input c)\<rparr>))"
  shows "keeps Q (read_exact n f c)"
  using assms by (simp add: read_exact_def keeps_stop)

lemma client_okD: "client_ok c \<Longrightarrow> state_ok (shared c)" "client_ok c \<Longrightarrow> length (resizes c) \<le> MAX_RESIZES_PER_WINDOW"
  by (simp_all add: client_ok_def)

lemma keeps_resize:
  assumes "state_ok (shared c)" "length (resizes c) \<le> MAX_RESIZES_PER_WINDOW" "dims_ok w h"
  shows "keeps (\<lambda>c. cl_width c = w \<and> cl_height c = h)
    (with_state (resize_state w h) (c\<lparr>cl_width := w, cl_height := h\<rparr>))"
  using assms
  by (auto simp: with_state_def keeps_def stop_with_def go_on_def client_ok_def state_ok_def resize_state_def
      blank_def dims_ok_def)

lemma keeps_implicit_resize:
  assumes "client_ok c"
  shows "keeps (\<lambda>c. \<not> outside rx ry rw rh c) (implicit_resize rx ry rw rh c)"
proof (cases "rx = 0 \<and> ry = 0 \<and> dims_ok rw rh")
  case True
  then have "keeps (\<lambda>c. cl_width c = rw \<and> cl_height c = rh) (implicit_resize rx ry rw rh c)"
    using keeps_resize[OF client_okD[OF assms]] by (simp add: implicit_resize_def)
  then show ?thesis by (rule keeps_mono) (simp add: outside_def True)
qed (auto simp: implicit_resize_def keeps_stop assms)

lemma surface_dims:
  "client_ok c \<Longrightarrow> \<not> lock_poisoned (shared c) \<Longrightarrow>
     unat (fb_width (shared c)) = unat (cl_width c) \<and> unat (fb_height (shared c)) = unat (cl_height c)
     \<and> length (pixels (shared c)) = unat (cl_width c) * unat (cl_height c) * 4"
  by (auto simp: client_ok_def state_ok_def)

lemma client_ok_pixels:
  assumes "client_ok c" "length p = length (pixels (shared c))"
  shows "client_ok (c\<lparr>shared := (shared c)\<lparr>pixels := p, pixel_generation := g\<rparr>\<rparr>)"
  using assms by (auto simp: client_ok_def state_ok_def)

lemma keeps_draw_raw:
  assumes "client_ok c" "\<not> outside rx ry rw rh c" "length data = unat rw * unat rh * 4"
  shows "keeps (\<lambda>_. True) (draw_raw rx ry rw rh data c)"
proof (cases "lock_poisoned (shared c)")
  case True
  then show ?thesis by (simp add: draw_raw_def keeps_stop assms(1))
next
  case False
  note dims = surface_dims[OF assms(1) False]
  obtain q where "draw_rows (unat (cl_width c)) rx ry rw data [0..<unat rh] (pixels (shared c)) = Some q"
      "length q = length (pixels (shared c))"
    by (rule draw_rows_total[of rx rw "unat (cl_width c)" ry rh "unat (cl_height c)" data "pixels (shared c)"])
      (use assms dims unat16 in \<open>auto simp: outside_def\<close>)
  then show ?thesis
    using False dims client_ok_pixels[OF assms(1)] by (simp add: draw_raw_def keeps_go_on)
qed

lemma keeps_raw_rect:
  assumes "client_ok c" and k: "\<And>n c. client_ok c \<Longrightarrow> keeps Q (k n c)"
  shows "keeps Q (raw_rect rx ry rw rh cum k c)"
proof -
  let ?r = "if outside rx ry rw rh c then implicit_resize rx ry rw rh c else go_on c"
  let ?rest = "\<lambda>c. case Option.bind (usize_mul (unat rw) (unat rh)) (\<lambda>v. usize_mul v 4) of
          None \<Rightarrow> stop_with Size_Overflow c
        | Some pixel_bytes \<Rightarrow>
            if pixel_bytes > MAX_PIXEL_ALLOC then stop_with Update_Too_Large c
            else (let cum' = min (cum + pixel_bytes) (2 ^ 64 - 1) in
              if cum' > MAX_CUMULATIVE_ALLOC then stop_with Cumulative_Too_Large c
              else read_exact pixel_bytes (\<lambda>data c. and_then (draw_raw rx ry rw rh data c) (k cum')) c)"
  have "keeps (\<lambda>c. \<not> outside rx ry rw rh c) ?r"
    using assms(1) by (auto intro: keeps_implicit_resize keeps_go_on)
  moreover have "keeps Q (?rest c)" if "client_ok c" "\<not> outside rx ry rw rh c" for c
    using that
    by (auto simp: Let_def usize_mul_def keeps_stop mult.assoc intro!: keeps_read keeps_and_then[OF keeps_draw_raw] k)
  ultimately have "keeps Q (and_then ?r ?rest)" by (rule keeps_and_then)
  then show ?thesis using assms by (simp add: raw_rect_def)
qed

lemma keeps_copy_rect:
  assumes "client_ok c" and k: "\<And>c. client_ok c \<Longrightarrow> keeps Q (k c)"
  shows "keeps Q (copy_rect rx ry rw rh k c)"
  unfolding copy_rect_def
proof (rule keeps_read[OF assms(1)])
  fix src :: "u8 list"
  let ?c = "c\<lparr>input := drop 4 (input c)\<rparr>" and ?sx = "from_be16 src 0" and ?sy = "from_be16 src 2"
  have ok: "client_ok ?c" using assms(1) by simp
  have "keeps Q (case copy_pixels (unat (fb_width (shared c))) ?sx ?sy rx ry rw rh (pixels (shared c)) of
         None \<Rightarrow> stop_with Panicked ?c
       | Some p \<Rightarrow> k (?c\<lparr>shared := (shared ?c)\<lparr>pixels := p,
           pixel_generation := pixel_generation (shared ?c) + 1\<rparr>\<rparr>))"
    if inside: "\<not> outside ?sx ?sy rw rh c" "\<not> outside rx ry rw rh c" "\<not> lock_poisoned (shared c)"
  proof -
    note dims = surface_dims[OF assms(1) inside(3)]
    obtain q where "copy_pixels (unat (cl_width c)) ?sx ?sy rx ry rw rh (pixels (shared c)) = Some q"
        "length q = length (pixels (shared c))"
      by (rule copy_pixels_total[of ?sx rw "unat (cl_width c)" ?sy rh "unat (cl_height c)" rx ry "pixels (shared c)"])
        (use inside dims in \<open>auto simp: outside_def\<close>)
    then show ?thesis using dims k[OF client_ok_pixels[OF ok]] by simp
  qed
  then show "keeps Q (let sx = ?sx; sy = ?sy in
     if rw = 0 \<or> rh = 0 then k ?c
     else if outside sx sy rw rh ?c then stop_with Copy_Source_Outside ?c
     else if outside rx ry rw rh ?c then stop_with Copy_Dest_Outside ?c
     else if lock_poisoned (shared ?c) then stop_with Lock_Poisoned ?c
     else (case copy_pixels (unat (fb_width (shared ?c))) sx sy rx ry rw rh (pixels (shared ?c)) of
         None \<Rightarrow> stop_with Panicked ?c
       | Some p \<Rightarrow> k (?c\<lparr>shared := (shared ?c)\<lparr>pixels := p,
           pixel_generation := pixel_generation (shared ?c) + 1\<rparr>\<rparr>)))"
    using ok k by (simp add: Let_def keeps_stop)
qed

lemma admit_resize_length:
  "length stamps \<le> MAX_RESIZES_PER_WINDOW \<Longrightarrow> length (fst (admit_resize t stamps)) \<le> MAX_RESIZES_PER_WINDOW"
  using length_dropWhile_le[of "\<lambda>t'. t - t' > RESIZE_WINDOW" stamps] by (auto simp: admit_resize_def Let_def)

lemma keeps_limited_resize:
  assumes "client_ok c" "dims_ok rw rh" and k: "\<And>c. client_ok c \<Longrightarrow> keeps Q (k c)"
  shows "keeps Q (limited_resize now rw rh k c)"
proof -
  obtain stamps adm where adm: "admit_resize (now (clock_reads c)) (resizes c) = (stamps, adm)" by fastforce
  then have len: "length stamps \<le> MAX_RESIZES_PER_WINDOW"
    using admit_resize_length[OF client_okD(2)[OF assms(1)], of "now (clock_reads c)"] by simp
  let ?d = "c\<lparr>clock_reads := clock_reads c + 1, resizes := stamps\<rparr>"
  have ok: "client_ok ?d" using assms(1) len by (auto simp: client_ok_def)
  then have "keeps Q (and_then
      (with_state (resize_state rw rh) (?d\<lparr>cl_width := rw, cl_height := rh\<rparr>))
      (\<lambda>c. k (write_all (fb_update_request False 0 0 rw rh) c)))"
    by (intro keeps_and_then[OF keeps_resize[OF client_okD[OF ok] assms(2)]]) (simp add: k)
  then show ?thesis
    using k[OF ok] by (simp add: limited_resize_def adm Let_def)
qed

lemma keeps_one_rect:
  assumes "client_ok c" "\<And>n c. client_ok c \<Longrightarrow> keeps Q (k n c)"
  shows "keeps Q (one_rect now cum k c)"
  unfolding one_rect_def
  using assms
  by (auto simp: Let_def keeps_stop extended_desktop_size_def desktop_size_def
      intro!: keeps_read keeps_raw_rect keeps_copy_rect keeps_limited_resize)

lemma keeps_handle_rects: "client_ok c \<Longrightarrow> keeps (\<lambda>_. True) (handle_rects n now cum c)"
  by (induction n arbitrary: cum c) (simp_all add: keeps_go_on keeps_one_rect)

lemma keeps_server_message: "client_ok c \<Longrightarrow> keeps (\<lambda>_. True) (server_message now m c)"
  by (auto simp: server_message_def Let_def keeps_stop keeps_go_on
      intro!: keeps_read keeps_handle_rects)

lemma send_pending_ok: "client_ok c \<Longrightarrow> client_ok (send_pending c)"
  by (simp add: send_pending_def Let_def) (auto simp: client_ok_def state_ok_def)

lemma keeps_iteration: "client_ok c \<Longrightarrow> keeps (\<lambda>_. True) (vnc_iteration now c)"
  by (auto simp: vnc_iteration_def Let_def keeps_stop keeps_go_on send_pending_ok
      intro!: keeps_read keeps_server_message)

text \<open>Before the surface exists the client part of the invariant does not hold yet.\<close>

definition starts :: "vnc_outcome \<Rightarrow> bool" where
  "starts r \<longleftrightarrow> state_ok (shared (fst r)) \<and> (case snd r of None \<Rightarrow> client_ok (fst r) | Some e \<Rightarrow> e \<noteq> Panicked)"

lemma starts_stop: "state_ok (shared c) \<Longrightarrow> e \<noteq> Panicked \<Longrightarrow> starts (stop_with e c)"
  by (simp add: starts_def stop_with_def)

lemma starts_read:
  assumes "state_ok (shared c)" "resizes c = []"
    and "\<And>bs d. state_ok (shared d) \<Longrightarrow> resizes d = [] \<Longrightarrow> starts (f bs d)"
  shows "starts (read_exact n f c)"
  using assms by (simp add: read_exact_def starts_stop)

lemma shared_write [simp]: "shared (write_all bs c) = shared c" "resizes (write_all bs c) = resizes c"
  by (simp_all add: write_all_def)

lemma starts_server_init:
  assumes "state_ok (shared c)" "resizes c = []"
  shows "starts (server_init c)"
  unfolding server_init_def
  by (rule starts_read[OF assms], rule starts_read)
    (auto simp: Let_def starts_stop with_state_def and_then_def stop_with_def go_on_def starts_def
      client_ok_def state_ok_def blank_def dims_ok_def write_all_def)

lemma starts_handshake:
  assumes "state_ok (shared c)" "resizes c = []"
  shows "starts (vnc_handshake password c)"
  unfolding vnc_handshake_def
  by (rule starts_read[OF assms])
    (auto simp: Let_def choose_security_def starts_stop starts_server_init intro!: starts_read)

lemma gui_step_ok: "state_ok s \<Longrightarrow> state_ok (gui_step g s)"
  by (cases g) (auto simp: state_ok_def locked_def send_key_def send_mouse_def request_refresh_def
      request_resolution_def disconnect_def connect_with_password_def Let_def)

lemma gui_step_frame:
  "pixels (gui_step g s) = pixels s" "fb_width (gui_step g s) = fb_width s"
  "fb_height (gui_step g s) = fb_height s" "lock_poisoned (gui_step g s) = lock_poisoned s"
  by (cases g; auto simp: locked_def send_key_def send_mouse_def request_refresh_def
      request_resolution_def disconnect_def connect_with_password_def Let_def)+

lemma thread_over_ok: "state_ok (thread_over text e s) = state_ok s"
  by (simp add: thread_over_def locked_def state_ok_def)

definition world_ok :: "vnc_client \<Rightarrow> bool \<Rightarrow> bool" where
  "world_ok c b \<longleftrightarrow> state_ok (shared c) \<and> (b \<longrightarrow> client_ok c)"

lemma after_turn_ok:
  "(c', b) = after_turn text r \<Longrightarrow> state_ok (shared (fst r)) \<Longrightarrow> (snd r = None \<Longrightarrow> client_ok (fst r)) \<Longrightarrow> world_ok c' b"
  by (cases r; cases "snd r") (auto simp: after_turn_def world_ok_def thread_over_ok)

lemma world_ok: "vnc_world c b \<Longrightarrow> world_ok c b"
proof (induction rule: vnc_world.induct)
  case world_new
  then show ?case by (simp add: world_ok_def fresh_client_def vnc_new_def state_ok_def MAX_VNC_DIMENSION_def)
next
  case (world_connect c c' b msg password bytes)
  then have "starts (vnc_handshake password (fresh_client (shared c) bytes))"
    by (intro starts_handshake) (simp_all add: fresh_client_def world_ok_def)
  with world_connect show ?case
    by (intro after_turn_ok[OF world_connect.hyps(2)]) (auto simp: starts_def)
next
  case (world_turn c c' b msg now)
  then have "keeps (\<lambda>_. True) (vnc_iteration now c)" by (simp add: world_ok_def keeps_iteration)
  then show ?case
    by (intro after_turn_ok[OF world_turn.hyps(2)]) (auto simp: keeps_def dest: client_okD)
next
  case (world_gui c b g)
  then show ?case
    using gui_step_ok[of "shared c" g] by (auto simp: world_ok_def client_ok_def gui_step_frame)
next
  case (world_bytes c b bytes)
  then show ?case by (simp add: world_ok_def)
next
  case (world_poison c b)
  then show ?case by (auto simp: world_ok_def client_ok_def state_ok_def)
qed

section \<open>Properties\<close>

text \<open>C39: Whatever bytes a server sends, whatever the interface does and whenever the lock is poisoned: the
  pixel buffer has four bytes for each pixel of the surface, at most 256 MiB, at most 1024 keys and 50
  resize stamps are kept, and no turn of the client thread panics.\<close>
theorem vnc_surface_invariant:
  assumes "vnc_world c running"
  shows "length (pixels (shared c)) = unat (fb_width (shared c)) * unat (fb_height (shared c)) * 4
    \<and> length (pixels (shared c)) \<le> 256 * 1024 * 1024 \<and> length (pending_keys (shared c)) \<le> 1024
    \<and> (if running then length (resizes c) \<le> 50 \<and> snd (vnc_iteration now c) \<noteq> Some Panicked else True)"
proof -
  have ok: "world_ok c running" by (rule world_ok[OF assms])
  then have s: "state_ok (shared c)" by (simp add: world_ok_def)
  have "unat (fb_width (shared c)) \<le> 8192" "unat (fb_height (shared c)) \<le> 8192"
    using s by (simp_all add: state_ok_def MAX_VNC_DIMENSION_def word_le_nat_alt)
  then have "unat (fb_width (shared c)) * unat (fb_height (shared c)) \<le> 8192 * 8192" by (rule mult_le_mono)
  moreover have "keeps (\<lambda>_. True) (vnc_iteration now c) \<and> length (resizes c) \<le> 50" if running
    using ok that keeps_iteration by (auto simp: world_ok_def client_ok_def MAX_RESIZES_PER_WINDOW_def)
  ultimately show ?thesis
    using s by (auto simp: state_ok_def keeps_def MAX_PENDING_KEYS_def mult.commute)
qed

theorem vnc_surface_invariant_witness:
  "\<exists>c. vnc_world c True \<and> length (pixels (shared c)) = 8 \<and> snd (vnc_iteration (\<lambda>n. n) c) \<noteq> Some Panicked"
proof -
  let ?r = "vnc_handshake None (fresh_client vnc_new small_server)"
  have r: "snd ?r = None" "unat (fb_width (shared (fst ?r))) = 2" "unat (fb_height (shared (fst ?r))) = 1"
    by code_simp+
  have "vnc_world (fst ?r) True"
    by (rule world_connect[OF world_new, of _ _ "\<lambda>_. []" None small_server])
      (simp add: fresh_client_def after_turn_def r[unfolded fresh_client_def] split: prod.split option.split, 
       metis fst_conv snd_conv option.distinct(1) r[unfolded fresh_client_def])
  with vnc_surface_invariant[OF this, of "\<lambda>n. n"] r show ?thesis by auto
qed

text \<open>A raw rectangle at the origin that leaves the surface on either side resizes it, down to a width of
  one pixel if the server says so, and takes no place in the window: after fifty resizes within ten
  seconds the announced resize is skipped while this one still allocates a new surface.\<close>
theorem implicit_resize_not_limited:
  assumes "client_ok c" "\<not> lock_poisoned (shared c)" "outside 0 0 rw rh c" "dims_ok rw rh"
    and "MAX_RESIZES_PER_WINDOW \<le> length (dropWhile (\<lambda>t. now (clock_reads c) - t > RESIZE_WINDOW) (resizes c))"
  shows "(\<exists>d. desktop_size now rw rh go_on c = (d, None) \<and> fb_width (shared d) = fb_width (shared c)
      \<and> fb_height (shared d) = fb_height (shared c))
    \<and> (\<exists>d. implicit_resize 0 0 rw rh c = (d, None) \<and> fb_width (shared d) = rw \<and> fb_height (shared d) = rh
      \<and> resizes d = resizes c)"
  using assms
  by (auto simp: desktop_size_def limited_resize_def admit_resize_def Let_def go_on_def implicit_resize_def
      with_state_def resize_state_def)

definition full_window_client :: vnc_client where
  "full_window_client =
     (fresh_client (vnc_new\<lparr>fb_width := 1, fb_height := 1, pixels := [0, 0, 0, 0]\<rparr>) [])
       \<lparr>cl_width := 1, cl_height := 1, resizes := replicate 50 0\<rparr>"

theorem implicit_resize_not_limited_witness:
  "\<exists>d. implicit_resize 0 0 1 2 full_window_client = (d, None) \<and> fb_height (shared d) = 2
     \<and> resizes d = replicate 50 0"
proof -
  let ?c = full_window_client
  have "resizes ?c = replicate 50 0" "client_ok ?c" "\<not> lock_poisoned (shared ?c)" "outside 0 0 1 2 ?c" "dims_ok 1 2"
    "MAX_RESIZES_PER_WINDOW \<le> length (dropWhile (\<lambda>t. (\<lambda>_. 0) (clock_reads ?c) - t > RESIZE_WINDOW) (resizes ?c))"
    by (simp_all add: full_window_client_def client_ok_def state_ok_def fresh_client_def vnc_new_def outside_def
        dims_ok_def MAX_VNC_DIMENSION_def MAX_PENDING_KEYS_def MAX_RESIZES_PER_WINDOW_def)
  with implicit_resize_not_limited[of ?c 1 2 "\<lambda>_. 0"] show ?thesis by auto
qed

text \<open>What a sequence of announced resizes admits, from an empty window.\<close>

fun admitted_from :: "nat list \<Rightarrow> nat list \<Rightarrow> nat list" where
  "admitted_from stamps [] = []"
| "admitted_from stamps (t # ts) =
     (let (kept, adm) = admit_resize t stamps in (if adm then [t] else []) @ admitted_from kept ts)"

definition in_window :: "nat \<Rightarrow> nat \<Rightarrow> bool" where
  "in_window s t \<longleftrightarrow> s \<le> t \<and> t \<le> s + RESIZE_WINDOW"

lemma admitted_bounded:
  assumes "sorted ts" "list_all (\<lambda>t. list_all (\<lambda>h. h \<le> t) (old @ stamps)) ts"
    and "list_all (\<lambda>t. list_all (\<lambda>h. h + RESIZE_WINDOW < t) old) ts"
    and "\<And>s. length (filter (in_window s) (old @ stamps)) \<le> MAX_RESIZES_PER_WINDOW"
  shows "length (filter (in_window s) (old @ stamps @ admitted_from stamps ts)) \<le> MAX_RESIZES_PER_WINDOW"
  using assms
proof (induction ts arbitrary: old stamps)
  case Nil
  then show ?case by simp
next
  case (Cons t ts)
  let ?P = "\<lambda>t'. t - t' > RESIZE_WINDOW"
  let ?gone = "takeWhile ?P stamps" and ?kept = "dropWhile ?P stamps"
  have tt: "list_all (\<lambda>t'. t \<le> t') ts" using Cons.prems(1) by (simp add: list_all_iff)
  have gone: "h + RESIZE_WINDOW < t" if "h \<in> set (old @ ?gone)" for h
    using that Cons.prems(3) set_takeWhileD[of h ?P stamps] by (auto simp: list_all_iff)
  have older: "h \<le> t" if "h \<in> set (old @ stamps)" for h
    using that Cons.prems(2) by (auto simp: list_all_iff)
  have old': "list_all (\<lambda>t'. list_all (\<lambda>h. h + RESIZE_WINDOW < t') (old @ ?gone)) ts"
    using gone tt by (fastforce simp: list_all_iff)
  have count: "length (filter P stamps) = length (filter P ?gone) + length (filter P ?kept)" for P
    by (metis filter_append length_append takeWhile_dropWhile_id)
  have parts: "(old @ ?gone) @ ?kept = old @ stamps" by simp
  show ?case
  proof (cases "MAX_RESIZES_PER_WINDOW \<le> length ?kept")
    case True
    have "length (filter (in_window s) ((old @ ?gone) @ ?kept @ admitted_from ?kept ts)) \<le> MAX_RESIZES_PER_WINDOW"
      using Cons.prems tt old' by (intro Cons.IH) (simp_all only: parts, auto simp: list_all_iff)
    with True show ?thesis by (simp add: admit_resize_def Let_def count)
  next
    case False
    have win: "length (filter (in_window s') ((old @ ?gone) @ ?kept @ [t])) \<le> MAX_RESIZES_PER_WINDOW" for s'
    proof (cases "in_window s' t")
      case True
      then have "filter (in_window s') (old @ ?gone) = []"
        using gone by (fastforce simp: in_window_def filter_empty_conv)
      moreover have "length (filter (in_window s') (?kept @ [t])) \<le> length (?kept @ [t])" by (rule length_filter_le)
      ultimately show ?thesis using False by simp
    next
      case False
      then show ?thesis using Cons.prems(4)[of s'] parts by (metis (no_types) append_assoc append_Nil2 filter.simps filter_append)
    qed
    have "length (filter (in_window s) ((old @ ?gone) @ (?kept @ [t]) @ admitted_from (?kept @ [t]) ts)) \<le> MAX_RESIZES_PER_WINDOW"
    proof (rule Cons.IH)
      show "sorted ts" using Cons.prems(1) by simp
      show "list_all (\<lambda>t'. list_all (\<lambda>h. h \<le> t') ((old @ ?gone) @ ?kept @ [t])) ts"
        using older tt parts by (fastforce simp: list_all_iff dest: set_takeWhileD set_dropWhileD)
    qed (use old' win in auto)
    with False show ?thesis by (simp add: admit_resize_def Let_def count)
  qed
qed

text \<open>However fast a server announces resizes, at most fifty are carried out in any ten seconds.\<close>
theorem announced_resizes_bounded:
  assumes "sorted ts"
  shows "length (filter (\<lambda>t. s \<le> t \<and> t \<le> s + RESIZE_WINDOW) (admitted_from [] ts)) \<le> 50"
  using admitted_bounded[of ts "[]" "[]" s] assms
  by (simp add: in_window_def list_all_iff MAX_RESIZES_PER_WINDOW_def cong: filter_cong)

theorem announced_resizes_bounded_witness:
  "admitted_from [] [7, 7, 8] = [7, 7, 8]
   \<and> length (filter (\<lambda>t. 0 \<le> t \<and> t \<le> 0 + RESIZE_WINDOW) (admitted_from [] [7, 7, 8])) \<le> 50"
proof -
  have "length (filter (\<lambda>t. 0 \<le> t \<and> t \<le> 0 + RESIZE_WINDOW) (admitted_from [] [7, 7, 8])) \<le> 50"
    by (rule announced_resizes_bounded) simp
  moreover have "admitted_from [] [7, 7, 8] = [7, 7, 8]"
    by (simp add: admit_resize_def RESIZE_WINDOW_def MAX_RESIZES_PER_WINDOW_def)
  ultimately show ?thesis by blast
qed

end
