(* ===== verification/Vnc_Keys.thy ===== *)
theory Vnc_Keys
  imports Prelude
begin

text \<open>
  The keyboard map of the VNC client (vmm-gui/src/vnc.rs): the X11 keysym sent for a key of the
  toolkit. The key enum is the toolkit's; the keys that the code names are the constructors, all
  others are \<open>Key_Other\<close>; letters, digits and function keys are grouped in enums of their own. The map looks at the shift modifier only.
\<close>

datatype letter_key =
    Key_A | Key_B | Key_C | Key_D | Key_E | Key_F | Key_G | Key_H | Key_I | Key_J | Key_K
    | Key_L | Key_M | Key_N | Key_O | Key_P | Key_Q | Key_R | Key_S | Key_T | Key_U | Key_V
    | Key_W | Key_X | Key_Y | Key_Z

datatype digit_key =
    Key_Num0 | Key_Num1 | Key_Num2 | Key_Num3 | Key_Num4 | Key_Num5 | Key_Num6 | Key_Num7
    | Key_Num8 | Key_Num9

datatype function_key =
    Key_F1 | Key_F2 | Key_F3 | Key_F4 | Key_F5 | Key_F6 | Key_F7 | Key_F8 | Key_F9 | Key_F10
    | Key_F11 | Key_F12

datatype egui_key =
    Key_Escape | Key_Tab | Key_Backspace | Key_Enter | Key_Space | Key_Insert | Key_Delete
    | Key_Home | Key_End | Key_PageUp | Key_PageDown | Key_ArrowLeft | Key_ArrowUp
    | Key_ArrowRight | Key_ArrowDown | Key_Minus | Key_Plus | Letter letter_key
    | Digit digit_key | Function function_key | Key_Other

record modifiers =
  mod_shift :: bool
  mod_ctrl :: bool
  mod_alt :: bool

definition no_modifiers :: modifiers where
  "no_modifiers = \<lparr>mod_shift = False, mod_ctrl = False, mod_alt = False\<rparr>"

primrec letter_keysym :: "letter_key \<Rightarrow> modifiers \<Rightarrow> u32" where
  "letter_keysym Key_A m = (if mod_shift m then 0x0041 else 0x0061)"
| "letter_keysym Key_B m = (if mod_shift m then 0x0042 else 0x0062)"
| "letter_keysym Key_C m = (if mod_shift m then 0x0043 else 0x0063)"
| "letter_keysym Key_D m = (if mod_shift m then 0x0044 else 0x0064)"
| "letter_keysym Key_E m = (if mod_shift m then 0x0045 else 0x0065)"
| "letter_keysym Key_F m = (if mod_shift m then 0x0046 else 0x0066)"
| "letter_keysym Key_G m = (if mod_shift m then 0x0047 else 0x0067)"
| "letter_keysym Key_H m = (if mod_shift m then 0x0048 else 0x0068)"
| "letter_keysym Key_I m = (if mod_shift m then 0x0049 else 0x0069)"
| "letter_keysym Key_J m = (if mod_shift m then 0x004a else 0x006a)"
| "letter_keysym Key_K m = (if mod_shift m then 0x004b else 0x006b)"
| "letter_keysym Key_L m = (if mod_shift m then 0x004c else 0x006c)"
| "letter_keysym Key_M m = (if mod_shift m then 0x004d else 0x006d)"
| "letter_keysym Key_N m = (if mod_shift m then 0x004e else 0x006e)"
| "letter_keysym Key_O m = (if mod_shift m then 0x004f else 0x006f)"
| "letter_keysym Key_P m = (if mod_shift m then 0x0050 else 0x0070)"
| "letter_keysym Key_Q m = (if mod_shift m then 0x0051 else 0x0071)"
| "letter_keysym Key_R m = (if mod_shift m then 0x0052 else 0x0072)"
| "letter_keysym Key_S m = (if mod_shift m then 0x0053 else 0x0073)"
| "letter_keysym Key_T m = (if mod_shift m then 0x0054 else 0x0074)"
| "letter_keysym Key_U m = (if mod_shift m then 0x0055 else 0x0075)"
| "letter_keysym Key_V m = (if mod_shift m then 0x0056 else 0x0076)"
| "letter_keysym Key_W m = (if mod_shift m then 0x0057 else 0x0077)"
| "letter_keysym Key_X m = (if mod_shift m then 0x0058 else 0x0078)"
| "letter_keysym Key_Y m = (if mod_shift m then 0x0059 else 0x0079)"
| "letter_keysym Key_Z m = (if mod_shift m then 0x005a else 0x007a)"

primrec digit_keysym :: "digit_key \<Rightarrow> modifiers \<Rightarrow> u32" where
  "digit_keysym Key_Num0 m = (if mod_shift m then 0x0029 else 0x0030)"
| "digit_keysym Key_Num1 m = (if mod_shift m then 0x0021 else 0x0031)"
| "digit_keysym Key_Num2 m = (if mod_shift m then 0x0040 else 0x0032)"
| "digit_keysym Key_Num3 m = (if mod_shift m then 0x0023 else 0x0033)"
| "digit_keysym Key_Num4 m = (if mod_shift m then 0x0024 else 0x0034)"
| "digit_keysym Key_Num5 m = (if mod_shift m then 0x0025 else 0x0035)"
| "digit_keysym Key_Num6 m = (if mod_shift m then 0x005e else 0x0036)"
| "digit_keysym Key_Num7 m = (if mod_shift m then 0x0026 else 0x0037)"
| "digit_keysym Key_Num8 m = (if mod_shift m then 0x002a else 0x0038)"
| "digit_keysym Key_Num9 m = (if mod_shift m then 0x0028 else 0x0039)"

primrec function_keysym :: "function_key \<Rightarrow> modifiers \<Rightarrow> u32" where
  "function_keysym Key_F1 m = 0xffbe"
| "function_keysym Key_F2 m = 0xffbf"
| "function_keysym Key_F3 m = 0xffc0"
| "function_keysym Key_F4 m = 0xffc1"
| "function_keysym Key_F5 m = 0xffc2"
| "function_keysym Key_F6 m = 0xffc3"
| "function_keysym Key_F7 m = 0xffc4"
| "function_keysym Key_F8 m = 0xffc5"
| "function_keysym Key_F9 m = 0xffc6"
| "function_keysym Key_F10 m = 0xffc7"
| "function_keysym Key_F11 m = 0xffc8"
| "function_keysym Key_F12 m = 0xffc9"

primrec egui_key_to_keysym :: "egui_key \<Rightarrow> modifiers \<Rightarrow> u32 option" where
  "egui_key_to_keysym Key_Escape m = Some 0xff1b"
| "egui_key_to_keysym Key_Tab m = Some 0xff09"
| "egui_key_to_keysym Key_Backspace m = Some 0xff08"
| "egui_key_to_keysym Key_Enter m = Some 0xff0d"
| "egui_key_to_keysym Key_Space m = Some 0x0020"
| "egui_key_to_keysym Key_Insert m = Some 0xff63"
| "egui_key_to_keysym Key_Delete m = Some 0xffff"
| "egui_key_to_keysym Key_Home m = Some 0xff50"
| "egui_key_to_keysym Key_End m = Some 0xff57"
| "egui_key_to_keysym Key_PageUp m = Some 0xff55"
| "egui_key_to_keysym Key_PageDown m = Some 0xff56"
| "egui_key_to_keysym Key_ArrowLeft m = Some 0xff51"
| "egui_key_to_keysym Key_ArrowUp m = Some 0xff52"
| "egui_key_to_keysym Key_ArrowRight m = Some 0xff53"
| "egui_key_to_keysym Key_ArrowDown m = Some 0xff54"
| "egui_key_to_keysym Key_Minus m = Some (if mod_shift m then 0x005f else 0x002d)"
| "egui_key_to_keysym Key_Plus m = Some 0x002b"
| "egui_key_to_keysym (Letter l) m = Some (letter_keysym l m)"
| "egui_key_to_keysym (Digit d) m = Some (digit_keysym d m)"
| "egui_key_to_keysym (Function f) m = Some (function_keysym f m)"
| "egui_key_to_keysym Key_Other m = None"

definition modifier_keysyms :: "(modifiers \<times> u32) list" where
  "modifier_keysyms =
     [(no_modifiers\<lparr>mod_shift := True\<rparr>, 0xffe1), (no_modifiers\<lparr>mod_ctrl := True\<rparr>, 0xffe3),
      (no_modifiers\<lparr>mod_alt := True\<rparr>, 0xffe9)]"

section \<open>Reading a keysym back\<close>

definition named_keys :: "egui_key list" where
  "named_keys =
     [Key_Escape, Key_Tab, Key_Backspace, Key_Enter, Key_Space, Key_Insert, Key_Delete
      , Key_Home, Key_End, Key_PageUp, Key_PageDown, Key_ArrowLeft, Key_ArrowUp
      , Key_ArrowRight, Key_ArrowDown, (Function Key_F1), (Function Key_F2)
      , (Function Key_F3), (Function Key_F4), (Function Key_F5), (Function Key_F6)
      , (Function Key_F7), (Function Key_F8), (Function Key_F9), (Function Key_F10)
      , (Function Key_F11), (Function Key_F12), (Letter Key_A), (Letter Key_B)
      , (Letter Key_C), (Letter Key_D), (Letter Key_E), (Letter Key_F), (Letter Key_G)
      , (Letter Key_H), (Letter Key_I), (Letter Key_J), (Letter Key_K), (Letter Key_L)
      , (Letter Key_M), (Letter Key_N), (Letter Key_O), (Letter Key_P), (Letter Key_Q)
      , (Letter Key_R), (Letter Key_S), (Letter Key_T), (Letter Key_U), (Letter Key_V)
      , (Letter Key_W), (Letter Key_X), (Letter Key_Y), (Letter Key_Z), (Digit Key_Num0)
      , (Digit Key_Num1), (Digit Key_Num2), (Digit Key_Num3), (Digit Key_Num4)
      , (Digit Key_Num5), (Digit Key_Num6), (Digit Key_Num7), (Digit Key_Num8)
      , (Digit Key_Num9), Key_Minus, Key_Plus]"

lemma group_members:
  "Letter l \<in> set named_keys" "Digit d \<in> set named_keys" "Function f \<in> set named_keys"
  by ((cases l; simp add: named_keys_def), (cases d; simp add: named_keys_def), (cases f; simp add: named_keys_def))

lemma named_keysym: "egui_key_to_keysym k m = Some v \<Longrightarrow> k \<in> set named_keys"
  by (cases k) (simp_all add: group_members, simp_all add: named_keys_def)

lemma group_shift_only:
  "letter_keysym l m = letter_keysym l (no_modifiers\<lparr>mod_shift := mod_shift m\<rparr>)"
  "digit_keysym d m = digit_keysym d (no_modifiers\<lparr>mod_shift := mod_shift m\<rparr>)"
  "function_keysym f m = function_keysym f (no_modifiers\<lparr>mod_shift := mod_shift m\<rparr>)"
  by ((cases l; simp add: no_modifiers_def), (cases d; simp add: no_modifiers_def), (cases f; simp add: no_modifiers_def))

text \<open>The keysyms that a key can send: shifted and plain.\<close>

definition keysyms_of :: "egui_key \<Rightarrow> u32 list" where
  "keysyms_of k = remdups (List.map_filter (\<lambda>s. egui_key_to_keysym k (no_modifiers\<lparr>mod_shift := s\<rparr>)) [True, False])"

lemma keysym_shift_only:
  "egui_key_to_keysym k m = egui_key_to_keysym k (no_modifiers\<lparr>mod_shift := mod_shift m\<rparr>)"
  by (cases k) (simp_all add: group_shift_only[of _ m] no_modifiers_def)

lemma keysyms_of_mem: "egui_key_to_keysym k m = Some v \<Longrightarrow> v \<in> set (keysyms_of k)"
  using keysym_shift_only[of k m] by (cases "mod_shift m") (auto simp: keysyms_of_def List.map_filter_def)

lemma all_keysyms_distinct: "distinct (concat (map keysyms_of named_keys))"
proof -
  have "distinct (map uint (concat (map keysyms_of named_keys)))" by code_simp
  then show ?thesis by (simp add: distinct_map)
qed

lemma distinct_concat_unique:
  "distinct (concat (map f xs)) \<Longrightarrow> distinct xs \<Longrightarrow> x \<in> set xs \<Longrightarrow> y \<in> set xs \<Longrightarrow> v \<in> set (f x) \<Longrightarrow> v \<in> set (f y) \<Longrightarrow> x = y"
  by (induction xs) auto

text \<open>A keysym tells the key: two keys never send the same keysym, whatever the modifiers are, so
  what the guest receives for one key can not be taken for another.\<close>
theorem keysym_determines_key:
  assumes "egui_key_to_keysym k m = Some v" "egui_key_to_keysym k' m' = Some v"
  shows "k = k'"
proof -
  have "distinct named_keys" by (simp add: named_keys_def)
  moreover have "k \<in> set named_keys" "k' \<in> set named_keys" using assms by (auto dest: named_keysym)
  ultimately show ?thesis
    using distinct_concat_unique[OF all_keysyms_distinct] keysyms_of_mem assms by blast
qed

theorem keysym_determines_key_witness:
  "{k. egui_key_to_keysym k no_modifiers = Some 0x32 \<or> egui_key_to_keysym k (no_modifiers\<lparr>mod_shift := True\<rparr>) = Some 0x32}
     = {Digit Key_Num2}"
proof -
  have two: "egui_key_to_keysym (Digit Key_Num2) no_modifiers = Some 0x32" by (simp add: no_modifiers_def)
  from keysym_determines_key[OF _ this] two show ?thesis by auto
qed

end
