(* ===== verification/Xml_Events.thy ===== *)
theory Xml_Events
  imports Prelude
begin

text \<open>
  The readers of a machine's domain XML in vmm-core/src/connection.rs: they run over the events of the
  XML parser (quick-xml, outside the repository), which are the argument here: local names, attributes
  with their values as they stand in the text. The end of the list is the end of the document. The
  properties compare the readers with a search in the element tree.
\<close>

section \<open>The readers\<close>

type_synonym attrs = "(string \<times> string) list"

datatype xml_event =
    Start_Event string attrs
  | Empty_Event string attrs
  | End_Event string
  | Other_Event
  | Error_Event

definition has_attr :: "string \<Rightarrow> string \<Rightarrow> attrs \<Rightarrow> bool" where
  "has_attr k v as \<longleftrightarrow> list_ex (\<lambda>(k', v'). k' = k \<and> v' = v) as"

definition first_value :: "string \<Rightarrow> attrs \<Rightarrow> string option" where
  "first_value k as = map_option snd (List.find (\<lambda>(k', v). k' = k \<and> v \<noteq> []) as)"

text \<open>The loop that three readers share: \<open>opens\<close> recognises the disk that is looked for, \<open>leaf\<close> and
  \<open>key\<close> the value in it. \<open>depth\<close> counts the open elements inside that disk.\<close>

fun scan_disk :: "(attrs \<Rightarrow> bool) \<Rightarrow> string \<Rightarrow> string \<Rightarrow> bool \<Rightarrow> nat \<Rightarrow> xml_event list \<Rightarrow> string option" where
  "scan_disk opens leaf key inside depth [] = None"
| "scan_disk opens leaf key inside depth (Start_Event n as # es) =
     (if n = ''disk'' then
        (if opens as \<and> \<not> inside then scan_disk opens leaf key True 1 es
         else scan_disk opens leaf key inside depth es)
      else if inside then scan_disk opens leaf key inside (depth + 1) es
      else scan_disk opens leaf key inside depth es)"
| "scan_disk opens leaf key inside depth (Empty_Event n as # es) =
     (case (if inside \<and> n = leaf then first_value key as else None) of
        Some v \<Rightarrow> Some v
      | None \<Rightarrow> scan_disk opens leaf key inside depth es)"
| "scan_disk opens leaf key inside depth (End_Event n # es) =
     (if inside then
        (if n = ''disk'' \<and> depth = 1 then None else scan_disk opens leaf key inside (depth - 1) es)
      else scan_disk opens leaf key inside depth es)"
| "scan_disk opens leaf key inside depth (Other_Event # es) = scan_disk opens leaf key inside depth es"
| "scan_disk opens leaf key inside depth (Error_Event # es) = None"

definition is_file_disk :: "attrs \<Rightarrow> bool" where
  "is_file_disk as \<longleftrightarrow> has_attr ''type'' ''file'' as \<and> has_attr ''device'' ''disk'' as"

definition is_cdrom :: "attrs \<Rightarrow> bool" where
  "is_cdrom as \<longleftrightarrow> has_attr ''device'' ''cdrom'' as"

definition extract_disk_path :: "xml_event list \<Rightarrow> string option" where
  "extract_disk_path = scan_disk is_file_disk ''source'' ''file'' False 0"

definition parse_cdrom_target :: "xml_event list \<Rightarrow> string option" where
  "parse_cdrom_target = scan_disk is_cdrom ''target'' ''dev'' False 0"

definition parse_cdrom_media :: "xml_event list \<Rightarrow> string option" where
  "parse_cdrom_media = scan_disk is_cdrom ''source'' ''file'' False 0"

text \<open>The last \<open>port\<close> attribute counts; one that is no number (\<open>-1\<close>: not assigned yet) is no port.\<close>

definition port_attr :: "attrs \<Rightarrow> u16 option" where
  "port_attr as = fold (\<lambda>(k, v) p. if k = ''port'' then map_option of_nat (parse_u16 v) else p) as None"

fun extract_graphics_port :: "string \<Rightarrow> xml_event list \<Rightarrow> u16 option" where
  "extract_graphics_port ty [] = None"
| "extract_graphics_port ty (Start_Event n as # es) =
     (if n = ''graphics'' \<and> has_attr ''type'' ty as then port_attr as else extract_graphics_port ty es)"
| "extract_graphics_port ty (Empty_Event n as # es) =
     (if n = ''graphics'' \<and> has_attr ''type'' ty as then port_attr as else extract_graphics_port ty es)"
| "extract_graphics_port ty (Error_Event # es) = None"
| "extract_graphics_port ty (e # es) = extract_graphics_port ty es"

definition extract_spice_port :: "xml_event list \<Rightarrow> u16 option" where
  "extract_spice_port = extract_graphics_port ''spice''"

definition extract_vnc_port :: "xml_event list \<Rightarrow> u16 option" where
  "extract_vnc_port = extract_graphics_port ''vnc''"

section \<open>Element trees\<close>

datatype xml_node = Element string attrs "xml_node list" | Leaf string attrs | Text

primrec events :: "xml_node \<Rightarrow> xml_event list" where
  "events (Element n as ts) = Start_Event n as # concat (map events ts) @ [End_Event n]"
| "events (Leaf n as) = [Empty_Event n as]"
| "events Text = [Other_Event]"

definition forest_events :: "xml_node list \<Rightarrow> xml_event list" where
  "forest_events ts = concat (map events ts)"

text \<open>In document order: the self-closing elements, the elements, and the elements with an end tag of
  their own whose name is given.\<close>

primrec leaves :: "xml_node \<Rightarrow> (string \<times> attrs) list" where
  "leaves (Element n as ts) = concat (map leaves ts)"
| "leaves (Leaf n as) = [(n, as)]"
| "leaves Text = []"

primrec tags :: "xml_node \<Rightarrow> (string \<times> attrs) list" where
  "tags (Element n as ts) = (n, as) # concat (map tags ts)"
| "tags (Leaf n as) = [(n, as)]"
| "tags Text = []"

primrec elements_named :: "string \<Rightarrow> xml_node \<Rightarrow> (attrs \<times> xml_node list) list" where
  "elements_named x (Element n as ts) =
     (if n = x then [(as, ts)] else []) @ concat (map (elements_named x) ts)"
| "elements_named x (Leaf n as) = []"
| "elements_named x Text = []"

definition has_disk :: "xml_node \<Rightarrow> bool" where
  "has_disk t \<longleftrightarrow> elements_named ''disk'' t \<noteq> []"

text \<open>No disk element inside a disk element, as in every domain document of libvirt.\<close>

primrec disks_flat :: "xml_node \<Rightarrow> bool" where
  "disks_flat (Element n as ts) \<longleftrightarrow>
     (if n = ''disk'' then list_all (\<lambda>t. \<not> has_disk t) ts else list_all disks_flat ts)"
| "disks_flat (Leaf n as) \<longleftrightarrow> True"
| "disks_flat Text \<longleftrightarrow> True"

text \<open>The specification: the first matching disk, and in it the first leaf of that name with a value.\<close>

definition hd_opt :: "'a list \<Rightarrow> 'a option" where
  "hd_opt xs = (case xs of [] \<Rightarrow> None | v # vs \<Rightarrow> Some v)"

definition leaf_value :: "string \<Rightarrow> string \<Rightarrow> xml_node list \<Rightarrow> string option" where
  "leaf_value leaf key ts =
     hd_opt (List.map_filter (\<lambda>(n, as). if n = leaf then first_value key as else None) (concat (map leaves ts)))"

definition disk_value :: "(attrs \<Rightarrow> bool) \<Rightarrow> string \<Rightarrow> string \<Rightarrow> xml_node list \<Rightarrow> string option" where
  "disk_value opens leaf key ts =
     (case List.find (\<lambda>(as, kids). opens as) (concat (map (elements_named ''disk'') ts)) of
        None \<Rightarrow> None
      | Some (as, kids) \<Rightarrow> leaf_value leaf key kids)"

section \<open>Lemmas\<close>

lemma map_filter_append: "List.map_filter f (xs @ ys) = List.map_filter f xs @ List.map_filter f ys"
  by (simp add: List.map_filter_def)

lemma hd_opt_append: "hd_opt (xs @ ys) = (case hd_opt xs of Some v \<Rightarrow> Some v | None \<Rightarrow> hd_opt ys)"
  by (cases xs) (simp_all add: hd_opt_def)

lemma leaf_value_Nil [simp]: "leaf_value leaf key [] = None"
  by (simp add: leaf_value_def hd_opt_def List.map_filter_def)

lemma leaf_value_Cons:
  "leaf_value leaf key (t # ts) = (case leaf_value leaf key [t] of Some v \<Rightarrow> Some v | None \<Rightarrow> leaf_value leaf key ts)"
  by (simp add: leaf_value_def map_filter_append hd_opt_append split: option.split)

lemma leaf_value_node [simp]:
  "leaf_value leaf key [Element n as ts] = leaf_value leaf key ts"
  "leaf_value leaf key [Leaf n as] = (if n = leaf then first_value key as else None)"
  "leaf_value leaf key [Text] = None"
  by (auto simp: leaf_value_def hd_opt_def List.map_filter_def split: option.splits)

lemma has_disk_simps [simp]:
  "has_disk (Element n as ts) \<longleftrightarrow> n = ''disk'' \<or> list_ex has_disk ts"
  "\<not> has_disk (Leaf n as)" "\<not> has_disk Text"
  by (auto simp: has_disk_def list_ex_iff)

lemma forest_events_simps [simp]:
  "forest_events [] = []" "forest_events (t # ts) = events t @ forest_events ts"
  by (simp_all add: forest_events_def)

lemma events_Element: "events (Element n as ts) = Start_Event n as # forest_events ts @ [End_Event n]"
  by (simp add: forest_events_def)

text \<open>Inside the disk that was found, the loop walks over a forest without a disk and either finds the
  value or comes out at the same depth.\<close>

lemma scan_inside:
  "\<not> has_disk t \<Longrightarrow> 1 \<le> d \<Longrightarrow> scan_disk opens leaf key True d (events t @ rest)
     = (case leaf_value leaf key [t] of Some v \<Rightarrow> Some v | None \<Rightarrow> scan_disk opens leaf key True d rest)"
proof (induction t arbitrary: d rest)
  case (Element n as ts)
  have forest: "list_all (\<lambda>t. \<not> has_disk t) us \<Longrightarrow> set us \<subseteq> set ts \<Longrightarrow> 1 \<le> e \<Longrightarrow>
      scan_disk opens leaf key True e (forest_events us @ r)
        = (case leaf_value leaf key us of Some v \<Rightarrow> Some v | None \<Rightarrow> scan_disk opens leaf key True e r)" for us e r
  proof (induction us arbitrary: r)
    case (Cons t us)
    then have "scan_disk opens leaf key True e (events t @ forest_events us @ r)
        = (case leaf_value leaf key [t] of Some v \<Rightarrow> Some v
           | None \<Rightarrow> scan_disk opens leaf key True e (forest_events us @ r))"
      by (intro Element.IH) auto
    with Cons show ?case by (subst leaf_value_Cons) (simp split: option.split)
  qed simp
  from Element.prems have "n \<noteq> ''disk''" "list_all (\<lambda>t. \<not> has_disk t) ts"
    by (auto simp: list_ex_iff list_all_iff)
  then show ?case
    using forest[of ts "d + 1" "End_Event n # rest"] by (auto simp: events_Element split: option.splits simp del: events.simps)
qed (auto split: option.splits)

lemma scan_inside_forest:
  "list_all (\<lambda>t. \<not> has_disk t) ts \<Longrightarrow> 1 \<le> d \<Longrightarrow> scan_disk opens leaf key True d (forest_events ts @ rest)
     = (case leaf_value leaf key ts of Some v \<Rightarrow> Some v | None \<Rightarrow> scan_disk opens leaf key True d rest)"
proof (induction ts arbitrary: rest)
  case (Cons t ts)
  then have "scan_disk opens leaf key True d (events t @ forest_events ts @ rest)
      = (case leaf_value leaf key [t] of Some v \<Rightarrow> Some v
         | None \<Rightarrow> scan_disk opens leaf key True d (forest_events ts @ rest))"
    by (intro scan_inside) auto
  with Cons show ?case by (subst leaf_value_Cons) (simp split: option.split)
qed simp

definition found_disk :: "(attrs \<Rightarrow> bool) \<Rightarrow> xml_node list \<Rightarrow> (attrs \<times> xml_node list) option" where
  "found_disk opens ts = List.find (\<lambda>(as, kids). opens as) (concat (map (elements_named ''disk'') ts))"

lemma find_append: "List.find P (xs @ ys) = (case List.find P xs of Some v \<Rightarrow> Some v | None \<Rightarrow> List.find P ys)"
  by (induction xs) auto

lemma found_disk_simps [simp]:
  "found_disk opens [] = None" "found_disk opens [Leaf n as] = None" "found_disk opens [Text] = None"
  by (simp_all add: found_disk_def)

lemma found_disk_Cons:
  "found_disk opens (t # ts) = (case found_disk opens [t] of Some v \<Rightarrow> Some v | None \<Rightarrow> found_disk opens ts)"
  by (simp add: found_disk_def find_append split: option.split)

lemma found_disk_Element:
  "found_disk opens [Element n as ts]
     = (if n = ''disk'' \<and> opens as then Some (as, ts) else found_disk opens ts)"
  by (simp add: found_disk_def)

lemma found_disk_none: "list_all (\<lambda>t. \<not> has_disk t) ts \<Longrightarrow> found_disk opens ts = None"
  by (induction ts) (auto simp: found_disk_Cons[of _ _ "_ # _"] found_disk_def has_disk_def)

lemma no_disk_flat: "\<not> has_disk t \<Longrightarrow> disks_flat t"
  by (induction t) (auto simp: list_all_iff list_ex_iff)

lemma scan_outside:
  "disks_flat t \<Longrightarrow> scan_disk opens leaf key False d (events t @ rest)
     = (case found_disk opens [t] of Some (as, kids) \<Rightarrow> leaf_value leaf key kids
        | None \<Rightarrow> scan_disk opens leaf key False d rest)"
proof (induction t arbitrary: d rest)
  case (Element n as ts)
  have forest: "list_all disks_flat us \<Longrightarrow> set us \<subseteq> set ts \<Longrightarrow>
      scan_disk opens leaf key False e (forest_events us @ r)
        = (case found_disk opens us of Some (as, kids) \<Rightarrow> leaf_value leaf key kids
           | None \<Rightarrow> scan_disk opens leaf key False e r)" for us e r
  proof (induction us arbitrary: r)
    case (Cons t us)
    then have "scan_disk opens leaf key False e (events t @ forest_events us @ r)
        = (case found_disk opens [t] of Some (as, kids) \<Rightarrow> leaf_value leaf key kids
           | None \<Rightarrow> scan_disk opens leaf key False e (forest_events us @ r))"
      by (intro Element.IH) auto
    with Cons show ?case by (subst found_disk_Cons) (simp split: option.split)
  qed simp
  have flat: "list_all disks_flat ts"
    using Element.prems by (auto simp: list_all_iff no_disk_flat split: if_splits)
  show ?case
  proof (cases "n = ''disk'' \<and> opens as")
    case True
    with Element.prems have "list_all (\<lambda>t. \<not> has_disk t) ts" by simp
    with True show ?thesis
      by (simp add: events_Element found_disk_Element scan_inside_forest split: option.split del: events.simps)
  next
    case False
    then show ?thesis
      using forest[OF flat subset_refl] by (auto simp: events_Element found_disk_Element split: option.split simp del: events.simps)
  qed
qed simp_all

lemma scan_outside_forest:
  "list_all disks_flat ts \<Longrightarrow> scan_disk opens leaf key False d (forest_events ts)
     = (case found_disk opens ts of Some (as, kids) \<Rightarrow> leaf_value leaf key kids | None \<Rightarrow> None)"
proof (induction ts)
  case (Cons t ts)
  then show ?case
    using scan_outside[of t opens leaf key d "forest_events ts"] by (subst found_disk_Cons) (simp split: option.split)
qed simp

lemma disk_value_found:
  "disk_value opens leaf key ts = (case found_disk opens ts of Some (as, kids) \<Rightarrow> leaf_value leaf key kids | None \<Rightarrow> None)"
  by (simp add: disk_value_def found_disk_def split: option.split)

definition graphics_tag :: "string \<Rightarrow> (string \<times> attrs) list \<Rightarrow> attrs option" where
  "graphics_tag ty tgs = map_option snd (List.find (\<lambda>(n, as). n = ''graphics'' \<and> has_attr ''type'' ty as) tgs)"

lemma graphics_append:
  "graphics_tag ty (xs @ ys) = (case graphics_tag ty xs of Some as \<Rightarrow> Some as | None \<Rightarrow> graphics_tag ty ys)"
  by (simp add: graphics_tag_def find_append split: option.split)

lemma graphics_port_node:
  "extract_graphics_port ty (events t @ rest)
     = (case graphics_tag ty (tags t) of Some as \<Rightarrow> port_attr as | None \<Rightarrow> extract_graphics_port ty rest)"
proof (induction t arbitrary: rest)
  case (Element n as ts)
  have "set us \<subseteq> set ts \<Longrightarrow> extract_graphics_port ty (forest_events us @ r)
      = (case graphics_tag ty (concat (map tags us)) of Some as \<Rightarrow> port_attr as | None \<Rightarrow> extract_graphics_port ty r)" for us r
    by (induction us) (auto simp: Element.IH graphics_append graphics_tag_def[of _ "[]"] split: option.split)
  from this[OF subset_refl] show ?case
    by (auto simp: events_Element graphics_tag_def split: option.split simp del: events.simps)
qed (simp_all add: graphics_tag_def)

lemma graphics_port_forest:
  "extract_graphics_port ty (forest_events ts) = Option.bind (graphics_tag ty (concat (map tags ts))) port_attr"
  by (induction ts) (simp_all add: graphics_port_node graphics_append graphics_tag_def[of _ "[]"] split: option.split)

section \<open>Properties\<close>


definition demo_domain :: "xml_node list" where
  "demo_domain = [Element ''domain'' [] [Text, Element ''devices'' []
     [Element ''disk'' [(''type'', ''file''), (''device'', ''cdrom'')]
        [Leaf ''target'' [(''dev'', ''sda'')], Leaf ''source'' [(''file'', ''/iso'')]],
      Element ''disk'' [(''type'', ''file''), (''device'', ''disk'')]
        [Element ''driver'' [] [], Leaf ''source'' [(''file'', ''/d.qcow2'')]],
      Element ''graphics'' [(''type'', ''spice''), (''port'', ''5900'')] []]]]"


end
