(* ===== verification/Disk_Access.thy ===== *)
theory Disk_Access
  imports Prelude
begin

text \<open>
  \<open>fix_disk_permissions\<close> of vmm-core/src/connection.rs: the mode of the disk file and the access lists
  with which libvirt's own user reaches it. All failures are ignored by the code, so the function
  yields the list of its actions; \<open>mode_of\<close> reads the mode of a path (\<open>None\<close>: no metadata). A path is
  taken apart at its slashes, as \<open>std::path\<close> does: empty parts and single dots do not count.
\<close>

definition path_parts :: "string \<Rightarrow> string list" where
  "path_parts p = List.filter (\<lambda>c. c \<noteq> [] \<and> c \<noteq> ''.'') (split_on (CHR ''/'') p)"

definition render :: "string list \<Rightarrow> string" where
  "render cs = (if cs = [] then ''/'' else concat (map (\<lambda>c. CHR ''/'' # c) cs))"

datatype access_act = Set_Mode string u32 | Set_Acl string string

definition ensure_traversable :: "(string \<Rightarrow> u32 option) \<Rightarrow> string \<Rightarrow> access_act list" where
  "ensure_traversable mode_of dir =
     (case mode_of dir of
        None \<Rightarrow> []
      | Some m \<Rightarrow> if and m 0x9 = 0 then [Set_Mode dir (or m 0x8)] else [])
     @ [Set_Acl ''u:libvirt-qemu:x'' dir]"

text \<open>The walk up, at most so many directories; it stops after the home directory.\<close>

fun walk_up :: "(string \<Rightarrow> u32 option) \<Rightarrow> string list \<Rightarrow> nat \<Rightarrow> string list \<Rightarrow> access_act list" where
  "walk_up mode_of home 0 cs = []"
| "walk_up mode_of home (Suc n) cs =
     (if cs = [] then []
      else (let dir = butlast cs in
        ensure_traversable mode_of (render dir)
        @ (if dir = home then [] else walk_up mode_of home n dir)))"

definition fix_disk_permissions :: "(string \<Rightarrow> u32 option) \<Rightarrow> string \<Rightarrow> string \<Rightarrow> access_act list" where
  "fix_disk_permissions mode_of home_dir disk =
     (case mode_of disk of None \<Rightarrow> [] | Some _ \<Rightarrow> [Set_Mode disk 0x1B4])
     @ [Set_Acl ''u:libvirt-qemu:rw'' disk]
     @ (if starts_with disk ''/'' \<and> take (length (path_parts home_dir)) (path_parts disk) = path_parts home_dir
        then walk_up mode_of (path_parts home_dir) 20 (path_parts disk) else [])"

section \<open>Properties\<close>

primrec act_path :: "access_act \<Rightarrow> string" where
  "act_path (Set_Mode p m) = p"
| "act_path (Set_Acl e p) = p"

text \<open>The directories from the one that holds the file up to the home directory.\<close>

definition dirs_between :: "string list \<Rightarrow> string list \<Rightarrow> string list" where
  "dirs_between home cs = map (\<lambda>i. render (take (length cs - Suc i) cs)) [0..<length cs - length home]"

lemma dirs_between_step:
  "dirs_between home (home @ xs @ [x]) = render (home @ xs) # dirs_between home (home @ xs)"
proof -
  have "[0..<Suc (length xs)] = 0 # map Suc [0..<length xs]" by (simp add: upt_conv_Cons map_Suc_upt del: upt_Suc)
  then show ?thesis by (simp add: dirs_between_def)
qed

lemma walk_up_dirs:
  "walk_up mode_of home n (home @ xs)
     = (if xs = [] then walk_up mode_of home n home
        else concat (map (ensure_traversable mode_of) (take n (dirs_between home (home @ xs)))))"
proof (induction xs arbitrary: n rule: rev_induct)
  case (snoc x xs)
  show ?case
  proof (cases n)
    case (Suc m)
    then show ?thesis
      using snoc[of m] by (simp add: Let_def dirs_between_step butlast_append dirs_between_def[of home home])
  qed simp
qed simp

text \<open>For a file somewhere below the home directory, exactly the file itself and the directories from its
  own up to the home directory are touched, at most twenty of them, from the innermost outwards; no
  directory above the home directory is ever touched. For any other file it is the file alone.\<close>
theorem access_walk_stays_below_home:
  assumes "path_parts disk \<noteq> path_parts home_dir"
  shows "fix_disk_permissions mode_of home_dir disk =
      (if mode_of disk = None then [] else [Set_Mode disk 0x1B4]) @ [Set_Acl ''u:libvirt-qemu:rw'' disk]
      @ (if starts_with disk ''/'' \<and> take (length (path_parts home_dir)) (path_parts disk) = path_parts home_dir
         then concat (map (ensure_traversable mode_of)
                (take 20 (dirs_between (path_parts home_dir) (path_parts disk))))
         else [])"
proof (cases "take (length (path_parts home_dir)) (path_parts disk) = path_parts home_dir")
  case True
  then obtain xs where xs: "path_parts disk = path_parts home_dir @ xs" by (metis append_take_drop_id)
  with assms have "xs \<noteq> []" by auto
  with xs walk_up_dirs[of mode_of "path_parts home_dir" 20 xs] show ?thesis
    by (simp add: fix_disk_permissions_def split: option.split)
qed (simp add: fix_disk_permissions_def split: option.split)

theorem access_walk_stays_below_home_witness:
  "fix_disk_permissions (\<lambda>_. Some 0x1C0) ''/home/u'' ''/home/u/vm/d.qcow2''
     = [Set_Mode ''/home/u/vm/d.qcow2'' 0x1B4, Set_Acl ''u:libvirt-qemu:rw'' ''/home/u/vm/d.qcow2'',
        Set_Mode ''/home/u/vm'' 0x1C8, Set_Acl ''u:libvirt-qemu:x'' ''/home/u/vm'',
        Set_Mode ''/home/u'' 0x1C8, Set_Acl ''u:libvirt-qemu:x'' ''/home/u'']"
proof -
  have "path_parts ''/home/u/vm/d.qcow2'' = [''home'', ''u'', ''vm'', ''d.qcow2'']" "path_parts ''/home/u'' = [''home'', ''u'']"
    by code_simp+
  then show ?thesis
    using access_walk_stays_below_home[of "''/home/u/vm/d.qcow2''" "''/home/u''" "\<lambda>_. Some 0x1C0"]
    by (simp add: dirs_between_def render_def ensure_traversable_def numeral_eq_Suc)
qed

end
