(* ===== verification/Host_Run.thy ===== *)
theory Host_Run
  imports Domain_Xml Names Policy Xml_Events Disk_Access
begin

text \<open>
  Code that acts on the host: libvirt, external commands, files. Such code is a computation over the
  list of the actions done so far; every answer of the world is a function of that list, so that all
  behaviours of libvirt and of the commands are covered and nothing about them is assumed. Errors of
  libvirt and of the file system are their texts.
\<close>

section \<open>Actions and answers\<close>

datatype net_act = Find_Net string | Net_Xml | Define_Net string | Autostart_Net | Start_Net | Stop_Net | Undefine_Net

datatype act =
    Lookup string
  | Get_Info
  | Get_Uuid
  | Get_Xml
  | Create
  | Shutdown
  | Destroy
  | Suspend
  | Resume
  | Reboot
  | Undefine
  | Undefine_Flags u32
  | Define_Xml string
  | Set_Autostart bool
  | Make_Dir string
  | Access access_act
  | Path_Exists string
  | Remove_File string
  | Open_New string
  | Write string string
  | Save_Config vm_config
  | Forget_Config string
  | Create_File string
  | Lock_File string
  | Rename string string
  | Copy string string
  | Make_Link string string
  | Attach_Device string u32
  | Detach_Device string u32
  | Network_Act net_act
  | Sleep nat
  | Run "string list"
  | Spawn "string list"

record cmd_output =
  out_ok :: bool
  out_stdout :: string
  out_stderr :: string

text \<open>\<open>does\<close>: the error of an action that answers nothing else; \<open>tells\<close>: the text of one that reads;
  \<open>state_of\<close>: the state number of \<open>get_info\<close>; \<open>runs\<close>: the output of a command that started.\<close>

record world =
  does :: "act list \<Rightarrow> act \<Rightarrow> string option"
  tells :: "act list \<Rightarrow> act \<Rightarrow> string option"
  state_of :: "act list \<Rightarrow> string + u32"
  exists_at :: "act list \<Rightarrow> string \<Rightarrow> bool"
  runs :: "act list \<Rightarrow> string list \<Rightarrow> string + cmd_output"
  mode_at :: "act list \<Rightarrow> string \<Rightarrow> u32 option"
  size_at :: "act list \<Rightarrow> string \<Rightarrow> string + u64"
  policy_files :: "act list \<Rightarrow> files"
  clock :: "act list \<Rightarrow> int"
  policy_json :: "string \<Rightarrow> restriction_policy option"
  canonical_uuid :: "string \<Rightarrow> string option"
  policy_dir :: string
  home_directory :: string
  the_host :: host
  parse_xml :: "string \<Rightarrow> xml_event list"
  process_id :: nat

type_synonym 'a run = "act list \<Rightarrow> act list \<times> 'a vmm_result"

definition give :: "'a \<Rightarrow> 'a run" where
  "give x = (\<lambda>t. (t, Inr x))"

definition stop :: "vmm_error \<Rightarrow> 'a run" where
  "stop e = (\<lambda>t. (t, Inl e))"

definition next_do :: "'a run \<Rightarrow> ('a \<Rightarrow> 'b run) \<Rightarrow> 'b run" where
  "next_do m f = (\<lambda>t. case m t of (t', Inl e) \<Rightarrow> (t', Inl e) | (t', Inr x) \<Rightarrow> f x t')"

definition check :: "'a vmm_result \<Rightarrow> 'a run" where
  "check r = (\<lambda>t. (t, r))"

definition ask :: "(act list \<Rightarrow> 'a) \<Rightarrow> 'a run" where
  "ask f = (\<lambda>t. (t, Inr (f t)))"

text \<open>An action whose error ends the computation (with \<open>?\<close>), one whose outcome is looked at, one whose
  outcome is ignored.\<close>

definition perform :: "world \<Rightarrow> (string \<Rightarrow> vmm_error) \<Rightarrow> act \<Rightarrow> unit run" where
  "perform w err a = (\<lambda>t. (t @ [a], case does w t a of None \<Rightarrow> Inr () | Some e \<Rightarrow> Inl (err e)))"

definition attempt :: "world \<Rightarrow> act \<Rightarrow> string option run" where
  "attempt w a = (\<lambda>t. (t @ [a], Inr (does w t a)))"

definition log_act :: "act \<Rightarrow> unit run" where
  "log_act a = (\<lambda>t. (t @ [a], Inr ()))"

definition read_state :: "world \<Rightarrow> u32 run" where
  "read_state w = (\<lambda>t. (t @ [Get_Info], case state_of w t of Inl e \<Rightarrow> Inl (Libvirt e) | Inr s \<Rightarrow> Inr s))"

definition exists_path :: "world \<Rightarrow> string \<Rightarrow> bool run" where
  "exists_path w p = (\<lambda>t. (t @ [Path_Exists p], Inr (exists_at w t p)))"

definition size_file :: "world \<Rightarrow> string \<Rightarrow> (string + u64) run" where
  "size_file w p = (\<lambda>t. (t, Inr (size_at w t p)))"

definition try_command :: "world \<Rightarrow> string list \<Rightarrow> (string + cmd_output) run" where
  "try_command w args = (\<lambda>t. (t @ [Run args], Inr (runs w t args)))"

text \<open>\<open>unwrap_or_default\<close>: a text that cannot be read is empty.\<close>

definition read_text :: "world \<Rightarrow> act \<Rightarrow> string run" where
  "read_text w a = (\<lambda>t. (t @ [a], Inr (case tells w t a of None \<Rightarrow> [] | Some s \<Rightarrow> s)))"

definition attempt_read :: "world \<Rightarrow> act \<Rightarrow> string option run" where
  "attempt_read w a = (\<lambda>t. (t @ [a], Inr (tells w t a)))"

definition command :: "world \<Rightarrow> (string \<Rightarrow> vmm_error) \<Rightarrow> string list \<Rightarrow> cmd_output run" where
  "command w err args = (\<lambda>t. (t @ [Run args], case runs w t args of Inl e \<Rightarrow> Inl (err e) | Inr out \<Rightarrow> Inr out))"

text \<open>The outcome of a computation as a value, for \<open>ok()\<close> and \<open>if let Ok\<close>.\<close>

definition outcome :: "'a run \<Rightarrow> 'a vmm_result run" where
  "outcome m = (\<lambda>t. (fst (m t), Inr (snd (m t))))"

definition enforce :: "world \<Rightarrow> string \<Rightarrow> operation \<Rightarrow> unit run" where
  "enforce w uuid op = (\<lambda>t. (t, enforce_policy (policy_json w) (canonical_uuid w) (policy_dir w) (clock w t) (policy_files w t) uuid op))"

text \<open>A world in which everything succeeds, with a machine in state \<open>n\<close> whose XML has the events \<open>es\<close>: the
  concrete input of the witnesses.\<close>

definition demo_world :: "u32 \<Rightarrow> xml_event list \<Rightarrow> world" where
  "demo_world n es = \<lparr>does = \<lambda>_ _. None, tells = \<lambda>_ _. Some ''x'', state_of = \<lambda>_. Inr n, exists_at = \<lambda>_ _. True,
     runs = \<lambda>_ _. Inr \<lparr>out_ok = True, out_stdout = [], out_stderr = []\<rparr>, mode_at = \<lambda>_ _. None, size_at = \<lambda>_ _. Inr 1,
     policy_files = \<lambda>_ _. None, clock = \<lambda>_. 0, policy_json = \<lambda>_. None, canonical_uuid = \<lambda>u. Some u,
     policy_dir = ''/p'', home_directory = ''/home/u'', the_host = demo_host, parse_xml = \<lambda>_. es, process_id = 7\<rparr>"

section \<open>Running symbolically\<close>

text \<open>Each rule runs one action: \<open>simp add: run\<close> walks through a computation and leaves the answers of the
  world as cases.\<close>

named_theorems run \<open>execution of computations, one action at a time\<close>

lemma next_give [run]: "next_do (give x) f t = f x t"
  by (simp add: next_do_def give_def)

lemma next_stop [run]: "next_do (stop e) f t = (t, Inl e)"
  by (simp add: next_do_def stop_def)

lemma next_check [run]: "next_do (check r) f t = (case r of Inl e \<Rightarrow> (t, Inl e) | Inr x \<Rightarrow> f x t)"
  by (simp add: next_do_def check_def)

lemma next_perform [run]:
  "next_do (perform w err a) f t = (case does w t a of None \<Rightarrow> f () (t @ [a]) | Some e \<Rightarrow> (t @ [a], Inl (err e)))"
  by (simp add: next_do_def perform_def split: option.split)

lemma next_attempt [run]: "next_do (attempt w a) f t = f (does w t a) (t @ [a])"
  by (simp add: next_do_def attempt_def)

lemma next_read_text [run]:
  "next_do (read_text w a) f t = f (case tells w t a of None \<Rightarrow> [] | Some s \<Rightarrow> s) (t @ [a])"
  by (simp add: next_do_def read_text_def)

lemma next_read_state [run]:
  "next_do (read_state w) f t = (case state_of w t of Inl e \<Rightarrow> (t @ [Get_Info], Inl (Libvirt e)) | Inr s \<Rightarrow> f s (t @ [Get_Info]))"
  by (simp add: next_do_def read_state_def split: sum.split)

lemma next_command [run]:
  "next_do (command w err args) f t
     = (case runs w t args of Inl e \<Rightarrow> (t @ [Run args], Inl (err e)) | Inr out \<Rightarrow> f out (t @ [Run args]))"
  by (simp add: next_do_def command_def split: sum.split)

lemma next_enforce [run]:
  "next_do (enforce w u op) f t = (case snd (enforce w u op t) of Inl e \<Rightarrow> (t, Inl e) | Inr x \<Rightarrow> f () t)"
  by (simp add: next_do_def enforce_def split: sum.split)

lemma next_exists_path [run]: "next_do (exists_path w p) f t = f (exists_at w t p) (t @ [Path_Exists p])"
  by (simp add: next_do_def exists_path_def)

lemma next_outcome [run]: "next_do (outcome m) f t = f (snd (m t)) (fst (m t))"
  by (simp add: next_do_def outcome_def)

lemma next_ask [run]: "next_do (ask q) f t = f (q t) t"
  by (simp add: next_do_def ask_def)

lemma next_unfold: "next_do m f t = (case snd (m t) of Inl e \<Rightarrow> (fst (m t), Inl e) | Inr x \<Rightarrow> f x (fst (m t)))"
  by (cases "m t") (simp add: next_do_def split: sum.split)

lemma next_if [run]: "next_do (if b then m else m') f t = (if b then next_do m f t else next_do m' f t)"
  by simp

lemma next_size_file [run]: "next_do (size_file w p) f t = f (size_at w t p) t"
  by (simp add: next_do_def size_file_def)

lemma next_try_command [run]: "next_do (try_command w args) f t = f (runs w t args) (t @ [Run args])"
  by (simp add: next_do_def try_command_def)

lemma next_attempt_read [run]: "next_do (attempt_read w a) f t = f (tells w t a) (t @ [a])"
  by (simp add: next_do_def attempt_read_def)

lemma next_log_act [run]: "next_do (log_act a) f t = f () (t @ [a])"
  by (simp add: next_do_def log_act_def)

lemma next_assoc [run]: "next_do (next_do m f) g t = next_do m (\<lambda>x. next_do (f x) g) t"
  by (simp add: next_do_def split: prod.split sum.split)

lemma run_end [run]:
  "give x t = (t, Inr x)" "stop e t = (t, Inl e)"
  "perform w err a t = (t @ [a], case does w t a of None \<Rightarrow> Inr () | Some e \<Rightarrow> Inl (err e))"
  "attempt w a t = (t @ [a], Inr (does w t a))"
  by (simp_all add: give_def stop_def perform_def attempt_def)

text \<open>What the demonstration world answers.\<close>

lemma demo_world_simps [simp]:
  "does (demo_world n es) = (\<lambda>_ _. None)" "tells (demo_world n es) = (\<lambda>_ _. Some ''x'')"
  "state_of (demo_world n es) = (\<lambda>_. Inr n)" "exists_at (demo_world n es) = (\<lambda>_ _. True)"
  "runs (demo_world n es) = (\<lambda>_ _. Inr \<lparr>out_ok = True, out_stdout = [], out_stderr = []\<rparr>)"
  "the_host (demo_world n es) = demo_host" "parse_xml (demo_world n es) = (\<lambda>_. es)"
  "canonical_uuid (demo_world n es) u = Some u"
  by (simp_all add: demo_world_def)

lemma demo_world_allows [simp]: "snd (enforce (demo_world n es) u op t) = Inr ()"
  by (simp add: enforce_def demo_world_def enforce_policy_def policy_load_def)

section \<open>What a run satisfies\<close>

text \<open>\<open>sat m t Q\<close>: the run of \<open>m\<close> after the actions \<open>t\<close> ends in actions and a result that satisfy \<open>Q\<close>.
  The rules take the first step of a run; \<open>intro vcg\<close> leaves one goal for each way the run can end.\<close>

definition sat :: "'a run \<Rightarrow> act list \<Rightarrow> (act list \<Rightarrow> 'a vmm_result \<Rightarrow> bool) \<Rightarrow> bool" where
  "sat m t Q \<longleftrightarrow> Q (fst (m t)) (snd (m t))"

text \<open>\<open>whenever P t\<close>: each action \<open>a\<close> of \<open>t\<close> was done after actions \<open>t1\<close> with \<open>P t1 a\<close>.\<close>

definition whenever :: "(act list \<Rightarrow> act \<Rightarrow> bool) \<Rightarrow> act list \<Rightarrow> bool" where
  "whenever P t \<longleftrightarrow> (\<forall>t1 a t2. t = t1 @ a # t2 \<longrightarrow> P t1 a)"

lemma whenever_Nil [simp]: "whenever P []"
  by (simp add: whenever_def)

lemma whenever_snoc [simp]: "whenever P (t @ [b]) \<longleftrightarrow> whenever P t \<and> P t b"
proof -
  have "t @ [b] = t1 @ a # t2 \<longleftrightarrow> (t2 = [] \<and> t = t1 \<and> b = a) \<or> (\<exists>t3. t2 = t3 @ [b] \<and> t = t1 @ a # t3)" for t1 a t2
    by (cases t2 rule: rev_cases) auto
  then show ?thesis by (auto simp: whenever_def)
qed

named_theorems vcg \<open>rules for one step of a run\<close>

lemma sat_end [vcg]:
  "Q t (Inr x) \<Longrightarrow> sat (give x) t Q"
  "Q t (Inl e) \<Longrightarrow> sat (stop e) t Q"
  by (simp_all add: sat_def run)

lemma sat_perform [vcg]:
  "Q (t @ [a]) (case does w t a of None \<Rightarrow> Inr () | Some e \<Rightarrow> Inl (err e)) \<Longrightarrow> sat (perform w err a) t Q"
  by (simp_all add: sat_def run)

lemma sat_attempt [vcg]: "Q (t @ [a]) (Inr (does w t a)) \<Longrightarrow> sat (attempt w a) t Q"
  by (simp add: sat_def run)

lemma sat_give_next [vcg]:
  "sat (f x) t Q \<Longrightarrow> sat (next_do (give x) f) t Q"
  by (simp add: sat_def run split: option.split sum.split)

lemma sat_stop_next [vcg]:
  "Q t (Inl e) \<Longrightarrow> sat (next_do (stop e) f) t Q"
  by (simp add: sat_def run split: option.split sum.split)

lemma sat_check_next [vcg]:
  "(\<And>e. r = Inl e \<Longrightarrow> Q t (Inl e)) \<Longrightarrow> (\<And>x. r = Inr x \<Longrightarrow> sat (f x) t Q) \<Longrightarrow> sat (next_do (check r) f) t Q"
  by (simp add: sat_def run split: option.split sum.split)

lemma sat_perform_next [vcg]:
  "(\<And>e. does w t a = Some e \<Longrightarrow> Q (t @ [a]) (Inl (err e))) \<Longrightarrow> (does w t a = None \<Longrightarrow> sat (f ()) (t @ [a]) Q)
     \<Longrightarrow> sat (next_do (perform w err a) f) t Q"
  by (simp add: sat_def run split: option.split sum.split)

lemma sat_attempt_next [vcg]:
  "sat (f (does w t a)) (t @ [a]) Q \<Longrightarrow> sat (next_do (attempt w a) f) t Q"
  by (simp add: sat_def run split: option.split sum.split)

lemma sat_read_text_next [vcg]:
  "sat (f (case tells w t a of None \<Rightarrow> [] | Some s \<Rightarrow> s)) (t @ [a]) Q \<Longrightarrow> sat (next_do (read_text w a) f) t Q"
  by (simp add: sat_def run split: option.split sum.split)

lemma sat_read_state_next [vcg]:
  "(\<And>e. state_of w t = Inl e \<Longrightarrow> Q (t @ [Get_Info]) (Inl (Libvirt e)))
     \<Longrightarrow> (\<And>s. state_of w t = Inr s \<Longrightarrow> sat (f s) (t @ [Get_Info]) Q) \<Longrightarrow> sat (next_do (read_state w) f) t Q"
  by (simp add: sat_def run split: option.split sum.split)

lemma sat_command_next [vcg]:
  "(\<And>e. runs w t args = Inl e \<Longrightarrow> Q (t @ [Run args]) (Inl (err e)))
     \<Longrightarrow> (\<And>out. runs w t args = Inr out \<Longrightarrow> sat (f out) (t @ [Run args]) Q) \<Longrightarrow> sat (next_do (command w err args) f) t Q"
  by (simp add: sat_def run split: option.split sum.split)

lemma sat_enforce_next [vcg]:
  "(\<And>e. snd (enforce w u op t) = Inl e \<Longrightarrow> Q t (Inl e)) \<Longrightarrow> (snd (enforce w u op t) = Inr () \<Longrightarrow> sat (f ()) t Q)
     \<Longrightarrow> sat (next_do (enforce w u op) f) t Q"
  by (simp add: sat_def run split: option.split sum.split)

lemma sat_exists_path_next [vcg]:
  "sat (f (exists_at w t p)) (t @ [Path_Exists p]) Q \<Longrightarrow> sat (next_do (exists_path w p) f) t Q"
  by (simp add: sat_def run split: option.split sum.split)

lemma sat_size_next [vcg]: "sat (f (size_at w t p)) t Q \<Longrightarrow> sat (next_do (size_file w p) f) t Q"
  by (simp add: sat_def run)

lemma sat_try_next [vcg]: "sat (f (runs w t args)) (t @ [Run args]) Q \<Longrightarrow> sat (next_do (try_command w args) f) t Q"
  by (simp add: sat_def run)

lemma sat_attempt_read_next [vcg]: "sat (f (tells w t a)) (t @ [a]) Q \<Longrightarrow> sat (next_do (attempt_read w a) f) t Q"
  by (simp add: sat_def run)

lemma sat_log_next [vcg]: "sat (f ()) (t @ [a]) Q \<Longrightarrow> sat (next_do (log_act a) f) t Q"
  by (simp add: sat_def run)

lemma sat_ask_next [vcg]: "sat (f (q t)) t Q \<Longrightarrow> sat (next_do (ask q) f) t Q"
  by (simp add: sat_def run)

lemma sat_assoc_next [vcg]:
  "sat (next_do m (\<lambda>x. next_do (g x) f)) t Q \<Longrightarrow> sat (next_do (next_do m g) f) t Q"
  by (simp add: sat_def run split: option.split sum.split)

lemma sat_if [vcg]:
  "(b \<Longrightarrow> sat m t Q) \<Longrightarrow> (\<not> b \<Longrightarrow> sat m' t Q) \<Longrightarrow> sat (if b then m else m') t Q"
  by (auto simp: sat_def split: option.split)

lemma sat_if_next [vcg]:
  "(b \<Longrightarrow> sat (next_do m f) t Q) \<Longrightarrow> (\<not> b \<Longrightarrow> sat (next_do m' f) t Q) \<Longrightarrow> sat (next_do (if b then m else m') f) t Q"
  by (auto simp: sat_def split: option.split)

lemma sat_option [vcg]:
  "(v = None \<Longrightarrow> sat m t Q) \<Longrightarrow> (\<And>x. v = Some x \<Longrightarrow> sat (k x) t Q)
     \<Longrightarrow> sat (case v of None \<Rightarrow> m | Some x \<Rightarrow> k x) t Q"
  by (auto simp: sat_def split: option.split)

lemma sat_option_next [vcg]:
  "(v = None \<Longrightarrow> sat (next_do m f) t Q) \<Longrightarrow> (\<And>x. v = Some x \<Longrightarrow> sat (next_do (k x) f) t Q)
     \<Longrightarrow> sat (next_do (case v of None \<Rightarrow> m | Some x \<Rightarrow> k x) f) t Q"
  by (auto simp: sat_def split: option.split)

lemma sat_sum [vcg]:
  "(\<And>e. v = Inl e \<Longrightarrow> sat (m e) t Q) \<Longrightarrow> (\<And>x. v = Inr x \<Longrightarrow> sat (k x) t Q)
     \<Longrightarrow> sat (case v of Inl e \<Rightarrow> m e | Inr x \<Rightarrow> k x) t Q"
  by (auto simp: sat_def split: sum.split)

section \<open>How long a run is\<close>

text \<open>How many actions a computation appends to what was done.\<close>

definition within :: "nat \<Rightarrow> 'a run \<Rightarrow> bool" where
  "within n m \<longleftrightarrow> (\<forall>t. \<exists>u. fst (m t) = t @ u \<and> length u \<le> n)"

named_theorems within_rules \<open>rules that bound the actions of a computation, by its form\<close>

lemma within_next:
  assumes "within n m" "\<And>x. within k (f x)"
  shows "within (n + k) (next_do m f)"
  unfolding within_def
proof
  fix t
  from assms(1) obtain u where u: "fst (m t) = t @ u" "length u \<le> n" by (auto simp: within_def)
  show "\<exists>u. fst (next_do m f t) = t @ u \<and> length u \<le> n + k"
  proof (cases "snd (m t)")
    case (Inl e)
    with u show ?thesis by (auto simp: next_do_def split: prod.split)
  next
    case (Inr x)
    from assms(2)[of x] obtain v where "fst (f x (t @ u)) = (t @ u) @ v" "length v \<le> k" unfolding within_def by blast
    with u Inr show ?thesis by (auto simp: next_do_def split: prod.split intro!: exI[of _ "u @ v"])
  qed
qed

lemma within_basic [within_rules]:
  "within n (give x)" "within n (check r)" "within n (stop e)" "within 1 (log_act c)" "within 1 (command w err args)"
  by (auto simp: within_def give_def stop_def check_def log_act_def command_def)

lemma within_outcome [within_rules]: "within n m \<Longrightarrow> within n (outcome m)"
  by (simp add: within_def outcome_def)

lemma within_if [within_rules]: "within n m \<Longrightarrow> within n m' \<Longrightarrow> within n (if b then m else m')"
  by simp

lemma within_option [within_rules]:
  "within n m \<Longrightarrow> (\<And>x. within n (k x)) \<Longrightarrow> within n (case v of None \<Rightarrow> m | Some x \<Rightarrow> k x)"
  by (cases v) simp_all

lemma within_sum [within_rules]:
  "(\<And>e. within n (m e)) \<Longrightarrow> (\<And>x. within n (k x)) \<Longrightarrow> within n (case v of Inl e \<Rightarrow> m e | Inr x \<Rightarrow> k x)"
  by (cases v) simp_all

lemma within_list [within_rules]:
  "within n m \<Longrightarrow> (\<And>x xs. within n (k x xs)) \<Longrightarrow> within n (case v of [] \<Rightarrow> m | x # xs \<Rightarrow> k x xs)"
  by (cases v) simp_all

text \<open>\<open>emits P m\<close>: every action a computation appends satisfies \<open>P\<close>.\<close>

definition emits :: "(act \<Rightarrow> bool) \<Rightarrow> 'a run \<Rightarrow> bool" where
  "emits P m \<longleftrightarrow> (\<forall>t. \<exists>u. fst (m t) = t @ u \<and> list_all P u)"

named_theorems emits_rules \<open>rules for the actions of a computation, by its form\<close>

lemma emits_next:
  assumes "emits P m" "\<And>x t. snd (m t) = Inr x \<Longrightarrow> emits P (f x)"
  shows "emits P (next_do m f)"
  unfolding emits_def
proof
  fix t
  from assms(1) obtain u where u: "fst (m t) = t @ u" "list_all P u" by (auto simp: emits_def)
  show "\<exists>u. fst (next_do m f t) = t @ u \<and> list_all P u"
  proof (cases "snd (m t)")
    case (Inl e)
    with u show ?thesis by (auto simp: next_do_def split: prod.split)
  next
    case (Inr x)
    from assms(2)[OF this] obtain v where "fst (f x (t @ u)) = (t @ u) @ v" "list_all P v" unfolding emits_def by blast
    with u Inr show ?thesis by (auto simp: next_do_def split: prod.split intro!: exI[of _ "u @ v"])
  qed
qed

lemma emits_end [emits_rules]:
  "emits P (give x)" "emits P (check r)" "emits P (stop e)" "emits P (ask q)"
  by (auto simp: emits_def give_def stop_def check_def ask_def)

lemma emits_act [emits_rules]:
  "P a \<Longrightarrow> emits P (log_act a)" "P a \<Longrightarrow> emits P (perform w err a)" "P a \<Longrightarrow> emits P (attempt w a)"
  "P a \<Longrightarrow> emits P (attempt_read w a)" "P (Run args) \<Longrightarrow> emits P (command w err args)"
  "P (Run args) \<Longrightarrow> emits P (try_command w args)" "P (Path_Exists p) \<Longrightarrow> emits P (exists_path w p)"
  by (auto simp: emits_def log_act_def perform_def attempt_def attempt_read_def command_def try_command_def exists_path_def)

lemma emits_outcome [emits_rules]: "emits P m \<Longrightarrow> emits P (outcome m)"
  by (simp add: emits_def outcome_def)

lemma emits_if [emits_rules]: "(b \<Longrightarrow> emits P m) \<Longrightarrow> (\<not> b \<Longrightarrow> emits P m') \<Longrightarrow> emits P (if b then m else m')"
  by simp

lemma emits_option [emits_rules]:
  "emits P m \<Longrightarrow> (\<And>x. v = Some x \<Longrightarrow> emits P (k x)) \<Longrightarrow> emits P (case v of None \<Rightarrow> m | Some x \<Rightarrow> k x)"
  by (cases v) simp_all

lemma emits_sum [emits_rules]:
  "(\<And>e. emits P (m e)) \<Longrightarrow> (\<And>x. v = Inr x \<Longrightarrow> emits P (k x)) \<Longrightarrow> emits P (case v of Inl e \<Rightarrow> m e | Inr x \<Rightarrow> k x)"
  by (cases v) simp_all

end
