(* ===== verification/Disk_Image.thy ===== *)
theory Disk_Image
  imports Host_Run Text_Lines
begin

text \<open>
  The disk images of vmm-core/src/disk.rs: their path check and the calls of \<open>qemu-img\<close>. The text of an
  \<open>lstat\<close> error is left out of its message.
\<close>

section \<open>Operations\<close>

definition check_disk_path :: "host \<Rightarrow> string \<Rightarrow> unit vmm_result" where
  "check_disk_path h p =
     (if \<not> is_absolute p then Inl (DiskError (''Disk path must be absolute: '' @ p))
      else if has_parent_dir p then Inl (DiskError (''Disk path must not contain '' @ sq ''..'' @ '': '' @ p))
      else if path_exists h p then
        (case symlink_metadata h p of
           None \<Rightarrow> Inl (DiskError (''Cannot lstat '' @ p))
         | Some kind \<Rightarrow>
             if kind = Symlink then Inl (DiskError (''Disk path is a symbolic link (blocked for security): '' @ p))
             else if kind \<noteq> RegularFile \<and> kind \<noteq> Directory then
               Inl (DiskError (''Disk path is not a regular file: '' @ p))
             else Inr ())
      else Inr ())"

definition parent_dir :: "string \<Rightarrow> string option" where
  "parent_dir p = (if path_parts p = [] then None else Some (render (butlast (path_parts p))))"

definition make_parent :: "world \<Rightarrow> string \<Rightarrow> unit run" where
  "make_parent w p = (case parent_dir p of None \<Rightarrow> give () | Some d \<Rightarrow> perform w Io (Make_Dir d))"

definition qemu_img :: "world \<Rightarrow> string \<Rightarrow> string list \<Rightarrow> unit run" where
  "qemu_img w what args =
     next_do (command w (\<lambda>e. DiskError (''qemu-img not found: '' @ e)) (''qemu-img'' # args))
       (\<lambda>out. if out_ok out then give () else stop (DiskError (what @ out_stderr out)))"

definition disk_size_ok :: "u64 \<Rightarrow> unit vmm_result" where
  "disk_size_ok n =
     (if n = 0 \<or> n > 65536 then Inl (DiskError (''Disk size must be 1-65536 GiB, got '' @ dec_w n)) else Inr ())"

definition create_qcow2 :: "world \<Rightarrow> string \<Rightarrow> u64 \<Rightarrow> unit run" where
  "create_qcow2 w p sz =
     next_do (check (check_disk_path (the_host w) p)) (\<lambda>_.
     next_do (check (disk_size_ok sz)) (\<lambda>_.
     next_do (make_parent w p) (\<lambda>_.
     qemu_img w ''qemu-img create failed: ''
       [''create'', ''-f'', ''qcow2'', ''-o'', ''cluster_size=65536,lazy_refcounts=on,preallocation=off'',
        ''--'', p, dec_w sz @ ''G''])))"

definition resize_disk :: "world \<Rightarrow> string \<Rightarrow> u64 \<Rightarrow> unit run" where
  "resize_disk w p sz =
     next_do (check (check_disk_path (the_host w) p)) (\<lambda>_.
     next_do (check (disk_size_ok sz)) (\<lambda>_.
     qemu_img w ''qemu-img resize failed: '' [''resize'', ''--'', p, dec_w sz @ ''G'']))"

definition disk_formats :: "string list" where
  "disk_formats = [''qcow2'', ''raw'', ''vmdk'', ''vdi'', ''vpc'', ''vhdx'']"

text \<open>The \<open>Debug\<close> text of a list of plain strings.\<close>

definition debug_list :: "string list \<Rightarrow> string" where
  "debug_list xs = CHR 0x5B # join '', '' (map (\<lambda>s. CHR 0x22 # s @ [CHR 0x22]) xs) @ [CHR 0x5D]"

definition convert_disk :: "world \<Rightarrow> string \<Rightarrow> string \<Rightarrow> string \<Rightarrow> unit run" where
  "convert_disk w src dst fmt =
     next_do (check (check_disk_path (the_host w) src)) (\<lambda>_.
     next_do (check (check_disk_path (the_host w) dst)) (\<lambda>_.
     if fmt \<notin> set disk_formats then stop (DiskError (''Unsupported disk format '' @ sq fmt @ ''. Valid: '' @ debug_list disk_formats))
     else qemu_img w ''qemu-img convert failed: '' [''convert'', ''-O'', fmt, ''-p'', ''--'', src, dst]))"

definition MAX_QEMU_IMG_OUTPUT :: nat where "MAX_QEMU_IMG_OUTPUT = 1048576"

record disk_data =
  disk_format :: string
  virtual_size :: u64
  actual_size :: u64

text \<open>\<open>read\<close>: the JSON reader, with the three fields as far as they are present and of their type.\<close>

definition disk_info ::
  "(string \<Rightarrow> string + (string option \<times> u64 option \<times> u64 option)) \<Rightarrow> world \<Rightarrow> string \<Rightarrow> disk_data run" where
  "disk_info read w p =
     next_do (check (check_disk_path (the_host w) p)) (\<lambda>_.
     next_do (command w (\<lambda>e. DiskError (''qemu-img not found: '' @ e)) [''qemu-img'', ''info'', ''--output=json'', ''--'', p]) (\<lambda>out.
     if \<not> out_ok out then stop (DiskError (''qemu-img info failed: '' @ out_stderr out))
     else if length (out_stdout out) > MAX_QEMU_IMG_OUTPUT then
       stop (DiskError (''qemu-img info produced '' @ dec (length (out_stdout out)) @ '' bytes of output (limit ''
         @ dec MAX_QEMU_IMG_OUTPUT @ ''); refusing to parse''))
     else (case read (out_stdout out) of
         Inl e \<Rightarrow> stop (DiskError e)
       | Inr (f, v, a) \<Rightarrow> give \<lparr>disk_format = (case f of None \<Rightarrow> ''unknown'' | Some s \<Rightarrow> s),
           virtual_size = (case v of None \<Rightarrow> 0 | Some n \<Rightarrow> n), actual_size = (case a of None \<Rightarrow> 0 | Some n \<Rightarrow> n)\<rparr>)))"

section \<open>Running symbolically\<close>

lemma next_qemu_img [run]:
  "next_do (qemu_img w what args) f t = (case runs w t (''qemu-img'' # args) of
       Inl e \<Rightarrow> (t @ [Run (''qemu-img'' # args)], Inl (DiskError (''qemu-img not found: '' @ e)))
     | Inr out \<Rightarrow> if out_ok out then f () (t @ [Run (''qemu-img'' # args)])
         else (t @ [Run (''qemu-img'' # args)], Inl (DiskError (what @ out_stderr out))))"
  by (simp add: qemu_img_def run split: sum.split)

lemma next_make_parent [run]:
  "next_do (make_parent w p) f t = (case parent_dir p of
       None \<Rightarrow> f () t
     | Some d \<Rightarrow> (case does w t (Make_Dir d) of
         None \<Rightarrow> f () (t @ [Make_Dir d]) | Some e \<Rightarrow> (t @ [Make_Dir d], Inl (Io e))))"
  by (simp add: make_parent_def run split: option.split)

end
