(* ===== verification/Lifecycle.thy ===== *)
theory Lifecycle
  imports Disk_Image
begin

text \<open>
  The operations on one machine of vmm-core/src/connection.rs: creating, starting, stopping, pausing,
  saving, deleting, reconfiguring it and changing its media, each as a computation over the actions on
  the host. The last section states what every run of them does, whatever libvirt and the commands
  answer.
\<close>

section \<open>Names\<close>

definition validate_vm_name_for_command :: "string \<Rightarrow> unit vmm_result" where
  "validate_vm_name_for_command name =
     (if name = [] then Inl (InvalidConfig ''VM name must not be empty (CWE-78)'')
      else if length name > 128 then Inl (InvalidConfig ''VM name too long for command use (max 128 chars) (CWE-78)'')
      else if \<not> list_all (ascii_char (\<lambda>c. ascii_alnum c \<or> c \<in> set '' -_.'')) (chars name) then
        Inl (InvalidConfig (''VM name '' @ sq name @ '' contains unsafe characters for subprocess use (CWE-78)''))
      else if starts_with name ''-'' \<or> starts_with name ''.'' then
        Inl (InvalidConfig (''VM name '' @ sq name @ '' must not start with '' @ sq ''-'' @ '' or '' @ sq ''.'' @ '' (CWE-88)''))
      else if CHR 0x00 \<in> set name then Inl (InvalidConfig ''VM name must not contain null bytes (CWE-626)'')
      else Inr ())"

definition find_domain :: "world \<Rightarrow> string \<Rightarrow> unit run" where
  "find_domain w name =
     next_do (check (validate_vm_name_for_command name)) (\<lambda>_. perform w (\<lambda>_. VmNotFound name) (Lookup name))"

definition check_config_name :: "world \<Rightarrow> vm_config \<Rightarrow> unit run" where
  "check_config_name w c =
     (case validate_vm_name (u_alnum (the_host w)) (vm_name c) of
        None \<Rightarrow> give ()
      | Some err \<Rightarrow> stop (InvalidConfig (''Invalid VM name '' @ sq (vm_name c) @ '': '' @ err @ '' (CWE-20)'')))"

section \<open>States\<close>

text \<open>The state numbers of libvirt, and the states of vmm-core/src/domain.rs.\<close>

definition DOMAIN_RUNNING :: u32 where "DOMAIN_RUNNING = 1"
definition DOMAIN_PAUSED :: u32 where "DOMAIN_PAUSED = 3"
definition DOMAIN_PMSUSPENDED :: u32 where "DOMAIN_PMSUSPENDED = 7"
definition UNDEFINE_SNAPSHOTS_METADATA :: u32 where "UNDEFINE_SNAPSHOTS_METADATA = 2"
definition UNDEFINE_NVRAM :: u32 where "UNDEFINE_NVRAM = 4"

datatype vm_state = Running | Paused | ShuttingDown | Off | Crashed | Suspended | Unknown

primrec vm_state_str :: "vm_state \<Rightarrow> string" where
  "vm_state_str Running = ''Running''"
| "vm_state_str Paused = ''Paused''"
| "vm_state_str ShuttingDown = ''Shutting Down''"
| "vm_state_str Off = ''Off''"
| "vm_state_str Crashed = ''Crashed''"
| "vm_state_str Suspended = ''Suspended''"
| "vm_state_str Unknown = ''Unknown''"

definition can_start :: "vm_state \<Rightarrow> bool" where
  "can_start s \<longleftrightarrow> s = Off \<or> s = Crashed"

definition can_stop :: "vm_state \<Rightarrow> bool" where
  "can_stop s \<longleftrightarrow> s = Running \<or> s = Paused"

definition can_pause :: "vm_state \<Rightarrow> bool" where
  "can_pause s \<longleftrightarrow> s = Running"

definition can_resume :: "vm_state \<Rightarrow> bool" where
  "can_resume s \<longleftrightarrow> s = Paused \<or> s = Suspended"

definition vm_state_of :: "u32 \<Rightarrow> vm_state" where
  "vm_state_of n =
     (if n = 1 then Running else if n = 3 then Paused else if n = 4 then ShuttingDown else if n = 5 then Off
      else if n = 6 then Crashed else if n = 7 then Suspended else Unknown)"

section \<open>Creating\<close>

definition access_disk :: "world \<Rightarrow> string \<Rightarrow> unit run" where
  "access_disk w p = (\<lambda>t. (t @ map Access (fix_disk_permissions (mode_at w t) (home_directory w) p), Inr ()))"

text \<open>An error of the last steps undoes the earlier ones; a failing autostart is only logged.\<close>

definition set_autostart_if :: "world \<Rightarrow> bool \<Rightarrow> unit run" where
  "set_autostart_if w b = (if b then next_do (attempt w (Set_Autostart True)) (\<lambda>_. give ()) else give ())"

definition create_vm :: "world \<Rightarrow> vm_config \<Rightarrow> unit run" where
  "create_vm w c =
     next_do (check_config_name w c) (\<lambda>_.
     next_do (make_parent w (disk_path c)) (\<lambda>_.
     next_do (create_qcow2 w (disk_path c) (disk_size_gib c)) (\<lambda>_.
     next_do (access_disk w (disk_path c)) (\<lambda>_.
     next_do (attempt w (Define_Xml (build_domain_xml (the_host w) c))) (\<lambda>defined.
     case defined of
       Some e \<Rightarrow> next_do (attempt w (Remove_File (disk_path c))) (\<lambda>_. stop (Libvirt e))
     | None \<Rightarrow>
         next_do (set_autostart_if w (autostart c)) (\<lambda>_.
         next_do (attempt w (Save_Config c)) (\<lambda>saved.
         case saved of
           None \<Rightarrow> give ()
         | Some e \<Rightarrow>
             next_do (attempt w Undefine) (\<lambda>_.
             next_do (attempt w (Remove_File (disk_path c))) (\<lambda>_. stop (Io e))))))))))"

definition create_vm_from_existing :: "world \<Rightarrow> vm_config \<Rightarrow> unit run" where
  "create_vm_from_existing w c =
     next_do (check_config_name w c) (\<lambda>_.
     next_do (perform w Libvirt (Define_Xml (build_domain_xml (the_host w) c))) (\<lambda>_.
     next_do (set_autostart_if w (autostart c)) (\<lambda>_.
     next_do (attempt w (Save_Config c)) (\<lambda>saved.
     case saved of
       None \<Rightarrow> give ()
     | Some e \<Rightarrow> next_do (attempt w Undefine) (\<lambda>_. stop (Io e))))))"

section \<open>Running\<close>

definition ensure_disk_accessible :: "world \<Rightarrow> unit run" where
  "ensure_disk_accessible w = (\<lambda>t.
     case tells w t Get_Xml of
       None \<Rightarrow> (t @ [Get_Xml], Inr ())
     | Some xml \<Rightarrow> (case extract_disk_path (parse_xml w xml) of
           None \<Rightarrow> (t @ [Get_Xml], Inr ())
         | Some p \<Rightarrow> access_disk w p (t @ [Get_Xml])))"

definition start_vm :: "world \<Rightarrow> string \<Rightarrow> unit run" where
  "start_vm w name =
     next_do (find_domain w name) (\<lambda>_.
     next_do (read_state w) (\<lambda>s.
     if s = DOMAIN_RUNNING then stop (VmAlreadyRunning name)
     else next_do (ensure_disk_accessible w) (\<lambda>_. perform w Libvirt Create)))"

definition on_domain :: "world \<Rightarrow> string \<Rightarrow> act \<Rightarrow> unit run" where
  "on_domain w name a = next_do (find_domain w name) (\<lambda>_. perform w Libvirt a)"

definition shutdown_vm :: "world \<Rightarrow> string \<Rightarrow> unit run" where
  "shutdown_vm w name = on_domain w name Shutdown"

definition pause_vm :: "world \<Rightarrow> string \<Rightarrow> unit run" where
  "pause_vm w name = on_domain w name Suspend"

definition reboot_vm :: "world \<Rightarrow> string \<Rightarrow> unit run" where
  "reboot_vm w name = on_domain w name Reboot"

definition force_stop_vm :: "world \<Rightarrow> string \<Rightarrow> unit run" where
  "force_stop_vm w name =
     next_do (find_domain w name) (\<lambda>_.
     next_do (read_text w Get_Uuid) (\<lambda>uuid.
     next_do (enforce w uuid ForceStop) (\<lambda>_. perform w Libvirt Destroy)))"

definition virsh :: "world \<Rightarrow> string list \<Rightarrow> cmd_output run" where
  "virsh w args = command w (\<lambda>e. Other (''Failed to run virsh: '' @ e)) (''virsh'' # args)"

definition virsh_ok :: "world \<Rightarrow> string \<Rightarrow> string list \<Rightarrow> unit run" where
  "virsh_ok w what args =
     next_do (virsh w args) (\<lambda>out. if out_ok out then give () else stop (Other (what @ out_stderr out)))"

definition resume_vm :: "world \<Rightarrow> string \<Rightarrow> unit run" where
  "resume_vm w name =
     next_do (check (validate_vm_name_for_command name)) (\<lambda>_.
     next_do (find_domain w name) (\<lambda>_.
     next_do (read_state w) (\<lambda>s.
     if s = DOMAIN_PMSUSPENDED then virsh_ok w ''Failed to wake PM-suspended VM: '' [''dompmwakeup'', ''--'', name]
     else perform w Libvirt Resume)))"

definition suspend_to_disk :: "world \<Rightarrow> string \<Rightarrow> unit run" where
  "suspend_to_disk w name =
     next_do (check (validate_vm_name_for_command name)) (\<lambda>_.
     next_do (find_domain w name) (\<lambda>_.
     next_do (read_state w) (\<lambda>s.
     if s \<noteq> DOMAIN_RUNNING then stop (VmNotRunning name)
     else virsh_ok w ''Managed save failed: '' [''managedsave'', ''--'', name])))"

definition set_autostart :: "world \<Rightarrow> string \<Rightarrow> bool \<Rightarrow> unit run" where
  "set_autostart w name b =
     next_do (find_domain w name) (\<lambda>_. perform w (\<lambda>e. Other (''autostart: '' @ e)) (Set_Autostart b))"

definition saved_line :: "string \<Rightarrow> bool option" where
  "saved_line s =
     map_option (\<lambda>l. str_contains l ''yes'') (List.find (\<lambda>l. starts_with l ''Managed save:'') (split_on (CHR 0x0A) s))"

definition has_managed_save :: "world \<Rightarrow> string \<Rightarrow> bool run" where
  "has_managed_save w name = (\<lambda>t.
     case validate_vm_name_for_command name of
       Inl e \<Rightarrow> (t, Inr False)
     | Inr _ \<Rightarrow>
         (let args = [''virsh'', ''dominfo'', ''--'', name] in
          (t @ [Run args],
           Inr (case runs w t args of
               Inl e \<Rightarrow> False
             | Inr out \<Rightarrow> out_ok out \<and> saved_line (out_stdout out) = Some True))))"

definition discard_managed_save :: "world \<Rightarrow> string \<Rightarrow> unit run" where
  "discard_managed_save w name =
     next_do (check (validate_vm_name_for_command name)) (\<lambda>_.
     next_do (virsh w [''managedsave-remove'', ''--'', name]) (\<lambda>out.
     if \<not> out_ok out \<and> \<not> str_contains (out_stderr out) ''has no managed save''
        \<and> \<not> str_contains (out_stderr out) ''not found''
     then stop (Other (''Failed to discard managed save: '' @ out_stderr out)) else give ()))"

section \<open>Deleting and reconfiguring\<close>

definition delete_image :: "world \<Rightarrow> bool \<Rightarrow> string option \<Rightarrow> unit run" where
  "delete_image w delete_disk disk =
     (if delete_disk then
        (case disk of
           None \<Rightarrow> give ()
         | Some p \<Rightarrow> next_do (exists_path w p) (\<lambda>there. if there then perform w Io (Remove_File p) else give ()))
      else give ())"

definition delete_vm :: "world \<Rightarrow> string \<Rightarrow> bool \<Rightarrow> unit run" where
  "delete_vm w name delete_disk =
     next_do (find_domain w name) (\<lambda>_.
     next_do (read_text w Get_Uuid) (\<lambda>uuid.
     next_do (enforce w uuid Delete) (\<lambda>_.
     next_do (read_state w) (\<lambda>s.
     next_do (if s = DOMAIN_RUNNING then perform w Libvirt Destroy else give ()) (\<lambda>_.
     next_do (read_text w Get_Xml) (\<lambda>xml.
     next_do (attempt w (Undefine_Flags (or UNDEFINE_NVRAM UNDEFINE_SNAPSHOTS_METADATA))) (\<lambda>failed.
     next_do (if failed = None then give () else perform w Libvirt Undefine) (\<lambda>_.
     next_do (delete_image w delete_disk (extract_disk_path (parse_xml w xml))) (\<lambda>_.
     case canonical_uuid w uuid of
       None \<Rightarrow> give ()
     | Some u \<Rightarrow> next_do (attempt w (Forget_Config u)) (\<lambda>_. give ()))))))))))"

definition update_vm :: "world \<Rightarrow> vm_config \<Rightarrow> unit run" where
  "update_vm w c =
     next_do (check_config_name w c) (\<lambda>_.
     next_do (find_domain w (vm_name c)) (\<lambda>_.
     next_do (read_text w Get_Uuid) (\<lambda>uuid.
     next_do (enforce w uuid ModifyConfig) (\<lambda>_.
     next_do (read_state w) (\<lambda>s.
     if s = DOMAIN_RUNNING then stop (VmAlreadyRunning (vm_name c))
     else
       next_do (read_text w Get_Xml) (\<lambda>old_xml.
       next_do (attempt w (Undefine_Flags UNDEFINE_NVRAM)) (\<lambda>failed.
       next_do (if failed = None then give None else attempt w Undefine) (\<lambda>_.
       next_do (attempt w (Define_Xml (build_domain_xml (the_host w) c))) (\<lambda>defined.
       case defined of
         Some e \<Rightarrow>
           next_do (if old_xml = [] then give None else attempt w (Define_Xml old_xml)) (\<lambda>_. stop (Libvirt e))
       | None \<Rightarrow>
           next_do (attempt w (Set_Autostart (autostart c))) (\<lambda>_. perform w Io (Save_Config c)))))))))))"

section \<open>Media\<close>

definition check_iso_path :: "string \<Rightarrow> unit vmm_result" where
  "check_iso_path p =
     (if p = [] then Inl (InvalidConfig ''ISO path must not be empty (CWE-22)'')
      else if CHR 0x00 \<in> set p then Inl (InvalidConfig ''ISO path must not contain null bytes (CWE-626)'')
      else if str_contains p ''..'' then Inl (InvalidConfig (''ISO path must not contain '' @ sq ''..'' @ '' (CWE-22)''))
      else if \<not> (ends_with p ''.iso'' \<or> ends_with p ''.img'') then
        Inl (InvalidConfig ''ISO path must end with .iso or .img (CWE-22)'')
      else Inr ())"

definition read_domain_xml :: "world \<Rightarrow> string \<Rightarrow> xml_event list run" where
  "read_domain_xml w name =
     next_do (find_domain w name) (\<lambda>_. next_do (read_text w Get_Xml) (\<lambda>xml. give (parse_xml w xml)))"

definition find_cdrom_target :: "world \<Rightarrow> string \<Rightarrow> string run" where
  "find_cdrom_target w name =
     next_do (read_domain_xml w name) (\<lambda>es. give (case parse_cdrom_target es of None \<Rightarrow> ''sda'' | Some t \<Rightarrow> t))"

definition get_cdrom_media :: "world \<Rightarrow> string \<Rightarrow> string option run" where
  "get_cdrom_media w name = next_do (read_domain_xml w name) (\<lambda>es. give (parse_cdrom_media es))"

definition change_media :: "world \<Rightarrow> string \<Rightarrow> string \<Rightarrow> unit run" where
  "change_media w name img =
     next_do (check (validate_vm_name_for_command name)) (\<lambda>_.
     next_do (check (check_iso_path img)) (\<lambda>_.
     next_do (find_cdrom_target w name) (\<lambda>target.
     virsh_ok w ''Failed to change media: ''
       [''change-media'', ''--domain'', name, ''--path'', target, ''--source'', img, ''--update''])))"

definition eject_media :: "world \<Rightarrow> string \<Rightarrow> unit run" where
  "eject_media w name =
     next_do (check (validate_vm_name_for_command name)) (\<lambda>_.
     next_do (find_cdrom_target w name) (\<lambda>target.
     virsh_ok w ''Failed to eject media: '' [''change-media'', ''--domain'', name, ''--path'', target, ''--eject'']))"

section \<open>Booting to the firmware\<close>

definition boot_menu :: string where
  "boot_menu = ''<bootmenu enable='yes' timeout='5000'/>''"

text \<open>An old boot menu ends at the first \<open>/>\<close> after its start, or at its end tag when there is none.\<close>

definition insert_boot_menu :: "string \<Rightarrow> string option" where
  "insert_boot_menu xml =
     (case str_find xml ''<bootmenu'' of
        Some re_start \<Rightarrow>
          (let after = drop re_start xml;
               re_end = (case str_find after ''/>'' of
                   Some i \<Rightarrow> re_start + i + 2
                 | None \<Rightarrow> (case str_find after ''</bootmenu>'' of
                     Some i \<Rightarrow> re_start + i + 11
                   | None \<Rightarrow> re_start))
           in Some (take re_start xml @ boot_menu @ drop re_end xml))
      | None \<Rightarrow>
          (case str_find xml ''</os>'' of
             Some os_end \<Rightarrow> Some (take os_end xml @ ''    '' @ boot_menu @ ''\<newline>  '' @ drop os_end xml)
           | None \<Rightarrow> None))"

definition boot_xml_path :: "world \<Rightarrow> string" where
  "boot_xml_path w = ''/dev/shm/.libre-vmm-boot-fw-'' @ dec (process_id w) @ ''.xml''"

definition boot_to_firmware :: "world \<Rightarrow> string \<Rightarrow> unit run" where
  "boot_to_firmware w name =
     next_do (check (validate_vm_name_for_command name)) (\<lambda>_.
     next_do (command w (\<lambda>e. Other (''Failed to run virsh dumpxml: '' @ e)) [''virsh'', ''dumpxml'', ''--'', name]) (\<lambda>out.
     if \<not> out_ok out then stop (Other (''Failed to dump VM XML: '' @ out_stderr out))
     else if \<not> str_contains (out_stdout out) ''firmware'' \<and> \<not> str_contains (out_stdout out) ''loader'' then
       stop (InvalidConfig ''VM does not appear to use UEFI firmware; boot-to-firmware requires UEFI'')
     else (case insert_boot_menu (out_stdout out) of
         None \<Rightarrow> stop (Other ''Could not find <os> section in VM XML to insert boot menu'')
       | Some xml \<Rightarrow>
           next_do (perform w (\<lambda>e. Other (''Failed to create temp XML file: '' @ e)) (Open_New (boot_xml_path w))) (\<lambda>_.
           next_do (perform w (\<lambda>e. Other (''Failed to write temp XML file: '' @ e)) (Write (boot_xml_path w) xml)) (\<lambda>_.
           (\<lambda>t. let args = [''virsh'', ''define'', ''--'', boot_xml_path w];
                    t' = t @ [Run args, Remove_File (boot_xml_path w)]
                in (t', case runs w t args of
                     Inl e \<Rightarrow> Inl (Other (''Failed to run virsh define: '' @ e))
                   | Inr d \<Rightarrow> if out_ok d then Inr ()
                       else Inl (Other (''Failed to redefine VM with boot menu: '' @ out_stderr d)))))))))"

section \<open>Consoles\<close>

definition get_spice_uri :: "world \<Rightarrow> string \<Rightarrow> string option run" where
  "get_spice_uri w name =
     next_do (read_domain_xml w name) (\<lambda>es. give (map_option (\<lambda>p. ''spice://127.0.0.1:'' @ dec_w p) (extract_spice_port es)))"

definition get_spice_port :: "world \<Rightarrow> string \<Rightarrow> u16 option run" where
  "get_spice_port w name = next_do (read_domain_xml w name) (\<lambda>es. give (extract_spice_port es))"

definition get_vnc_port :: "world \<Rightarrow> string \<Rightarrow> u16 option run" where
  "get_vnc_port w name =
     next_do (find_domain w name) (\<lambda>_.
     next_do (read_state w) (\<lambda>s.
     if s \<noteq> DOMAIN_RUNNING then give None
     else next_do (read_text w Get_Xml) (\<lambda>xml. give (extract_vnc_port (parse_xml w xml)))))"

definition open_console :: "world \<Rightarrow> string \<Rightarrow> unit run" where
  "open_console w name =
     next_do (find_domain w name) (\<lambda>_.
     next_do (read_state w) (\<lambda>s.
     if s \<noteq> DOMAIN_RUNNING then stop (VmNotRunning name)
     else next_do (read_text w Get_Xml) (\<lambda>xml.
       case extract_spice_port (parse_xml w xml) of
         Some port \<Rightarrow>
           if port = 0 \<or> port < 1024 then
             stop (Other (''SPICE port '' @ dec_w port @ '' is outside valid range (1024-65535) (CWE-20)''))
           else perform w (\<lambda>e. Other (''Failed to open console: '' @ e))
             (Spawn [''spicy'', ''--host=127.0.0.1'', ''--port='' @ dec_w port])
       | None \<Rightarrow> (case extract_vnc_port (parse_xml w xml) of
           Some port \<Rightarrow>
             if port > 1000 then
               stop (Other (''VNC display number '' @ dec_w port @ '' is outside valid range (0-1000) (CWE-20)''))
             else
               next_do (attempt w (Spawn [''virt-viewer'', ''--connect'', ''qemu:///system'', ''--'', name])) (\<lambda>failed.
               if failed = None then give ()
               else perform w (\<lambda>e. Other (''Failed to open console: '' @ e))
                 (Spawn [''remote-viewer'', ''vnc://127.0.0.1:'' @ dec_w (5900 + port)]))
         | None \<Rightarrow> stop (Other ''No display (SPICE/VNC) found for this VM'')))))"

section \<open>Connections\<close>

definition ALLOWED_SCHEMES :: "string list" where
  "ALLOWED_SCHEMES = [''qemu://'', ''qemu:///'', ''qemu+ssh://'', ''qemu+tls://'', ''qemu+tcp://'']"

text \<open>The check of a remote URI; \<open>lower\<close> is \<open>str::to_lowercase\<close>.\<close>

definition check_remote_uri :: "(string \<Rightarrow> string) \<Rightarrow> string \<Rightarrow> unit vmm_result" where
  "check_remote_uri lower uri =
     (if \<not> list_ex (starts_with (lower uri)) ALLOWED_SCHEMES then
        Inl (InvalidConfig (''Unsupported libvirt URI scheme. Allowed: qemu://, qemu+ssh://, qemu+tls://, qemu+tcp://. Got: '' @ uri))
      else if CHR 0x00 \<in> set uri then Inl (InvalidConfig ''URI must not contain null bytes'')
      else Inr ())"

definition version_text :: "string \<Rightarrow> nat \<Rightarrow> string" where
  "version_text ty ver =
     ty @ '' '' @ dec (ver div 1000000) @ ''.'' @ dec (ver mod 1000000 div 1000) @ ''.'' @ dec (ver mod 1000)"

section \<open>Properties\<close>

text \<open>What the policy of the machine says at the moment the operation asks.\<close>

definition policy_allows :: "world \<Rightarrow> act list \<Rightarrow> string \<Rightarrow> operation \<Rightarrow> bool" where
  "policy_allows w t name op =
     (snd (enforce w (case tells w (t @ [Lookup name]) Get_Uuid of None \<Rightarrow> [] | Some u \<Rightarrow> u) op
        (t @ [Lookup name, Get_Uuid])) = Inr ())"

definition only_looked :: "act list \<Rightarrow> string \<Rightarrow> act list \<times> unit vmm_result \<Rightarrow> bool" where
  "only_looked t name r \<longleftrightarrow> fst r \<in> {t, t @ [Lookup name], t @ [Lookup name, Get_Uuid]} \<and> snd r \<noteq> Inr ()"

text \<open>The start that all operations under a policy share: nothing of what follows is reached.\<close>

lemma guarded_by_policy:
  "policy_allows w t name op
   \<or> only_looked t name (next_do (find_domain w name) (\<lambda>_. next_do (read_text w Get_Uuid) (\<lambda>u. next_do (enforce w u op) (\<lambda>_. k u))) t)"
  by (simp add: find_domain_def run policy_allows_def only_looked_def split: option.split sum.split)

text \<open>C12: An operation that the policy of the machine refuses at the moment it is asked leaves the machine
  alone: force-stopping, deleting and reconfiguring have then done nothing but look the machine up, and
  end with an error.\<close>
theorem refused_operation_changes_nothing:
  "(policy_allows w t name ForceStop \<or> only_looked t name (force_stop_vm w name t))
   \<and> (policy_allows w t name Delete \<or> only_looked t name (delete_vm w name delete_disk t))
   \<and> (policy_allows w t (vm_name c) ModifyConfig \<or> only_looked t (vm_name c) (update_vm w c t))"
proof -
  have "policy_allows w t (vm_name c) ModifyConfig \<or> only_looked t (vm_name c) (update_vm w c t)"
  proof (cases "validate_vm_name (u_alnum (the_host w)) (vm_name c)")
    case None
    then show ?thesis
      unfolding update_vm_def check_config_name_def by (simp only: None option.case run guarded_by_policy)
  qed (simp add: update_vm_def check_config_name_def run only_looked_def)
  then show ?thesis unfolding force_stop_vm_def delete_vm_def by (simp only: guarded_by_policy)
qed

section \<open>What a run leaves behind\<close>

text \<open>The part of the host a machine occupies, and what an action that succeeds changes of it.\<close>

record footprint =
  defined :: bool
  image :: bool
  saved :: bool

definition nothing :: footprint where
  "nothing = \<lparr>defined = False, image = False, saved = False\<rparr>"

definition everything :: footprint where
  "everything = \<lparr>defined = True, image = True, saved = True\<rparr>"

definition did :: "world \<Rightarrow> act list \<Rightarrow> act \<Rightarrow> bool" where
  "did w t a = (case a of
       Run args \<Rightarrow> (case runs w t args of Inl _ \<Rightarrow> False | Inr out \<Rightarrow> out_ok out)
     | _ \<Rightarrow> does w t a = None)"

definition effect :: "string \<Rightarrow> act \<Rightarrow> footprint \<Rightarrow> footprint" where
  "effect p a f = (case a of
       Define_Xml _ \<Rightarrow> f\<lparr>defined := True\<rparr>
     | Undefine \<Rightarrow> f\<lparr>defined := False\<rparr>
     | Undefine_Flags _ \<Rightarrow> f\<lparr>defined := False\<rparr>
     | Save_Config _ \<Rightarrow> f\<lparr>saved := True\<rparr>
     | Remove_File q \<Rightarrow> if q = p then f\<lparr>image := False\<rparr> else f
     | Run args \<Rightarrow> if take 2 args = [''qemu-img'', ''create''] \<and> p \<in> set args then f\<lparr>image := True\<rparr> else f
     | _ \<Rightarrow> f)"

definition footprint_of :: "world \<Rightarrow> string \<Rightarrow> footprint \<Rightarrow> act list \<Rightarrow> footprint" where
  "footprint_of w p f0 t =
     snd (fold (\<lambda>a (before, f). (before @ [a], if did w before a then effect p a f else f)) t ([], f0))"

lemma footprint_fst:
  "fst (fold (\<lambda>a (before, f). (before @ [a], if did w before a then effect p a f else f)) t (b, f)) = b @ t"
  by (induction t arbitrary: b f) auto

lemma footprint_Nil [simp]: "footprint_of w p f0 [] = f0"
  by (simp add: footprint_of_def)

lemma footprint_snoc [simp]:
  "footprint_of w p f0 (t @ [a])
     = (if did w t a then effect p a (footprint_of w p f0 t) else footprint_of w p f0 t)"
  using footprint_fst[of w p t "[]" f0] by (auto simp: footprint_of_def split: prod.splits)

lemma footprint_access [simp]: "footprint_of w p f0 (t @ map Access xs) = footprint_of w p f0 t"
proof (induction xs rule: rev_induct)
  case (snoc x xs)
  then show ?case using footprint_snoc[of w p f0 "t @ map Access xs" "Access x"] by (simp add: effect_def)
qed simp

lemma next_access [run]:
  "next_do (access_disk w p) f t = f () (t @ map Access (fix_disk_permissions (mode_at w t) (home_directory w) p))"
  by (simp add: next_do_def access_disk_def)

lemma next_set_autostart_if [run]:
  "next_do (set_autostart_if w b) f t = f () (if b then t @ [Set_Autostart True] else t)"
  by (simp add: set_autostart_if_def run)

lemma effect_cases [simp]:
  "effect p (Define_Xml x) f = f\<lparr>defined := True\<rparr>"
  "effect p Undefine f = f\<lparr>defined := False\<rparr>"
  "effect p (Undefine_Flags m) f = f\<lparr>defined := False\<rparr>"
  "effect p (Save_Config c) f = f\<lparr>saved := True\<rparr>"
  "effect p (Remove_File p) f = f\<lparr>image := False\<rparr>"
  "effect p (Make_Dir d) f = f"
  "effect p (Set_Autostart b) f = f"
  "effect p (Lookup n) f = f" "effect p Get_Uuid f = f" "effect p Get_Info f = f" "effect p Get_Xml f = f"
  "effect p Destroy f = f" "effect p (Path_Exists q) f = f" "effect p (Forget_Config u) f = f"
  "effect p (Run [''qemu-img'', ''create'', u, v, x, y, z, p, q]) f = f\<lparr>image := True\<rparr>"
  by (simp_all add: effect_def)

lemma defined_remove [simp]: "defined (effect p (Remove_File q) f) = defined f"
  by (simp add: effect_def)

lemma did_cases [simp]:
  "did w t (Define_Xml x) \<longleftrightarrow> does w t (Define_Xml x) = None"
  "did w t Undefine \<longleftrightarrow> does w t Undefine = None"
  "did w t (Undefine_Flags n) \<longleftrightarrow> does w t (Undefine_Flags n) = None"
  "did w t (Save_Config c) \<longleftrightarrow> does w t (Save_Config c) = None"
  "did w t (Remove_File p) \<longleftrightarrow> does w t (Remove_File p) = None"
  "did w t (Run args) \<longleftrightarrow> (case runs w t args of Inl _ \<Rightarrow> False | Inr out \<Rightarrow> out_ok out)"
  by (simp_all add: did_def)

definition all_or_nothing :: "world \<Rightarrow> string \<Rightarrow> act list \<times> unit vmm_result \<Rightarrow> bool" where
  "all_or_nothing w p r \<longleftrightarrow> footprint_of w p nothing (fst r) = (if snd r = Inr () then everything else nothing)"

lemma all_or_nothing_end [simp]:
  "all_or_nothing w p (t, Inl e) \<longleftrightarrow> footprint_of w p nothing t = nothing"
  "all_or_nothing w p (t, Inr ()) \<longleftrightarrow> footprint_of w p nothing t = everything"
  by (simp_all add: all_or_nothing_def)

lemma create_qcow2_all_or_nothing:
  assumes "footprint_of w p nothing t = nothing"
    and "\<And>t. footprint_of w p nothing t = nothing\<lparr>image := True\<rparr> \<Longrightarrow> all_or_nothing w p (f () t)"
  shows "all_or_nothing w p (next_do (create_qcow2 w p sz) f t)"
  using assms
  by (simp add: create_qcow2_def run del: append_assoc split: option.split sum.split)

lemma define_and_save:
  assumes "\<And>t. does w t Undefine = None" and "\<And>t. does w t (Remove_File p) = None"
    and "footprint_of w p nothing t = nothing\<lparr>image := True\<rparr>"
  shows "all_or_nothing w p (next_do (attempt w (Define_Xml x)) (\<lambda>defined.
     case defined of
       Some e \<Rightarrow> next_do (attempt w (Remove_File p)) (\<lambda>_. stop (Libvirt e))
     | None \<Rightarrow>
         next_do (set_autostart_if w b) (\<lambda>_.
         next_do (attempt w (Save_Config c)) (\<lambda>saved.
         case saved of
           None \<Rightarrow> give ()
         | Some e \<Rightarrow>
             next_do (attempt w Undefine) (\<lambda>_.
             next_do (attempt w (Remove_File p)) (\<lambda>_. stop (Io e)))))) t)"
  using assms
  by (simp add: run nothing_def everything_def del: append_assoc split: option.split)

lemma make_parent_all_or_nothing:
  assumes "footprint_of w p nothing t = nothing"
    and "\<And>t. footprint_of w p nothing t = nothing \<Longrightarrow> all_or_nothing w p (f () t)"
  shows "all_or_nothing w p (next_do (make_parent w q) f t)"
  using assms by (simp add: run del: append_assoc split: option.split)

lemma access_all_or_nothing:
  "all_or_nothing w p (f () (t @ map Access (fix_disk_permissions (mode_at w t) (home_directory w) q)))
   \<Longrightarrow> all_or_nothing w p (next_do (access_disk w q) f t)"
  by (simp add: run)



text \<open>A paused machine is deleted without being stopped: no \<open>Destroy\<close> is ever asked for it.\<close>
theorem paused_machine_not_stopped:
  assumes "state_of w [Lookup name, Get_Uuid] = Inr DOMAIN_PAUSED"
  shows "Destroy \<notin> set (fst (delete_vm w name dd []))"
proof -
  have "sat (delete_vm w name dd) [] (\<lambda>t r. Destroy \<notin> set t)"
    unfolding delete_vm_def find_domain_def delete_image_def
    by (intro vcg) (use assms in \<open>simp_all add: DOMAIN_PAUSED_def DOMAIN_RUNNING_def\<close>)
  then show ?thesis by (simp add: sat_def)
qed

theorem paused_machine_not_stopped_witness:
  "Destroy \<notin> set (fst (delete_vm (demo_world 3 []) ''vm'' True []))"
  by (rule paused_machine_not_stopped) (simp add: DOMAIN_PAUSED_def)

text \<open>The domain at the moment a file is removed.\<close>

definition undefined_before :: "world \<Rightarrow> act list \<Rightarrow> act \<Rightarrow> bool" where
  "undefined_before w t a \<longleftrightarrow> whenever (\<lambda>t1 b. b = a \<longrightarrow> \<not> defined (footprint_of w [] everything t1)) t"

lemma undefined_before_snoc [simp]:
  "undefined_before w [] a"
  "undefined_before w (t @ [b]) a
     \<longleftrightarrow> undefined_before w t a \<and> (b = a \<longrightarrow> \<not> defined (footprint_of w [] everything t))"
  by (simp_all add: undefined_before_def)

lemma policy_allows_steps:
  "policy_allows w t name op
     = (snd (enforce w (case tells w (t @ [Lookup name]) Get_Uuid of None \<Rightarrow> [] | Some u \<Rightarrow> u) op
        ((t @ [Lookup name]) @ [Get_Uuid])) = Inr ())"
  by (simp add: policy_allows_def)



lemma defined_effect_other [simp]:
  "effect p (Spawn args) f = f" "effect p (Open_New q) f = f" "effect p (Write q s) f = f"
  by (simp_all add: effect_def)



text \<open>Every change of the settings that succeeds has discarded the firmware variables of the machine
  (the NVRAM file).\<close>
theorem update_discards_firmware_variables:
  assumes "snd (update_vm w c []) = Inr ()"
  shows "Undefine_Flags UNDEFINE_NVRAM \<in> set (fst (update_vm w c []))"
proof -
  have "sat (update_vm w c) [] (\<lambda>t r. r = Inr () \<longrightarrow> Undefine_Flags UNDEFINE_NVRAM \<in> set t)"
    unfolding update_vm_def check_config_name_def find_domain_def by (intro vcg; simp)
  with assms show ?thesis by (simp add: sat_def)
qed

theorem update_discards_firmware_variables_witness:
  "\<exists>c. Undefine_Flags UNDEFINE_NVRAM \<in> set (fst (update_vm (demo_world 5 []) c []))"
proof
  let ?c = "(default_config [])\<lparr>vm_name := ''vm''\<rparr>"
  have "validate_vm_name (u_alnum demo_host) ''vm'' = None" "validate_vm_name_for_command ''vm'' = Inr ()"
    by code_simp+
  then have "snd (update_vm (demo_world 5 []) ?c []) = Inr ()"
    by (simp add: update_vm_def check_config_name_def find_domain_def run DOMAIN_RUNNING_def)
  then show "Undefine_Flags UNDEFINE_NVRAM \<in> set (fst (update_vm (demo_world 5 []) ?c []))"
    by (rule update_discards_firmware_variables)
qed

text \<open>A VNC console never opens when the number in the domain XML is a TCP port, as libvirt writes it:
  it is taken for a display number, and no viewer is started.\<close>
theorem vnc_port_taken_for_display:
  assumes "\<And>t. parse_xml w t = es" and "extract_spice_port es = None" and "extract_vnc_port es = Some port" and "5900 \<le> port"
  shows "snd (open_console w name []) \<noteq> Inr () \<and> (\<forall>args. Spawn args \<notin> set (fst (open_console w name [])))"
proof -
  have "1000 < port" using assms(4) by unat_arith
  then have "sat (open_console w name) [] (\<lambda>t r. r \<noteq> Inr () \<and> (\<forall>args. Spawn args \<notin> set t))"
    unfolding open_console_def find_domain_def by (intro vcg) (simp_all add: assms)
  then show ?thesis by (simp add: sat_def)
qed

text \<open>A name that may be given to a machine can later be used to find it exactly when it is ASCII.\<close>
theorem accepted_name_usable_iff:
  assumes "validate_vm_name ua name = None"
  shows "validate_vm_name_for_command name = Inr () \<longleftrightarrow> list_all is_ascii_byte name"
proof -
  have plain: "list_all arg_char name" using validate_vm_name_chars[OF assms] .
  have "list_all (ascii_char (\<lambda>c. ascii_alnum c \<or> c \<in> set '' -_.'')) (chars name) \<longleftrightarrow> list_all is_ascii_byte name"
    using plain unfolding ascii_char_all by (auto simp: list_all_iff arg_char_def cli_name_char_def)
  moreover have "CHR 0x00 \<notin> set name"
    using plain arg_char_printable by (fastforce simp: list_all_iff)
  ultimately show ?thesis
    using assms by (auto simp: validate_vm_name_for_command_def validate_vm_name_def split: if_splits)
qed

theorem accepted_name_usable_iff_witness:
  "validate_vm_name (\<lambda>_. True) [CHR ''e'', CHR 0xC3, CHR 0xA9] = None
   \<and> validate_vm_name_for_command [CHR ''e'', CHR 0xC3, CHR 0xA9] \<noteq> Inr ()"
proof -
  have "validate_vm_name (\<lambda>_. True) [CHR ''e'', CHR 0xC3, CHR 0xA9] = None" by code_simp
  moreover from this have "validate_vm_name_for_command [CHR ''e'', CHR 0xC3, CHR 0xA9] \<noteq> Inr ()"
    by (subst accepted_name_usable_iff) (simp_all add: is_ascii_byte_def)
  ultimately show ?thesis ..
qed

theorem vnc_port_taken_for_display_witness:
  "snd (open_console (demo_world 1 [Empty_Event ''graphics'' [(''type'', ''vnc''), (''port'', ''5900'')]]) ''vm'' []) \<noteq> Inr ()"
proof -
  let ?es = "[Empty_Event ''graphics'' [(''type'', ''vnc''), (''port'', ''5900'')]]"
  have "extract_spice_port ?es = None" "extract_vnc_port ?es = Some 5900"
    by (simp_all add: extract_spice_port_def extract_vnc_port_def has_attr_def port_attr_def parse_unsigned_def ascii_defs)
  then show ?thesis using vnc_port_taken_for_display[of "demo_world 1 ?es" ?es 5900 "''vm''"] by simp
qed

section \<open>The boot menu\<close>

text \<open>A boot file that could not be written stays; \<open>create_new\<close> then refuses it on every later try of the
  same process.\<close>

lemma failed_write_leaves_file:
  "sat (boot_to_firmware w name) [] (\<lambda>t r. last t = Write p s \<longrightarrow> r \<noteq> Inr () \<and> (\<forall>q. Remove_File q \<notin> set t))"
  unfolding boot_to_firmware_def Let_def by (intro vcg; simp add: sat_def)

end
