(* ===== verification/Templates.thy ===== *)
theory Templates
  imports Config_Bounds Names Paths "HOL-Library.Multiset"
begin

text \<open>
  The built-in templates of operating systems (vmm-core/src/template.rs) and the configurations made
  from a template, for an architecture or for a power user (vmm-core/src/config.rs). The random id and
  the directory of the disks are arguments.
\<close>

section \<open>Categories\<close>

datatype os_category = LinuxDesktop | LinuxServer | CatWindows | CatMacOS | BsdOther

primrec category_label_key :: "os_category \<Rightarrow> string" where
  "category_label_key LinuxDesktop = ''template.cat-linux-desktop''"
| "category_label_key LinuxServer = ''template.cat-linux-server''"
| "category_label_key CatWindows = ''template.cat-windows''"
| "category_label_key CatMacOS = ''template.cat-macos''"
| "category_label_key BsdOther = ''template.cat-bsd-other''"

primrec category_icon :: "os_category \<Rightarrow> string" where
  "category_icon LinuxDesktop = [CHR 0xF0, CHR 0x9F, CHR 0x90, CHR 0xA7]"
| "category_icon LinuxServer = [CHR 0xF0, CHR 0x9F, CHR 0x96, CHR 0xA5]"
| "category_icon CatWindows = [CHR 0xF0, CHR 0x9F, CHR 0xAA, CHR 0x9F]"
| "category_icon CatMacOS = [CHR 0xF0, CHR 0x9F, CHR 0x8D, CHR 0x8E]"
| "category_icon BsdOther = [CHR 0xE2, CHR 0x9A, CHR 0x99]"

primrec category_order :: "os_category \<Rightarrow> u8" where
  "category_order LinuxDesktop = 0"
| "category_order LinuxServer = 1"
| "category_order CatWindows = 2"
| "category_order CatMacOS = 3"
| "category_order BsdOther = 4"

definition all_categories :: "os_category list" where
  "all_categories = [LinuxDesktop, LinuxServer, CatWindows, CatMacOS, BsdOther]"

section \<open>The table\<close>

record os_template =
  template_id :: string
  template_label :: string
  template_os :: os_type
  category :: os_category
  recommended_cpus :: u32
  recommended_memory_mib :: u64
  recommended_disk_gib :: u64
  template_uefi :: bool
  template_description :: string

abbreviation template ::
  "string \<Rightarrow> string \<Rightarrow> os_type \<Rightarrow> os_category \<Rightarrow> u32 \<Rightarrow> u64 \<Rightarrow> u64 \<Rightarrow> bool \<Rightarrow> string \<Rightarrow> os_template" where
  "template i l os cat cpu mem dsk efi desc \<equiv> \<lparr>template_id = i, template_label = l, template_os = os, category = cat,
     recommended_cpus = cpu, recommended_memory_mib = mem, recommended_disk_gib = dsk, template_uefi = efi,
     template_description = desc\<rparr>"

definition linux_desktop_templates :: "os_template list" where
  "linux_desktop_templates = [
    template ''ubuntu-desktop'' ''Ubuntu Desktop (24.04+)'' Linux LinuxDesktop 2 4096 25 True
      ''Popular, user-friendly Linux desktop'',
    template ''fedora-workstation'' ''Fedora Workstation'' Linux LinuxDesktop 2 4096 25 True
      ''Cutting-edge Linux with GNOME desktop'',
    template ''linux-mint'' ''Linux Mint'' Linux LinuxDesktop 2 2048 20 True
      ''Elegant, easy-to-use Linux desktop'',
    template ''debian-desktop'' ''Debian (Desktop)'' Linux LinuxDesktop 2 2048 20 True
      ''Rock-solid stable Linux with desktop'',
    template ''arch-linux'' ''Arch Linux'' Linux LinuxDesktop 2 2048 20 True
      ''Lightweight, rolling-release Linux'',
    template ''opensuse-tumbleweed'' ''openSUSE Tumbleweed'' Linux LinuxDesktop 2 4096 25 True
      ''Rolling-release with YaST management'',
    template ''pop-os'' ''Pop!_OS'' Linux LinuxDesktop 2 4096 25 True
      ''Developer-friendly Ubuntu derivative'',
    template ''elementary-os'' ''elementary OS'' Linux LinuxDesktop 2 4096 25 True
      ''Beautiful, privacy-respecting desktop'',
    template ''zorin-os'' ''Zorin OS'' Linux LinuxDesktop 2 4096 25 True
      ''Familiar desktop for Windows switchers'',
    template ''manjaro'' ''Manjaro Linux'' Linux LinuxDesktop 2 4096 25 True
      ''User-friendly Arch-based rolling-release'',
    template ''kde-neon'' ''KDE neon'' Linux LinuxDesktop 2 4096 25 True
      ''Latest KDE Plasma on Ubuntu LTS base'',
    template ''nobara'' ''Nobara Linux'' Linux LinuxDesktop 4 4096 40 True
      ''Gaming-optimized Fedora variant'']"

definition linux_server_templates :: "os_template list" where
  "linux_server_templates = [
    template ''ubuntu-server'' ''Ubuntu Server'' Linux LinuxServer 1 1024 10 True
      ''Ubuntu LTS for headless workloads'',
    template ''debian-server'' ''Debian (Server)'' Linux LinuxServer 1 1024 10 True
      ''Rock-solid stable server distribution'',
    template ''rocky-linux'' ''Rocky Linux'' Linux LinuxServer 2 2048 20 True
      ''RHEL-compatible enterprise Linux'',
    template ''almalinux'' ''AlmaLinux'' Linux LinuxServer 2 2048 20 True
      ''Community RHEL-compatible distribution'',
    template ''opensuse-leap'' ''openSUSE Leap'' Linux LinuxServer 1 2048 20 True
      ''Stable release with enterprise support'',
    template ''alpine-linux'' ''Alpine Linux'' Linux LinuxServer 1 512 5 True
      ''Ultra-lightweight musl-based Linux'',
    template ''nixos'' ''NixOS'' Linux LinuxServer 2 2048 20 True
      ''Declarative, reproducible Linux system'',
    template ''linux-server'' ''Linux Server (minimal)'' Linux LinuxServer 1 1024 10 True
      ''Generic minimal server without desktop'']"

definition windows_templates :: "os_template list" where
  "windows_templates = [
    template ''windows-11'' ''Windows 11'' Windows CatWindows 4 8192 64 True
      ''Microsoft Windows 11 (requires license)'',
    template ''windows-10'' ''Windows 10'' Windows CatWindows 2 4096 40 True
      ''Microsoft Windows 10 (requires license)'',
    template ''windows-server-2022'' ''Windows Server 2022'' Windows CatWindows 4 8192 64 True
      ''Windows Server for enterprise workloads'',
    template ''windows-server-2019'' ''Windows Server 2019'' Windows CatWindows 2 4096 40 True
      ''Proven Windows Server LTS release'']"

definition macos_templates :: "os_template list" where
  "macos_templates = [
    template ''macos-sequoia'' ''macOS Sequoia (15)'' MacOS CatMacOS 4 8192 80 True
      ''Apple macOS 15 (OpenCore + Intel CPU)'',
    template ''macos-sonoma'' ''macOS Sonoma (14)'' MacOS CatMacOS 4 8192 80 True
      ''Apple macOS 14 (OpenCore + Intel CPU)'',
    template ''macos-ventura'' ''macOS Ventura (13)'' MacOS CatMacOS 4 8192 64 True
      ''Apple macOS 13 (OpenCore + Intel CPU)'',
    template ''macos-monterey'' ''macOS Monterey (12)'' MacOS CatMacOS 4 4096 64 True
      ''Apple macOS 12 (OpenCore + Intel CPU)'',
    template ''macos-big-sur'' ''macOS Big Sur (11)'' MacOS CatMacOS 2 4096 64 True
      ''Apple macOS 11 (OpenCore + Intel CPU)'',
    template ''macos-catalina'' ''macOS Catalina (10.15)'' MacOS CatMacOS 2 4096 64 False
      ''Apple macOS 10.15 (OpenCore + Intel CPU)'']"

definition bsd_templates :: "os_template list" where
  "bsd_templates = [
    template ''freebsd'' ''FreeBSD'' FreeBSD BsdOther 2 2048 20 True
      ''FreeBSD operating system'',
    template ''openbsd'' ''OpenBSD'' FreeBSD BsdOther 1 1024 10 True
      ''Security-focused BSD operating system'',
    template ''netbsd'' ''NetBSD'' FreeBSD BsdOther 1 1024 10 True
      ''Portable BSD for any platform'',
    template ''haiku'' ''Haiku'' OtherOs BsdOther 2 2048 16 False
      ''BeOS-inspired open-source OS'',
    template ''reactos'' ''ReactOS'' OtherOs BsdOther 1 1024 10 False
      ''Open-source Windows-compatible OS'',
    template ''custom'' ''Custom / Other'' OtherOs BsdOther 2 2048 20 False
      ''Manual configuration for any OS'']"

definition builtin_templates :: "os_template list" where
  "builtin_templates = linux_desktop_templates @ linux_server_templates @ windows_templates @ macos_templates @ bsd_templates"

definition templates_by_category :: "os_category \<Rightarrow> (nat \<times> os_template) list" where
  "templates_by_category cat = List.filter (\<lambda>(i, t). category t = cat) (enumerate 0 builtin_templates)"

section \<open>New configurations\<close>

definition disk_path_in :: "host \<Rightarrow> string \<Rightarrow> uuid \<Rightarrow> string" where
  "disk_path_in h dir i = dir @ ''/'' @ uuid_to_string h i @ ''.qcow2''"

definition from_template :: "host \<Rightarrow> string \<Rightarrow> uuid \<Rightarrow> string \<Rightarrow> os_template \<Rightarrow> string option \<Rightarrow> vm_config" where
  "from_template h dir i name t img = (default_config i)
     \<lparr>vm_name := sanitize_vm_name (u_alnum h) name,
      vcpus := recommended_cpus t,
      memory_mib := recommended_memory_mib t,
      disk_size_gib := recommended_disk_gib t,
      disk_path := disk_path_in h dir i,
      iso_path := img,
      os_type := template_os t,
      uefi := template_uefi t,
      tpm_enabled := template_uefi t\<rparr>"

definition from_arch :: "host \<Rightarrow> string \<Rightarrow> uuid \<Rightarrow> string \<Rightarrow> qemu_arch \<Rightarrow> string \<Rightarrow> string \<Rightarrow> vm_config" where
  "from_arch h dir i name arch machine cpu =
     (let d = recommended_defaults arch in (default_config i)
     \<lparr>vm_name := sanitize_vm_name (u_alnum h) name,
      vcpus := cpus d,
      memory_mib := ad_memory_mib d,
      disk_size_gib := disk_gib d,
      disk_path := disk_path_in h dir i,
      uefi := ad_uefi d,
      usb_support := has_usb_support arch,
      audio := has_audio_support arch,
      tpm_enabled := ad_uefi d,
      box_type := HardwareLab,
      qemu_arch := arch,
      machine_type := machine,
      vm_cpu_model := cpu,
      use_kvm := can_use_kvm_on_x86 arch\<rparr>)"

definition for_power_user :: "host \<Rightarrow> uuid \<Rightarrow> string \<Rightarrow> vm_config" where
  "for_power_user h i name = (default_config i)
     \<lparr>vm_name := sanitize_vm_name (u_alnum h) name,
      box_type := PowerUser,
      vcpus := 4,
      memory_mib := 8192,
      disk_size_gib := 50,
      disk_cache := ''none'',
      disk_io_mode := ''native'',
      hugepages := False,
      cpu_topology := Some \<lparr>sockets = 1, cores = 4, threads = 1\<rparr>,
      gpu_accel := True,
      disk_mode := Snapshotted,
      side_channel_mitigations := True\<rparr>"

section \<open>Properties\<close>

lemma builtin_within:
  "list_all (\<lambda>t. 1 \<le> recommended_cpus t \<and> recommended_cpus t \<le> 8 \<and> 512 \<le> recommended_memory_mib t
     \<and> recommended_memory_mib t \<le> 8192 \<and> 5 \<le> recommended_disk_gib t \<and> recommended_disk_gib t \<le> 80) builtin_templates"
  by (simp add: builtin_templates_def linux_desktop_templates_def linux_server_templates_def windows_templates_def
      macos_templates_def bsd_templates_def)

lemma arch_defaults_within:
  "1 \<le> cpus (recommended_defaults a) \<and> cpus (recommended_defaults a) \<le> 8
   \<and> 128 \<le> ad_memory_mib (recommended_defaults a) \<and> ad_memory_mib (recommended_defaults a) \<le> 8192
   \<and> 1 \<le> disk_gib (recommended_defaults a) \<and> disk_gib (recommended_defaults a) \<le> 80"
  by (cases a) (simp_all add: recommended_defaults_def)

lemmas in_bounds_defs = config_in_bounds_def numbers_in_bounds_def lists_in_bounds_def topology_in_bounds_def
  default_config_def valid_cache_modes_def valid_io_modes_def

text \<open>C16: Every configuration the program makes itself, from any built-in template, for any architecture or
  for a power user, is in the bounds that loading enforces: validation returns it unchanged.\<close>
theorem new_configurations_valid:
  assumes "t \<in> set builtin_templates"
  shows "validate_config_bounds (from_template h dir i name t img) = Some (from_template h dir i name t img)
    \<and> validate_config_bounds (from_arch h dir i name arch machine cpu) = Some (from_arch h dir i name arch machine cpu)
    \<and> validate_config_bounds (for_power_user h i name) = Some (for_power_user h i name)"
proof (intro conjI)
  have "1 \<le> recommended_cpus t \<and> recommended_cpus t \<le> 8 \<and> 512 \<le> recommended_memory_mib t
     \<and> recommended_memory_mib t \<le> 8192 \<and> 5 \<le> recommended_disk_gib t \<and> recommended_disk_gib t \<le> 80"
    using builtin_within assms by (simp add: list_all_iff)
  then show "validate_config_bounds (from_template h dir i name t img) = Some (from_template h dir i name t img)"
    by (intro validate_id) (simp add: from_template_def in_bounds_defs word_le_nat_alt)
  show "validate_config_bounds (from_arch h dir i name arch machine cpu) = Some (from_arch h dir i name arch machine cpu)"
    using arch_defaults_within[of arch]
    by (intro validate_id) (simp add: from_arch_def Let_def in_bounds_defs word_le_nat_alt)
  show "validate_config_bounds (for_power_user h i name) = Some (for_power_user h i name)"
    by (intro validate_id) (simp add: for_power_user_def in_bounds_defs topology_product_def)
qed

theorem new_configurations_valid_witness:
  "validate_config_bounds (from_template demo_host ''/d'' [] ''vm'' (hd windows_templates) None)
     = Some (from_template demo_host ''/d'' [] ''vm'' (hd windows_templates) None)"
proof -
  have "hd windows_templates \<in> set builtin_templates" by (simp add: builtin_templates_def windows_templates_def)
  then show ?thesis using new_configurations_valid by blast
qed

lemma categories_partition:
  "mset (concat (map (\<lambda>c. List.filter (\<lambda>(i, t). category t = c) xs) all_categories)) = mset xs"
proof (induction xs)
  case (Cons x xs)
  then show ?case by (cases x; cases "category (snd x)") (simp_all add: all_categories_def)
qed (simp add: all_categories_def)

text \<open>The categories split the table: together their lists hold every template exactly once, with its
  place in the table, and no two templates have the same id.\<close>
theorem categories_split_table:
  "mset (concat (map templates_by_category all_categories)) = mset (enumerate 0 builtin_templates)
   \<and> distinct (map template_id builtin_templates) \<and> distinct all_categories
   \<and> sorted (map category_order all_categories)"
proof -
  have "distinct (map template_id builtin_templates)"
    by (simp add: builtin_templates_def linux_desktop_templates_def linux_server_templates_def windows_templates_def
      macos_templates_def bsd_templates_def)
  moreover have "mset (concat (map templates_by_category all_categories)) = mset (enumerate 0 builtin_templates)"
    unfolding templates_by_category_def[abs_def] by (rule categories_partition)
  ultimately show ?thesis by (simp add: all_categories_def)
qed

text \<open>A name can be cleaned into one that the check of new machines refuses.\<close>

lemma cleaned_name_refused:
  "sanitize_vm_name (\<lambda>_. False) ''VM (copy)'' = ''VM (copy)'' \<and> validate_vm_name (\<lambda>_. False) ''VM (copy)'' \<noteq> None"
  by code_simp

end
