(* ===== verification/Vm_Store.thy ===== *)
theory Vm_Store
  imports Config_Bounds Paths Errors "HOL-Library.Multiset" "HOL-Library.List_Lexorder" "HOL-Library.Char_ord"
begin

text \<open>
  The stored configurations (vmm-core/src/config.rs, the trait \<open>VmConfigIo\<close>): one JSON file per machine in
  a directory, written, read, listed and deleted, and the export through a temporary file. The codecs
  (serde) and what the file system answers are arguments. The interface \<open>keyed_files\<close> says what a
  directory of files promises.
\<close>

section \<open>Directories of files\<close>

text \<open>The entries of a directory in the order in which it lists them; \<open>None\<close> is a file that cannot be read.\<close>

type_synonym dir_entries = "(string \<times> string option) list"

definition put_file :: "string \<Rightarrow> string option \<Rightarrow> dir_entries \<Rightarrow> dir_entries" where
  "put_file n content es =
     (if n \<in> fst ` set es then map (\<lambda>(m, c). if m = n then (m, content) else (m, c)) es else es @ [(n, content)])"

definition remove_entry :: "string \<Rightarrow> dir_entries \<Rightarrow> dir_entries" where
  "remove_entry n es = List.filter (\<lambda>(m, c). m \<noteq> n) es"

locale keyed_files =
  fixes get :: "'d \<Rightarrow> 'k \<Rightarrow> 'v option"
    and put :: "'k \<Rightarrow> 'v \<Rightarrow> 'd \<Rightarrow> 'd"
    and del :: "'k \<Rightarrow> 'd \<Rightarrow> 'd"
  assumes get_put: "get (put k v d) = (get d)(k \<mapsto> v)"
    and get_del: "get (del k d) = (get d)(k := None)"
begin

lemma put_put: "get (put k v (put k u d)) = get (put k v d)"
  by (simp add: get_put)

lemma del_put: "get (del k (put k v d)) = get (del k d)"
  by (simp add: get_put get_del)

lemma put_other: "k \<noteq> l \<Longrightarrow> get (put k v d) l = get d l"
  by (simp add: get_put)

text \<open>A run of writes and deletions has the effect of the same run on the map.\<close>

lemma run_changes:
  "get (fold (\<lambda>(k, v). case v of Some c \<Rightarrow> put k c | None \<Rightarrow> del k) cs d) = fold (\<lambda>(k, v) m. m(k := v)) cs (get d)"
  by (induction cs arbitrary: d) (auto simp: get_put get_del split: option.split)

end

interpretation entries: keyed_files map_of put_file remove_entry
proof
  show "map_of (put_file k v d) = (map_of d)(k \<mapsto> v)" for k v d
  proof -
    have "map_of (map (\<lambda>(m, c). if m = k then (m, v) else (m, c)) d) = (\<lambda>n. if n = k \<and> k \<in> fst ` set d then Some v else map_of d n)"
      by (induction d) auto
    moreover have "map_of (d @ [(k, v)]) = (map_of d)(k \<mapsto> v)" if "k \<notin> fst ` set d"
    proof -
      from that have "map_of d k = None" by (simp add: map_of_eq_None_iff)
      then show ?thesis by (auto simp: map_add_def fun_eq_iff split: option.split)
    qed
    ultimately show ?thesis by (auto simp: put_file_def)
  qed
  show "map_of (remove_entry k d) = (map_of d)(k := None)" for k d
    by (induction d) (auto simp: remove_entry_def)
qed

section \<open>The store\<close>

record vm_dir =
  present :: bool
  files_in :: dir_entries

definition config_dir :: "string \<Rightarrow> string" where
  "config_dir home = home @ ''/.local/share/libre-vmm/configs''"

definition iso_dir :: "string \<Rightarrow> string" where
  "iso_dir home = home @ ''/.local/share/libre-vmm/isos''"

definition default_vm_dir :: "bool \<Rightarrow> bool \<Rightarrow> string \<Rightarrow> string" where
  "default_vm_dir images_exist created home =
     (if images_exist \<and> created then ''/var/lib/libvirt/images/libre-vmm''
      else home @ ''/.local/share/libre-vmm/disks'')"

definition config_file :: "host \<Rightarrow> uuid \<Rightarrow> string" where
  "config_file h i = uuid_to_string h i @ ''.json''"

text \<open>What a write answers; one that fails on the way has truncated the file and written a prefix.\<close>

datatype write_outcome = Written | Not_Opened string | Cut nat string

definition write_file :: "write_outcome \<Rightarrow> string \<Rightarrow> string \<Rightarrow> dir_entries \<Rightarrow> dir_entries \<times> unit vmm_result" where
  "write_file w n s es =
     (case w of
        Written \<Rightarrow> (put_file n (Some s) es, Inr ())
      | Not_Opened e \<Rightarrow> (es, Inl (Io e))
      | Cut k e \<Rightarrow> (put_file n (Some (take k s)) es, Inl (Io e)))"

definition save_config ::
  "(vm_config \<Rightarrow> string vmm_result) \<Rightarrow> host \<Rightarrow> string option \<Rightarrow> write_outcome \<Rightarrow> vm_config \<Rightarrow> vm_dir \<Rightarrow> vm_dir \<times> unit vmm_result" where
  "save_config enc h mkdir w c d =
     (case mkdir of
        Some e \<Rightarrow> (d, Inl (Io e))
      | None \<Rightarrow> (case enc c of
          Inl e \<Rightarrow> (d\<lparr>present := True\<rparr>, Inl e)
        | Inr json \<Rightarrow> (let (es, r) = write_file w (config_file h (vm_id c)) json (files_in d) in
            (d\<lparr>present := True, files_in := es\<rparr>, r))))"

text \<open>\<open>None\<close> is the panic of the validation.\<close>

definition read_config :: "(string \<Rightarrow> vm_config vmm_result) \<Rightarrow> string \<Rightarrow> vm_config vmm_result option" where
  "read_config decode json =
     (case decode json of Inl e \<Rightarrow> Some (Inl e) | Inr c \<Rightarrow> map_option Inr (validate_config_bounds c))"

definition load_config :: "(string \<Rightarrow> vm_config vmm_result) \<Rightarrow> host \<Rightarrow> uuid \<Rightarrow> vm_dir \<Rightarrow> vm_config vmm_result option" where
  "load_config decode h i d =
     (case map_of (files_in d) (config_file h i) of
        None \<Rightarrow> Some (Inl (Io ''not found''))
      | Some None \<Rightarrow> Some (Inl (Io ''unreadable''))
      | Some (Some json) \<Rightarrow> read_config decode json)"

definition has_extension :: "string \<Rightarrow> string \<Rightarrow> bool" where
  "has_extension ext n = (case rsplit_once (CHR ''.'') n of None \<Rightarrow> False | Some (stem, e) \<Rightarrow> stem \<noteq> [] \<and> e = ext)"

fun read_all :: "(string \<Rightarrow> vm_config vmm_result) \<Rightarrow> dir_entries \<Rightarrow> vm_config list vmm_result option" where
  "read_all decode [] = Some (Inr [])"
| "read_all decode ((n, content) # es) =
     (if \<not> has_extension ''json'' n then read_all decode es
      else (case content of
        None \<Rightarrow> Some (Inl (Io ''unreadable''))
      | Some json \<Rightarrow> (case decode json of
          Inl e \<Rightarrow> read_all decode es
        | Inr c \<Rightarrow> Option.bind (validate_config_bounds c) (\<lambda>v. map_option (map_sum id ((#) v)) (read_all decode es)))))"

definition list_all_configs :: "(string \<Rightarrow> vm_config vmm_result) \<Rightarrow> vm_dir \<Rightarrow> vm_config list vmm_result option" where
  "list_all_configs decode d =
     (if \<not> present d then Some (Inr []) else map_option (map_sum id (sort_key vm_name)) (read_all decode (files_in d)))"

definition delete_config :: "host \<Rightarrow> string option \<Rightarrow> vm_config \<Rightarrow> vm_dir \<Rightarrow> vm_dir \<times> unit vmm_result" where
  "delete_config h remove c d =
     (if config_file h (vm_id c) \<in> fst ` set (files_in d)
      then (case remove of
          Some e \<Rightarrow> (d, Inl (Io e))
        | None \<Rightarrow> (d\<lparr>files_in := remove_entry (config_file h (vm_id c)) (files_in d)\<rparr>, Inr ()))
      else (d, Inr ()))"

section \<open>Exports\<close>

definition with_extension :: "string \<Rightarrow> string \<Rightarrow> string" where
  "with_extension ext n = (case rsplit_once (CHR ''.'') n of
       Some (stem, e) \<Rightarrow> (if stem = [] then n else stem) @ ''.'' @ ext
     | None \<Rightarrow> n @ ''.'' @ ext)"

text \<open>The target is named by its file name in its directory. A failed rename removes the temporary file.\<close>

definition atomic_write :: "write_outcome \<Rightarrow> string option \<Rightarrow> string \<Rightarrow> string \<Rightarrow> dir_entries \<Rightarrow> dir_entries \<times> unit vmm_result" where
  "atomic_write w rename n s es =
     (let tmp = with_extension ''tmp'' n; (es', r) = write_file w tmp s es in
      case r of
        Inl e \<Rightarrow> (es', Inl e)
      | Inr _ \<Rightarrow> (case rename of
          Some e \<Rightarrow> (remove_entry tmp es', Inl (Io e))
        | None \<Rightarrow> (put_file n (Some s) (if tmp = n then es' else remove_entry tmp es'), Inr ())))"

definition to_text :: "string \<Rightarrow> (vm_config \<Rightarrow> string + string) \<Rightarrow> vm_config \<Rightarrow> string vmm_result" where
  "to_text what enc c = (case enc c of Inl e \<Rightarrow> Inl (InvalidConfig (what @ '': '' @ e)) | Inr s \<Rightarrow> Inr s)"

definition from_text :: "string \<Rightarrow> (string \<Rightarrow> string + vm_config) \<Rightarrow> string \<Rightarrow> vm_config vmm_result option" where
  "from_text what decode s =
     (case decode s of
        Inl e \<Rightarrow> Some (Inl (InvalidConfig (what @ '': '' @ e)))
      | Inr c \<Rightarrow> map_option Inr (validate_config_bounds c))"

definition to_toml :: "(vm_config \<Rightarrow> string + string) \<Rightarrow> vm_config \<Rightarrow> string vmm_result" where
  "to_toml = to_text ''toml''"

definition to_yaml :: "(vm_config \<Rightarrow> string + string) \<Rightarrow> vm_config \<Rightarrow> string vmm_result" where
  "to_yaml = to_text ''yaml''"

definition from_toml :: "(string \<Rightarrow> string + vm_config) \<Rightarrow> string \<Rightarrow> vm_config vmm_result option" where
  "from_toml = from_text ''toml''"

definition from_yaml :: "(string \<Rightarrow> string + vm_config) \<Rightarrow> string \<Rightarrow> vm_config vmm_result option" where
  "from_yaml = from_text ''yaml''"

definition save_text ::
  "(vm_config \<Rightarrow> string vmm_result) \<Rightarrow> write_outcome \<Rightarrow> string option \<Rightarrow> string \<Rightarrow> vm_config \<Rightarrow> dir_entries \<Rightarrow> dir_entries \<times> unit vmm_result" where
  "save_text enc w rename n c es = (case enc c of Inl e \<Rightarrow> (es, Inl e) | Inr s \<Rightarrow> atomic_write w rename n s es)"

definition save_toml ::
  "(vm_config \<Rightarrow> string + string) \<Rightarrow> write_outcome \<Rightarrow> string option \<Rightarrow> string \<Rightarrow> vm_config \<Rightarrow> dir_entries \<Rightarrow> dir_entries \<times> unit vmm_result" where
  "save_toml enc = save_text (to_toml enc)"

definition save_yaml ::
  "(vm_config \<Rightarrow> string + string) \<Rightarrow> write_outcome \<Rightarrow> string option \<Rightarrow> string \<Rightarrow> vm_config \<Rightarrow> dir_entries \<Rightarrow> dir_entries \<times> unit vmm_result" where
  "save_yaml enc = save_text (to_yaml enc)"

section \<open>Properties\<close>

text \<open>The abstract store: a map from ids to configurations, and what the operations do to it.\<close>

datatype store_op = Put vm_config | Drop vm_config

definition spec_step :: "store_op \<Rightarrow> (uuid \<Rightarrow> vm_config option) \<Rightarrow> uuid \<Rightarrow> vm_config option" where
  "spec_step a m = (case a of Put c \<Rightarrow> m(vm_id c \<mapsto> c) | Drop c \<Rightarrow> m(vm_id c := None))"

definition store_step :: "(vm_config \<Rightarrow> string vmm_result) \<Rightarrow> host \<Rightarrow> store_op \<Rightarrow> vm_dir \<Rightarrow> vm_dir" where
  "store_step enc h a d =
     (case a of Put c \<Rightarrow> fst (save_config enc h None Written c d) | Drop c \<Rightarrow> fst (delete_config h None c d))"

text \<open>A directory that stores a map: its files are those of the ids of the map, each once, and each reads back
  as the configuration of its id.\<close>

definition stores :: "(string \<Rightarrow> vm_config vmm_result) \<Rightarrow> host \<Rightarrow> vm_dir \<Rightarrow> (uuid \<Rightarrow> vm_config option) \<Rightarrow> bool" where
  "stores decode h d m \<longleftrightarrow>
     distinct (map fst (files_in d))
     \<and> (\<forall>i. map_of (files_in d) (config_file h i) = None \<longleftrightarrow> m i = None)
     \<and> (\<forall>i c. m i = Some c \<longrightarrow> vm_id c = i \<and> (\<exists>json. map_of (files_in d) (config_file h i) = Some (Some json) \<and> read_config decode json = Some (Inr c)))
     \<and> (\<forall>n \<in> fst ` set (files_in d). \<exists>i. n = config_file h i)
     \<and> (present d \<or> files_in d = [])"

lemma put_file_names: "map fst (put_file n c es) = (if n \<in> fst ` set es then map fst es else map fst es @ [n])"
  by (auto simp: put_file_def)

lemma remove_entry_names: "map fst (remove_entry n es) = List.filter (\<lambda>m. m \<noteq> n) (map fst es)"
  by (induction es) (auto simp: remove_entry_def)

lemma put_file_set: "fst ` set (put_file n c es) = insert n (fst ` set es)"
  using put_file_names[of n c es] by (metis image_set insert_absorb list.simps(15) rotate1.simps(2) set_rotate1)

lemma remove_entry_set: "fst ` set (remove_entry n es) = fst ` set es - {n}"
  by (auto simp: remove_entry_def)

lemma remove_entry_mem [simp]: "x \<in> set (remove_entry n es) \<longleftrightarrow> x \<in> set es \<and> fst x \<noteq> n"
  by (cases x) (auto simp: remove_entry_def)

lemma config_file_inj: "inj (uuid_to_string h) \<Longrightarrow> config_file h i = config_file h j \<longleftrightarrow> i = j"
  by (auto simp: config_file_def dest: injD)

lemma stores_empty: "stores decode h \<lparr>present = False, files_in = []\<rparr> Map.empty"
  by (simp add: stores_def)

lemma stores_step:
  assumes "stores decode h d m" "inj (uuid_to_string h)"
    and "\<And>c. a = Put c \<Longrightarrow> \<exists>json. enc c = Inr json \<and> read_config decode json = Some (Inr c)"
  shows "stores decode h (store_step enc h a d) (spec_step a m)"
proof (cases a)
  case (Put c)
  with assms(3) obtain json where "enc c = Inr json" "read_config decode json = Some (Inr c)" by blast
  with Put assms(1) show ?thesis
    by (auto simp: stores_def store_step_def spec_step_def save_config_def write_file_def put_file_names put_file_set
        entries.get_put config_file_inj[OF assms(2)])
next
  case (Drop c)
  with assms(1) show ?thesis
    by (auto simp: stores_def store_step_def spec_step_def delete_config_def remove_entry_names remove_entry_set
        entries.get_del map_of_eq_None_iff config_file_inj[OF assms(2)])
qed

lemma stores_run:
  assumes "inj (uuid_to_string h)"
    and "\<And>c. Put c \<in> set ops \<Longrightarrow> \<exists>json. enc c = Inr json \<and> read_config decode json = Some (Inr c)"
    and "stores decode h d m"
  shows "stores decode h (fold (store_step enc h) ops d) (fold spec_step ops m)"
  using assms(2,3)
proof (induction ops arbitrary: d m)
  case (Cons a ops)
  then show ?case using stores_step[OF _ assms(1)] by simp
qed simp

lemma stores_load:
  assumes "stores decode h d m"
  shows "load_config decode h i d = (case m i of Some c \<Rightarrow> Some (Inr c) | None \<Rightarrow> Some (Inl (Io ''not found'')))"
proof (cases "m i")
  case None
  with assms have "map_of (files_in d) (config_file h i) = None" unfolding stores_def by blast
  with None show ?thesis by (simp add: load_config_def)
next
  case (Some c)
  with assms obtain json where "map_of (files_in d) (config_file h i) = Some (Some json)" "read_config decode json = Some (Inr c)"
    unfolding stores_def by blast
  with Some show ?thesis by (simp add: load_config_def)
qed

lemma config_file_json: "uuid_to_string h i \<noteq> [] \<Longrightarrow> has_extension ''json'' (config_file h i)"
  by (simp add: has_extension_def config_file_def rsplit_once_def)

definition value_of :: "(string \<Rightarrow> vm_config vmm_result) \<Rightarrow> string option \<Rightarrow> vm_config" where
  "value_of decode content = projr (the (read_config decode (the content)))"

lemma stores_entry:
  assumes "stores decode h d m" "(n, c) \<in> set (files_in d)"
  shows "\<exists>i. n = config_file h i \<and> m i = Some (value_of decode c) \<and> vm_id (value_of decode c) = i
    \<and> (\<exists>json. c = Some json \<and> read_config decode json = Some (Inr (value_of decode c)))"
proof -
  from assms obtain i where i: "n = config_file h i" unfolding stores_def by fastforce
  from assms have c: "map_of (files_in d) n = Some c" unfolding stores_def by simp
  with i assms(1) obtain v where "m i = Some v" unfolding stores_def by (metis not_Some_eq)
  with i c assms(1) show ?thesis unfolding stores_def by (fastforce simp: value_of_def)
qed

lemma stores_mem:
  assumes "stores decode h d m" "m i = Some c"
  shows "\<exists>json. (config_file h i, json) \<in> set (files_in d) \<and> value_of decode json = c"
proof -
  from assms obtain json where "map_of (files_in d) (config_file h i) = Some (Some json)" "read_config decode json = Some (Inr c)"
    unfolding stores_def by blast
  then show ?thesis by (intro exI[of _ "Some json"]) (simp add: value_of_def map_of_SomeD)
qed

text \<open>Reading every file of a directory whose files all read back.\<close>

lemma read_all_good:
  assumes "\<forall>(n, c) \<in> set es. has_extension ''json'' n \<and> (\<exists>json. c = Some json \<and> read_config decode json = Some (Inr (value_of decode c)))"
  shows "read_all decode es = Some (Inr (map (value_of decode \<circ> snd) es))"
  using assms
proof (induction es)
  case (Cons e es)
  obtain n c where e: "e = (n, c)" by (cases e)
  with Cons.prems obtain json where j: "has_extension ''json'' n" "c = Some json" "read_config decode json = Some (Inr (value_of decode c))" by auto
  then obtain c' where "decode json = Inr c'" "validate_config_bounds c' = Some (value_of decode c)"
    by (auto simp: read_config_def split: sum.splits)
  with e j Cons show ?case by simp
qed simp

lemma stores_list:
  assumes "stores decode h d m" "\<And>i. uuid_to_string h i \<noteq> []"
  shows "\<exists>cs. list_all_configs decode d = Some (Inr cs) \<and> set cs = ran m \<and> distinct cs \<and> sorted (map vm_name cs)"
proof -
  let ?vs = "map (value_of decode \<circ> snd) (files_in d)"
  have "read_all decode (files_in d) = Some (Inr ?vs)"
    using stores_entry[OF assms(1)] config_file_json[OF assms(2)] by (intro read_all_good) fast
  moreover have "set ?vs = ran m"
    using stores_entry[OF assms(1)] stores_mem[OF assms(1)] by (force simp: ran_def)
  moreover have "map (config_file h \<circ> vm_id) ?vs = map fst (files_in d)"
    using stores_entry[OF assms(1)] by fastforce
  then have "distinct ?vs" using assms(1) unfolding stores_def by (metis distinct_map)
  moreover have "present d \<or> ran m = {}" using assms(1) \<open>set ?vs = ran m\<close> by (auto simp: stores_def)
  ultimately show ?thesis by (auto simp: list_all_configs_def)
qed


definition plain_host :: host where
  "plain_host = demo_host\<lparr>uuid_to_string := \<lambda>i. CHR ''u'' # map (\<lambda>b. char_of (unat b)) i\<rparr>"

lemma plain_host_inj: "inj (uuid_to_string plain_host)"
proof -
  have "inj (\<lambda>b::u8. char_of (unat b) :: char)"
  proof (rule injI)
    fix a b :: u8
    assume "char_of (unat a) = (char_of (unat b) :: char)"
    then have "of_char (char_of (unat a) :: char) = (of_char (char_of (unat b) :: char) :: nat)" by simp
    with unsigned_less[where 'a = nat, of a] unsigned_less[where 'a = nat, of b] have "unat a = unat b" by simp
    then show "a = b" by (rule unsigned_word_eqI)
  qed
  then have "inj (map (\<lambda>b::u8. char_of (unat b) :: char))" by (rule inj_mapI)
  then show ?thesis by (auto simp: plain_host_def inj_def)
qed


text \<open>Exporting writes a temporary file first: under every outcome the exported file is untouched or holds
  the whole text, and it holds it exactly when the export reports success, unless its own extension is
  \<open>tmp\<close>, where the file itself is the temporary one.\<close>
theorem export_atomic:
  assumes "\<not> has_extension ''tmp'' n"
  shows "map_of (fst (atomic_write w rename n s es)) n
    = (if snd (atomic_write w rename n s es) = Inr () then Some (Some s) else map_of es n)"
proof -
  have "with_extension ''tmp'' n \<noteq> n"
  proof (cases "rsplit_once (CHR ''.'') n")
    case (Some p)
    then obtain stem e where p: "rsplit_once (CHR ''.'') n = Some (stem, e)" by (cases p) auto
    then have "n = stem @ CHR ''.'' # e" by (simp add: rsplit_once_Some)
    with assms p show ?thesis by (auto simp: with_extension_def has_extension_def)
  qed (simp add: with_extension_def)
  then show ?thesis
    by (auto simp: atomic_write_def write_file_def Let_def entries.get_put entries.get_del split: write_outcome.split option.split)
qed

text \<open>Saving a configuration writes the file in place: a write that fails on the way leaves a prefix.\<close>
theorem save_in_place:
  assumes "enc c = Inr json" and "k < length json"
  shows "map_of (files_in (fst (save_config enc h None (Cut k e) c d))) (config_file h (vm_id c)) = Some (Some (take k json))
    \<and> snd (save_config enc h None (Cut k e) c d) = Inl (Io e)"
  using assms by (simp add: save_config_def write_file_def entries.get_put)

text \<open>One unreadable configuration file hides every machine.\<close>

lemma unreadable_hides_all:
  "has_extension ''json'' n \<Longrightarrow> list_all_configs decode \<lparr>present = True, files_in = (n, None) # es\<rparr> = Some (Inl (Io ''unreadable''))"
  by (simp add: list_all_configs_def)

theorem export_atomic_witness:
  "map_of (fst (atomic_write (Cut 1 ''full'') None ''vm.toml'' ''new'' [(''vm.toml'', Some ''old'')])) ''vm.toml'' = Some (Some ''old'')"
proof -
  have "\<not> has_extension ''tmp'' ''vm.toml''" by (simp add: has_extension_def rsplit_once_def)
  moreover have "snd (atomic_write (Cut 1 ''full'') None ''vm.toml'' ''new'' [(''vm.toml'', Some ''old'')]) \<noteq> Inr ()"
    by (simp add: atomic_write_def write_file_def Let_def)
  ultimately show ?thesis using export_atomic[of "''vm.toml''"] by simp
qed

end
