(* ===== verification/Path_Text.thy ===== *)
theory Path_Text
  imports Paths Disk_Access Text_Lines
begin

text \<open>
  Operations of \<open>std::path\<close> on paths as texts: components, parent, file name, extension, joining.
\<close>

text \<open>\<open>Path::parent\<close> of a path without \<open>..\<close>; a leading dot of a relative path is a component.\<close>

definition components :: "string \<Rightarrow> string list" where
  "components p = (if \<not> is_absolute p \<and> hd (split_on (CHR ''/'') p) = ''.'' then ''.'' # path_parts p else path_parts p)"

definition parent_of :: "string \<Rightarrow> string option" where
  "parent_of p =
     (if components p = [] then None
      else if is_absolute p then Some (render (butlast (components p)))
      else Some (join ''/'' (butlast (components p))))"

definition file_name :: "string \<Rightarrow> string option" where
  "file_name p = (if path_parts p = [] \<or> last (path_parts p) = ''..'' then None else Some (last (path_parts p)))"

text \<open>A name that starts with its only dot has no extension.\<close>

definition split_extension :: "string \<Rightarrow> string \<times> string option" where
  "split_extension n = (case rsplit_once (CHR ''.'') n of
       Some (stem, ext) \<Rightarrow> if stem = [] then (n, None) else (stem, Some ext)
     | None \<Rightarrow> (n, None))"

definition extension :: "string \<Rightarrow> string option" where
  "extension p = Option.bind (file_name p) (\<lambda>n. snd (split_extension n))"

definition file_stem :: "string \<Rightarrow> string option" where
  "file_stem p = map_option (\<lambda>n. fst (split_extension n)) (file_name p)"

text \<open>A joined path that is absolute replaces the first.\<close>

definition path_join :: "string \<Rightarrow> string \<Rightarrow> string" where
  "path_join d n = (if starts_with n ''/'' then n else if d = [] \<or> last d = CHR ''/'' then d @ n else d @ ''/'' @ n)"

lemma file_name_no_slash: "file_name p = Some n \<Longrightarrow> CHR ''/'' \<notin> set n"
proof -
  have "x \<in> set (path_parts p) \<Longrightarrow> CHR ''/'' \<notin> set x" for x
    using split_on_no_sep unfolding path_parts_def by fastforce
  then show "file_name p = Some n \<Longrightarrow> ?thesis"
    by (auto simp: file_name_def split: if_splits dest: last_in_set)
qed

lemma extension_no_slash: "extension p = Some e \<Longrightarrow> CHR ''/'' \<notin> set e"
proof -
  assume "extension p = Some e"
  then obtain n where n: "file_name p = Some n" "snd (split_extension n) = Some e"
    by (cases "file_name p") (auto simp: extension_def)
  then have "set e \<subseteq> set n"
    by (auto simp: split_extension_def rsplit_once_Some split: option.splits if_splits prod.splits)
  with file_name_no_slash[OF n(1)] show ?thesis by blast
qed

end
