(* ===== verification/Disk_Manage.thy ===== *)
theory Disk_Manage
  imports Disk_Image Path_Text
begin

text \<open>
  vmm-core/src/disk\_manage.rs: analysing, compacting and repairing an image, adding a disk to a running
  machine and removing it. The file lock of the compaction has a step relation of its own: processes
  that open, lock, release and remove the lock file in any order.
\<close>

section \<open>Paths\<close>

text \<open>The result of \<open>canonicalize\<close> is the host's; the text of its error is left out.\<close>

definition canonical_disk_path :: "host \<Rightarrow> string \<Rightarrow> string vmm_result" where
  "canonical_disk_path h p =
     (if p = [] then Inl (DiskError ''Disk path cannot be empty'')
      else if has_parent_dir p then Inl (DiskError (''Path traversal not allowed in disk path: '' @ p))
      else (case parent_of p of
        None \<Rightarrow> Inl (DiskError (''Disk path must be absolute: '' @ p))
      | Some dir \<Rightarrow>
          if dir = [] then Inl (DiskError (''Disk path must be absolute: '' @ p))
          else (case canonicalize h dir of
            None \<Rightarrow> Inl (DiskError (''Cannot resolve disk path parent directory '' @ sq dir))
          | Some real \<Rightarrow>
              (let name = last (components p) in
               if name = ''.'' then Inl (DiskError (''Disk path has no filename: '' @ p))
               else if CHR ''/'' \<in> set name \<or> CHR 0x5C \<in> set name \<or> CHR 0x00 \<in> set name then
                 Inl (DiskError (''Invalid characters in disk filename: '' @ name))
               else Inr ((if real = ''/'' then [] else real) @ ''/'' @ name)))))"

definition existing_image :: "world \<Rightarrow> string \<Rightarrow> string run" where
  "existing_image w p =
     next_do (check (canonical_disk_path (the_host w) p)) (\<lambda>safe.
     next_do (exists_path w safe) (\<lambda>there.
     if there then give safe else stop (DiskError (''Disk image not found: '' @ safe))))"

section \<open>Analysing, compacting, repairing\<close>

record disk_usage =
  virtual_size_bytes :: u64
  actual_size_bytes :: u64
  usage_format :: string
  wasted_bytes :: u64
  snapshots_size_bytes :: u64

text \<open>\<open>read\<close>: the JSON reader; the last part are the sizes of the snapshots that have one. Their sum is of
  64 bits; a sum that does not fit panics in a debug build and wraps in a release build, as here.\<close>

definition or_default :: "'a \<Rightarrow> 'a option \<Rightarrow> 'a" where
  "or_default d v = (case v of None \<Rightarrow> d | Some x \<Rightarrow> x)"

definition analyze_disk ::
  "(string \<Rightarrow> string + (u64 option \<times> u64 option \<times> string option \<times> u64 list)) \<Rightarrow> world \<Rightarrow> string \<Rightarrow> disk_usage run" where
  "analyze_disk read w p =
     next_do (existing_image w p) (\<lambda>safe.
     next_do (command w (\<lambda>e. DiskError (''qemu-img not found: '' @ e)) [''qemu-img'', ''info'', ''--output=json'', safe]) (\<lambda>out.
     if \<not> out_ok out then stop (DiskError (''qemu-img info failed: '' @ out_stderr out))
     else (case read (out_stdout out) of
         Inl e \<Rightarrow> stop (DiskError e)
       | Inr (v, a, f, snaps) \<Rightarrow> give \<lparr>virtual_size_bytes = or_default 0 v, actual_size_bytes = or_default 0 a,
           usage_format = or_default ''unknown'' f,
           wasted_bytes = (if or_default 0 a > 0 then sum_list snaps else 0),
           snapshots_size_bytes = sum_list snaps\<rparr>)))"

text \<open>The first word of the output of \<open>sha256sum\<close>.\<close>

definition first_word :: "string \<Rightarrow> string option" where
  "first_word s = (case takeWhile (\<lambda>g. \<not> is_whitespace g) (dropWhile is_whitespace (chars s)) of [] \<Rightarrow> None | gs \<Rightarrow> Some (of_chars gs))"

definition file_sha256 :: "world \<Rightarrow> string \<Rightarrow> string option run" where
  "file_sha256 w p =
     next_do (try_command w [''sha256sum'', p]) (\<lambda>r. give (case r of
         Inl e \<Rightarrow> None
       | Inr out \<Rightarrow> if out_ok out then first_word (out_stdout out) else None))"

definition size_or :: "u64 \<Rightarrow> string + u64 \<Rightarrow> u64" where
  "size_or d r = (case r of Inl e \<Rightarrow> d | Inr n \<Rightarrow> n)"

text \<open>The fallback when the compacted image cannot be renamed over the original: copy, compare the sizes
  and the hashes, remove the copy's source.\<close>

definition copy_over :: "world \<Rightarrow> string \<Rightarrow> string \<Rightarrow> string \<Rightarrow> string \<Rightarrow> unit run" where
  "copy_over w tmp safe lock e =
     next_do (attempt w (Copy tmp safe)) (\<lambda>copied.
     case copied of
       Some e2 \<Rightarrow>
         next_do (attempt w (Remove_File tmp)) (\<lambda>_.
         next_do (attempt w (Remove_File lock)) (\<lambda>_.
         stop (DiskError (''Failed to replace original disk: rename='' @ e @ '', copy='' @ e2))))
     | None \<Rightarrow>
         next_do (size_file w tmp) (\<lambda>s1.
         next_do (size_file w safe) (\<lambda>s2.
         if size_or 0 s1 = 0 \<or> size_or 0 s2 \<noteq> size_or 0 s1 then
           next_do (attempt w (Remove_File lock)) (\<lambda>_.
           stop (DiskError (''Integrity check failed after copy: source size='' @ dec_w (size_or 0 s1)
             @ '', dest size='' @ dec_w (size_or 0 s2) @ '' (CWE-367)'')))
         else
           next_do (file_sha256 w tmp) (\<lambda>h1.
           next_do (file_sha256 w safe) (\<lambda>h2.
           if h1 = None \<or> h2 = None \<or> h1 \<noteq> h2 then
             next_do (attempt w (Remove_File lock)) (\<lambda>_.
             stop (DiskError ''Integrity check failed: SHA-256 hash mismatch after copy (CWE-367)''))
           else next_do (attempt w (Remove_File tmp)) (\<lambda>_. give ()))))))"

text \<open>\<open>fresh\<close> is the random part of the name of the temporary image. The lock is held until the function
  returns, or until it is released before the lock file is removed.\<close>

definition compact_disk :: "world \<Rightarrow> string \<Rightarrow> string \<Rightarrow> u64 run" where
  "compact_disk w fresh p =
     next_do (existing_image w p) (\<lambda>safe.
     next_do (size_file w safe) (\<lambda>size1.
     case size1 of Inl e \<Rightarrow> stop (DiskError (''Cannot read disk metadata: '' @ e)) | Inr original \<Rightarrow>
     (let tmp = safe @ ''.compact-'' @ fresh; lock = safe @ ''.compact-lock'' in
     next_do (perform w (\<lambda>e. DiskError (''Failed to create compact lock file: '' @ e)) (Create_File lock)) (\<lambda>_.
     next_do (perform w (\<lambda>_. DiskError ''Disk compaction already in progress (locked by another process)'') (Lock_File lock)) (\<lambda>_.
     next_do (command w (\<lambda>e. DiskError (''qemu-img not found: '' @ e)) [''qemu-img'', ''convert'', ''-O'', ''qcow2'', ''-c'', safe, tmp]) (\<lambda>out.
     if \<not> out_ok out then
       next_do (attempt w (Remove_File tmp)) (\<lambda>_.
       next_do (attempt w (Remove_File lock)) (\<lambda>_.
       stop (DiskError (''qemu-img convert (compact) failed: '' @ out_stderr out))))
     else
       next_do (attempt w (Rename tmp safe)) (\<lambda>renamed.
       next_do (case renamed of None \<Rightarrow> give () | Some e \<Rightarrow> copy_over w tmp safe lock e) (\<lambda>_.
       next_do (attempt w (Remove_File lock)) (\<lambda>_.
       next_do (size_file w safe) (\<lambda>size2.
       (let new = size_or original size2 in give (if new \<le> original then original - new else 0))))))))))))"

text \<open>\<open>code\<close>: the exit code of the command as far as it has one.\<close>

definition check_and_repair :: "(cmd_output \<Rightarrow> int option) \<Rightarrow> world \<Rightarrow> string \<Rightarrow> string run" where
  "check_and_repair code w p =
     next_do (existing_image w p) (\<lambda>safe.
     next_do (command w (\<lambda>e. DiskError (''qemu-img not found: '' @ e)) [''qemu-img'', ''check'', ''--repair=leaks'', safe]) (\<lambda>out.
     if \<not> out_ok out \<and> or_default (- 1) (code out) = 3 then
       stop (DiskError (''Disk has unfixable errors: '' @ out_stdout out @ '' '' @ out_stderr out))
     else give (if out_stderr out = [] then out_stdout out else out_stdout out @ ''\<newline>'' @ out_stderr out)))"

section \<open>Hot-plugging\<close>

datatype disk_bus = Virtio | Scsi | Sata | Nvme

primrec bus_xml_value :: "disk_bus \<Rightarrow> string" where
  "bus_xml_value Virtio = ''virtio''"
| "bus_xml_value Scsi = ''scsi''"
| "bus_xml_value Sata = ''sata''"
| "bus_xml_value Nvme = ''nvme''"

definition validate_target_dev :: "string \<Rightarrow> unit vmm_result" where
  "validate_target_dev d =
     (if d = [] then Inl (DiskError ''target_dev must not be empty (CWE-20)'')
      else if length d > 16 then Inl (DiskError (''target_dev too long (max 16 chars): '' @ d @ '' (CWE-20)''))
      else if CHR 0x00 \<in> set d then Inl (DiskError ''target_dev must not contain null bytes (CWE-626)'')
      else if length d = 3 \<and> (d ! 0 = CHR ''v'' \<or> d ! 0 = CHR ''s'') \<and> d ! 1 = CHR ''d'' \<and> ascii_lower (d ! 2) then Inr ()
      else if length d = 7 \<and> take 4 d = ''nvme'' \<and> ascii_digit (d ! 4) \<and> d ! 5 = CHR ''n'' \<and> ascii_digit (d ! 6) then Inr ()
      else Inl (DiskError (''target_dev '' @ sq d @ '' does not match allowed patterns vd[a-z], sd[a-z], or nvme[0-9]n[0-9] (CWE-20)'')))"

definition cache_modes :: "string list" where
  "cache_modes = [''none'', ''writeback'', ''writethrough'', ''unsafe'', ''directsync'']"

definition validate_cache_mode :: "string \<Rightarrow> unit vmm_result" where
  "validate_cache_mode c =
     (if c \<notin> set cache_modes then
        Inl (DiskError (''cache mode '' @ sq c @ '' is not in allowlist '' @ debug_list cache_modes @ '' (CWE-20)''))
      else Inr ())"

definition validate_vm_name_for_hotplug :: "string \<Rightarrow> unit vmm_result" where
  "validate_vm_name_for_hotplug name =
     (if name = [] then Inl (InvalidConfig ''VM name must not be empty (CWE-20)'')
      else if length name > 128 then Inl (InvalidConfig ''VM name too long (max 128 chars) (CWE-20)'')
      else if \<not> list_all (ascii_char (\<lambda>c. ascii_alnum c \<or> c \<in> set '' -_.'')) (chars name) then
        Inl (InvalidConfig (''VM name '' @ sq name @ '' contains unsafe characters (CWE-20)''))
      else if starts_with name ''-'' \<or> starts_with name ''.'' then
        Inl (InvalidConfig (''VM name '' @ sq name @ '' must not start with '' @ sq ''-'' @ '' or '' @ sq ''.'' @ '' (CWE-88)''))
      else if CHR 0x00 \<in> set name then Inl (InvalidConfig ''VM name must not contain null bytes (CWE-626)'')
      else Inr ())"

definition xml_escape_attr :: "string \<Rightarrow> string" where
  "xml_escape_attr s = replace_char apos ''&apos;'' (replace_char quot ''&quot;''
     (replace_char (CHR ''>'') ''&gt;'' (replace_char (CHR ''<'') ''&lt;'' (replace_char (CHR ''&'') ''&amp;'' s))))"

definition build_hotplug_disk_xml :: "string \<Rightarrow> string \<Rightarrow> disk_bus \<Rightarrow> string \<Rightarrow> string" where
  "build_hotplug_disk_xml p d bus cache =
     ''<disk type='' @ sq ''file'' @ '' device='' @ sq ''disk'' @ ''>\<newline>  ''
     @ ''<driver name='' @ sq ''qemu'' @ '' type='' @ sq ''qcow2'' @ '' cache='' @ sq cache @ ''/>\<newline>  ''
     @ ''<source file='' @ sq (xml_escape_attr p) @ ''/>\<newline>  ''
     @ ''<target dev='' @ sq d @ '' bus='' @ sq (bus_xml_value bus) @ ''/>\<newline>''
     @ ''</disk>''"

definition AFFECT_LIVE_AND_CONFIG :: u32 where "AFFECT_LIVE_AND_CONFIG = 3"

definition hotplug_disk :: "world \<Rightarrow> string \<Rightarrow> string \<Rightarrow> string \<Rightarrow> disk_bus \<Rightarrow> string \<Rightarrow> unit run" where
  "hotplug_disk w name p d bus cache =
     next_do (check (validate_vm_name_for_hotplug name)) (\<lambda>_.
     next_do (check (validate_target_dev d)) (\<lambda>_.
     next_do (check (validate_cache_mode cache)) (\<lambda>_.
     next_do (existing_image w p) (\<lambda>safe.
     next_do (perform w (\<lambda>_. VmNotFound name) (Lookup name)) (\<lambda>_.
     perform w (\<lambda>e. Other (''Failed to hot-add disk: '' @ e))
       (Attach_Device (build_hotplug_disk_xml safe d bus cache) AFFECT_LIVE_AND_CONFIG))))))"

lemma str_find_nonempty: "str_find xml (c # p) = Some k \<Longrightarrow> xml \<noteq> []"
  by (cases xml) auto

text \<open>The search runs over what is left after the block it looked at.\<close>

function extract_disk_element :: "string \<Rightarrow> string \<Rightarrow> string option" where
  "extract_disk_element d xml =
     (case str_find xml ''<disk'' of
        None \<Rightarrow> None
      | Some start \<Rightarrow>
          (let after = drop start xml in
           case str_find after ''</disk>'' of
             None \<Rightarrow> None
           | Some i \<Rightarrow>
               (let block = take (i + 7) after in
                if str_contains block (''dev='' @ sq d) \<or> str_contains block (''dev='' @ [quot] @ d @ [quot]) then Some block
                else extract_disk_element d (drop (i + 7) after))))"
  by pat_completeness auto

termination
proof (relation "measure (length \<circ> snd)")
qed (auto dest: str_find_nonempty)

definition hotunplug_disk :: "world \<Rightarrow> string \<Rightarrow> string \<Rightarrow> unit run" where
  "hotunplug_disk w name d =
     next_do (check (validate_vm_name_for_hotplug name)) (\<lambda>_.
     next_do (check (validate_target_dev d)) (\<lambda>_.
     next_do (perform w (\<lambda>_. VmNotFound name) (Lookup name)) (\<lambda>_.
     next_do (attempt_read w Get_Xml) (\<lambda>r.
     case r of
       None \<Rightarrow> stop (Other ''Failed to read domain XML'')
     | Some xml \<Rightarrow> (case extract_disk_element d xml of
         None \<Rightarrow> stop (DiskError (''No <disk> element found with target dev='' @ sq d @ '' on VM '' @ sq name))
       | Some el \<Rightarrow> perform w (\<lambda>e. Other (''Failed to hot-remove disk: '' @ e)) (Detach_Device el AFFECT_LIVE_AND_CONFIG))))))"

section \<open>Properties\<close>

declare extract_disk_element.simps [simp del]

lemma str_find_first_at:
  assumes "p \<noteq> []" "str_find (g @ p) p = Some (length g)"
  shows "str_find (g @ p @ r) p = Some (length g)"
  using assms(2)
proof (induction g)
  case Nil
  then show ?case using assms(1) by (cases p) (auto simp: starts_with_iff)
next
  case (Cons c g)
  have "starts_with ((c # g) @ p @ r) p = starts_with ((c # g) @ p) p"
    by (auto simp: starts_with_iff append_eq_append_conv2 append_eq_Cons_conv Cons_eq_append_conv)
  with Cons show ?case by (auto split: if_splits)
qed

text \<open>The parts of a domain XML: what stands before each disk element, the element, and the rest.\<close>

definition disk_block :: "string \<Rightarrow> bool" where
  "disk_block b \<longleftrightarrow> starts_with b ''<disk'' \<and> (\<exists>c. b = c @ ''</disk>'' \<and> str_find b ''</disk>'' = Some (length c))"

definition gap :: "string \<Rightarrow> bool" where
  "gap g \<longleftrightarrow> str_find (g @ ''<disk'') ''<disk'' = Some (length g)"

definition names_target :: "string \<Rightarrow> string \<Rightarrow> bool" where
  "names_target d b \<longleftrightarrow> str_contains b (''dev='' @ sq d) \<or> str_contains b (''dev='' @ [quot] @ d @ [quot])"

lemma extract_step:
  assumes "gap g" "disk_block b"
  shows "extract_disk_element d (g @ b @ r) = (if names_target d b then Some b else extract_disk_element d r)"
proof -
  obtain b' where b': "b = ''<disk'' @ b'" using assms(2) by (auto simp: disk_block_def starts_with_iff)
  obtain c where c: "b = c @ ''</disk>''" "str_find (c @ ''</disk>'') ''</disk>'' = Some (length c)"
    using assms(2) by (auto simp: disk_block_def)
  have "str_find (g @ b @ r) ''<disk'' = Some (length g)"
    using str_find_first_at[of "''<disk''" g "b' @ r"] assms(1) by (simp add: gap_def b')
  moreover have "str_find (b @ r) ''</disk>'' = Some (length c)"
    using str_find_first_at[of "''</disk>''" c r] c by simp
  moreover have "take (length c + 7) (b @ r) = b" "drop (length c + 7) (b @ r) = r" by (simp_all add: c(1))
  ultimately show ?thesis by (simp add: extract_disk_element.simps[of d "g @ b @ r"] names_target_def)
qed

text \<open>Removing a disk hands libvirt exactly the first disk element of the document that names the target:
  whatever stands between the disk elements, and nothing when no element names it.\<close>
theorem hot_unplug_takes_first_match:
  assumes "list_all (\<lambda>(g, b). gap g \<and> disk_block b) parts" and "str_find rest ''<disk'' = None"
  shows "extract_disk_element d (concat (map (\<lambda>(g, b). g @ b) parts) @ rest) = List.find (names_target d) (map snd parts)"
  using assms(1)
proof (induction parts)
  case Nil
  then show ?case by (simp add: extract_disk_element.simps assms(2))
next
  case (Cons p parts)
  then show ?case by (cases p) (simp add: extract_step)
qed

theorem hot_unplug_takes_first_match_witness:
  "extract_disk_element ''vdb'' (''<devices>'' @ (''<disk><target dev='' @ sq ''vda'' @ ''/></disk>'') @ '' ''
     @ (''<disk><target dev='' @ sq ''vdb'' @ ''/></disk>'') @ ''</devices>'')
   = Some (''<disk><target dev='' @ sq ''vdb'' @ ''/></disk>'')"
proof -
  let ?parts = "[(''<devices>'', ''<disk><target dev='' @ sq ''vda'' @ ''/></disk>''), ('' '', ''<disk><target dev='' @ sq ''vdb'' @ ''/></disk>'')]"
  have "gap ''<devices>''" "gap '' ''" "str_find ''</devices>'' ''<disk'' = None" by (simp_all add: gap_def starts_with_def)
  moreover have "disk_block (''<disk><target dev='' @ sq ''vda'' @ ''/></disk>'')" "disk_block (''<disk><target dev='' @ sq ''vdb'' @ ''/></disk>'')"
    unfolding disk_block_def sq_def
    by (rule conjI, simp, rule exI[of _ "''<disk><target dev='' @ apos # ''vda'' @ [apos] @ ''/>''"], simp)
      (rule conjI, simp, rule exI[of _ "''<disk><target dev='' @ apos # ''vdb'' @ [apos] @ ''/>''"], simp)
  moreover have "\<not> names_target ''vdb'' (''<disk><target dev='' @ sq ''vda'' @ ''/></disk>'')"
    "names_target ''vdb'' (''<disk><target dev='' @ sq ''vdb'' @ ''/></disk>'')" by (simp_all add: names_target_def sq_def)
  ultimately show ?thesis using hot_unplug_takes_first_match[of ?parts "''</devices>''" "''vdb''"] by simp
qed

interpretation attr_esc: escaper xml_escape_attr unescape
  by (unfold_locales) (use xesc.esc_safe xesc.unesc_esc in \<open>simp_all add: xml_escape_attr_def xml_escape_def\<close>)

lemma target_dev_alnum: "validate_target_dev d = Inr () \<Longrightarrow> list_all ascii_alnum d"
  by (auto simp: validate_target_dev_def ascii_lower_def ascii_defs numeral_eq_Suc length_Suc_conv split: if_splits)

lemma target_dev_safe: "validate_target_dev d = Inr () \<Longrightarrow> xml_safe d"
  by (rule xml_safe_alnum_all, rule target_dev_alnum)

text \<open>The XML of a new disk is well-formed for every accepted target and cache mode and for every path.\<close>
theorem hotplug_xml_well_formed:
  assumes "validate_target_dev d = Inr ()" and "validate_cache_mode c = Inr ()"
  shows "balanced (build_hotplug_disk_xml p d bus c)"
proof -
  have "xml_safe d" using assms(1) by (rule target_dev_safe)
  moreover have "xml_safe c"
    using assms(2) by (auto simp: validate_cache_mode_def cache_modes_def ascii_defs intro!: xml_safe_alnum_all split: if_splits)
  moreover have "xml_safe (bus_xml_value bus)" by (cases bus) (auto intro!: xml_safe_alnum_all simp: ascii_defs)
  ultimately show ?thesis using attr_esc.esc_safe[of p]
    by (simp add: build_hotplug_disk_xml_def balanced_def xml_eval)
qed

theorem hotplug_xml_well_formed_witness:
  "balanced (build_hotplug_disk_xml ''/d/<&>'' ''vdb'' Virtio ''none'')"
  by (rule hotplug_xml_well_formed) (code_simp, simp add: validate_cache_mode_def cache_modes_def)

section \<open>Compacting\<close>

definition convert_args :: "string \<Rightarrow> string \<Rightarrow> string list" where
  "convert_args safe tmp = [''qemu-img'', ''convert'', ''-O'', ''qcow2'', ''-c'', safe, tmp]"

definition converted :: "world \<Rightarrow> string \<Rightarrow> string \<Rightarrow> act list \<Rightarrow> bool" where
  "converted w safe tmp t \<longleftrightarrow> (\<exists>t1 t2 out. t = t1 @ Run (convert_args safe tmp) # t2
     \<and> runs w t1 (convert_args safe tmp) = Inr out \<and> out_ok out)"

lemma converted_snoc [simp]:
  "converted w safe tmp (t @ [b]) \<longleftrightarrow> converted w safe tmp t
     \<or> b = Run (convert_args safe tmp) \<and> (\<exists>out. runs w t (convert_args safe tmp) = Inr out \<and> out_ok out)"
  unfolding converted_def by (auto simp: append_eq_append_conv2 Cons_eq_append_conv append_eq_Cons_conv) blast+

definition original_kept :: "world \<Rightarrow> act list \<Rightarrow> bool" where
  "original_kept w = whenever (\<lambda>t a. \<forall>tmp safe. a = Rename tmp safe \<or> a = Copy tmp safe \<longrightarrow> converted w safe tmp t)"


text \<open>The lock of the compaction: a process opens the lock file, creating it when its path names none, locks
  the file it opened, works, and at the end releases the lock and then removes the path. A conversion that
  fails removes the path first and releases the lock on return. Files are numbered.\<close>

datatype lock_phase = Idle | Opened nat | Compacting nat | Released | Failing nat | Finished

record lock_state =
  linked :: "nat option"
  next_file :: nat
  phase :: "nat \<Rightarrow> lock_phase"

definition lock_init :: lock_state where
  "lock_init = \<lparr>linked = None, next_file = 0, phase = \<lambda>_. Idle\<rparr>"

definition locked :: "lock_state \<Rightarrow> nat \<Rightarrow> bool" where
  "locked s i \<longleftrightarrow> (\<exists>q. phase s q = Compacting i \<or> phase s q = Failing i)"

inductive lock_step :: "lock_state \<Rightarrow> lock_state \<Rightarrow> bool" where
  open_new: "phase s p = Idle \<Longrightarrow> linked s = None
    \<Longrightarrow> lock_step s (s\<lparr>linked := Some (next_file s), next_file := Suc (next_file s), phase := (phase s)(p := Opened (next_file s))\<rparr>)"
| open_old: "phase s p = Idle \<Longrightarrow> linked s = Some i \<Longrightarrow> lock_step s (s\<lparr>phase := (phase s)(p := Opened i)\<rparr>)"
| acquire: "phase s p = Opened i \<Longrightarrow> \<not> locked s i \<Longrightarrow> lock_step s (s\<lparr>phase := (phase s)(p := Compacting i)\<rparr>)"
| refused: "phase s p = Opened i \<Longrightarrow> locked s i \<Longrightarrow> lock_step s (s\<lparr>phase := (phase s)(p := Finished)\<rparr>)"
| release: "phase s p = Compacting i \<Longrightarrow> lock_step s (s\<lparr>phase := (phase s)(p := Released)\<rparr>)"
| remove: "phase s p = Released \<Longrightarrow> lock_step s (s\<lparr>linked := None, phase := (phase s)(p := Finished)\<rparr>)"
| fail: "phase s p = Compacting i \<Longrightarrow> lock_step s (s\<lparr>linked := None, phase := (phase s)(p := Failing i)\<rparr>)"
| fail_return: "phase s p = Failing i \<Longrightarrow> lock_step s (s\<lparr>phase := (phase s)(p := Finished)\<rparr>)"

inductive_cases lock_stepE: "lock_step s s'"

abbreviation lock_reach :: "lock_state \<Rightarrow> bool" where
  "lock_reach s \<equiv> lock_step\<^sup>*\<^sup>* lock_init s"

definition holds_file :: "lock_phase \<Rightarrow> nat \<Rightarrow> bool" where
  "holds_file ph i \<longleftrightarrow> ph = Compacting i \<or> ph = Failing i"

text \<open>No file is locked by two processes, and the file that a path names is never an old one.\<close>

lemma one_lock_per_file:
  "lock_reach s \<Longrightarrow> holds_file (phase s p) i \<Longrightarrow> holds_file (phase s q) i \<Longrightarrow> p = q"
proof (induction arbitrary: p q i rule: rtranclp_induct)
  case base
  then show ?case by (simp add: lock_init_def holds_file_def)
next
  case (step s s')
  then show ?case
    by (elim lock_stepE) (auto simp: holds_file_def locked_def split: if_splits)
qed

text \<open>C18: Nevertheless two processes can compact one image at the same time: the second one opened the file
  before the first removed its path, and locks it after the first released it; the third finds no file and
  creates a new one.\<close>
theorem two_compactions_at_once:
  "\<exists>s i j. lock_reach s \<and> phase s 1 = Compacting i \<and> phase s 2 = Compacting j"
proof -
  let ?s = "\<lambda>l n a b c. \<lparr>linked = l, next_file = n, phase = (\<lambda>_. Idle)(0 := a, 1 := b, 2 := c)\<rparr>"
  note step = rtranclp.rtrancl_into_rtrancl[of lock_step lock_init, OF _ back_subst[of "lock_step _"]]
  have "?s None 0 Idle Idle Idle = lock_init" by (auto simp: lock_init_def)
  then have "lock_reach (?s None 0 Idle Idle Idle)" by simp
  then have "lock_reach (?s (Some 0) 1 (Opened 0) Idle Idle)"
    by (rule step[OF _ lock_step.open_new[of _ 0]]) (auto simp: locked_def)
  then have "lock_reach (?s (Some 0) 1 (Compacting 0) Idle Idle)"
    by (rule step[OF _ lock_step.acquire[of _ 0 0]]) (auto simp: locked_def)
  then have "lock_reach (?s (Some 0) 1 (Compacting 0) (Opened 0) Idle)"
    by (rule step[OF _ lock_step.open_old[of _ 1 0]]) (auto simp: locked_def)
  then have "lock_reach (?s (Some 0) 1 Released (Opened 0) Idle)"
    by (rule step[OF _ lock_step.release[of _ 0 0]]) (auto simp: locked_def)
  then have "lock_reach (?s (Some 0) 1 Released (Compacting 0) Idle)"
    by (rule step[OF _ lock_step.acquire[of _ 1 0]]) (auto simp: locked_def)
  then have "lock_reach (?s None 1 Finished (Compacting 0) Idle)"
    by (rule step[OF _ lock_step.remove[of _ 0]]) (auto simp: locked_def)
  then have "lock_reach (?s (Some 1) 2 Finished (Compacting 0) (Opened 1))"
    by (rule step[OF _ lock_step.open_new[of _ 2]]) (auto simp: locked_def)
  then have "lock_reach (?s (Some 1) 2 Finished (Compacting 0) (Compacting 1))"
    by (rule step[OF _ lock_step.acquire[of _ 2 1]]) (auto simp: locked_def)
  then show ?thesis by (intro exI[of _ "?s (Some 1) 2 Finished (Compacting 0) (Compacting 1)"] exI[of _ 0] exI[of _ 1]) simp
qed

end
