(* ===== verification/Base64.thy ===== *)
theory Base64
  imports Prelude
begin

text \<open>
  The two base64 decoders for the output of guest programs (\<open>base64_decode_simple\<close> of
  vmm-core/src/guest\_agent.rs and \<open>base64_decode\<close> of guest\_file\_manager.rs), compared with an encoder of
  RFC 4648. Bytes are words, the tables are computed as the code computes them.
\<close>

section \<open>The decoders\<close>

definition alphabet :: string where
  "alphabet = ''ABCDEFGHIJKLMNOPQRSTUVWXYZabcdefghijklmnopqrstuvwxyz0123456789+/''"

definition b64_table :: "nat \<Rightarrow> u8" where
  "b64_table n = (case List.find (\<lambda>(c, i). byte_of c = n) (zip alphabet [0..<64]) of None \<Rightarrow> 0xFF | Some (c, i) \<Rightarrow> of_nat i)"

abbreviation pad :: char where "pad \<equiv> CHR ''=''"

text \<open>Four characters give up to three bytes; fewer than four at the end are dropped.\<close>

definition three_bytes :: "u32 \<Rightarrow> bool \<Rightarrow> bool \<Rightarrow> u8 list" where
  "three_bytes triple second third =
     [ucast (drop_bit 16 triple)] @ (if second then [ucast (drop_bit 8 triple)] else []) @ (if third then [ucast triple] else [])"

definition triple_of :: "u8 \<Rightarrow> u8 \<Rightarrow> u8 \<Rightarrow> u8 \<Rightarrow> u32" where
  "triple_of b0 b1 b2 b3 = or (push_bit 18 (ucast b0)) (or (push_bit 12 (ucast b1)) (or (push_bit 6 (ucast b2)) (ucast b3)))"

fun decode_groups :: "(char \<Rightarrow> u8) \<Rightarrow> (char \<Rightarrow> u8) \<Rightarrow> string \<Rightarrow> u8 list" where
  "decode_groups f g (c0 # c1 # c2 # c3 # cs) =
     three_bytes (triple_of (f c0) (f c1) (g c2) (g c3)) (c2 \<noteq> pad) (c3 \<noteq> pad) @ decode_groups f g cs"
| "decode_groups f g cs = []"

definition simple_lookup :: "char \<Rightarrow> u8" where
  "simple_lookup c = (if c = pad then 0 else b64_table (byte_of c mod 128))"

definition base64_decode_simple :: "string \<Rightarrow> u8 list" where
  "base64_decode_simple s = decode_groups simple_lookup simple_lookup
     (List.filter (\<lambda>c. c = pad \<or> byte_of c < 128 \<and> b64_table (byte_of c) \<noteq> 0xFF) s)"

text \<open>The other one drops line breaks only, and looks a padding character up in its first two places.\<close>

definition base64_decode :: "string \<Rightarrow> u8 list" where
  "base64_decode s = decode_groups (\<lambda>c. b64_table (byte_of c mod 128)) simple_lookup
     (List.filter (\<lambda>c. c \<noteq> CHR 0x0A \<and> c \<noteq> CHR 0x0D) s)"

section \<open>The encoding\<close>

definition b64_char :: "u8 \<Rightarrow> char" where
  "b64_char v = alphabet ! unat v"

fun base64_encode :: "u8 list \<Rightarrow> string" where
  "base64_encode [] = []"
| "base64_encode [a] = [b64_char (drop_bit 2 a), b64_char (push_bit 4 (and a 3)), pad, pad]"
| "base64_encode [a, b] = [b64_char (drop_bit 2 a), b64_char (or (push_bit 4 (and a 3)) (drop_bit 4 b)),
     b64_char (push_bit 2 (and b 15)), pad]"
| "base64_encode (a # b # c # bs) = [b64_char (drop_bit 2 a), b64_char (or (push_bit 4 (and a 3)) (drop_bit 4 b)),
     b64_char (or (push_bit 2 (and b 15)) (drop_bit 6 c)), b64_char (and c 63)] @ base64_encode bs"

section \<open>Properties\<close>

lemma alphabet_chars:
  "length alphabet = 64" "distinct alphabet"
  "list_all (\<lambda>c. byte_of c < 128 \<and> c \<noteq> pad \<and> c \<noteq> CHR 0x0A \<and> c \<noteq> CHR 0x0D) alphabet"
  by (simp_all add: alphabet_def)

lemma b64_table_alphabet:
  assumes "i < 64"
  shows "b64_table (byte_of (alphabet ! i)) = of_nat i"
proof -
  let ?z = "zip alphabet [0..<64]"
  have "List.find (\<lambda>(c, k). byte_of c = byte_of (alphabet ! i)) ?z = Some (alphabet ! i, i)"
    unfolding find_Some_iff
  proof (intro exI conjI allI impI)
    show "i < length ?z" "(alphabet ! i, i) = ?z ! i" "case ?z ! i of (c, k) \<Rightarrow> byte_of c = byte_of (alphabet ! i)"
      using assms by (simp_all add: alphabet_chars(1))
    fix j assume "j < i"
    with assms alphabet_chars(1,2) have "alphabet ! j \<noteq> alphabet ! i" by (simp add: nth_eq_iff_index_eq)
    with \<open>j < i\<close> assms show "\<not> (case ?z ! j of (c, k) \<Rightarrow> byte_of c = byte_of (alphabet ! i))"
      by (simp add: alphabet_chars(1))
  qed
  then show ?thesis by (simp add: b64_table_def)
qed

lemma b64_char:
  assumes "v < 64"
  shows "b64_table (byte_of (b64_char v)) = v" "byte_of (b64_char v) < 128" "b64_char v \<noteq> pad"
    "b64_char v \<noteq> CHR 0x0A" "b64_char v \<noteq> CHR 0x0D"
proof -
  have v: "unat v < 64" using assms by (simp add: word_less_nat_alt)
  then show "b64_table (byte_of (b64_char v)) = v" by (simp add: b64_char_def b64_table_alphabet)
  have "b64_char v \<in> set alphabet" using v alphabet_chars(1) by (simp add: b64_char_def)
  with alphabet_chars(3) show "byte_of (b64_char v) < 128" "b64_char v \<noteq> pad" "b64_char v \<noteq> CHR 0x0A" "b64_char v \<noteq> CHR 0x0D"
    by (auto simp: list_all_iff)
qed

text \<open>Words of eight bits that agree on their bits, one by one.\<close>

lemma u8_eqI:
  fixes v w :: u8
  assumes "bit v 0 = bit w 0" "bit v 1 = bit w 1" "bit v 2 = bit w 2" "bit v 3 = bit w 3"
    "bit v 4 = bit w 4" "bit v 5 = bit w 5" "bit v 6 = bit w 6" "bit v 7 = bit w 7"
  shows "v = w"
proof (rule bit_word_eqI)
  fix n assume "n < LENGTH(8)"
  then have "n = 0 \<or> n = 1 \<or> n = 2 \<or> n = 3 \<or> n = 4 \<or> n = 5 \<or> n = 6 \<or> n = 7" by auto
  with assms show "bit v n = bit w n" by auto
qed

lemma less_64: "take_bit 6 v = v \<Longrightarrow> v < (64 :: u8)"
  using word_mod_less_divisor[of 64 v] by (simp add: take_bit_eq_mod)

lemma u8_high: "8 \<le> n \<Longrightarrow> \<not> bit (a :: u8) n"
  using bit_imp_le_length[of a n] by auto

lemma six_bits:
  fixes a b c :: u8
  shows "drop_bit 2 a < 64" "push_bit 4 (and a 3) < 64" "or (push_bit 4 (and a 3)) (drop_bit 4 b) < 64"
    "push_bit 2 (and b 15) < 64" "or (push_bit 2 (and b 15)) (drop_bit 6 c) < 64" "and c 63 < 64"
  by (rule less_64, rule u8_eqI; simp add: bit_simps u8_high)+

lemma bytes_back:
  fixes a b c :: u8
  shows "three_bytes (triple_of (drop_bit 2 a) (or (push_bit 4 (and a 3)) (drop_bit 4 b)) (or (push_bit 2 (and b 15)) (drop_bit 6 c)) (and c 63)) True True = [a, b, c]"
    "three_bytes (triple_of (drop_bit 2 a) (or (push_bit 4 (and a 3)) (drop_bit 4 b)) (push_bit 2 (and b 15)) 0) True False = [a, b]"
    "three_bytes (triple_of (drop_bit 2 a) (push_bit 4 (and a 3)) 0 0) False False = [a]"
  unfolding three_bytes_def triple_of_def
  by (auto intro!: u8_eqI simp: bit_simps u8_high)

lemmas sextets = six_bits[THEN b64_char(1)] six_bits[THEN b64_char(2)] six_bits[THEN b64_char(3)]
  six_bits[THEN b64_char(4)] six_bits[THEN b64_char(5)]

lemma lookup_sextet: "v < 64 \<Longrightarrow> simple_lookup (b64_char v) = v"
  by (simp add: simple_lookup_def b64_char)

lemma lookup_pad: "simple_lookup pad = 0"
  by (simp add: simple_lookup_def)

lemma decode_encoded:
  assumes "\<And>v. v < 64 \<Longrightarrow> f (b64_char v) = v"
  shows "decode_groups f simple_lookup (base64_encode bs) = bs"
proof (induction bs rule: base64_encode.induct)
  case (2 a)
  then show ?case using bytes_back(3)[of a] by (simp add: assms six_bits sextets simple_lookup_def del: push_bit_and)
next
  case (3 a b)
  then show ?case using bytes_back(2)[of a b] by (simp add: assms six_bits sextets lookup_sextet lookup_pad del: push_bit_and)
next
  case (4 a b c bs)
  then show ?case using bytes_back(1)[of a b c] by (simp add: assms six_bits sextets lookup_sextet del: push_bit_and)
qed simp

definition b64_letter :: "char \<Rightarrow> bool" where
  "b64_letter c \<longleftrightarrow> c = pad \<or> (\<exists>v. v < 64 \<and> c = b64_char v)"

lemma encoded_letters: "list_all b64_letter (base64_encode bs)"
  by (induction bs rule: base64_encode.induct) (auto simp: b64_letter_def intro: six_bits)

lemma letter_kept:
  assumes "b64_letter c"
  shows "c = pad \<or> byte_of c < 128 \<and> b64_table (byte_of c) \<noteq> 0xFF"
proof -
  have "v < 64 \<Longrightarrow> v \<noteq> 0xFF" for v :: u8 by auto
  with assms show ?thesis by (auto simp: b64_letter_def b64_char)
qed

lemma table_other:
  assumes "c \<notin> set alphabet"
  shows "b64_table (byte_of c) = 0xFF"
proof -
  have "List.find (\<lambda>(d, i). byte_of d = byte_of c) (zip alphabet [0..<64]) = None"
    using assms by (auto simp: find_None_iff dest: set_zip_leftD)
  then show ?thesis by (simp add: b64_table_def)
qed

lemma breaks_dropped: "b64_table (byte_of (CHR 0x0A)) = 0xFF" "b64_table (byte_of (CHR 0x0D)) = 0xFF"
proof -
  have "CHR 0x0A \<notin> set alphabet" using alphabet_chars(3) unfolding list_all_iff by blast
  then show "b64_table (byte_of (CHR 0x0A)) = 0xFF" by (rule table_other)
  have "CHR 0x0D \<notin> set alphabet" using alphabet_chars(3) unfolding list_all_iff by blast
  then show "b64_table (byte_of (CHR 0x0D)) = 0xFF" by (rule table_other)
qed

text \<open>C21: Both decoders of guest output invert the standard encoding, however the encoded text is broken into
  lines: every list of bytes comes back as it was.\<close>
theorem base64_decoders_invert:
  assumes "List.filter (\<lambda>c. c \<noteq> CHR 0x0A \<and> c \<noteq> CHR 0x0D) s = base64_encode bs"
  shows "base64_decode_simple s = bs \<and> base64_decode s = bs"
proof
  show "base64_decode s = bs"
    by (simp add: base64_decode_def assms decode_encoded b64_char)
  have "List.filter (\<lambda>c. c = pad \<or> byte_of c < 128 \<and> b64_table (byte_of c) \<noteq> 0xFF) s
      = List.filter (\<lambda>c. c = pad \<or> byte_of c < 128 \<and> b64_table (byte_of c) \<noteq> 0xFF) (base64_encode bs)"
    unfolding assms[symmetric] filter_filter using breaks_dropped by (intro filter_cong) auto
  also have "\<dots> = base64_encode bs"
    using encoded_letters letter_kept by (auto simp: filter_id_conv list_all_iff)
  finally show "base64_decode_simple s = bs"
    by (simp add: base64_decode_simple_def decode_encoded lookup_sextet)
qed

theorem base64_decoders_invert_witness:
  "base64_decode_simple (''TWFu'' @ [CHR 0x0A] @ ''TQ=='') = [77, 97, 110, 77]"
proof -
  have "base64_encode [77, 97, 110, 77] = ''TWFuTQ==''" by code_simp
  then show ?thesis using base64_decoders_invert[of "''TWFu'' @ [CHR 0x0A] @ ''TQ==''" "[77, 97, 110, 77]"] by simp
qed

end
