(* ===== verification/Guest_Files.thy ===== *)
theory Guest_Files
  imports Host_Run Text_Lines Base64
begin

text \<open>
  The file manager of a guest (vmm-core/src/guest\_file\_manager.rs): the check of a path, the commands for
  the guest agent and the reading of their answers. \<open>lower\<close> is \<open>str::to_lowercase\<close>, \<open>lossy\<close> the decoding of
  UTF-8 with replacement characters.
\<close>

section \<open>Paths\<close>

fun normalize :: "(string \<Rightarrow> string) \<Rightarrow> string list \<Rightarrow> string list \<Rightarrow> string list vmm_result" where
  "normalize lower done [] = Inr done"
| "normalize lower done (p # ps) =
     (if p = ''..'' then normalize lower (butlast done) ps
      else if str_contains (lower p) ''%2e'' \<or> str_contains (lower p) ''%00'' then
        Inl (Other ''Path contains encoded traversal sequence'')
      else normalize lower (done @ [p]) ps)"

definition validate_guest_path :: "(string \<Rightarrow> string) \<Rightarrow> string \<Rightarrow> string vmm_result" where
  "validate_guest_path lower p =
     (if length p > 4096 then Inl (Other ''Guest path exceeds maximum length (4096)'')
      else if CHR 0x00 \<in> set p then Inl (Other ''Path contains null bytes'')
      else if list_ex (\<lambda>c. byte_of c < 32 \<or> byte_of c = 127) p then Inl (Other ''Path contains control characters'')
      else if \<not> starts_with p ''/'' then Inl (Other ''Guest path must be absolute (start with '/')'')
      else (case normalize lower [] (path_parts p) of
          Inl e \<Rightarrow> Inl e
        | Inr parts \<Rightarrow> Inr (render parts)))"

section \<open>Commands\<close>

definition escape_json_string :: "string \<Rightarrow> string" where
  "escape_json_string s = replace_char (CHR 0x09) [CHR 0x5C, CHR ''t''] (replace_char (CHR 0x0D) [CHR 0x5C, CHR ''r'']
     (replace_char (CHR 0x0A) [CHR 0x5C, CHR ''n''] (replace_char quot [CHR 0x5C, quot]
       (replace_char (CHR 0x5C) [CHR 0x5C, CHR 0x5C] s))))"

definition dq :: "string \<Rightarrow> string" where
  "dq s = quot # s @ [quot]"

text \<open>The JSON of \<open>guest-exec\<close> up to the last argument, and with it.\<close>

definition exec_prefix :: "string \<Rightarrow> string list \<Rightarrow> string" where
  "exec_prefix prog args = ''{'' @ dq ''execute'' @ '':'' @ dq ''guest-exec'' @ '','' @ dq ''arguments'' @ '':{'' @ dq ''path'' @ '':''
     @ dq prog @ '','' @ dq ''arg'' @ '':['' @ concat (map (\<lambda>a. dq a @ '','') args)"

definition exec_suffix :: string where
  "exec_suffix = ''],'' @ dq ''capture-output'' @ '':true}}''"

definition exec_json :: "string \<Rightarrow> string list \<Rightarrow> string \<Rightarrow> string" where
  "exec_json prog args p = exec_prefix prog args @ dq (escape_json_string p) @ exec_suffix"

definition status_json :: "int \<Rightarrow> string" where
  "status_json pid = ''{'' @ dq ''execute'' @ '':'' @ dq ''guest-exec-status'' @ '','' @ dq ''arguments'' @ '':{'' @ dq ''pid'' @ '':''
     @ dec_int pid @ ''}}''"

definition virsh_agent :: "world \<Rightarrow> string \<Rightarrow> string \<Rightarrow> cmd_output run" where
  "virsh_agent w name cmd =
     command w (\<lambda>e. Other (''virsh not found: '' @ e)) [''virsh'', ''qemu-agent-command'', ''--'', name, cmd]"

definition i64_max :: nat where "i64_max = 9223372036854775807"

definition parse_exec_pid :: "string \<Rightarrow> int vmm_result" where
  "parse_exec_pid json =
     (case str_find json (dq ''pid'' @ '':'') of
        None \<Rightarrow> Inl (Other ''Failed to parse guest-exec PID'')
      | Some pos \<Rightarrow> (case parse_unsigned i64_max (takeWhile ascii_digit (drop (pos + 6) json)) of
          None \<Rightarrow> Inl (Other ''Failed to parse guest-exec PID'')
        | Some n \<Rightarrow> Inr (int n)))"

text \<open>The text between the quotes after \<open>out-data\<close>, decoded.\<close>

definition out_data :: "(u8 list \<Rightarrow> string) \<Rightarrow> string \<Rightarrow> string" where
  "out_data lossy s =
     (case str_find s (dq ''out-data'' @ '':'' @ [quot]) of
        None \<Rightarrow> []
      | Some pos \<Rightarrow> (let after = drop (pos + 12) s in
          if quot \<in> set after then lossy (base64_decode (takeWhile (\<lambda>c. c \<noteq> quot) after)) else []))"

definition get_exec_status :: "(u8 list \<Rightarrow> string) \<Rightarrow> world \<Rightarrow> string \<Rightarrow> int \<Rightarrow> string run" where
  "get_exec_status lossy w name pid =
     next_do (virsh_agent w name (status_json pid)) (\<lambda>out. give (out_data lossy (out_stdout out)))"

text \<open>Five tries with growing delays and a last one.\<close>

fun poll_loop :: "(u8 list \<Rightarrow> string) \<Rightarrow> world \<Rightarrow> string \<Rightarrow> int \<Rightarrow> nat \<Rightarrow> nat \<Rightarrow> string run" where
  "poll_loop lossy w name pid 0 delay = get_exec_status lossy w name pid"
| "poll_loop lossy w name pid (Suc n) delay =
     next_do (log_act (Sleep delay)) (\<lambda>_.
     next_do (get_exec_status lossy w name pid) (\<lambda>r.
     if r \<noteq> [] then give r else poll_loop lossy w name pid n (min (delay * 2) 500)))"

definition poll_exec_status :: "(u8 list \<Rightarrow> string) \<Rightarrow> world \<Rightarrow> string \<Rightarrow> int \<Rightarrow> string run" where
  "poll_exec_status lossy w name pid = poll_loop lossy w name pid 5 50"

section \<open>Listings\<close>

record guest_file_entry =
  entry_name :: string
  entry_path :: string
  entry_is_dir :: bool
  entry_size :: u64
  permissions :: string

definition parse_ls_line :: "string \<Rightarrow> string \<Rightarrow> guest_file_entry option" where
  "parse_ls_line base line =
     (let parts = split_whitespace line; name = join '' '' (drop 7 parts) in
      if starts_with line ''total '' \<or> length parts < 8 \<or> name = ''.'' \<or> name = ''..'' then None
      else Some \<lparr>entry_name = name, entry_path = base @ name, entry_is_dir = starts_with (parts ! 0) ''d'',
        entry_size = (case parse_unsigned 18446744073709551615 (parts ! 4) of None \<Rightarrow> 0 | Some n \<Rightarrow> of_nat n),
        permissions = parts ! 0\<rparr>)"

definition parse_ls_output :: "string \<Rightarrow> string \<Rightarrow> guest_file_entry list" where
  "parse_ls_output out base_path =
     (let base = (if ends_with base_path ''/'' then base_path else base_path @ ''/'') in
      take 10000 (List.map_filter (parse_ls_line base) (drop 1 (str_lines out))))"

section \<open>Operations\<close>

definition list_directory ::
  "(string \<Rightarrow> string) \<Rightarrow> (u8 list \<Rightarrow> string) \<Rightarrow> world \<Rightarrow> string \<Rightarrow> string \<Rightarrow> guest_file_entry list run" where
  "list_directory lower lossy w name path =
     next_do (check (validate_guest_path lower path)) (\<lambda>p.
     next_do (virsh_agent w name (exec_json ''/bin/ls'' [''-la'', ''--time-style=iso''] p)) (\<lambda>out.
     if \<not> out_ok out then stop (Other (''Guest command failed: '' @ out_stderr out))
     else
       next_do (check (parse_exec_pid (out_stdout out))) (\<lambda>pid.
       next_do (poll_exec_status lossy w name pid) (\<lambda>r. give (parse_ls_output r p)))))"

definition read_file ::
  "(string \<Rightarrow> string) \<Rightarrow> (u8 list \<Rightarrow> string) \<Rightarrow> world \<Rightarrow> string \<Rightarrow> string \<Rightarrow> u64 \<Rightarrow> string run" where
  "read_file lower lossy w name path max_size =
     next_do (check (validate_guest_path lower path)) (\<lambda>p.
     if max_size > 104857600 then stop (Other ''Max size cannot exceed 100 MiB'')
     else
       next_do (virsh_agent w name (exec_json ''/usr/bin/stat'' [''--printf=%s''] p)) (\<lambda>_.
       next_do (virsh_agent w name (exec_json ''/bin/cat'' [] p)) (\<lambda>out.
       if \<not> out_ok out then stop (Other (''Read failed: '' @ out_stderr out))
       else
         next_do (check (parse_exec_pid (out_stdout out))) (\<lambda>pid. poll_exec_status lossy w name pid))))"

definition guest_command :: "(string \<Rightarrow> string) \<Rightarrow> world \<Rightarrow> string \<Rightarrow> string \<Rightarrow> string list \<Rightarrow> string \<Rightarrow> string \<Rightarrow> unit run" where
  "guest_command lower w name prog args what path =
     next_do (check (validate_guest_path lower path)) (\<lambda>p.
     next_do (virsh_agent w name (exec_json prog args p)) (\<lambda>out.
     if \<not> out_ok out then stop (Other (what @ out_stderr out)) else give ()))"

definition create_directory :: "(string \<Rightarrow> string) \<Rightarrow> world \<Rightarrow> string \<Rightarrow> string \<Rightarrow> unit run" where
  "create_directory lower w name = guest_command lower w name ''/bin/mkdir'' [''-p''] ''mkdir failed: ''"

definition delete_file :: "(string \<Rightarrow> string) \<Rightarrow> world \<Rightarrow> string \<Rightarrow> string \<Rightarrow> unit run" where
  "delete_file lower w name = guest_command lower w name ''/bin/rm'' [''-f''] ''delete failed: ''"

section \<open>Paths that pass the check\<close>

definition clean_part :: "(string \<Rightarrow> string) \<Rightarrow> string \<Rightarrow> bool" where
  "clean_part lower p \<longleftrightarrow> p \<noteq> [] \<and> p \<noteq> ''.'' \<and> p \<noteq> ''..'' \<and> CHR ''/'' \<notin> set p
     \<and> \<not> str_contains (lower p) ''%2e'' \<and> \<not> str_contains (lower p) ''%00''"

lemma split_on_length: "sum_list (map (\<lambda>x. Suc (length x)) (split_on c s)) = Suc (length s)"
proof (induction s)
  case (Cons y s)
  then show ?case by (cases "split_on c s") auto
qed simp

lemma path_parts_pieces: "x \<in> set (path_parts s) \<Longrightarrow> x \<noteq> [] \<and> x \<noteq> ''.'' \<and> CHR ''/'' \<notin> set x \<and> set x \<subseteq> set s"
  using split_on_no_sep split_on_set unfolding path_parts_def by fastforce

lemma sum_filter_le: "sum_list (map f (List.filter P xs)) \<le> sum_list (map f xs)" for f :: "'a \<Rightarrow> nat"
  by (induction xs) auto

lemma path_parts_length: "starts_with s ''/'' \<Longrightarrow> sum_list (map (\<lambda>x. Suc (length x)) (path_parts s)) \<le> length s"
proof -
  assume "starts_with s ''/''"
  then obtain t where s: "s = CHR ''/'' # t" by (cases s) auto
  have "sum_list (map (\<lambda>x. Suc (length x)) (path_parts t)) \<le> Suc (length t)"
    unfolding path_parts_def by (rule order_trans[OF sum_filter_le]) (simp add: split_on_length)
  then show ?thesis by (simp add: s path_parts_def)
qed

lemma normalize_clean:
  assumes "normalize lower done ps = Inr qs" "list_all (clean_part lower) done"
    and "list_all (\<lambda>p. p \<noteq> [] \<and> p \<noteq> ''.'' \<and> CHR ''/'' \<notin> set p) ps"
  shows "list_all (clean_part lower) qs \<and> set qs \<subseteq> set done \<union> set ps
    \<and> sum_list (map (\<lambda>x. Suc (length x)) qs) \<le> sum_list (map (\<lambda>x. Suc (length x)) (done @ ps))"
  using assms
proof (induction ps arbitrary: "done")
  case (Cons p ps)
  show ?case
  proof (cases "p = ''..''")
    case True
    have b: "list_all (clean_part lower) (butlast done)" "set (butlast done) \<subseteq> set done"
      "sum_list (map (\<lambda>x. Suc (length x)) (butlast done)) \<le> sum_list (map (\<lambda>x. Suc (length x)) done)"
      using Cons.prems(2) by (cases "done" rule: rev_cases; auto)+
    from Cons.IH[of "butlast done"] True Cons.prems b show ?thesis by fastforce
  next
    case False
    with Cons.prems Cons.IH[of "done @ [p]"] show ?thesis
      by (auto simp: clean_part_def split: if_splits)
  qed
qed simp

lemma normalize_id: "list_all (clean_part lower) ps \<Longrightarrow> normalize lower done ps = Inr (done @ ps)"
  by (induction ps arbitrary: "done") (auto simp: clean_part_def)

lemma path_parts_render:
  assumes "list_all (clean_part lower) ps"
  shows "path_parts (render ps) = ps"
proof -
  have "split_on (CHR ''/'') (concat (map (\<lambda>c. CHR ''/'' # c) ps)) = [] # ps" if "ps \<noteq> []"
    using that assms
  proof (induction ps)
    case (Cons p ps)
    then have p: "CHR ''/'' \<notin> set p" by (simp add: clean_part_def)
    show ?case
    proof (cases ps)
      case Nil
      with p show ?thesis by (simp add: split_on_absent)
    next
      case (Cons q qs)
      with Cons.IH Cons.prems p split_on_append[OF p] show ?thesis by simp
    qed
  qed simp
  moreover have "List.filter (\<lambda>c. c \<noteq> [] \<and> c \<noteq> ''.'') ps = ps"
    using assms by (auto simp: filter_id_conv list_all_iff clean_part_def)
  ultimately show ?thesis by (cases "ps = []") (simp_all add: path_parts_def render_def)
qed

lemma guest_path_checked:
  assumes "validate_guest_path lower p = Inr q"
  shows "starts_with q ''/'' \<and> list_all (clean_part lower) (path_parts q) \<and> set q \<subseteq> set p
    \<and> length q \<le> length p \<and> validate_guest_path lower q = Inr q"
proof -
  from assms obtain parts where p: "length p \<le> 4096" "CHR 0x00 \<notin> set p" "\<not> list_ex (\<lambda>c. byte_of c < 32 \<or> byte_of c = 127) p"
      "starts_with p ''/''" "normalize lower [] (path_parts p) = Inr parts" "q = render parts"
    by (auto simp: validate_guest_path_def split: if_splits sum.splits)
  from normalize_clean[OF p(5)] path_parts_pieces[of _ p]
  have n: "list_all (clean_part lower) parts" "set parts \<subseteq> set (path_parts p)"
    "sum_list (map (\<lambda>x. Suc (length x)) parts) \<le> sum_list (map (\<lambda>x. Suc (length x)) (path_parts p))"
    by (auto simp: list_all_iff)
  have slash: "CHR ''/'' \<in> set p" using p(4) by (cases p) auto
  have q: "set q \<subseteq> set p"
    using n(2) path_parts_pieces[of _ p] slash by (auto simp: p(6) render_def)
  have len: "length q \<le> length p"
    using n(3) path_parts_length[OF p(4)] slash
    by (auto simp: p(6) render_def length_concat comp_def Suc_le_eq length_pos_if_in_set)
  have parts: "path_parts q = parts" using path_parts_render[OF n(1)] p(6) by simp
  have start: "starts_with q ''/''" by (cases parts) (simp_all add: p(6) render_def)
  have "validate_guest_path lower q = Inr q"
    using p(1-3) q len start parts normalize_id[OF n(1), of "[]"]
    by (auto simp: validate_guest_path_def list_ex_iff p(6)[symmetric])
  with start parts n(1) q len show ?thesis by simp
qed



section \<open>The path in the command\<close>

text \<open>How the agent reads a JSON string from the character after its opening quote: its content and what
  follows the closing quote.\<close>

definition json_escape :: "char \<Rightarrow> char option" where
  "json_escape c = map_of [(quot, quot), (CHR 0x5C, CHR 0x5C), (CHR ''/'', CHR ''/''), (CHR ''n'', CHR 0x0A), (CHR ''r'', CHR 0x0D),
     (CHR ''t'', CHR 0x09), (CHR ''b'', CHR 0x08), (CHR ''f'', CHR 0x0C)] c"

fun json_string :: "string \<Rightarrow> (string \<times> string) option" where
  "json_string [] = None"
| "json_string [c] = (if c = quot then Some ([], []) else None)"
| "json_string (c # d # s) =
     (if c = quot then Some ([], d # s)
      else if c = CHR 0x5C then
        (case json_escape d of None \<Rightarrow> None | Some x \<Rightarrow> map_option (\<lambda>(v, r). (x # v, r)) (json_string s))
      else if byte_of c < 32 then None
      else map_option (\<lambda>(v, r). (c # v, r)) (json_string (d # s)))"

lemma escape_json_Cons:
  "escape_json_string (c # s) = (if c = CHR 0x5C then [CHR 0x5C, CHR 0x5C] else if c = quot then [CHR 0x5C, quot]
     else if c = CHR 0x0A then [CHR 0x5C, CHR ''n''] else if c = CHR 0x0D then [CHR 0x5C, CHR ''r'']
     else if c = CHR 0x09 then [CHR 0x5C, CHR ''t''] else [c]) @ escape_json_string s"
  by (simp add: escape_json_string_def)

lemma json_string_escape:
  "list_all (\<lambda>c. 32 \<le> byte_of c) s \<Longrightarrow> json_string (escape_json_string s @ quot # r) = Some (s, r)"
proof (induction s)
  case Nil
  then show ?case by (cases r) (simp_all add: escape_json_string_def)
next
  case (Cons c s)
  then obtain d u where "escape_json_string s @ quot # r = d # u" by (cases "escape_json_string s @ quot # r") auto
  with Cons show ?case by (auto simp: escape_json_Cons json_escape_def)
qed

text \<open>A checked path stays one argument: the JSON sent to the agent is the fixed beginning, a string that
  reads back as exactly the path, and the fixed end.\<close>
theorem guest_path_is_one_argument:
  assumes "validate_guest_path lower p = Inr q"
  shows "exec_json prog args q = exec_prefix prog args @ quot # drop (Suc (length (exec_prefix prog args))) (exec_json prog args q)
    \<and> json_string (drop (Suc (length (exec_prefix prog args))) (exec_json prog args q)) = Some (q, exec_suffix)"
proof -
  from assms have p: "\<not> list_ex (\<lambda>c. byte_of c < 32 \<or> byte_of c = 127) p"
    by (auto simp: validate_guest_path_def split: if_splits)
  have "set q \<subseteq> set p" using guest_path_checked[OF assms] by blast
  with p have "list_all (\<lambda>c. 32 \<le> byte_of c) q" by (fastforce simp: list_ex_iff list_all_iff)
  from json_string_escape[OF this, of exec_suffix] show ?thesis by (simp add: exec_json_def dq_def)
qed

theorem guest_path_is_one_argument_witness:
  "json_string (drop (Suc (length (exec_prefix ''/bin/rm'' [''-f'']))) (exec_json ''/bin/rm'' [''-f''] ([CHR ''/'', quot, CHR '','', CHR 0x5C])))
     = Some ([CHR ''/'', quot, CHR '','', CHR 0x5C], exec_suffix)"
proof -
  have "validate_guest_path id [CHR ''/'', quot, CHR '','', CHR 0x5C] = Inr [CHR ''/'', quot, CHR '','', CHR 0x5C]" by code_simp
  from guest_path_is_one_argument[OF this] show ?thesis by blast
qed

section \<open>Waiting for the guest\<close>

definition is_query :: "act \<Rightarrow> bool" where
  "is_query a = (case a of Run _ \<Rightarrow> True | _ \<Rightarrow> False)"

definition sleeps :: "act \<Rightarrow> nat" where
  "sleeps a = (case a of Sleep n \<Rightarrow> n | _ \<Rightarrow> 0)"

lemma act_counts [simp]: "is_query (Run args)" "\<not> is_query (Sleep n)" "sleeps (Run args) = 0" "sleeps (Sleep n) = n"
  by (simp_all add: is_query_def sleeps_def)

definition waited :: "act list \<Rightarrow> nat" where
  "waited t = sum_list (map sleeps t)"

text \<open>The delays of the loop, one for each try.\<close>

fun delays :: "nat \<Rightarrow> nat \<Rightarrow> nat list" where
  "delays 0 d = []"
| "delays (Suc n) d = d # delays n (min (d * 2) 500)"

definition queries :: "act list \<Rightarrow> nat" where
  "queries t = length (List.filter is_query t)"

lemma counts_snoc [simp]:
  "queries (t @ [a]) = (if is_query a then Suc (queries t) else queries t)" "waited (t @ [a]) = waited t + sleeps a"
  by (simp_all add: queries_def waited_def)

lemma poll_loop_bounded:
  "queries (fst (poll_loop lossy w name pid n d t)) \<le> queries t + Suc n
   \<and> waited (fst (poll_loop lossy w name pid n d t)) \<le> waited t + sum_list (delays n d)"
proof (induction n arbitrary: d t)
  case 0
  then show ?case by (simp add: get_exec_status_def virsh_agent_def run split: sum.split)
next
  case (Suc n)
  let ?t = "(t @ [Sleep d]) @ [Run [''virsh'', ''qemu-agent-command'', ''--'', name, status_json pid]]"
  from Suc[of "min (d * 2) 500" ?t] show ?case
    by (simp add: get_exec_status_def virsh_agent_def run del: append_assoc split: sum.split)
qed

text \<open>Waiting for a guest program ends whatever the guest answers: after at most six queries and 1250
  milliseconds.\<close>
theorem guest_polling_ends:
  "queries (fst (poll_exec_status lossy w name pid t)) \<le> queries t + 6
   \<and> waited (fst (poll_exec_status lossy w name pid t)) \<le> waited t + 1250"
proof -
  have "sum_list (delays 5 50) = 1250" by (simp add: numeral_eq_Suc)
  then show ?thesis using poll_loop_bounded[of lossy w name pid 5 50 t] by (simp add: poll_exec_status_def)
qed

section \<open>What the listing misses\<close>

text \<open>\<open>ls --time-style=iso\<close> writes the date of a file older than half a year as one word: such a line has
  seven words, and the file is left out; in a name of two words, the first is lost.\<close>

lemma old_file_not_listed:
  "parse_ls_output (''total 4\<newline>-rw-r--r-- 1 root root 5 2020-01-01  notes.txt\<newline>'') ''/r'' = []"
  by (simp add: parse_ls_output_def parse_ls_line_def str_lines_def drop_cr_def split_whitespace_def Let_def is_whitespace_def
      ascii_defs ends_with_def parse_unsigned_def nth_Cons_numeral)

lemma old_file_renamed:
  "map entry_name (parse_ls_output (''total 4\<newline>-rw-r--r-- 1 root root 5 2020-01-01  my notes.txt\<newline>'') ''/r'') = [''notes.txt'']"
  by (simp add: parse_ls_output_def parse_ls_line_def str_lines_def drop_cr_def split_whitespace_def Let_def is_whitespace_def
      ascii_defs ends_with_def parse_unsigned_def nth_Cons_numeral)

text \<open>The size limit of \<open>read_file\<close> is checked against the largest one allowed and not used otherwise.\<close>

lemma size_limit_not_used:
  "m \<le> 104857600 \<Longrightarrow> read_file lower lossy w name p m = read_file lower lossy w name p 0"
  by (simp add: read_file_def not_less[symmetric])

end
