(* ===== verification/Guest_Agent.thy ===== *)
theory Guest_Agent
  imports Host_Run Text_Lines Base64 Errors
begin

text \<open>
  Questions to the guest agent (vmm-core/src/guest\_agent.rs): its answers, freezing and thawing, and the
  listening sockets of a guest, read from the output of \<open>ss\<close> or \<open>netstat\<close>. The JSON parser is an argument;
  a JSON value is a \<open>json\<close>, where a number is an integer or not. \<open>utf8\_error\<close> says what is wrong with bytes that are not UTF-8.
\<close>

section \<open>JSON values\<close>

datatype json =
    JNull
  | JBool bool
  | JInt int
  | JReal
  | JStr string
  | JArr "json list"
  | JObj "(string \<times> json) list"

definition get_key :: "string \<Rightarrow> json \<Rightarrow> json option" where
  "get_key k v = (case v of JObj ps \<Rightarrow> map_of ps k | _ \<Rightarrow> None)"

definition as_str :: "json \<Rightarrow> string option" where
  "as_str v = (case v of JStr s \<Rightarrow> Some s | _ \<Rightarrow> None)"

definition as_array :: "json \<Rightarrow> json list option" where
  "as_array v = (case v of JArr xs \<Rightarrow> Some xs | _ \<Rightarrow> None)"

definition as_bool :: "json \<Rightarrow> bool option" where
  "as_bool v = (case v of JBool b \<Rightarrow> Some b | _ \<Rightarrow> None)"

definition as_u64 :: "json \<Rightarrow> nat option" where
  "as_u64 v = (case v of JInt n \<Rightarrow> if 0 \<le> n \<and> n < 2 ^ 64 then Some (nat n) else None | _ \<Rightarrow> None)"

definition as_i64 :: "json \<Rightarrow> int option" where
  "as_i64 v = (case v of JInt n \<Rightarrow> if - (2 ^ 63) \<le> n \<and> n < 2 ^ 63 then Some n else None | _ \<Rightarrow> None)"

definition str_key :: "string \<Rightarrow> json \<Rightarrow> string option" where
  "str_key k v = Option.bind (get_key k v) as_str"

record agent =
  on :: world
  json_of :: "string \<Rightarrow> json option"
  json_error :: "string \<Rightarrow> string"
  utf8_error :: "string \<Rightarrow> string option"
  lossy :: "u8 list \<Rightarrow> string"

section \<open>Commands\<close>

definition quoted :: "string \<Rightarrow> string" where
  "quoted s = quot # s @ [quot]"

definition execute_json :: "string \<Rightarrow> string" where
  "execute_json what = ''{'' @ quoted ''execute'' @ '':'' @ quoted what @ ''}''"

definition agent_args :: "string \<Rightarrow> string \<Rightarrow> string list" where
  "agent_args name cmd = [''virsh'', ''qemu-agent-command'', ''--'', name, cmd, ''--timeout'', ''5'']"

definition agent_command :: "agent \<Rightarrow> string \<Rightarrow> string \<Rightarrow> string run" where
  "agent_command a name cmd =
     (if starts_with name ''-'' \<or> name = [] then stop (Other (''Invalid VM name for virsh command: '' @ name))
      else
        next_do (command (on a) (\<lambda>e. Other (''Failed to run virsh: '' @ e)) (agent_args name cmd)) (\<lambda>out.
        if \<not> out_ok out then stop (Other (''Guest agent error: '' @ out_stderr out))
        else (case utf8_error a (out_stdout out) of
            Some e \<Rightarrow> stop (Other (''Invalid UTF-8 from guest agent: '' @ e))
          | None \<Rightarrow> give (out_stdout out))))"

definition ping_agent :: "agent \<Rightarrow> string \<Rightarrow> bool run" where
  "ping_agent a name =
     next_do (outcome (agent_command a name (execute_json ''guest-ping''))) (\<lambda>r. give (case r of Inr _ \<Rightarrow> True | Inl _ \<Rightarrow> False))"

definition parse_fsfreeze_count :: "agent \<Rightarrow> string \<Rightarrow> u32 option" where
  "parse_fsfreeze_count a s =
     map_option (\<lambda>n. of_nat (min n 4294967295)) (Option.bind (Option.bind (json_of a s) (get_key ''return'')) as_u64)"

definition validate_vm_name_for_agent :: "string \<Rightarrow> unit vmm_result" where
  "validate_vm_name_for_agent name =
     (if name = [] then Inl (Other ''VM name must not be empty (CWE-78)'')
      else if length name > 128 then Inl (Other ''VM name too long for command use (max 128 chars) (CWE-78)'')
      else if \<not> list_all (ascii_char (\<lambda>c. ascii_alnum c \<or> c \<in> set '' -_.'')) (chars name) then
        Inl (Other (''VM name '' @ sq name @ '' contains unsafe characters for subprocess use (CWE-78)''))
      else if starts_with name ''-'' \<or> starts_with name ''.'' then
        Inl (Other (''VM name '' @ sq name @ '' must not start with '' @ sq ''-'' @ '' or '' @ sq ''.'' @ '' (CWE-88)''))
      else if CHR 0x00 \<in> set name then Inl (Other ''VM name must not contain null bytes (CWE-626)'')
      else Inr ())"

definition fsfreeze :: "agent \<Rightarrow> string \<Rightarrow> string \<Rightarrow> u32 run" where
  "fsfreeze a what name =
     next_do (check (validate_vm_name_for_agent name)) (\<lambda>_.
     next_do (agent_command a name (execute_json what)) (\<lambda>resp.
     case parse_fsfreeze_count a resp of
       Some n \<Rightarrow> give n
     | None \<Rightarrow> stop (Other (''Guest agent returned unparseable response to '' @ what @ '': '' @ resp))))"

definition freeze_filesystems :: "agent \<Rightarrow> string \<Rightarrow> u32 run" where
  "freeze_filesystems a = fsfreeze a ''guest-fsfreeze-freeze''"

definition thaw_filesystems :: "agent \<Rightarrow> string \<Rightarrow> u32 run" where
  "thaw_filesystems a = fsfreeze a ''guest-fsfreeze-thaw''"

section \<open>Information\<close>

record guest_ip_address =
  interface :: string
  address :: string
  prefix_len :: u32
  ip_type :: string

record guest_filesystem =
  mountpoint :: string
  fs_type :: string
  total_bytes :: u64
  used_bytes :: u64

record guest_info =
  agent_available :: bool
  hostname :: "string option"
  os_name :: "string option"
  os_version :: "string option"
  ip_addresses :: "guest_ip_address list"
  filesystems :: "guest_filesystem list"
  uptime_secs :: "u64 option"

definition no_info :: guest_info where
  "no_info = \<lparr>agent_available = False, hostname = None, os_name = None, os_version = None, ip_addresses = [],
     filesystems = [], uptime_secs = None\<rparr>"

definition or_else :: "'a option \<Rightarrow> 'a option \<Rightarrow> 'a option" where
  "or_else x y = (case x of None \<Rightarrow> y | Some v \<Rightarrow> Some v)"

definition or_str :: "string \<Rightarrow> string option \<Rightarrow> string" where
  "or_str d x = (case x of None \<Rightarrow> d | Some v \<Rightarrow> v)"

definition extract_json_str :: "agent \<Rightarrow> string \<Rightarrow> string \<Rightarrow> string option" where
  "extract_json_str a s key =
     (case json_of a s of
        None \<Rightarrow> None
      | Some v \<Rightarrow> or_else (str_key key v) (Option.bind (get_key ''return'' v) (str_key key)))"

definition return_array :: "agent \<Rightarrow> string \<Rightarrow> json list" where
  "return_array a s =
     (case Option.bind (Option.bind (json_of a s) (get_key ''return'')) as_array of None \<Rightarrow> [] | Some xs \<Rightarrow> xs)"

definition parse_ip_entry :: "string \<Rightarrow> json \<Rightarrow> guest_ip_address option" where
  "parse_ip_entry name e =
     (case str_key ''ip-address'' e of
        None \<Rightarrow> None
      | Some addr \<Rightarrow>
          if addr = ''127.0.0.1'' \<or> addr = ''::1'' then None
          else Some \<lparr>interface = name, address = addr,
            prefix_len = of_nat (min (case Option.bind (get_key ''prefix'' e) as_u64 of None \<Rightarrow> 24 | Some n \<Rightarrow> n) 128),
            ip_type = or_str ''ipv4'' (str_key ''ip-address-type'' e)\<rparr>)"

definition parse_network_interfaces :: "agent \<Rightarrow> string \<Rightarrow> guest_ip_address list" where
  "parse_network_interfaces a s = concat (map (\<lambda>i.
     case Option.bind (get_key ''ip-addresses'' i) as_array of
       None \<Rightarrow> []
     | Some es \<Rightarrow> List.map_filter (parse_ip_entry (or_str ''unknown'' (str_key ''name'' i))) es) (return_array a s))"

definition u64_key :: "string \<Rightarrow> json \<Rightarrow> u64" where
  "u64_key k v = (case Option.bind (get_key k v) as_u64 of None \<Rightarrow> 0 | Some n \<Rightarrow> of_nat n)"

definition parse_filesystem :: "json \<Rightarrow> guest_filesystem option" where
  "parse_filesystem v =
     (case str_key ''mountpoint'' v of
        None \<Rightarrow> None
      | Some m \<Rightarrow> Some \<lparr>mountpoint = m, fs_type = or_str ''unknown'' (str_key ''type'' v),
          total_bytes = u64_key ''total-bytes'' v, used_bytes = u64_key ''used-bytes'' v\<rparr>)"

definition parse_filesystems :: "agent \<Rightarrow> string \<Rightarrow> guest_filesystem list" where
  "parse_filesystems a s = List.map_filter parse_filesystem (return_array a s)"

text \<open>The four questions after a successful ping; one that fails leaves its part of the information empty.\<close>

definition ask_agent :: "agent \<Rightarrow> string \<Rightarrow> string \<Rightarrow> string vmm_result run" where
  "ask_agent a name what = outcome (agent_command a name (execute_json what))"

definition query_guest_info :: "agent \<Rightarrow> string \<Rightarrow> guest_info run" where
  "query_guest_info a name =
     next_do (ping_agent a name) (\<lambda>alive.
     if \<not> alive then give no_info
     else
       next_do (ask_agent a name ''guest-get-host-name'') (\<lambda>host.
       next_do (ask_agent a name ''guest-get-osinfo'') (\<lambda>os.
       next_do (ask_agent a name ''guest-network-get-interfaces'') (\<lambda>net.
       next_do (ask_agent a name ''guest-get-fsinfo'') (\<lambda>fs.
       give (no_info\<lparr>agent_available := True,
         hostname := (case host of Inl _ \<Rightarrow> None | Inr r \<Rightarrow> extract_json_str a r ''host-name''),
         os_name := (case os of Inl _ \<Rightarrow> None | Inr r \<Rightarrow> or_else (extract_json_str a r ''pretty-name'') (extract_json_str a r ''name'')),
         os_version := (case os of Inl _ \<Rightarrow> None | Inr r \<Rightarrow> or_else (extract_json_str a r ''kernel-release'') (extract_json_str a r ''version'')),
         ip_addresses := (case net of Inl _ \<Rightarrow> [] | Inr r \<Rightarrow> parse_network_interfaces a r),
         filesystems := (case fs of Inl _ \<Rightarrow> [] | Inr r \<Rightarrow> parse_filesystems a r)\<rparr>))))))"

section \<open>Listening sockets\<close>

record guest_tcp_listener =
  lport :: u16
  bind_addr :: string
  process_name :: "string option"

datatype listener_format = Ss | Netstat

definition max_listener_line_len :: nat where "max_listener_line_len = 1024"
definition max_listener_output_b64 :: nat where "max_listener_output_b64 = 64 * 1024"

definition split_addr_port :: "string \<Rightarrow> (string \<times> u16) option" where
  "split_addr_port s =
     (case rsplit_once (CHR '':'') s of
        None \<Rightarrow> None
      | Some (addr_raw, port_str) \<Rightarrow> (case parse_unsigned 4294967295 port_str of
          None \<Rightarrow> None
        | Some port \<Rightarrow>
            if \<not> (1 \<le> port \<and> port \<le> 65535) then None
            else
              let addr = (if starts_with addr_raw ''['' \<and> ends_with (drop 1 addr_raw) '']''
                then butlast (drop 1 addr_raw) else addr_raw) in
              if addr = [] then None else Some (addr, of_nat port)))"

text \<open>The first text in quotes after \<open>users:((\<close>.\<close>

definition first_process :: "string \<Rightarrow> string option" where
  "first_process line =
     (case str_find line ''users:(('' of
        None \<Rightarrow> None
      | Some idx \<Rightarrow> (case split_on quot (drop (idx + 8) line) of
          _ # name # _ \<Rightarrow> if name = [] then None else Some name
        | _ \<Rightarrow> None))"

definition parse_ss_line :: "string \<Rightarrow> guest_tcp_listener option" where
  "parse_ss_line line =
     (let cols = split_whitespace line in
      if \<not> starts_with line ''LISTEN'' \<or> length cols < 4 then None
      else (case split_addr_port (cols ! 3) of
          None \<Rightarrow> None
        | Some (addr, port) \<Rightarrow> Some \<lparr>lport = port, bind_addr = addr, process_name = first_process line\<rparr>))"

definition parse_netstat_line :: "string \<Rightarrow> guest_tcp_listener option" where
  "parse_netstat_line line =
     (let cols = split_whitespace line in
      if \<not> str_contains line ''LISTEN'' \<or> length cols < 4 \<or> \<not> starts_with (cols ! 0) ''tcp'' then None
      else (case split_addr_port (cols ! 3) of
          None \<Rightarrow> None
        | Some (addr, port) \<Rightarrow> Some \<lparr>lport = port, bind_addr = addr, process_name = None\<rparr>))"

definition parse_listener_line :: "listener_format \<Rightarrow> string \<Rightarrow> guest_tcp_listener option" where
  "parse_listener_line fmt line = (case fmt of Ss \<Rightarrow> parse_ss_line line | Netstat \<Rightarrow> parse_netstat_line line)"

definition socket :: "guest_tcp_listener \<Rightarrow> u16 \<times> string" where
  "socket l = (lport l, bind_addr l)"

fun listener_lines ::
  "listener_format \<Rightarrow> (u16 \<times> string) set \<Rightarrow> guest_tcp_listener list \<Rightarrow> string list \<Rightarrow> guest_tcp_listener list" where
  "listener_lines fmt seen found [] = found"
| "listener_lines fmt seen found (line # rest) =
     (if length line > max_listener_line_len \<or> trim line = [] then listener_lines fmt seen found rest
      else
        let (seen', found') = (case parse_listener_line fmt (trim line) of
            None \<Rightarrow> (seen, found)
          | Some l \<Rightarrow> if socket l \<in> seen then (seen, found) else (insert (socket l) seen, found @ [l])) in
        if length found' \<ge> 1024 then found' else listener_lines fmt seen' found' rest)"

definition parse_listener_output :: "listener_format \<Rightarrow> string \<Rightarrow> guest_tcp_listener list" where
  "parse_listener_output fmt out = listener_lines fmt {} [] (str_lines out)"

text \<open>The JSON of \<open>guest-exec\<close> with its keys in order, as \<open>serde_json\<close> prints an object.\<close>

definition guest_exec_json :: "string \<Rightarrow> string \<Rightarrow> string" where
  "guest_exec_json path a =
     ''{'' @ quoted ''arguments'' @ '':{'' @ quoted ''arg'' @ '':['' @ quoted a @ ''],'' @ quoted ''capture-output'' @ '':true,''
       @ quoted ''path'' @ '':'' @ quoted path @ ''},'' @ quoted ''execute'' @ '':'' @ quoted ''guest-exec'' @ ''}''"

definition exec_status_json :: "int \<Rightarrow> string" where
  "exec_status_json pid =
     ''{'' @ quoted ''execute'' @ '':'' @ quoted ''guest-exec-status'' @ '','' @ quoted ''arguments'' @ '':{'' @ quoted ''pid'' @ '':''
       @ dec_int pid @ ''}}''"

definition exec_pid :: "agent \<Rightarrow> string \<Rightarrow> int vmm_result" where
  "exec_pid a resp =
     (case json_of a resp of
        None \<Rightarrow> Inl (Other (''Invalid JSON from guest-exec: '' @ json_error a resp))
      | Some v \<Rightarrow> (case Option.bind (Option.bind (get_key ''return'' v) (get_key ''pid'')) as_i64 of
          None \<Rightarrow> Inl (Other ''guest-exec response missing pid'')
        | Some pid \<Rightarrow> Inr pid))"

text \<open>One answer to \<open>guest-exec-status\<close>: the end of the polling with a text, or \<open>None\<close> to go on.\<close>

definition exec_answer :: "agent \<Rightarrow> string vmm_result \<Rightarrow> string option" where
  "exec_answer a r =
     (case r of
        Inl _ \<Rightarrow> Some []
      | Inr s \<Rightarrow> (case Option.bind (json_of a s) (get_key ''return'') of
          None \<Rightarrow> Some []
        | Some ret \<Rightarrow>
            if Option.bind (get_key ''exited'' ret) as_bool = Some True then
              (case str_key ''out-data'' ret of
                 None \<Rightarrow> Some []
               | Some b64 \<Rightarrow>
                   if length b64 > max_listener_output_b64 then Some [] else Some (lossy a (base64_decode_simple b64)))
            else None))"

fun poll_exec :: "agent \<Rightarrow> string \<Rightarrow> int \<Rightarrow> nat \<Rightarrow> nat \<Rightarrow> string run" where
  "poll_exec a name pid 0 delay = give []"
| "poll_exec a name pid (Suc n) delay =
     next_do (log_act (Sleep delay)) (\<lambda>_.
     next_do (outcome (agent_command a name (exec_status_json pid))) (\<lambda>r.
     case exec_answer a r of
       Some out \<Rightarrow> give out
     | None \<Rightarrow> poll_exec a name pid n (min (delay * 2) 400)))"

definition run_guest_exec :: "agent \<Rightarrow> string \<Rightarrow> string \<Rightarrow> string \<Rightarrow> string run" where
  "run_guest_exec a name path arg =
     next_do (agent_command a name (guest_exec_json path arg)) (\<lambda>resp.
     next_do (check (exec_pid a resp)) (\<lambda>pid. poll_exec a name pid 6 50))"

definition list_guest_listeners :: "agent \<Rightarrow> string \<Rightarrow> guest_tcp_listener list run" where
  "list_guest_listeners a name =
     next_do (check (validate_vm_name_for_agent name)) (\<lambda>_.
     next_do (ping_agent a name) (\<lambda>alive.
     if \<not> alive then give []
     else
       next_do (outcome (run_guest_exec a name ''ss'' ''-tlnp'')) (\<lambda>r.
       case r of
         Inr (c # cs) \<Rightarrow> give (parse_listener_output Ss (c # cs))
       | _ \<Rightarrow>
         next_do (outcome (run_guest_exec a name ''netstat'' ''-tln'')) (\<lambda>r.
         case r of
           Inr (c # cs) \<Rightarrow> give (parse_listener_output Netstat (c # cs))
         | _ \<Rightarrow> give []))))"

section \<open>What the answers are\<close>

lemma rsplit_once_last: "c \<notin> set b \<Longrightarrow> rsplit_once c (a @ c # b) = Some (a, b)"
proof -
  have "split_once c (x @ c # y) = Some (x, y)" if "c \<notin> set x" for x y
    using that by (induction x) auto
  from this[of "rev b" "rev a"] show "c \<notin> set b \<Longrightarrow> ?thesis" by (simp add: rsplit_once_def)
qed

lemma split_addr_port_ok: "split_addr_port s = Some (addr, port) \<Longrightarrow> addr \<noteq> [] \<and> port \<noteq> 0"
  by (auto simp: split_addr_port_def Let_def word_of_nat_eq_0_iff dest!: dvd_imp_le
      split: option.splits prod.splits if_splits)

lemma parse_listener_line_ok:
  "parse_listener_line fmt line = Some l \<Longrightarrow> bind_addr l \<noteq> [] \<and> lport l \<noteq> 0"
  by (auto simp: parse_listener_line_def parse_ss_line_def parse_netstat_line_def Let_def dest: split_addr_port_ok
      split: listener_format.splits if_splits option.splits prod.splits)

lemma listener_lines_ok:
  assumes "seen = socket ` set found" "distinct (map socket found)" "length found < 1024"
    "list_all (\<lambda>l. bind_addr l \<noteq> [] \<and> lport l \<noteq> 0) found"
  shows "length (listener_lines fmt seen found ls) \<le> 1024 \<and> distinct (map socket (listener_lines fmt seen found ls))
    \<and> list_all (\<lambda>l. bind_addr l \<noteq> [] \<and> lport l \<noteq> 0) (listener_lines fmt seen found ls)"
  using assms
proof (induction fmt seen found ls rule: listener_lines.induct)
  case (2 fmt seen found line rest)
  show ?case
  proof (cases "length line > max_listener_line_len \<or> trim line = []")
    case True
    with 2 show ?thesis by (simp only: listener_lines.simps if_True)
  next
    case False
    show ?thesis
    proof (cases "parse_listener_line fmt (trim line)")
      case None
      with 2 False show ?thesis by simp
    next
      case (Some l)
      with 2 False parse_listener_line_ok[OF Some] show ?thesis by auto
    qed
  qed
qed simp

text \<open>Whatever a guest prints, at most 1024 listening sockets are read from it, no two of them have the same
  port and address, and each has a port that is not zero and an address.\<close>
theorem listeners_bounded:
  "length (parse_listener_output fmt out) \<le> 1024 \<and> distinct (map socket (parse_listener_output fmt out))
     \<and> list_all (\<lambda>l. bind_addr l \<noteq> [] \<and> lport l \<noteq> 0) (parse_listener_output fmt out)"
  unfolding parse_listener_output_def by (rule listener_lines_ok) simp_all

text \<open>The address of a listening socket, printed as \<open>ss\<close> and \<open>netstat\<close> do, with brackets for an address
  that has colons, is read back.\<close>
theorem listener_address_roundtrip:
  assumes "addr \<noteq> []" "\<not> starts_with addr ''[''" "port \<noteq> 0"
  shows "split_addr_port (addr @ '':'' @ dec_w port) = Some (addr, port)
    \<and> split_addr_port (''['' @ addr @ '']:'' @ dec_w port) = Some (addr, port)"
proof -
  have no_colon: "CHR '':'' \<notin> set (dec_w port)"
    using dec_digits[of "CHR '':''" "unat port"] by (auto simp: dec_w_def ascii_defs)
  have le: "unat port \<le> 65535" "0 < unat port"
    using unsigned_less[where 'a = nat, of port] assms(3) by (simp_all add: unat_gt_0)
  have p: "parse_unsigned 4294967295 (dec_w port) = Some (unat port)"
    unfolding dec_w_def by (rule parse_unsigned_dec) (use le in simp)
  from assms(1,2) le show ?thesis
    using rsplit_once_last[OF no_colon, of addr] rsplit_once_last[OF no_colon, of "''['' @ addr @ '']''"]
    by (simp add: split_addr_port_def p Let_def ends_with_def Suc_le_eq)
qed

theorem listener_address_roundtrip_witness:
  "split_addr_port (''::'' @ '':'' @ dec_w (22 :: u16)) = Some (''::'', 22)
     \<and> split_addr_port (''['' @ ''::'' @ '']:'' @ dec_w (22 :: u16)) = Some (''::'', 22)"
  by (rule listener_address_roundtrip) simp_all

lemma within_agent_command [within_rules]: "within 1 (agent_command a name cmd)"
proof -
  have "within (1 + 0) (agent_command a name cmd)"
    unfolding agent_command_def by (intro within_rules within_next)
  then show ?thesis by simp
qed

lemma within_ping [within_rules]: "within 1 (ping_agent a name)"
proof -
  have "within (1 + 0) (ping_agent a name)"
    unfolding ping_agent_def by (intro within_rules within_next)
  then show ?thesis by simp
qed

lemma within_poll: "within (2 * n) (poll_exec a name pid n d)"
proof (induction n arbitrary: d)
  case (Suc n)
  have "within (1 + (1 + 2 * n)) (poll_exec a name pid (Suc n) d)"
    unfolding poll_exec.simps by (intro within_rules within_next Suc)
  then show ?case by simp
qed (simp add: within_basic)

lemma within_exec [within_rules]: "within (1 + (0 + 2 * 6)) (run_guest_exec a name path arg)"
  unfolding run_guest_exec_def by (intro within_next within_rules within_poll)

lemma within_listeners: "within 27 (list_guest_listeners a name)"
proof -
  have "within (0 + (1 + ((1 + (0 + 2 * 6)) + ((1 + (0 + 2 * 6)) + 0)))) (list_guest_listeners a name)"
    unfolding list_guest_listeners_def by (intro within_next within_rules)
  then show ?thesis by simp
qed

lemma ping_total: "\<exists>b. snd (ping_agent a name t) = Inr b"
  by (simp add: ping_agent_def outcome_def next_do_def give_def)

lemma listeners_fail:
  "snd (list_guest_listeners a name t) = Inl e
     \<Longrightarrow> validate_vm_name_for_agent name = Inl e \<and> fst (list_guest_listeners a name t) = t"
  using ping_total[of a name t]
  by (cases "validate_vm_name_for_agent name")
    (auto simp: list_guest_listeners_def next_do_def check_def outcome_def give_def
      split: prod.splits sum.splits list.splits if_splits)

text \<open>C20: The probe for listening sockets ends after at most 27 actions, programs run and waits together, whatever
  the guest answers; it fails only for a name that the check refuses, and then nothing was run.\<close>
theorem listener_probe_ends:
  "(\<exists>u. fst (list_guest_listeners a name t) = t @ u \<and> length u \<le> 27)
     \<and> (case snd (list_guest_listeners a name t) of
          Inr _ \<Rightarrow> True
        | Inl e \<Rightarrow> validate_vm_name_for_agent name = Inl e \<and> fst (list_guest_listeners a name t) = t)"
  using within_listeners[of a name] listeners_fail[of a name t]
  by (auto simp: within_def split: sum.split)

end
