(* ===== verification/Pci.thy ===== *)
theory Pci
  imports Host_Run "HOL-Library.List_Lexorder" "HOL-Library.Char_ord"
begin

text \<open>
  The PCI devices of the host as sysfs shows them (vmm-core/src/pci.rs). What sysfs holds is a record of
  functions of the actions done so far. A value of sysfs is ASCII: where it is sliced, a slice inside a
  character (a panic) does not occur.
\<close>

section \<open>Sysfs\<close>

text \<open>\<open>link_name\<close>: the last component of the target of a link; \<open>entries_of\<close>: the outcome of reading a
  directory, whose entries may fail one by one; \<open>lowercase\<close>: \<open>str::to_lowercase\<close>.\<close>

record sysfs =
  machine :: world
  link_name :: "act list \<Rightarrow> string \<Rightarrow> string option"
  text_at :: "act list \<Rightarrow> string \<Rightarrow> string + string"
  dir_at :: "act list \<Rightarrow> string \<Rightarrow> bool"
  entries_of :: "act list \<Rightarrow> string \<Rightarrow> string + (string + string) list"
  lowercase :: "string \<Rightarrow> string"

definition SYSFS_PCI_DEVICES :: string where "SYSFS_PCI_DEVICES = ''/sys/bus/pci/devices''"
definition SYSFS_IOMMU_GROUPS :: string where "SYSFS_IOMMU_GROUPS = ''/sys/kernel/iommu_groups''"

definition dev_path :: "string \<Rightarrow> string" where
  "dev_path address = SYSFS_PCI_DEVICES @ ''/'' @ address"

definition group_devices :: "string \<Rightarrow> string" where
  "group_devices g = SYSFS_IOMMU_GROUPS @ ''/'' @ g @ ''/devices''"

text \<open>The entries that could be read.\<close>

definition names_in :: "sysfs \<Rightarrow> act list \<Rightarrow> string \<Rightarrow> string list" where
  "names_in s t d = (case entries_of s t d of Inl _ \<Rightarrow> []
     | Inr es \<Rightarrow> List.map_filter (\<lambda>e. case e of Inl _ \<Rightarrow> None | Inr n \<Rightarrow> Some n) es)"

section \<open>Devices\<close>

datatype pci_class = Gpu | Audio | Network | Nvme | UsbController | Storage | Bridge | Other_Class

record pci_device =
  address :: string
  vendor_id :: string
  device_id :: string
  vendor_name :: string
  device_name :: string
  dev_class :: pci_class
  class_code :: string
  driver :: "string option"
  iommu_group :: "u32 option"
  numa_node :: "int option"
  subsystem :: "string option"

definition classify_pci :: "string \<Rightarrow> pci_class" where
  "classify_pci c =
     (if c \<in> {''0300'', ''0302''} then Gpu
      else if c = ''0403'' then Audio
      else if c = ''0200'' then Network
      else if c = ''0108'' then Nvme
      else if c = ''0c03'' then UsbController
      else if c \<in> {''0100'', ''0101'', ''0104'', ''0106''} then Storage
      else if c = ''0604'' then Bridge
      else Other_Class)"

definition class_label :: "pci_class \<Rightarrow> string" where
  "class_label c = (case c of Gpu \<Rightarrow> ''GPU'' | Audio \<Rightarrow> ''Audio'' | Network \<Rightarrow> ''Network'' | Nvme \<Rightarrow> ''NVMe''
     | UsbController \<Rightarrow> ''USB Controller'' | Storage \<Rightarrow> ''Storage'' | Bridge \<Rightarrow> ''PCI Bridge'' | Other_Class \<Rightarrow> ''Other'')"

definition vendor_names :: "(string \<times> string) list" where
  "vendor_names =
    [(''10de'', ''NVIDIA Corporation''),
     (''1002'', ''Advanced Micro Devices, Inc. [AMD/ATI]''),
     (''8086'', ''Intel Corporation''),
     (''1022'', ''Advanced Micro Devices, Inc. [AMD]''),
     (''14e4'', ''Broadcom Inc.''),
     (''15b3'', ''Mellanox Technologies''),
     (''144d'', ''Samsung Electronics Co Ltd''),
     (''1987'', ''Phison Electronics Corporation''),
     (''1b4b'', ''Marvell Technology Group Ltd.''),
     (''1af4'', ''Red Hat, Inc. (virtio)''),
     (''1234'', ''QEMU'')]"

definition device_names :: "((string \<times> string) \<times> string) list" where
  "device_names =
    [((''10de'', ''2684''), ''GeForce RTX 4090''),
     ((''10de'', ''2704''), ''GeForce RTX 4080''),
     ((''10de'', ''2782''), ''GeForce RTX 4070 Ti''),
     ((''10de'', ''2786''), ''GeForce RTX 4070''),
     ((''10de'', ''2803''), ''GeForce RTX 4060 Ti''),
     ((''10de'', ''2882''), ''GeForce RTX 4060''),
     ((''10de'', ''2900''), ''GeForce RTX 5090''),
     ((''10de'', ''2920''), ''GeForce RTX 5080''),
     ((''10de'', ''2940''), ''GeForce RTX 5070 Ti''),
     ((''10de'', ''2960''), ''GeForce RTX 5070''),
     ((''10de'', ''2204''), ''GeForce RTX 3090''),
     ((''10de'', ''2206''), ''GeForce RTX 3080''),
     ((''10de'', ''2484''), ''GeForce RTX 3070''),
     ((''10de'', ''2504''), ''GeForce RTX 3060 Ti''),
     ((''10de'', ''2544''), ''GeForce RTX 3060''),
     ((''10de'', ''1e04''), ''GeForce RTX 2080 Ti''),
     ((''10de'', ''1e82''), ''GeForce RTX 2080''),
     ((''10de'', ''1f02''), ''GeForce RTX 2070''),
     ((''10de'', ''1f82''), ''GeForce RTX 2060''),
     ((''10de'', ''22ba''), ''NVIDIA HD Audio Controller''),
     ((''10de'', ''228b''), ''NVIDIA HD Audio Controller''),
     ((''10de'', ''1aef''), ''NVIDIA HD Audio Controller''),
     ((''1002'', ''744c''), ''Radeon RX 7900 XTX''),
     ((''1002'', ''7480''), ''Radeon RX 7900 XT''),
     ((''1002'', ''7460''), ''Radeon RX 7800 XT''),
     ((''1002'', ''7470''), ''Radeon RX 7700 XT''),
     ((''1002'', ''7500''), ''Radeon RX 9070 XT''),
     ((''1002'', ''7510''), ''Radeon RX 9070''),
     ((''1002'', ''73bf''), ''Radeon RX 6900 XT''),
     ((''1002'', ''73af''), ''Radeon RX 6800 XT''),
     ((''1002'', ''73df''), ''Radeon RX 6700 XT''),
     ((''1002'', ''73ff''), ''Radeon RX 6600 XT''),
     ((''1002'', ''ab28''), ''AMD HD Audio Controller''),
     ((''1002'', ''ab38''), ''AMD HD Audio Controller''),
     ((''8086'', ''56a0''), ''Arc A770''),
     ((''8086'', ''56a1''), ''Arc A750''),
     ((''8086'', ''5690''), ''Arc A380''),
     ((''8086'', ''9a49''), ''UHD Graphics (11th Gen)''),
     ((''8086'', ''4680''), ''UHD Graphics (12th Gen)''),
     ((''8086'', ''a780''), ''UHD Graphics (13th/14th Gen)''),
     ((''144d'', ''a808''), ''NVMe SSD Controller PM981''),
     ((''144d'', ''a809''), ''NVMe SSD Controller 980''),
     ((''144d'', ''a80a''), ''NVMe SSD Controller 980 PRO''),
     ((''1987'', ''5016''), ''PS5016-E16 PCIe 4.0 NVMe Controller''),
     ((''1987'', ''5018''), ''PS5018-E18 PCIe 4.0 NVMe Controller''),
     ((''1987'', ''5019''), ''PS5019-E19T PCIe 4.0 NVMe Controller''),
     ((''1af4'', ''1000''), ''virtio-net''),
     ((''1af4'', ''1001''), ''virtio-blk''),
     ((''1af4'', ''1003''), ''virtio-console''),
     ((''1af4'', ''1005''), ''virtio-scsi''),
     ((''1af4'', ''1009''), ''virtio-fs''),
     ((''1af4'', ''1050''), ''virtio-gpu''),
     ((''1234'', ''1111''), ''QEMU VGA'')]"

definition lookup_names :: "string \<Rightarrow> string \<Rightarrow> string \<times> string" where
  "lookup_names v d =
     ((case map_of vendor_names v of None \<Rightarrow> ''Unknown vendor'' | Some n \<Rightarrow> n),
      (case map_of device_names (v, d) of None \<Rightarrow> ''Unknown device'' | Some n \<Rightarrow> n))"

section \<open>Reading\<close>

text \<open>\<open>trim_start_matches("0x")\<close>: every \<open>0x\<close> at the start goes.\<close>

fun strip_0x :: "string \<Rightarrow> string" where
  "strip_0x (c # d # s) = (if c = CHR ''0'' \<and> d = CHR ''x'' then strip_0x s else c # d # s)"
| "strip_0x s = s"

definition read_sysfs_hex :: "sysfs \<Rightarrow> act list \<Rightarrow> string \<Rightarrow> string option" where
  "read_sysfs_hex s t p = (case text_at s t p of Inl _ \<Rightarrow> None
     | Inr raw \<Rightarrow> (let v = strip_0x (trim raw) in if v = [] then None else Some (lowercase s v)))"

definition parse_i32 :: "string \<Rightarrow> int option" where
  "parse_i32 v = (case v of
       c # d # r \<Rightarrow> if c = CHR ''-'' then (if d = CHR ''+'' then None else map_option (\<lambda>n. - int n) (parse_unsigned 2147483648 (d # r)))
                  else map_option int (parse_unsigned 2147483647 v)
     | _ \<Rightarrow> map_option int (parse_unsigned 2147483647 v))"

definition read_sysfs_i32 :: "sysfs \<Rightarrow> act list \<Rightarrow> string \<Rightarrow> int option" where
  "read_sysfs_i32 s t p = (case text_at s t p of Inl _ \<Rightarrow> None | Inr raw \<Rightarrow> parse_i32 (trim raw))"

definition parse_u32 :: "string \<Rightarrow> u32 option" where
  "parse_u32 v = map_option of_nat (parse_unsigned 4294967295 v)"

definition read_iommu_group :: "sysfs \<Rightarrow> act list \<Rightarrow> string \<Rightarrow> u32 option" where
  "read_iommu_group s t base = Option.bind (link_name s t (base @ ''/iommu_group'')) parse_u32"

definition read_subsystem :: "sysfs \<Rightarrow> act list \<Rightarrow> string \<Rightarrow> string option" where
  "read_subsystem s t base =
     (case (read_sysfs_hex s t (base @ ''/subsystem_vendor''), read_sysfs_hex s t (base @ ''/subsystem_device'')) of
        (Some v, Some d) \<Rightarrow> Some (v @ '':'' @ d)
      | _ \<Rightarrow> None)"

definition read_pci_device :: "sysfs \<Rightarrow> act list \<Rightarrow> string \<Rightarrow> pci_device option" where
  "read_pci_device s t a =
     (let base = dev_path a in
      if \<not> dir_at s t base then None
      else (case (read_sysfs_hex s t (base @ ''/vendor''), read_sysfs_hex s t (base @ ''/device''),
              read_sysfs_hex s t (base @ ''/class'')) of
          (Some v, Some d, Some raw) \<Rightarrow>
            (let code = (if length raw \<ge> 4 then take 4 raw else raw); names = lookup_names v d in
             Some \<lparr>address = a, vendor_id = v, device_id = d, vendor_name = fst names, device_name = snd names,
               dev_class = classify_pci code, class_code = code, driver = link_name s t (base @ ''/driver''),
               iommu_group = read_iommu_group s t base, numa_node = read_sysfs_i32 s t (base @ ''/numa_node''),
               subsystem = read_subsystem s t base\<rparr>)
        | _ \<Rightarrow> None))"

definition scan_pci_devices :: "sysfs \<Rightarrow> act list \<Rightarrow> pci_device list" where
  "scan_pci_devices s t = sort_key address (List.map_filter (read_pci_device s t) (names_in s t SYSFS_PCI_DEVICES))"

definition find_gpus :: "sysfs \<Rightarrow> act list \<Rightarrow> pci_device list" where
  "find_gpus s t = List.filter (\<lambda>d. dev_class d = Gpu) (scan_pci_devices s t)"

record iommu_group_info =
  group_id :: u32
  group_members :: "pci_device list"

definition scan_iommu_groups :: "sysfs \<Rightarrow> act list \<Rightarrow> iommu_group_info list" where
  "scan_iommu_groups s t = sort_key group_id (List.map_filter (\<lambda>n.
     map_option (\<lambda>i. \<lparr>group_id = i,
       group_members = List.map_filter (read_pci_device s t) (names_in s t (group_devices n))\<rparr>) (parse_u32 n))
     (names_in s t SYSFS_IOMMU_GROUPS))"

definition get_iommu_group_members :: "sysfs \<Rightarrow> act list \<Rightarrow> string \<Rightarrow> pci_device list" where
  "get_iommu_group_members s t a =
     (case read_iommu_group s t (dev_path a) of
        None \<Rightarrow> []
      | Some g \<Rightarrow> List.map_filter (read_pci_device s t) (names_in s t (group_devices (dec_w g))))"

definition is_iommu_enabled :: "sysfs \<Rightarrow> act list \<Rightarrow> bool" where
  "is_iommu_enabled s t = (case entries_of s t SYSFS_IOMMU_GROUPS of Inl _ \<Rightarrow> False | Inr es \<Rightarrow> es \<noteq> [])"

definition is_bound_to_vfio :: "sysfs \<Rightarrow> act list \<Rightarrow> string \<Rightarrow> bool" where
  "is_bound_to_vfio s t a \<longleftrightarrow> link_name s t (dev_path a @ ''/driver'') = Some ''vfio-pci''"

section \<open>Display\<close>

definition show_pci_device :: "pci_device \<Rightarrow> string" where
  "show_pci_device d =
     ''['' @ address d @ ''] '' @ vendor_name d @ '' '' @ device_name d @ '' (driver: ''
       @ (case driver d of None \<Rightarrow> ''none'' | Some n \<Rightarrow> n) @ '', IOMMU group: ''
       @ (case iommu_group d of None \<Rightarrow> ''none'' | Some g \<Rightarrow> dec_w g) @ '')''"

definition show_iommu_group :: "iommu_group_info \<Rightarrow> string" where
  "show_iommu_group g = ''IOMMU Group '' @ dec_w (group_id g) @ '':'' @ [CHR 0x0A]
     @ concat (map (\<lambda>d. ''  '' @ show_pci_device d @ [CHR 0x0A]) (group_members g))"

end
