(* ===== verification/Vfio.thy ===== *)
theory Vfio
  imports Pci Path_Text
begin

text \<open>
  Passing a PCI device through to a machine (vmm-core/src/vfio.rs): binding a device or a whole IOMMU group
  to \<open>vfio-pci\<close>, giving the drivers back, the readiness report and the hook scripts. An error that is a
  string in the code is \<open>Other\<close> of that string.
\<close>

section \<open>Checks\<close>

definition hex_digits :: "nat \<Rightarrow> string \<Rightarrow> bool" where
  "hex_digits n s \<longleftrightarrow> length s = n \<and> list_all (ascii_char ascii_hexdigit) (chars s)"

definition slot_function :: "string \<Rightarrow> bool" where
  "slot_function s = (case split_on (CHR ''.'') s of [a, b] \<Rightarrow> hex_digits 2 a \<and> hex_digits 1 b | _ \<Rightarrow> False)"

definition is_valid_pci_address :: "string \<Rightarrow> bool" where
  "is_valid_pci_address a = (case split_on (CHR '':'') a of
       [d, b, s] \<Rightarrow> hex_digits 4 d \<and> hex_digits 2 b \<and> slot_function s
     | _ \<Rightarrow> False)"

definition is_valid_driver_name :: "string \<Rightarrow> bool" where
  "is_valid_driver_name n \<longleftrightarrow> n \<noteq> [] \<and> length n \<le> 64
     \<and> list_all (ascii_char (\<lambda>c. ascii_alnum c \<or> c = CHR ''-'' \<or> c = CHR ''_'')) (chars n)"

definition validate_pci_bus :: "string \<Rightarrow> bool" where
  "validate_pci_bus s \<longleftrightarrow> s \<noteq> [] \<and> length s \<le> 12 \<and> (case split_on (CHR '':'') s of
       [d, b, sf] \<Rightarrow> hex_digits 4 d \<and> hex_digits 2 b \<and> slot_function sf
     | [b, sf] \<Rightarrow> hex_digits 2 b \<and> slot_function sf
     | _ \<Rightarrow> False)"

definition validate_vm_name_for_hook :: "string \<Rightarrow> bool" where
  "validate_vm_name_for_hook n \<longleftrightarrow> n \<noteq> [] \<and> length n \<le> 64
     \<and> list_all (ascii_char (\<lambda>c. ascii_alnum c \<or> c = CHR ''_'' \<or> c = CHR ''-'')) (chars n)"

definition KNOWN_DISPLAY_MANAGERS :: "string list" where
  "KNOWN_DISPLAY_MANAGERS = [''gdm'', ''gdm3'', ''sddm'', ''lightdm'', ''ly'', ''lxdm'', ''kdm'', ''slim'']"

definition validate_dm_name :: "string \<Rightarrow> bool" where
  "validate_dm_name n \<longleftrightarrow> n \<in> set KNOWN_DISPLAY_MANAGERS"

text \<open>\<open>splitn(2, ':')\<close> has two parts when there is a colon.\<close>

definition short_pci_bus :: "string \<Rightarrow> string" where
  "short_pci_bus a = (case split_once (CHR '':'') a of Some (d, r) \<Rightarrow> if length d = 4 then r else a | None \<Rightarrow> a)"

section \<open>Binding\<close>

definition shell_write :: "string \<Rightarrow> string \<Rightarrow> string" where
  "shell_write path value = ''echo '' @ sq value @ '' > '' @ sq path"

definition write_args :: "string \<Rightarrow> string \<Rightarrow> string \<Rightarrow> string list" where
  "write_args prog path value = [prog, ''bash'', ''-c'', shell_write path value]"

definition write_privileged :: "sysfs \<Rightarrow> string \<Rightarrow> string \<Rightarrow> unit run" where
  "write_privileged s path value =
     (if \<not> starts_with path ''/sys/'' \<and> \<not> starts_with path ''/dev/'' then
        stop (Other (''Refusing to write to non-sysfs path: '' @ path))
      else
        next_do (try_command (machine s) (write_args ''pkexec'' path value)) (\<lambda>r.
        if (case r of Inr out \<Rightarrow> out_ok out | Inl _ \<Rightarrow> False) then give ()
        else
          next_do (try_command (machine s) (write_args ''sudo'' path value)) (\<lambda>r.
          case r of
            Inr out \<Rightarrow> if out_ok out then give ()
              else stop (Other (''Privileged write to '' @ path @ '' failed: '' @ trim (out_stderr out)))
          | Inl e \<Rightarrow> stop (Other (''Could not execute privileged command: '' @ e
              @ ''. Ensure pkexec or sudo is available.'')))))"

definition read_sysfs_id :: "sysfs \<Rightarrow> act list \<Rightarrow> string \<Rightarrow> string vmm_result" where
  "read_sysfs_id s t p = (case text_at s t p of
       Inl e \<Rightarrow> Inl (Other (''Failed to read '' @ p @ '': '' @ e))
     | Inr raw \<Rightarrow> Inr (lowercase s (strip_0x (trim raw))))"

definition error_text :: "vmm_error \<Rightarrow> string" where
  "error_text e = (case e of Other m \<Rightarrow> m | _ \<Rightarrow> [])"

definition vfio_file :: "string \<Rightarrow> string" where
  "vfio_file f = ''/sys/bus/pci/drivers/vfio-pci/'' @ f"

definition unbind_file :: "string \<Rightarrow> string" where
  "unbind_file a = dev_path a @ ''/driver/unbind''"

text \<open>The unbinding of the driver in place, when there is one.\<close>

definition unbind_driver :: "sysfs \<Rightarrow> string \<Rightarrow> unit run" where
  "unbind_driver s a =
     next_do (exists_path (machine s) (unbind_file a)) (\<lambda>there.
     if there then write_privileged s (unbind_file a) a else give ())"

definition bind_to_vfio :: "sysfs \<Rightarrow> string \<Rightarrow> unit run" where
  "bind_to_vfio s a =
     (if \<not> is_valid_pci_address a then stop (Other (''Invalid PCI address: '' @ a))
      else
        next_do (ask (\<lambda>t. is_bound_to_vfio s t a)) (\<lambda>bound.
        if bound then give ()
        else
          next_do (ask (\<lambda>t. dir_at s t (dev_path a))) (\<lambda>there.
          if \<not> there then stop (Other (''PCI device not found: '' @ a))
          else
            next_do (ask (\<lambda>t. read_sysfs_id s t (dev_path a @ ''/vendor''))) (\<lambda>v.
            next_do (check v) (\<lambda>vendor.
            next_do (ask (\<lambda>t. read_sysfs_id s t (dev_path a @ ''/device''))) (\<lambda>d.
            next_do (check d) (\<lambda>dev.
            next_do (unbind_driver s a) (\<lambda>_.
            next_do (outcome (write_privileged s (vfio_file ''new_id'') (vendor @ '' '' @ dev))) (\<lambda>r.
            next_do (case r of
                Inl e \<Rightarrow> if str_contains (error_text e) ''File exists'' \<or> str_contains (error_text e) ''EEXIST''
                  then give () else stop e
              | Inr _ \<Rightarrow> give ()) (\<lambda>_.
            write_privileged s (vfio_file ''bind'') a))))))))))"

definition bind_file :: "string \<Rightarrow> string" where
  "bind_file drv = ''/sys/bus/pci/drivers/'' @ drv @ ''/bind''"

definition unbind_from_vfio :: "sysfs \<Rightarrow> string \<Rightarrow> string \<Rightarrow> unit run" where
  "unbind_from_vfio s a drv =
     (if \<not> is_valid_pci_address a then stop (Other (''Invalid PCI address: '' @ a))
      else if \<not> is_valid_driver_name drv then stop (Other (''Invalid driver name: '' @ drv))
      else
        next_do (unbind_driver s a) (\<lambda>_.
        write_privileged s (bind_file drv) a))"

section \<open>Groups\<close>

text \<open>A device has a driver to give back when it had one that is not \<open>vfio-pci\<close>.\<close>

definition to_restore :: "string \<times> string \<Rightarrow> bool" where
  "to_restore d \<longleftrightarrow> snd d \<noteq> ''vfio-pci'' \<and> snd d \<noteq> []"

fun roll_back :: "sysfs \<Rightarrow> (string \<times> string) list \<Rightarrow> unit run" where
  "roll_back s [] = give ()"
| "roll_back s (d # ds) =
     (if to_restore d then next_do (outcome (unbind_from_vfio s (fst d) (snd d))) (\<lambda>_. roll_back s ds)
      else roll_back s ds)"

fun bind_entries ::
  "sysfs \<Rightarrow> (string \<times> string) list \<Rightarrow> (string + string) list \<Rightarrow> (string \<times> string) list run" where
  "bind_entries s bound [] = give bound"
| "bind_entries s bound (Inl e # es) = stop (Other (''Read error: '' @ e))"
| "bind_entries s bound (Inr a # es) =
     next_do (ask (\<lambda>t. link_name s t (dev_path a @ ''/driver''))) (\<lambda>l.
     let original = (case l of None \<Rightarrow> [] | Some n \<Rightarrow> n) in
     if original = ''vfio-pci'' then bind_entries s (bound @ [(a, ''vfio-pci'')]) es
     else
       next_do (outcome (bind_to_vfio s a)) (\<lambda>r.
       case r of
         Inl e \<Rightarrow> next_do (roll_back s bound) (\<lambda>_.
           stop (Other (''Failed to bind '' @ a @ '' to vfio-pci: '' @ error_text e @ ''. Rolled back.'')))
       | Inr _ \<Rightarrow> bind_entries s (bound @ [(a, original)]) es))"

definition bind_iommu_group_to_vfio :: "sysfs \<Rightarrow> u32 \<Rightarrow> (string \<times> string) list run" where
  "bind_iommu_group_to_vfio s g =
     next_do (ask (\<lambda>t. dir_at s t (group_devices (dec_w g)))) (\<lambda>there.
     if \<not> there then stop (Other (''IOMMU group '' @ dec_w g @ '' not found''))
     else
       next_do (ask (\<lambda>t. entries_of s t (group_devices (dec_w g)))) (\<lambda>r.
       case r of
         Inl e \<Rightarrow> stop (Other (''Failed to read IOMMU group '' @ dec_w g @ '': '' @ e))
       | Inr es \<Rightarrow> bind_entries s [] es))"

fun restore_each :: "sysfs \<Rightarrow> string list \<Rightarrow> (string \<times> string) list \<Rightarrow> string list run" where
  "restore_each s errors [] = give errors"
| "restore_each s errors (d # ds) =
     (if \<not> to_restore d then restore_each s errors ds
      else
        next_do (outcome (unbind_from_vfio s (fst d) (snd d))) (\<lambda>r.
        restore_each s (errors @ (case r of Inl e \<Rightarrow> [fst d @ '': '' @ error_text e] | Inr _ \<Rightarrow> [])) ds))"

definition restore_drivers :: "sysfs \<Rightarrow> (string \<times> string) list \<Rightarrow> unit run" where
  "restore_drivers s ds =
     next_do (restore_each s [] ds) (\<lambda>errors.
     if errors = [] then give ()
     else stop (Other (''Failed to restore some drivers:'' @ [CHR 0x0A] @ join [CHR 0x0A] errors)))"

section \<open>Readiness\<close>

record vfio_status =
  iommu_enabled :: bool
  vfio_loaded :: bool
  kernel_params_ok :: bool
  issues :: "string list"
  suggestions :: "string list"

definition is_module_available :: "sysfs \<Rightarrow> act list \<Rightarrow> string \<Rightarrow> bool" where
  "is_module_available s t m \<longleftrightarrow> dir_at s t (''/sys/module/'' @ m)
     \<or> (case text_at s t ''/proc/modules'' of Inl _ \<Rightarrow> False
        | Inr ms \<Rightarrow> list_ex (\<lambda>l. starts_with l m \<and> starts_with (drop (length m) l) '' '') (str_lines ms))"

definition check_kernel_iommu_params :: "sysfs \<Rightarrow> act list \<Rightarrow> bool" where
  "check_kernel_iommu_params s t = (let l = (case text_at s t ''/proc/cmdline'' of Inl _ \<Rightarrow> [] | Inr l \<Rightarrow> l) in
     str_contains l ''intel_iommu=on'' \<or> str_contains l ''amd_iommu=on'')"

text \<open>Each test that fails adds an issue and a suggestion.\<close>

definition readiness_tests :: "sysfs \<Rightarrow> act list \<Rightarrow> (bool \<times> string \<times> string) list" where
  "readiness_tests s t =
     [(is_iommu_enabled s t, ''IOMMU is not enabled '' @ em_dash @ '' no IOMMU groups found.'',
       ''Add '' @ sq ''intel_iommu=on iommu=pt'' @ '' (Intel) or '' @ sq ''amd_iommu=on iommu=pt''
         @ '' (AMD) to your kernel command line (e.g. in /etc/default/grub GRUB_CMDLINE_LINUX_DEFAULT) and reboot.''),
      (is_module_available s t ''vfio_pci'', ''vfio-pci kernel module is not loaded.'',
       ''Load it with '' @ sq ''sudo modprobe vfio-pci'' @ '' or add '' @ sq ''vfio-pci'' @ '' to /etc/modules-load.d/.''),
      (is_module_available s t ''vfio'', ''vfio base kernel module is not loaded.'',
       ''Load it with '' @ sq ''sudo modprobe vfio'' @ ''.''),
      (check_kernel_iommu_params s t,
       ''Kernel command line does not contain '' @ sq ''intel_iommu=on'' @ '' or '' @ sq ''amd_iommu=on'' @ ''.'',
       ''Edit /etc/default/grub, add the appropriate IOMMU parameter, run update-grub, and reboot.''),
      (exists_at (machine s) t ''/dev/vfio/vfio'', ''/dev/vfio/vfio device node does not exist.'',
       ''This usually means the vfio module is not loaded. Try '' @ sq ''sudo modprobe vfio-pci'' @ ''.'')]"

definition check_vfio_readiness :: "sysfs \<Rightarrow> act list \<Rightarrow> vfio_status" where
  "check_vfio_readiness s t = (let bad = List.filter (Not \<circ> fst) (readiness_tests s t) in
     \<lparr>iommu_enabled = is_iommu_enabled s t, vfio_loaded = is_module_available s t ''vfio_pci'',
      kernel_params_ok = check_kernel_iommu_params s t, issues = map (fst \<circ> snd) bad, suggestions = map (snd \<circ> snd) bad\<rparr>)"

definition show_status :: "vfio_status \<Rightarrow> string" where
  "show_status v =
     (let nl = [CHR 0x0A]; ok = (\<lambda>b. if b then ''OK'' else ''MISSING''); items = concat \<circ> map (\<lambda>i. ''  - '' @ i @ nl) in
      ''VFIO Readiness: IOMMU='' @ ok (iommu_enabled v) @ '', vfio-pci='' @ ok (vfio_loaded v) @ '', kernel_params=''
        @ ok (kernel_params_ok v) @ nl
        @ (if issues v = [] then [] else ''Issues:'' @ nl @ items (issues v))
        @ (if suggestions v = [] then [] else ''Suggestions:'' @ nl @ items (suggestions v)))"

section \<open>Hook scripts\<close>

definition text_of_lines :: "string list \<Rightarrow> string" where
  "text_of_lines ls = concat (map (\<lambda>l. l @ [CHR 0x0A]) ls)"

text \<open>The two scripts, one line each, with the name of the machine, the bus of the device and the display
  manager.\<close>

definition before_start_lines :: "string \<Rightarrow> string \<Rightarrow> string \<Rightarrow> string list" where
  \<open>before_start_lines n b d =
   [
    ''#!/usr/bin/env bash'',
    ''set -e'',
    ''# Single-GPU passthrough: detach display from host before VM start'',
    ''# VM: '' @ n,
    ''# Generated by Libre VMM Wave 12.2'',
    [],
    ''DM="'' @ d @ ''"'',
    ''GPU_BUS="'' @ b @ ''"'',
    ''GPU_NAME="GPU"'',
    [],
    ''logger -t libre-vmm "Stopping display manager $DM for VM '' @ n @ ''"'',
    ''if [ -n "$DM" ]; then'',
    ''    systemctl stop "$DM"'',
    ''fi'',
    [],
    ''# Switch to TTY1 so the framebuffer is freed'',
    ''chvt 1'',
    [],
    ''# Unbind console from GPU framebuffer driver'',
    ''echo 0 > /sys/class/vtconsole/vtcon0/bind 2>/dev/null || true'',
    ''echo 0 > /sys/class/vtconsole/vtcon1/bind 2>/dev/null || true'',
    ''echo efi-framebuffer.0 > /sys/bus/platform/drivers/efi-framebuffer/unbind 2>/dev/null || true'',
    [],
    ''sleep 2'',
    [],
    ''# Unbind the GPU from its current driver'',
    ''for dev in 0000:$GPU_BUS-display 0000:$GPU_BUS-audio; do'',
    ''    if [ -e "/sys/bus/pci/devices/0000:$GPU_BUS/driver/unbind" ]; then'',
    ''        logger -t libre-vmm "Unbinding $GPU_BUS from current driver"'',
    ''        echo "0000:$GPU_BUS" > "/sys/bus/pci/devices/0000:$GPU_BUS/driver/unbind"'',
    ''    fi'',
    ''done'',
    [],
    ''# Load vfio-pci'',
    ''modprobe vfio-pci'']\<close>

definition after_stop_lines :: "string \<Rightarrow> string \<Rightarrow> string \<Rightarrow> string list" where
  \<open>after_stop_lines n b d =
   [
    ''#!/usr/bin/env bash'',
    ''set -e'',
    ''# Single-GPU passthrough: restore display to host after VM stop'',
    ''# VM: '' @ n,
    [],
    ''DM="'' @ d @ ''"'',
    ''GPU_BUS="'' @ b @ ''"'',
    [],
    ''logger -t libre-vmm "Restoring display for VM '' @ n @ ''"'',
    [],
    ''# Rebind console'',
    ''echo 1 > /sys/class/vtconsole/vtcon0/bind 2>/dev/null || true'',
    ''echo 1 > /sys/class/vtconsole/vtcon1/bind 2>/dev/null || true'',
    ''echo efi-framebuffer.0 > /sys/bus/platform/drivers/efi-framebuffer/bind 2>/dev/null || true'',
    [],
    ''# Restart display manager'',
    ''if [ -n "$DM" ]; then'',
    ''    systemctl start "$DM"'',
    ''fi'']\<close>

definition modprobe_lines :: "string \<Rightarrow> string list" where
  \<open>modprobe_lines ids =
   [
    ''# VFIO passthrough '' @ em_dash @ '' generated by Libre VMM'',
    ''# Ensure vfio-pci loads before native GPU/device drivers.'',
    ''softdep nvidia pre: vfio-pci'',
    ''softdep amdgpu pre: vfio-pci'',
    ''softdep nouveau pre: vfio-pci'',
    ''softdep i915 pre: vfio-pci'',
    [],
    ''options vfio-pci ids='' @ ids]\<close>

definition generate_modprobe_config :: "(string \<times> string) list \<Rightarrow> string" where
  "generate_modprobe_config ids =
     (if ids = [] then ''# No devices specified for VFIO passthrough.'' @ [CHR 0x0A]
      else text_of_lines (modprobe_lines (join '','' (map (\<lambda>(v, d). v @ '':'' @ d) ids))))"

definition safe_name :: "string \<Rightarrow> string" where
  "safe_name n = (if validate_vm_name_for_hook n then n else ''INVALID_VM_NAME'')"

definition safe_bus :: "string \<Rightarrow> string" where
  "safe_bus b = (if validate_pci_bus b then short_pci_bus b else ''INVALID_PCI_BUS'')"

definition safe_dm :: "string \<Rightarrow> string" where
  "safe_dm d = (if validate_dm_name d then d else [])"

definition render_before_start_script :: "string \<Rightarrow> string \<Rightarrow> string \<Rightarrow> string" where
  "render_before_start_script n b d = text_of_lines (before_start_lines (safe_name n) (safe_bus b) (safe_dm d))"

definition render_after_stop_script :: "string \<Rightarrow> string \<Rightarrow> string \<Rightarrow> string" where
  "render_after_stop_script n b d = text_of_lines (after_stop_lines (safe_name n) (safe_bus b) (safe_dm d))"

definition render_sudoers_snippet :: "string \<Rightarrow> string \<Rightarrow> string" where
  "render_sudoers_snippet user dir =
     (let kept = of_chars (List.filter (ascii_char (\<lambda>c. ascii_alnum c \<or> c = CHR ''_'' \<or> c = CHR ''-'')) (chars user));
          u = (if kept = [] then ''USER'' else kept) in
      text_of_lines
        [''# Generated by Libre VMM '' @ em_dash @ '' install with `sudo visudo -f /etc/sudoers.d/libre-vmm-'' @ u @ ''`'',
         u @ '' ALL=(root) NOPASSWD: '' @ dir @ ''/*''])"

text \<open>\<open>home\<close>: the variable \<open>HOME\<close>.\<close>

definition hook_dir_for_vm :: "string option \<Rightarrow> string option \<Rightarrow> string \<Rightarrow> string" where
  "hook_dir_for_vm home base n = path_join (case base of Some b \<Rightarrow> b
     | None \<Rightarrow> (case home of Some h \<Rightarrow> path_join h ''.local/share/libre-vmm/vfio-hooks'' | None \<Rightarrow> ''/tmp/libre-vmm-hooks'')) n"

definition save_hook_scripts :: "world \<Rightarrow> string option \<Rightarrow> string option \<Rightarrow> string \<Rightarrow> string \<Rightarrow> string \<Rightarrow> string run" where
  "save_hook_scripts w home base n before after =
     (if \<not> validate_vm_name_for_hook n then stop (Other ''Invalid VM name for hook scripts'')
      else
        (let dir = hook_dir_for_vm home base n; bp = path_join dir ''before-start.sh''; ap = path_join dir ''after-stop.sh'' in
         next_do (perform w (\<lambda>e. Other (''Failed to create '' @ dir @ '': '' @ e)) (Make_Dir dir)) (\<lambda>_.
         next_do (perform w (\<lambda>e. Other (''Failed to write '' @ bp @ '': '' @ e)) (Write bp before)) (\<lambda>_.
         next_do (perform w (\<lambda>e. Other (''Failed to write '' @ ap @ '': '' @ e)) (Write ap after)) (\<lambda>_.
         next_do (attempt w (Access (Set_Mode bp 493))) (\<lambda>_.
         next_do (attempt w (Access (Set_Mode ap 493))) (\<lambda>_. give dir)))))))"

definition detect_display_manager :: "sysfs \<Rightarrow> act list \<Rightarrow> string option" where
  "detect_display_manager s t =
     (case link_name s t ''/etc/systemd/system/display-manager.service'' of
        None \<Rightarrow> None
      | Some f \<Rightarrow> (let base = (if ends_with f ''.service'' then take (length f - 8) f else f) in
          if base \<in> set KNOWN_DISPLAY_MANAGERS then Some base else None))"

definition host_gpu_count :: "sysfs \<Rightarrow> act list \<Rightarrow> nat" where
  "host_gpu_count s t = length (find_gpus s t)"

definition detect_active_tty :: "sysfs \<Rightarrow> act list \<Rightarrow> string option" where
  "detect_active_tty s t =
     (case text_at s t ''/sys/class/tty/tty0/active'' of
        Inl _ \<Rightarrow> None
      | Inr raw \<Rightarrow> if trim raw = [] then None else Some (trim raw))"

section \<open>The commands that are run\<close>

lemma hex_digits_set: "hex_digits n s \<Longrightarrow> c \<in> set s \<Longrightarrow> ascii_hexdigit c"
  using ascii_char_all[of ascii_hexdigit s] by (auto simp: hex_digits_def list_all_iff)

lemma split_on_whole: "c \<in> set s \<Longrightarrow> c = k \<or> (\<exists>p \<in> set (split_on k s). c \<in> set p)"
  using split_on_cover[of c s k] by blast

lemma slot_function_set: "slot_function s \<Longrightarrow> c \<in> set s \<Longrightarrow> ascii_hexdigit c \<or> c = CHR ''.''"
  using split_on_whole[of c s "CHR ''.''"] by (auto simp: slot_function_def dest: hex_digits_set split: list.splits)

lemma pci_bus_set:
  "is_valid_pci_address s \<or> validate_pci_bus s \<Longrightarrow> c \<in> set s \<Longrightarrow> ascii_hexdigit c \<or> c = CHR ''.'' \<or> c = CHR '':''"
  using split_on_whole[of c s "CHR '':''"]
  by (auto simp: is_valid_pci_address_def validate_pci_bus_def dest: hex_digits_set slot_function_set split: list.splits)

abbreviation apostrophe :: char where "apostrophe \<equiv> CHR 0x27"

text \<open>A write whose file and value stay inside their quotes.\<close>

definition quoted_write :: "act \<Rightarrow> bool" where
  "quoted_write a \<longleftrightarrow> (case a of
       Run args \<Rightarrow> \<exists>prog path value. args = write_args prog path value \<and> prog \<in> {''pkexec'', ''sudo''}
         \<and> apostrophe \<notin> set path \<and> apostrophe \<notin> set value \<and> (starts_with path ''/sys/'' \<or> starts_with path ''/dev/'')
     | Path_Exists p \<Rightarrow> True
     | _ \<Rightarrow> False)"

lemma quoted_writeI:
  "apostrophe \<notin> set path \<Longrightarrow> apostrophe \<notin> set value \<Longrightarrow> emits quoted_write (write_privileged s path value)"
  unfolding write_privileged_def
  by (intro emits_rules emits_next) (auto simp: quoted_write_def)

lemma address_no_quote: "is_valid_pci_address a \<Longrightarrow> apostrophe \<notin> set a"
  using pci_bus_set[of a apostrophe] by (auto simp: ascii_defs)

lemma driver_no_quote: "is_valid_driver_name d \<Longrightarrow> apostrophe \<notin> set d"
  using ascii_char_all[of "\<lambda>c. ascii_alnum c \<or> c = CHR ''-'' \<or> c = CHR ''_''" d]
  by (auto simp: is_valid_driver_name_def list_all_iff ascii_defs)

lemma paths_no_quote:
  "apostrophe \<notin> set a \<Longrightarrow> apostrophe \<notin> set (unbind_file a)"
  "apostrophe \<notin> set (vfio_file ''new_id'')" "apostrophe \<notin> set (vfio_file ''bind'')"
  "apostrophe \<notin> set d \<Longrightarrow> apostrophe \<notin> set (bind_file d)"
  by (auto simp: unbind_file_def dev_path_def SYSFS_PCI_DEVICES_def vfio_file_def bind_file_def)

lemma unbind_driver_quoted: "is_valid_pci_address a \<Longrightarrow> emits quoted_write (unbind_driver s a)"
  unfolding unbind_driver_def
  by (intro emits_rules emits_next quoted_writeI paths_no_quote address_no_quote)
    (simp_all add: quoted_write_def)

lemma unbind_quoted: "emits quoted_write (unbind_from_vfio s a d)"
  unfolding unbind_from_vfio_def
  by (intro emits_rules emits_next unbind_driver_quoted quoted_writeI paths_no_quote address_no_quote driver_no_quote) auto

lemma bind_quoted:
  assumes "\<And>t p raw. text_at s t p = Inr raw \<Longrightarrow> apostrophe \<notin> set (lowercase s (strip_0x (trim raw)))"
  shows "emits quoted_write (bind_to_vfio s a)"
proof -
  have *: "apostrophe \<notin> set v" if "read_sysfs_id s t p = Inr v" for t p v
    using that assms by (auto simp: read_sysfs_id_def split: sum.splits)
  show ?thesis
    unfolding bind_to_vfio_def
    by (intro emits_rules emits_next unbind_driver_quoted quoted_writeI paths_no_quote)
      (auto simp: check_def ask_def dest: * address_no_quote)
qed

lemma roll_back_quoted: "emits quoted_write (roll_back s ds)"
  by (induction ds) (auto intro!: emits_rules emits_next unbind_quoted)

lemma bind_entries_quoted:
  assumes "\<And>t p raw. text_at s t p = Inr raw \<Longrightarrow> apostrophe \<notin> set (lowercase s (strip_0x (trim raw)))"
  shows "emits quoted_write (bind_entries s bound es)"
proof (induction es arbitrary: bound)
  case (Cons e es)
  show ?case
  proof (cases e)
    case (Inr a)
    show ?thesis
      unfolding Inr bind_entries.simps Let_def
      by (intro emits_rules emits_next bind_quoted[OF assms] roll_back_quoted Cons.IH)
  qed (simp add: emits_end)
qed (simp add: emits_end)

lemma restore_each_quoted: "emits quoted_write (restore_each s errors ds)"
  by (induction ds arbitrary: errors) (auto intro!: emits_rules emits_next unbind_quoted)

text \<open>C22: Whatever the names of the machine, the drivers and the devices are, binding a group and giving drivers
  back runs nothing but writes to files below /sys or /dev, and each file and value stays inside its quotes in
  the command line of the shell, provided the identifiers that sysfs shows hold no apostrophe.\<close>
theorem privileged_writes_quoted:
  assumes "\<And>t p raw. text_at s t p = Inr raw \<Longrightarrow> apostrophe \<notin> set (lowercase s (strip_0x (trim raw)))"
  shows "emits quoted_write (bind_iommu_group_to_vfio s g) \<and> emits quoted_write (restore_drivers s ds)"
proof
  show "emits quoted_write (bind_iommu_group_to_vfio s g)"
    unfolding bind_iommu_group_to_vfio_def by (intro emits_rules emits_next bind_entries_quoted[OF assms])
  show "emits quoted_write (restore_drivers s ds)"
    unfolding restore_drivers_def by (intro emits_rules emits_next restore_each_quoted)
qed

definition demo_sysfs :: "string option \<Rightarrow> (string list \<Rightarrow> bool) \<Rightarrow> (string + string) list \<Rightarrow> sysfs" where
  "demo_sysfs drv ok es =
     \<lparr>machine = (demo_world 1 [])\<lparr>runs := \<lambda>_ args. Inr \<lparr>out_ok = ok args, out_stdout = [], out_stderr = ''no''\<rparr>\<rparr>,
      link_name = \<lambda>_ _. drv, text_at = \<lambda>_ _. Inr ''0x10de'', dir_at = \<lambda>_ _. True,
      entries_of = \<lambda>_ _. Inr es, lowercase = map to_ascii_lower\<rparr>"

lemma demo_sysfs_simps [simp]:
  "link_name (demo_sysfs drv ok es) = (\<lambda>_ _. drv)" "text_at (demo_sysfs drv ok es) = (\<lambda>_ _. Inr ''0x10de'')"
  "dir_at (demo_sysfs drv ok es) = (\<lambda>_ _. True)" "entries_of (demo_sysfs drv ok es) = (\<lambda>_ _. Inr es)"
  "runs (machine (demo_sysfs drv ok es)) = (\<lambda>_ args. Inr \<lparr>out_ok = ok args, out_stdout = [], out_stderr = ''no''\<rparr>)"
  "exists_at (machine (demo_sysfs drv ok es)) = (\<lambda>_ _. True)"
  by (simp_all add: demo_sysfs_def)

lemma demo_id [simp]: "lowercase (demo_sysfs drv ok es) (strip_0x (trim ''0x10de'')) = ''10de''"
proof -
  have "trim ''0x10de'' = ''0x10de''" by code_simp
  then show ?thesis by (simp add: demo_sysfs_def to_ascii_lower_def ascii_defs)
qed

theorem privileged_writes_quoted_witness:
  "emits quoted_write (bind_iommu_group_to_vfio (demo_sysfs (Some ''nvidia'') (\<lambda>_. True) [Inr ''0000:01:00.0'']) 7)
     \<and> emits quoted_write (restore_drivers (demo_sysfs (Some ''nvidia'') (\<lambda>_. True) []) [(''x; reboot'', ''y'')])"
proof
  have id: "apostrophe \<notin> set (lowercase (demo_sysfs (Some ''nvidia'') (\<lambda>_. True) es) (strip_0x (trim raw)))"
    if "text_at (demo_sysfs (Some ''nvidia'') (\<lambda>_. True) es) t p = Inr raw" for t p raw es
    using that by auto
  show "emits quoted_write (bind_iommu_group_to_vfio (demo_sysfs (Some ''nvidia'') (\<lambda>_. True) [Inr ''0000:01:00.0'']) 7)"
    by (rule privileged_writes_quoted[THEN conjunct1]) (rule id)
  show "emits quoted_write (restore_drivers (demo_sysfs (Some ''nvidia'') (\<lambda>_. True) []) [(''x; reboot'', ''y'')])"
    by (rule privileged_writes_quoted[THEN conjunct2]) (rule id)
qed

section \<open>What a bound group is\<close>

text \<open>A write that was run and succeeded.\<close>

definition written :: "sysfs \<Rightarrow> act list \<Rightarrow> string \<Rightarrow> string \<Rightarrow> bool" where
  "written s t path value \<longleftrightarrow> (\<exists>u v prog out. t = u @ Run (write_args prog path value) # v
     \<and> runs (machine s) u (write_args prog path value) = Inr out \<and> out_ok out)"

lemma written_append: "written s t path value \<Longrightarrow> written s (t @ u) path value"
  unfolding written_def by force

lemma written_end: "runs (machine s) t (write_args prog path value) = Inr out \<Longrightarrow> out_ok out
    \<Longrightarrow> written s (t @ [Run (write_args prog path value)]) path value"
  unfolding written_def by blast

lemma write_privileged_ok: "sat (write_privileged s p v) t (\<lambda>t' r. r = Inr () \<longrightarrow> written s t' p v)"
  unfolding write_privileged_def
  by (intro vcg) (auto simp del: append_assoc intro: written_end split: sum.splits)

lemma bind_to_vfio_ok:
  "snd (bind_to_vfio s a t) = Inr () \<Longrightarrow> link_name s t (dev_path a @ ''/driver'') \<noteq> Some ''vfio-pci''
     \<Longrightarrow> is_valid_pci_address a \<and> written s (fst (bind_to_vfio s a t)) (vfio_file ''bind'') a"
  using write_privileged_ok[of s "vfio_file ''bind''" a]
  by (auto simp: bind_to_vfio_def is_bound_to_vfio_def next_do_def ask_def check_def sat_def give_def stop_def
      split: if_splits prod.splits sum.splits)

lemma grows: "emits (\<lambda>_. True) (bind_to_vfio s a)" "emits (\<lambda>_. True) (bind_entries s bound es)"
proof -
  have w: "emits (\<lambda>_. True) (write_privileged s p v)" for p v
    unfolding write_privileged_def by (intro emits_rules emits_next) simp_all
  have u: "emits (\<lambda>_. True) (unbind_driver s a)" for a
    unfolding unbind_driver_def by (intro emits_rules emits_next w) simp_all
  show b: "emits (\<lambda>_. True) (bind_to_vfio s a)" for a
    unfolding bind_to_vfio_def by (intro emits_rules emits_next w u)
  have d: "emits (\<lambda>_. True) (unbind_from_vfio s a d)" for a d
    unfolding unbind_from_vfio_def by (intro emits_rules emits_next w u)
  have r: "emits (\<lambda>_. True) (roll_back s ds)" for ds
    by (induction ds) (auto intro!: emits_rules emits_next d)
  show "emits (\<lambda>_. True) (bind_entries s bound es)"
  proof (induction es arbitrary: bound)
    case (Cons e es)
    then show ?case
      by (cases e) (simp_all only: bind_entries.simps Let_def, intro emits_rules, intro emits_rules emits_next b r Cons.IH)
  qed (simp add: emits_end)
qed

text \<open>A device of a bound group: on \<open>vfio-pci\<close> already, or written to its \<open>bind\<close> file with success.\<close>

definition bound_ok :: "sysfs \<Rightarrow> act list \<Rightarrow> string \<times> string \<Rightarrow> bool" where
  "bound_ok s t d \<longleftrightarrow> snd d = ''vfio-pci'' \<or> is_valid_pci_address (fst d) \<and> written s t (vfio_file ''bind'') (fst d)"

lemma then_stop: "snd (next_do m (\<lambda>_. stop e) t) \<noteq> Inr r"
  by (simp add: next_do_def stop_def split: prod.split sum.split)

lemma bound_ok_pair:
  "bound_ok s t (a, d) \<longleftrightarrow> d = ''vfio-pci'' \<or> is_valid_pci_address a \<and> written s t (vfio_file ''bind'') a"
  by (simp add: bound_ok_def)

lemma bind_entries_ok:
  assumes "snd (bind_entries s bound es t) = Inr r"
  shows "\<exists>new. r = bound @ new \<and> es = map (Inr \<circ> fst) new
    \<and> list_all (bound_ok s (fst (bind_entries s bound es t))) new"
  using assms
proof (induction es arbitrary: bound t)
  case (Cons e es)
  then obtain a where e: "e = Inr a" by (cases e) (auto simp: stop_def)
  define original where "original = (case link_name s t (dev_path a @ ''/driver'') of None \<Rightarrow> [] | Some n \<Rightarrow> n)"
  show ?case
  proof (cases "original = ''vfio-pci''")
    case True
    then have step: "bind_entries s bound (e # es) t = bind_entries s (bound @ [(a, ''vfio-pci'')]) es t"
      by (simp add: e run original_def)
    have "snd (bind_entries s (bound @ [(a, ''vfio-pci'')]) es t) = Inr r" using Cons.prems by (simp only: step)
    from Cons.IH[OF this] obtain new where new: "r = (bound @ [(a, ''vfio-pci'')]) @ new" "es = map (Inr \<circ> fst) new"
      "list_all (bound_ok s (fst (bind_entries s (bound @ [(a, ''vfio-pci'')]) es t))) new"
        by blast
    from new show ?thesis unfolding step by (intro exI[of _ "(a, ''vfio-pci'') # new"]) (simp add: e bound_ok_pair)
  next
    case False
    show ?thesis
    proof (cases "snd (bind_to_vfio s a t)")
      case (Inl err)
      with Cons.prems False show ?thesis by (simp add: e run original_def then_stop)
    next
      case (Inr x)
      let ?t = "fst (bind_to_vfio s a t)"
      have step: "bind_entries s bound (e # es) t = bind_entries s (bound @ [(a, original)]) es ?t"
        using False Inr by (simp add: e run original_def)
      have "link_name s t (dev_path a @ ''/driver'') \<noteq> Some ''vfio-pci''" using False by (auto simp: original_def)
      from bind_to_vfio_ok[OF _ this] Inr have a: "is_valid_pci_address a" "written s ?t (vfio_file ''bind'') a" by simp_all
      obtain u where "fst (bind_entries s (bound @ [(a, original)]) es ?t) = ?t @ u"
        using grows(2)[of s "bound @ [(a, original)]" es] unfolding emits_def by blast
      with a(2) have w: "written s (fst (bind_entries s (bound @ [(a, original)]) es ?t)) (vfio_file ''bind'') a"
        by (simp add: written_append)
      have "snd (bind_entries s (bound @ [(a, original)]) es ?t) = Inr r" using Cons.prems by (simp only: step)
      from Cons.IH[OF this] obtain new where new: "r = (bound @ [(a, original)]) @ new" "es = map (Inr \<circ> fst) new"
        "list_all (bound_ok s (fst (bind_entries s (bound @ [(a, original)]) es ?t))) new"
        by blast
      from new a(1) w show ?thesis unfolding step by (intro exI[of _ "(a, original) # new"]) (simp add: e bound_ok_pair)
    qed
  qed
qed (simp add: give_def)


lemma demo_address [simp]: "is_valid_pci_address ''0000:01:00.0''"
  by code_simp


section \<open>When binding fails\<close>

text \<open>A device whose driver was removed before its binding failed is not given back by the rollback, though
  the message says so: nothing is written to the \<open>bind\<close> file of its driver.\<close>

definition unbind_only :: sysfs where
  "unbind_only = demo_sysfs (Some ''nvidia'') (\<lambda>args. args ! 3 = shell_write (unbind_file ''0000:01:00.0'') ''0000:01:00.0'')
     [Inr ''0000:01:00.0'']"

lemma demo_message [simp]: "trim ''no'' = ''no''"
  by code_simp

lemma failed_device_loses_driver:
  "fst (bind_iommu_group_to_vfio unbind_only 7 []) =
     [Path_Exists (unbind_file ''0000:01:00.0''),
      Run (write_args ''pkexec'' (unbind_file ''0000:01:00.0'') ''0000:01:00.0''),
      Run (write_args ''pkexec'' (vfio_file ''new_id'') ''10de 10de''),
      Run (write_args ''sudo'' (vfio_file ''new_id'') ''10de 10de'')]"
  by (simp add: unbind_only_def bind_iommu_group_to_vfio_def bind_to_vfio_def is_bound_to_vfio_def read_sysfs_id_def
      unbind_driver_def write_privileged_def write_args_def shell_write_def run unbind_file_def dev_path_def
      SYSFS_PCI_DEVICES_def vfio_file_def Let_def error_text_def sq_def)

text \<open>An entry of the group that cannot be read ends the binding without any rollback.\<close>

lemma read_error_leaves_devices_bound:
  "bind_entries s bound (Inl e # es) t = (t, Inl (Other (''Read error: '' @ e)))"
  by (simp add: run)

section \<open>What the scripts hold\<close>

lemma word_chars:
  "list_all (ascii_char (\<lambda>c. ascii_alnum c \<or> c = CHR ''_'' \<or> c = CHR ''-'')) (chars n)
     \<Longrightarrow> c \<in> set n \<Longrightarrow> ascii_alnum c \<or> c = CHR ''_'' \<or> c = CHR ''-''"
  using ascii_char_all[of "\<lambda>c. ascii_alnum c \<or> c = CHR ''_'' \<or> c = CHR ''-''" n] by (auto simp: list_all_iff)

lemma short_pci_bus_set: "set (short_pci_bus a) \<subseteq> set a"
  by (auto simp: short_pci_bus_def split_once_Some split: option.splits)

text \<open>C24: Whatever is given as the name of the machine, the bus and the display manager, both hook scripts are
  their fixed lines around a name of letters, digits, \<open>_\<close> and \<open>-\<close>, a bus of hexadecimal digits, dots and
  colons (or a placeholder) and a display manager of the list (or none): no line and no command can be added.\<close>
theorem hook_scripts_hold_safe_words:
  "\<exists>n' b' d'. render_before_start_script n b d = text_of_lines (before_start_lines n' b' d')
     \<and> render_after_stop_script n b d = text_of_lines (after_stop_lines n' b' d')
     \<and> set n' \<subseteq> {c. ascii_alnum c \<or> c = CHR ''_'' \<or> c = CHR ''-''}
     \<and> (b' = ''INVALID_PCI_BUS'' \<or> set b' \<subseteq> {c. ascii_hexdigit c \<or> c = CHR ''.'' \<or> c = CHR '':''})
     \<and> (d' = [] \<or> d' \<in> set KNOWN_DISPLAY_MANAGERS)"
proof (intro exI conjI)
  show "render_before_start_script n b d = text_of_lines (before_start_lines (safe_name n) (safe_bus b) (safe_dm d))"
    by (rule render_before_start_script_def)
  show "render_after_stop_script n b d = text_of_lines (after_stop_lines (safe_name n) (safe_bus b) (safe_dm d))"
    by (rule render_after_stop_script_def)
  have "validate_vm_name_for_hook ''INVALID_VM_NAME''" by code_simp
  then have "validate_vm_name_for_hook (safe_name n)" by (simp add: safe_name_def)
  then show "set (safe_name n) \<subseteq> {c. ascii_alnum c \<or> c = CHR ''_'' \<or> c = CHR ''-''}"
    using word_chars[of "safe_name n"] by (auto simp: validate_vm_name_for_hook_def)
  show "safe_bus b = ''INVALID_PCI_BUS'' \<or> set (safe_bus b) \<subseteq> {c. ascii_hexdigit c \<or> c = CHR ''.'' \<or> c = CHR '':''}"
    using pci_bus_set[of b] short_pci_bus_set[of b] by (auto simp: safe_bus_def)
  show "safe_dm d = [] \<or> safe_dm d \<in> set KNOWN_DISPLAY_MANAGERS"
    by (simp add: safe_dm_def validate_dm_name_def)
qed

text \<open>The domain of the address is lost: devices of two PCI domains get the same script.\<close>

lemma domain_is_dropped:
  "render_before_start_script n ''0001:01:00.0'' d = render_before_start_script n ''0000:01:00.0'' d"
proof -
  have "safe_bus ''0001:01:00.0'' = safe_bus ''0000:01:00.0''" by code_simp
  then show ?thesis by (simp add: render_before_start_script_def)
qed

end
