(* ===== verification/Import_Parse.thy ===== *)
theory Import_Parse
  imports Path_Text Config
begin

text \<open>
  Reading the machines of other programs (vmm-core/src/import): libvirt XML, VMware \<open>.vmx\<close>, VirtualBox
  \<open>.vbox\<close> and Quickemu \<open>.conf\<close>. The XML parser is outside the repository: its events are the argument, with
  local names for elements. \<open>lower\<close> is \<open>str::to_lowercase\<close>, \<open>there\<close> is \<open>Path::exists\<close>.
\<close>

section \<open>Imported machines\<close>

datatype import_source = LibvirtXml | VmwareVmx | VirtualBoxVbox | QuickemuConf

definition source_display :: "import_source \<Rightarrow> string" where
  "source_display s = (case s of LibvirtXml \<Rightarrow> ''Libvirt XML'' | VmwareVmx \<Rightarrow> ''VMware VMX''
     | VirtualBoxVbox \<Rightarrow> ''VirtualBox'' | QuickemuConf \<Rightarrow> ''Quickemu'')"

record imported_vm =
  i_source :: import_source
  i_name :: string
  i_os :: os_type
  i_vcpus :: u32
  i_memory :: u64
  i_disks :: "string list"
  i_format :: string
  i_iso :: "string option"
  i_network :: network_mode
  i_nic :: string
  i_display :: display_protocol
  i_uefi :: bool
  i_tpm :: bool
  i_gpu :: string
  i_warnings :: "string list"
  i_notes :: "string list"

definition new_import :: "import_source \<Rightarrow> imported_vm" where
  "new_import s = \<lparr>i_source = s, i_name = [], i_os = Linux, i_vcpus = 2, i_memory = 2048, i_disks = [],
     i_format = ''qcow2'', i_iso = None, i_network = Nat, i_nic = ''virtio'', i_display = Vnc, i_uefi = False,
     i_tpm = False, i_gpu = ''qxl'', i_warnings = [], i_notes = []\<rparr>"

definition detect_format :: "string \<Rightarrow> import_source option" where
  "detect_format p = Option.bind (extension p)
     (map_of [(''xml'', LibvirtXml), (''vmx'', VmwareVmx), (''vbox'', VirtualBoxVbox), (''conf'', QuickemuConf)])"

text \<open>What the parsers share: the name taken from the file, a disk path seen from the file's directory, the
  warnings for disks that are not there.\<close>

definition name_from_file :: "string \<Rightarrow> string" where
  "name_from_file p = (case file_stem p of None \<Rightarrow> ''imported-vm'' | Some n \<Rightarrow> n)"

definition named :: "string \<Rightarrow> imported_vm \<Rightarrow> imported_vm" where
  "named p vm = (if i_name vm = [] then vm\<lparr>i_name := name_from_file p\<rparr> else vm)"

definition conf_dir :: "string \<Rightarrow> string" where
  "conf_dir p = (case parent_of p of None \<Rightarrow> ''.'' | Some d \<Rightarrow> d)"

definition warn :: "string \<Rightarrow> imported_vm \<Rightarrow> imported_vm" where
  "warn w vm = vm\<lparr>i_warnings := i_warnings vm @ [w]\<rparr>"

definition add_note :: "string \<Rightarrow> imported_vm \<Rightarrow> imported_vm" where
  "add_note n vm = vm\<lparr>i_notes := i_notes vm @ [n]\<rparr>"

definition missing_disks :: "(string \<Rightarrow> bool) \<Rightarrow> imported_vm \<Rightarrow> imported_vm" where
  "missing_disks there vm = vm\<lparr>i_warnings := i_warnings vm
     @ List.map_filter (\<lambda>(i, p). if there p then None else Some (''Disk '' @ dec (i + 1) @ '' not found: '' @ p))
         (List.enumerate 0 (i_disks vm))\<rparr>"

definition trim_quotes :: "string \<Rightarrow> string" where
  "trim_quotes s = rev (dropWhile (\<lambda>c. c = quot) (rev (dropWhile (\<lambda>c. c = quot) s)))"

definition u32_value :: "string \<Rightarrow> u32 option" where
  "u32_value s = map_option of_nat (parse_unsigned 4294967295 s)"

definition u64_value :: "string \<Rightarrow> u64 option" where
  "u64_value s = map_option of_nat (parse_usize s)"

definition or_value :: "'a \<Rightarrow> 'a option \<Rightarrow> 'a" where
  "or_value d x = (case x of None \<Rightarrow> d | Some v \<Rightarrow> v)"

text \<open>The lines that are assignments, as the trimmed texts around the first equals sign.\<close>

definition assignments :: "string \<Rightarrow> (string \<times> string) list" where
  "assignments content = List.map_filter (\<lambda>l.
     let l = trim l in
     if l = [] \<or> starts_with l ''#'' then None
     else map_option (\<lambda>(k, v). (trim k, trim v)) (split_once (CHR ''='') l)) (str_lines content)"

section \<open>Quickemu\<close>

text \<open>The product wraps, as in a release build.\<close>

definition parse_ram_string :: "string \<Rightarrow> u64" where
  "parse_ram_string ram =
     (let r = trim ram in
      if r = [] then 2048
      else if ends_with r ''G'' then or_value 2048 (u64_value (trim (butlast r))) * 1024
      else if ends_with r ''M'' then or_value 2048 (u64_value (trim (butlast r)))
      else or_value 2048 (u64_value r))"

record quickemu_state =
  q_vm :: imported_vm
  q_guest :: string
  q_disk :: string

definition quickemu_assign :: "quickemu_state \<Rightarrow> string \<times> string \<Rightarrow> quickemu_state" where
  "quickemu_assign s kv =
     (let v = trim_quotes (snd kv); vm = q_vm s; k = fst kv in
      if k = ''guest_os'' then s\<lparr>q_guest := v\<rparr>
      else if k = ''ram'' then s\<lparr>q_vm := vm\<lparr>i_memory := parse_ram_string v\<rparr>\<rparr>
      else if k = ''cpu_cores'' then s\<lparr>q_vm := vm\<lparr>i_vcpus := or_value (i_vcpus vm) (u32_value v)\<rparr>\<rparr>
      else if k = ''disk_img'' then s\<lparr>q_disk := v\<rparr>
      else if k = ''boot'' then s\<lparr>q_vm := vm\<lparr>i_uefi := (v = ''efi'' \<or> v = ''uefi'')\<rparr>\<rparr>
      else if k = ''tpm'' then s\<lparr>q_vm := vm\<lparr>i_tpm := (v = ''on'' \<or> v = ''true'' \<or> v = ''yes'')\<rparr>\<rparr>
      else if k = ''display'' then s\<lparr>q_vm := vm\<lparr>i_display := (if v = ''spice'' then Spice else Vnc)\<rparr>\<rparr>
      else s)"

definition quickemu_os :: "string \<Rightarrow> os_type" where
  "quickemu_os g = (if g = ''windows'' then Windows else if g = ''macos'' then MacOS else if g = ''freebsd'' then FreeBSD
     else if g = ''linux'' \<or> g = [] then Linux else OtherOs)"

definition parse_quickemu_conf :: "string \<Rightarrow> string \<Rightarrow> imported_vm" where
  "parse_quickemu_conf content p =
     (let s = foldl quickemu_assign \<lparr>q_vm = new_import QuickemuConf, q_guest = [], q_disk = []\<rparr> (assignments content);
          vm = (q_vm s)\<lparr>i_disks := (if q_disk s = [] then [] else [path_join (conf_dir p) (q_disk s)]),
            i_os := quickemu_os (q_guest s), i_name := name_from_file p\<rparr> in
      add_note (''Imported from Quickemu: '' @ p) vm)"

section \<open>VMware\<close>

record vmx_state =
  v_vm :: imported_vm
  v_guest :: string
  v_disk :: string

definition vmx_network :: "string \<Rightarrow> imported_vm \<Rightarrow> imported_vm" where
  "vmx_network v vm =
     (if v = ''bridged'' then vm\<lparr>i_network := Bridged\<rparr>
      else if v = ''hostonly'' then vm\<lparr>i_network := HostOnly\<rparr>
      else if v = ''custom'' then add_note ''VMware custom network mapped to NAT'' (vm\<lparr>i_network := Nat\<rparr>)
      else vm\<lparr>i_network := Nat\<rparr>)"

definition vmx_nic :: "string \<Rightarrow> imported_vm \<Rightarrow> imported_vm" where
  "vmx_nic v vm =
     (if v = ''e1000'' \<or> v = ''e1000e'' then vm\<lparr>i_nic := ''e1000''\<rparr>
      else if v = ''vmxnet3'' then warn ''VMware vmxnet3 NIC not supported, using virtio instead'' (vm\<lparr>i_nic := ''virtio''\<rparr>)
      else if v = ''vlance'' then vm\<lparr>i_nic := ''rtl8139''\<rparr>
      else vm\<lparr>i_nic := v\<rparr>)"

definition vmx_assign :: "(string \<Rightarrow> string) \<Rightarrow> vmx_state \<Rightarrow> string \<times> string \<Rightarrow> vmx_state" where
  "vmx_assign lower s kv =
     (let k = lower (fst kv); v = trim (trim_quotes (snd kv)); vm = v_vm s in
      if k = ''displayname'' then s\<lparr>v_vm := vm\<lparr>i_name := v\<rparr>\<rparr>
      else if k = ''memsize'' then s\<lparr>v_vm := vm\<lparr>i_memory := or_value (i_memory vm) (u64_value v)\<rparr>\<rparr>
      else if k = ''numvcpus'' then s\<lparr>v_vm := vm\<lparr>i_vcpus := or_value (i_vcpus vm) (u32_value v)\<rparr>\<rparr>
      else if k = ''guestos'' then s\<lparr>v_guest := lower v\<rparr>
      else if k = ''firmware'' then s\<lparr>v_vm := vm\<lparr>i_uefi := (lower v = ''efi'')\<rparr>\<rparr>
      else if ends_with k ''.filename'' \<and> v_disk s = [] then (if ends_with v ''.vmdk'' then s\<lparr>v_disk := v\<rparr> else s)
      else if k = ''ethernet0.connectiontype'' then s\<lparr>v_vm := vmx_network (lower v) vm\<rparr>
      else if k = ''ethernet0.virtualdev'' then s\<lparr>v_vm := vmx_nic (lower v) vm\<rparr>
      else s)"

definition any_of :: "string list \<Rightarrow> string \<Rightarrow> bool" where
  "any_of ws s \<longleftrightarrow> list_ex (str_contains s) ws"

definition detect_os_from_vmware_guest :: "(string \<Rightarrow> string) \<Rightarrow> string \<Rightarrow> os_type" where
  "detect_os_from_vmware_guest lower guest =
     (let g = lower guest in
      if any_of [''darwin'', ''macos'', ''apple''] g then MacOS
      else if any_of [''windows'', ''win''] g then Windows
      else if any_of [''freebsd''] g then FreeBSD
      else if any_of [''linux'', ''ubuntu'', ''debian'', ''centos'', ''rhel'', ''fedora'', ''suse'', ''arch''] g then Linux
      else if g = [] then Linux
      else OtherOs)"

definition parse_vmware_vmx :: "(string \<Rightarrow> string) \<Rightarrow> (string \<Rightarrow> bool) \<Rightarrow> string \<Rightarrow> string \<Rightarrow> imported_vm" where
  "parse_vmware_vmx lower there content p =
     (let s = foldl (vmx_assign lower)
            \<lparr>v_vm = (new_import VmwareVmx)\<lparr>i_format := ''vmdk''\<rparr>, v_guest = [], v_disk = []\<rparr> (assignments content);
          vm = named p ((v_vm s)\<lparr>i_os := detect_os_from_vmware_guest lower (v_guest s),
            i_disks := (if v_disk s = [] then [] else [path_join (conf_dir p) (v_disk s)])\<rparr>);
          vm = (warn ''VMware SVGA display not supported, using QXL instead'' vm)\<lparr>i_gpu := ''qxl''\<rparr>;
          vm = (if i_disks vm = [] then vm else
            add_note ''VMDK disks can be used directly by QEMU, or convert to qcow2 for better performance'' vm) in
      add_note (''Imported from VMware VMX: '' @ p) (missing_disks there vm))"

section \<open>XML events\<close>

type_synonym attributes = "(string \<times> string) list"

datatype doc_event =
    Opened string attributes
  | Single string attributes
  | Characters string
  | Closed string
  | Passed
  | Broken string

text \<open>Of several attributes with a key, the last one counts.\<close>

definition last_value :: "string \<Rightarrow> attributes \<Rightarrow> string option" where
  "last_value k as = map_of (rev as) k"

definition pop :: "string \<Rightarrow> string list \<Rightarrow> string list" where
  "pop tag st = (case st of x # r \<Rightarrow> if x = tag then r else st | [] \<Rightarrow> [])"

definition parent_tag :: "string list \<Rightarrow> string" where
  "parent_tag st = (case st of x # r \<Rightarrow> x | [] \<Rightarrow> [])"

text \<open>The loop of both readers over the events.\<close>

fun read_events :: "('s \<Rightarrow> doc_event \<Rightarrow> 's) \<Rightarrow> string \<Rightarrow> 's \<Rightarrow> doc_event list \<Rightarrow> string + 's" where
  "read_events step err s [] = Inr s"
| "read_events step err s (Broken e # es) = Inl (err @ e)"
| "read_events step err s (e # es) = read_events step err (step s e) es"

section \<open>Libvirt\<close>

text \<open>Products and sums of 64 bits wrap, as in a release build.\<close>

definition convert_memory_to_mib :: "u64 \<Rightarrow> string \<Rightarrow> u64" where
  "convert_memory_to_mib val unit =
     (if unit = ''b'' \<or> unit = ''bytes'' then val div (1024 * 1024)
      else if unit = ''KB'' then val * 1000 div (1024 * 1024)
      else if unit = ''KiB'' \<or> unit = ''k'' then val div 1024
      else if unit = ''MB'' then val * 1000 * 1000 div (1024 * 1024)
      else if unit = ''MiB'' \<or> unit = ''M'' then val
      else if unit = ''GB'' then val * 1000 * 1000 * 1000 div (1024 * 1024)
      else if unit = ''GiB'' \<or> unit = ''G'' then val * 1024
      else val div 1024)"

definition map_libvirt_vga :: "string \<Rightarrow> string" where
  "map_libvirt_vga m =
     (if m \<in> {''vga'', [], ''cirrus'', ''bochs''} then ''vga'' else if m = ''vmvga'' then ''vmware'' else m)"

definition map_graphics_to_display :: "string \<Rightarrow> display_protocol" where
  "map_graphics_to_display g = (if g = ''spice'' then Spice else Vnc)"

definition map_libvirt_net_type :: "string \<Rightarrow> network_mode" where
  "map_libvirt_net_type t = (if t = ''bridge'' \<or> t = ''direct'' then Bridged else Nat)"

datatype capture = Name_Text | Memory_Text | Vcpu_Text

record libvirt_state =
  l_vm :: imported_vm
  l_stack :: "string list"
  l_capture :: "capture option"
  l_unit :: string
  l_in_disk :: bool
  l_source :: string
  l_in_interface :: bool
  l_interface_done :: bool
  l_net_type :: string
  l_net_model :: string
  l_hyperv :: bool
  l_applesmc :: bool

definition set_gpu :: "attributes \<Rightarrow> libvirt_state \<Rightarrow> libvirt_state" where
  "set_gpu as s = (case last_value ''type'' as of None \<Rightarrow> s
     | Some v \<Rightarrow> s\<lparr>l_vm := (l_vm s)\<lparr>i_gpu := map_libvirt_vga v\<rparr>\<rparr>)"

definition set_model :: "attributes \<Rightarrow> libvirt_state \<Rightarrow> libvirt_state" where
  "set_model as s = (case last_value ''type'' as of None \<Rightarrow> s | Some v \<Rightarrow> s\<lparr>l_net_model := v\<rparr>)"

definition libvirt_open :: "string \<Rightarrow> attributes \<Rightarrow> libvirt_state \<Rightarrow> libvirt_state" where
  "libvirt_open tag as s =
     (let parent = parent_tag (l_stack s) in
      if tag = ''name'' \<and> parent = ''domain'' then s\<lparr>l_capture := Some Name_Text\<rparr>
      else if tag = ''memory'' \<or> tag = ''currentMemory'' then
        (if i_memory (l_vm s) = 2048
         then s\<lparr>l_unit := or_value ''KiB'' (last_value ''unit'' as), l_capture := Some Memory_Text\<rparr> else s)
      else if tag = ''vcpu'' then s\<lparr>l_capture := Some Vcpu_Text\<rparr>
      else if tag = ''loader'' then s\<lparr>l_vm := (l_vm s)\<lparr>i_uefi := True\<rparr>\<rparr>
      else if tag = ''disk'' then s\<lparr>l_in_disk := True, l_source := []\<rparr>
      else if tag = ''interface'' then
        s\<lparr>l_in_interface := True, l_net_type := or_value [] (last_value ''type'' as), l_net_model := []\<rparr>
      else if tag = ''model'' \<and> parent = ''video'' then set_gpu as s
      else if tag = ''model'' \<and> l_in_interface s then set_model as s
      else if tag = ''tpm'' then s\<lparr>l_vm := (l_vm s)\<lparr>i_tpm := True\<rparr>\<rparr>
      else if tag = ''hyperv'' then s\<lparr>l_hyperv := True\<rparr>
      else s)"

definition libvirt_single :: "string \<Rightarrow> attributes \<Rightarrow> libvirt_state \<Rightarrow> libvirt_state" where
  "libvirt_single tag as s =
     (let parent = parent_tag (l_stack s) in
      if tag = ''loader'' then s\<lparr>l_vm := (l_vm s)\<lparr>i_uefi := True\<rparr>\<rparr>
      else if tag = ''source'' \<and> l_in_disk s then s\<lparr>l_source := or_value (l_source s) (last_value ''file'' as)\<rparr>
      else if tag = ''model'' \<and> parent = ''video'' then set_gpu as s
      else if tag = ''model'' \<and> l_in_interface s then set_model as s
      else if tag = ''graphics'' then (case last_value ''type'' as of None \<Rightarrow> s
        | Some v \<Rightarrow> s\<lparr>l_vm := (l_vm s)\<lparr>i_display := map_graphics_to_display v\<rparr>\<rparr>)
      else if tag = ''tpm'' then s\<lparr>l_vm := (l_vm s)\<lparr>i_tpm := True\<rparr>\<rparr>
      else if tag = ''qemu:arg'' \<and> list_ex (\<lambda>(k, v). k = ''value'' \<and> str_contains v ''applesmc'') as then s\<lparr>l_applesmc := True\<rparr>
      else s)"

definition libvirt_text :: "string \<Rightarrow> libvirt_state \<Rightarrow> libvirt_state" where
  "libvirt_text txt s =
     (let t = trim txt; vm = l_vm s in
      case l_capture s of
        None \<Rightarrow> s
      | Some Name_Text \<Rightarrow> s\<lparr>l_vm := vm\<lparr>i_name := t\<rparr>, l_capture := None\<rparr>
      | Some Memory_Text \<Rightarrow> s\<lparr>l_vm := vm\<lparr>i_memory :=
          (case u64_value t of None \<Rightarrow> i_memory vm | Some v \<Rightarrow> convert_memory_to_mib v (l_unit s))\<rparr>, l_capture := None\<rparr>
      | Some Vcpu_Text \<Rightarrow> s\<lparr>l_vm := vm\<lparr>i_vcpus := or_value (i_vcpus vm) (u32_value t)\<rparr>, l_capture := None\<rparr>)"

definition end_disk :: "libvirt_state \<Rightarrow> libvirt_state" where
  "end_disk s = (if l_source s = [] then s
     else s\<lparr>l_vm := (l_vm s)\<lparr>i_format := or_value (i_format (l_vm s)) (extension (l_source s)),
       i_disks := i_disks (l_vm s) @ [l_source s]\<rparr>\<rparr>)\<lparr>l_in_disk := False\<rparr>"

definition end_interface :: "libvirt_state \<Rightarrow> libvirt_state" where
  "end_interface s = (if l_interface_done s then s
     else s\<lparr>l_vm := (l_vm s)\<lparr>i_network := map_libvirt_net_type (l_net_type s),
       i_nic := (if l_net_model s = [] then i_nic (l_vm s) else l_net_model s)\<rparr>, l_interface_done := True\<rparr>)\<lparr>l_in_interface := False\<rparr>"

definition libvirt_close :: "string \<Rightarrow> libvirt_state \<Rightarrow> libvirt_state" where
  "libvirt_close tag s =
     (let s = (if tag = ''disk'' \<and> l_in_disk s then end_disk s else s);
          s = (if tag = ''interface'' \<and> l_in_interface s then end_interface s else s) in
      s\<lparr>l_stack := pop tag (l_stack s), l_capture := None\<rparr>)"

fun libvirt_step :: "libvirt_state \<Rightarrow> doc_event \<Rightarrow> libvirt_state" where
  "libvirt_step s (Opened tag as) = (let s' = libvirt_open tag as s in s'\<lparr>l_stack := tag # l_stack s'\<rparr>)"
| "libvirt_step s (Single tag as) = libvirt_single tag as s"
| "libvirt_step s (Characters t) = libvirt_text t s"
| "libvirt_step s (Closed tag) = libvirt_close tag s"
| "libvirt_step s Passed = s"
| "libvirt_step s (Broken e) = s"

definition libvirt_start :: libvirt_state where
  "libvirt_start = \<lparr>l_vm = new_import LibvirtXml, l_stack = [], l_capture = None, l_unit = ''KiB'', l_in_disk = False,
     l_source = [], l_in_interface = False, l_interface_done = False, l_net_type = [], l_net_model = [],
     l_hyperv = False, l_applesmc = False\<rparr>"

definition parse_libvirt_xml :: "(string \<Rightarrow> bool) \<Rightarrow> doc_event list \<Rightarrow> string \<Rightarrow> string + imported_vm" where
  "parse_libvirt_xml there es p =
     (case read_events libvirt_step ''Error parsing libvirt XML: '' libvirt_start es of
        Inl e \<Rightarrow> Inl e
      | Inr s \<Rightarrow>
          (let vm = l_vm s;
               vm = (if l_hyperv s then add_note ''Detected Windows guest (Hyper-V enlightenments present)'' (vm\<lparr>i_os := Windows\<rparr>)
                 else if l_applesmc s then add_note ''Detected macOS guest (AppleSMC device present)'' (vm\<lparr>i_os := MacOS\<rparr>)
                 else vm) in
           Inr (add_note (''Imported from Libvirt XML: '' @ p) (missing_disks there (named p vm)))))"

section \<open>VirtualBox\<close>

record vbox_state =
  x_vm :: imported_vm
  x_stack :: "string list"
  x_os :: string
  x_efi :: bool

definition vbox_machine :: "attributes \<Rightarrow> vbox_state \<Rightarrow> vbox_state" where
  "vbox_machine as s = s\<lparr>x_vm := (x_vm s)\<lparr>i_name := or_value (i_name (x_vm s)) (last_value ''name'' as)\<rparr>,
     x_os := or_value (x_os s) (last_value ''OSType'' as)\<rparr>"

text \<open>The last count that is a number.\<close>

definition last_number :: "(string \<Rightarrow> 'a option) \<Rightarrow> string \<Rightarrow> 'a \<Rightarrow> attributes \<Rightarrow> 'a" where
  "last_number read k d as = foldl (\<lambda>n (k', v). if k' = k then or_value n (read v) else n) d as"

definition vbox_cpu :: "attributes \<Rightarrow> vbox_state \<Rightarrow> vbox_state" where
  "vbox_cpu as s = s\<lparr>x_vm := (x_vm s)\<lparr>i_vcpus := last_number u32_value ''count'' (i_vcpus (x_vm s)) as\<rparr>\<rparr>"

definition vbox_net :: "network_mode \<Rightarrow> vbox_state \<Rightarrow> vbox_state" where
  "vbox_net m s = s\<lparr>x_vm := (x_vm s)\<lparr>i_network := m\<rparr>\<rparr>"

definition vbox_open :: "string \<Rightarrow> attributes \<Rightarrow> vbox_state \<Rightarrow> vbox_state" where
  "vbox_open tag as s =
     (if tag = ''Machine'' then vbox_machine as s
      else if tag = ''CPU'' then vbox_cpu as s
      else if tag = ''NAT'' then (if parent_tag (x_stack s) = ''Adapter'' then vbox_net Nat s else s)
      else if tag = ''BridgedInterface'' then vbox_net Bridged s
      else if tag = ''HostOnlyInterface'' then vbox_net HostOnly s
      else if tag = ''InternalNetwork'' then
        (vbox_net HostOnly s)\<lparr>x_vm := add_note ''VirtualBox internal network mapped to Host-Only'' ((x_vm s)\<lparr>i_network := HostOnly\<rparr>)\<rparr>
      else s)"

definition vbox_disk :: "string \<Rightarrow> imported_vm \<Rightarrow> string \<times> string \<Rightarrow> imported_vm" where
  "vbox_disk p vm kv =
     (if fst kv \<noteq> ''location'' then vm
      else (let d = path_join (conf_dir p) (snd kv) in
        vm\<lparr>i_format := or_value (i_format vm) (extension d), i_disks := i_disks vm @ [d]\<rparr>))"

definition vbox_single :: "string \<Rightarrow> string \<Rightarrow> attributes \<Rightarrow> vbox_state \<Rightarrow> vbox_state" where
  "vbox_single p tag as s =
     (if tag = ''Machine'' then vbox_machine as s
      else if tag = ''Memory'' then
        s\<lparr>x_vm := (x_vm s)\<lparr>i_memory := last_number u64_value ''RAMSize'' (i_memory (x_vm s)) as\<rparr>\<rparr>
      else if tag = ''CPU'' then vbox_cpu as s
      else if tag = ''EFI'' then s\<lparr>x_efi := or_value (x_efi s) (map_option (\<lambda>v. v = ''true'') (last_value ''enabled'' as))\<rparr>
      else if tag = ''HardDisk'' then s\<lparr>x_vm := foldl (vbox_disk p) (x_vm s) as\<rparr>
      else if tag = ''NAT'' then (if parent_tag (x_stack s) = ''Adapter'' then vbox_net Nat s else s)
      else if tag = ''BridgedInterface'' then vbox_net Bridged s
      else if tag = ''HostOnlyInterface'' then vbox_net HostOnly s
      else s)"

fun vbox_step :: "string \<Rightarrow> vbox_state \<Rightarrow> doc_event \<Rightarrow> vbox_state" where
  "vbox_step p s (Opened tag as) = (let s' = vbox_open tag as s in s'\<lparr>x_stack := tag # x_stack s'\<rparr>)"
| "vbox_step p s (Single tag as) = vbox_single p tag as s"
| "vbox_step p s (Characters t) = s"
| "vbox_step p s (Closed tag) = s\<lparr>x_stack := pop tag (x_stack s)\<rparr>"
| "vbox_step p s Passed = s"
| "vbox_step p s (Broken e) = s"

definition detect_os_from_vbox_ostype :: "(string \<Rightarrow> string) \<Rightarrow> string \<Rightarrow> os_type" where
  "detect_os_from_vbox_ostype lower os =
     (let t = lower os in
      if str_contains t ''windows'' \<or> starts_with t ''win'' then Windows
      else if any_of [''macos'', ''macosx'', ''darwin''] t \<or> starts_with t ''mac'' then MacOS
      else if any_of [''freebsd''] t then FreeBSD
      else if any_of [''linux'', ''ubuntu'', ''debian'', ''fedora'', ''redhat'', ''arch'', ''gentoo'', ''suse''] t then Linux
      else if t = [] then Linux
      else OtherOs)"

definition vbox_start :: vbox_state where
  "vbox_start = \<lparr>x_vm = (new_import VirtualBoxVbox)\<lparr>i_format := ''vdi''\<rparr>, x_stack = [], x_os = [], x_efi = False\<rparr>"

definition parse_virtualbox_vbox ::
  "(string \<Rightarrow> string) \<Rightarrow> (string \<Rightarrow> bool) \<Rightarrow> doc_event list \<Rightarrow> string \<Rightarrow> string + imported_vm" where
  "parse_virtualbox_vbox lower there es p =
     (case read_events (vbox_step p) ''Error parsing VirtualBox XML: '' vbox_start es of
        Inl e \<Rightarrow> Inl e
      | Inr s \<Rightarrow>
          (let vm = named p ((x_vm s)\<lparr>i_os := detect_os_from_vbox_ostype lower (x_os s), i_uefi := x_efi s\<rparr>);
               vm = (if i_vcpus vm = 0 then vm\<lparr>i_vcpus := 1\<rparr> else vm);
               vm = (if i_format vm = ''vdi'' then
                 add_note ''VDI disks can be used directly by QEMU, or convert to qcow2 for snapshot support'' vm else vm);
               vm = add_note ''VirtualBox NIC model (Intel PRO/1000) mapped to e1000'' (vm\<lparr>i_nic := ''e1000''\<rparr>);
               vm = (warn ''VirtualBox SVGA display not supported, using QXL instead'' vm)\<lparr>i_gpu := ''qxl''\<rparr> in
           Inr (add_note (''Imported from VirtualBox: '' @ p) (missing_disks there vm))))"

section \<open>Properties\<close>

text \<open>A property of the state kept by every step holds at the end of the events.\<close>

lemma read_events_keeps:
  "read_events step err s es = Inr s' \<Longrightarrow> P s \<Longrightarrow> (\<And>s e. e \<in> set es \<Longrightarrow> P s \<Longrightarrow> P (step s e)) \<Longrightarrow> P s'"
  by (induction step err s es rule: read_events.induct) auto

lemma foldl_keeps: "P s \<Longrightarrow> (\<And>s x. P s \<Longrightarrow> P (f s x)) \<Longrightarrow> P (foldl f s xs)"
  by (induction xs arbitrary: s) auto

definition plain_format :: "imported_vm \<Rightarrow> bool" where
  "plain_format vm \<longleftrightarrow> CHR ''/'' \<notin> set (i_format vm)"

lemma plain_format_ext: "plain_format vm \<Longrightarrow> CHR ''/'' \<notin> set (or_value (i_format vm) (extension d))"
  using extension_no_slash[of d] by (auto simp: plain_format_def or_value_def split: option.splits)

lemma plain_format_helpers [simp]:
  "plain_format (add_note n vm) = plain_format vm" "plain_format (warn n vm) = plain_format vm"
  "plain_format (named p vm) = plain_format vm" "plain_format (missing_disks there vm) = plain_format vm"
  "plain_format (vm\<lparr>i_name := a\<rparr>) = plain_format vm" "plain_format (vm\<lparr>i_os := b\<rparr>) = plain_format vm"
  "plain_format (vm\<lparr>i_vcpus := c\<rparr>) = plain_format vm" "plain_format (vm\<lparr>i_memory := d\<rparr>) = plain_format vm"
  "plain_format (vm\<lparr>i_disks := e\<rparr>) = plain_format vm" "plain_format (vm\<lparr>i_network := f\<rparr>) = plain_format vm"
  "plain_format (vm\<lparr>i_nic := g\<rparr>) = plain_format vm" "plain_format (vm\<lparr>i_display := h\<rparr>) = plain_format vm"
  "plain_format (vm\<lparr>i_uefi := i\<rparr>) = plain_format vm" "plain_format (vm\<lparr>i_tpm := j\<rparr>) = plain_format vm"
  "plain_format (vm\<lparr>i_gpu := k\<rparr>) = plain_format vm"
  by (simp_all add: plain_format_def add_note_def warn_def named_def missing_disks_def)

lemma plain_format_new [simp]: "plain_format (new_import s)" "plain_format ((new_import s)\<lparr>i_format := ''vmdk''\<rparr>)"
  "plain_format ((new_import s)\<lparr>i_format := ''vdi''\<rparr>)"
  by (simp_all add: plain_format_def new_import_def)

lemma quickemu_plain: "plain_format (parse_quickemu_conf content p)"
proof -
  have "plain_format (q_vm (foldl quickemu_assign \<lparr>q_vm = new_import QuickemuConf, q_guest = [], q_disk = []\<rparr> kvs))" for kvs
    by (rule foldl_keeps[where P = "\<lambda>s. plain_format (q_vm s)"]) (auto simp: quickemu_assign_def Let_def)
  then show ?thesis by (simp add: parse_quickemu_conf_def Let_def)
qed

lemma vmx_plain: "plain_format (parse_vmware_vmx lower there content p)"
proof -
  have "plain_format (v_vm (foldl (vmx_assign lower) \<lparr>v_vm = (new_import VmwareVmx)\<lparr>i_format := ''vmdk''\<rparr>, v_guest = [], v_disk = []\<rparr> kvs))" for kvs
    by (rule foldl_keeps[where P = "\<lambda>s. plain_format (v_vm s)"])
      (auto simp: vmx_assign_def vmx_network_def vmx_nic_def Let_def)
  then show ?thesis by (simp add: parse_vmware_vmx_def Let_def)
qed

lemma libvirt_step_plain: "plain_format (l_vm s) \<Longrightarrow> plain_format (l_vm (libvirt_step s e))"
proof (cases e)
  case (Opened tag as)
  then show "plain_format (l_vm s) \<Longrightarrow> ?thesis"
    by (simp add: Let_def libvirt_open_def set_gpu_def set_model_def split: option.splits)
next
  case (Single tag as)
  then show "plain_format (l_vm s) \<Longrightarrow> ?thesis"
    by (simp add: Let_def libvirt_single_def set_gpu_def set_model_def split: option.splits)
next
  case (Characters t)
  then show "plain_format (l_vm s) \<Longrightarrow> ?thesis"
    by (simp add: Let_def libvirt_text_def split: option.splits capture.splits)
next
  case (Closed tag)
  assume s: "plain_format (l_vm s)"
  have d: "plain_format (l_vm (end_disk s))"
    using s plain_format_ext[OF s, of "l_source s"] by (simp add: end_disk_def plain_format_def)
  have i: "plain_format (l_vm (end_interface s'))" if "plain_format (l_vm s')" for s'
    using that by (simp add: end_interface_def plain_format_def)
  show ?thesis using s d i Closed by (simp add: libvirt_close_def Let_def)
qed simp_all

lemma vbox_step_plain: "plain_format (x_vm s) \<Longrightarrow> plain_format (x_vm (vbox_step p s e))"
proof (cases e)
  case (Opened tag as)
  then show "plain_format (x_vm s) \<Longrightarrow> ?thesis"
    by (simp add: Let_def vbox_open_def vbox_machine_def vbox_cpu_def vbox_net_def)
next
  case (Single tag as)
  assume s: "plain_format (x_vm s)"
  have "plain_format (foldl (vbox_disk p) (x_vm s) as)"
    by (rule foldl_keeps[where P = plain_format, OF s])
      (auto simp: vbox_disk_def Let_def plain_format_def dest: plain_format_ext[unfolded plain_format_def])
  with s Single show ?thesis
    by (simp add: vbox_single_def vbox_machine_def vbox_cpu_def vbox_net_def)
qed simp_all

lemma parsed_format_plain:
  "parse_libvirt_xml there es p = Inr vm \<Longrightarrow> plain_format vm"
  "parse_virtualbox_vbox lower there es p = Inr vm \<Longrightarrow> plain_format vm"
proof -
  assume "parse_libvirt_xml there es p = Inr vm"
  then obtain s where s: "read_events libvirt_step ''Error parsing libvirt XML: '' libvirt_start es = Inr s"
      "plain_format vm = plain_format (l_vm s)"
    by (auto simp: parse_libvirt_xml_def Let_def split: sum.splits)
  from read_events_keeps[where P = "\<lambda>s. plain_format (l_vm s)", OF s(1)] libvirt_step_plain s(2)
  show "plain_format vm" by (simp add: libvirt_start_def)
next
  assume "parse_virtualbox_vbox lower there es p = Inr vm"
  then obtain s where s: "read_events (vbox_step p) ''Error parsing VirtualBox XML: '' vbox_start es = Inr s"
      "plain_format vm = plain_format (x_vm s)"
    by (auto simp: parse_virtualbox_vbox_def Let_def split: sum.splits)
  from read_events_keeps[where P = "\<lambda>s. plain_format (x_vm s)", OF s(1)] vbox_step_plain s(2)
  show "plain_format vm" by (simp add: vbox_start_def)
qed

text \<open>A machine with a macOS guest is not recognised in libvirt's XML: the test looks for the element
  \<open>qemu:arg\<close>, but the reader compares local names, which have no prefix.\<close>
theorem macos_not_recognised:
  assumes "parse_libvirt_xml there es p = Inr vm" "\<And>tag as. Single tag as \<in> set es \<Longrightarrow> CHR '':'' \<notin> set tag"
  shows "i_os vm \<noteq> MacOS"
proof -
  obtain s where s: "read_events libvirt_step ''Error parsing libvirt XML: '' libvirt_start es = Inr s"
      "i_os vm = (if l_hyperv s then Windows else if l_applesmc s then MacOS else i_os (l_vm s))"
    using assms(1)
    by (auto simp: parse_libvirt_xml_def Let_def add_note_def missing_disks_def named_def split: sum.splits)
  have "\<not> l_applesmc s \<and> i_os (l_vm s) = Linux"
  proof (rule read_events_keeps[where P = "\<lambda>s. \<not> l_applesmc s \<and> i_os (l_vm s) = Linux", OF s(1)])
    fix s :: libvirt_state and e
    assume e: "e \<in> set es" and s: "\<not> l_applesmc s \<and> i_os (l_vm s) = Linux"
    show "\<not> l_applesmc (libvirt_step s e) \<and> i_os (l_vm (libvirt_step s e)) = Linux"
    proof (cases e)
      case (Single tag as)
      with assms(2)[of tag as] e have "tag \<noteq> ''qemu:arg''" by auto
      with s Single show ?thesis by (simp add: libvirt_single_def Let_def set_gpu_def set_model_def split: option.split)
    qed (use s in \<open>simp_all add: Let_def libvirt_open_def set_gpu_def set_model_def libvirt_text_def libvirt_close_def
      end_disk_def end_interface_def split: option.split capture.split\<close>)
  qed (simp add: libvirt_start_def new_import_def)
  with s(2) show ?thesis by simp
qed

text \<open>A guest with the Apple device, as libvirt writes it: the event has the local name.\<close>

definition mac_events :: "doc_event list" where
  "mac_events = [Opened ''domain'' [], Opened ''commandline'' [], Single ''arg'' [(''value'', ''-device'')],
     Single ''arg'' [(''value'', ''isa-applesmc'')], Closed ''commandline'', Closed ''domain'']"

theorem macos_not_recognised_witness:
  "\<exists>vm. parse_libvirt_xml (\<lambda>_. True) mac_events ''/mac.xml'' = Inr vm \<and> i_os vm \<noteq> MacOS"
proof -
  obtain vm where vm: "parse_libvirt_xml (\<lambda>_. True) mac_events ''/mac.xml'' = Inr vm"
    by (simp add: parse_libvirt_xml_def mac_events_def libvirt_close_def Let_def libvirt_open_def libvirt_single_def)
  have "CHR '':'' \<notin> set tag" if "Single tag as \<in> set mac_events" for tag as
    using that by (auto simp: mac_events_def)
  then have "i_os vm \<noteq> MacOS" by (rule macos_not_recognised[OF vm])
  with vm show ?thesis by blast
qed

text \<open>An amount of gigabytes that is not a whole number becomes two tebibytes, and a unit of tebibytes counts
  as kibibytes.\<close>

lemma fraction_of_gigabytes: "parse_ram_string ''1.5G'' = 2097152"
proof -
  have "trim ''1.5G'' = ''1.5G''" "trim ''1.5'' = ''1.5''" by code_simp+
  then show ?thesis
    by (simp add: parse_ram_string_def Let_def ends_with_def u64_value_def parse_unsigned_def or_value_def ascii_defs)
qed

lemma tebibytes_as_kibibytes: "convert_memory_to_mib (2 * 1024) ''TiB'' = 2"
  by (simp add: convert_memory_to_mib_def)

text \<open>A hard disk of VirtualBox with parts of its own (a differencing image below it) is not an empty
  element, and is not seen.\<close>

lemma parent_disk_not_seen: "vbox_step p s (Opened ''HardDisk'' as) = s\<lparr>x_stack := ''HardDisk'' # x_stack s\<rparr>"
  by (simp add: vbox_open_def)

text \<open>A display with a part of its own (\<open>listen\<close>, as libvirt writes it) is not seen either.\<close>

lemma display_with_listener_not_seen:
  "l_vm (libvirt_step s (Opened ''graphics'' as)) = l_vm s"
  by (simp add: libvirt_open_def Let_def)

end
