(* ===== verification/Import.thy ===== *)
theory Import
  imports Import_Parse Host_Run "HOL-Library.Multiset" "HOL-Library.Sublist"
begin

text \<open>
  Importing a machine (vmm-core/src/import/mod.rs): the configuration made from it, the handling of its disk
  images, the search for importable machines. An error that is a string in the code is \<open>Other\<close> of it.
\<close>

section \<open>The surroundings\<close>

text \<open>\<open>resolve\<close>: \<open>canonicalize\<close>; \<open>names_at\<close>: the names in a directory that could be read; \<open>doc_events\<close>: the
  XML parser; \<open>data_local\<close>, \<open>config_home\<close>, \<open>user_home\<close>: the directories of the \<open>dirs\<close> package.\<close>

record import_env =
  box :: world
  lower_case :: "string \<Rightarrow> string"
  u_alphanumeric :: "nat \<Rightarrow> bool"
  resolve :: "act list \<Rightarrow> string \<Rightarrow> string + string"
  content_at :: "act list \<Rightarrow> string \<Rightarrow> string + string"
  names_at :: "act list \<Rightarrow> string \<Rightarrow> string list option"
  file_at :: "act list \<Rightarrow> string \<Rightarrow> bool"
  folder_at :: "act list \<Rightarrow> string \<Rightarrow> bool"
  doc_events :: "string \<Rightarrow> doc_event list"
  data_local :: "string option"
  config_home :: "string option"
  user_home :: "string option"
  json_pretty :: "vm_config \<Rightarrow> string + string"
  fresh_id :: uuid

definition parse_import :: "import_env \<Rightarrow> act list \<Rightarrow> string \<Rightarrow> string + imported_vm" where
  "parse_import e t p =
     (case detect_format p of
        None \<Rightarrow> Inl (''Unsupported file format: '' @ p @ ''. Supported: .xml, .vmx, .vbox, .conf'')
      | Some source \<Rightarrow> (case content_at e t p of
          Inl err \<Rightarrow> Inl (''Failed to read '' @ p @ '': '' @ err)
        | Inr c \<Rightarrow> (case source of
            LibvirtXml \<Rightarrow> parse_libvirt_xml (exists_at (box e) t) (doc_events e c) p
          | VmwareVmx \<Rightarrow> Inr (parse_vmware_vmx (lower_case e) (exists_at (box e) t) c p)
          | VirtualBoxVbox \<Rightarrow> parse_virtualbox_vbox (lower_case e) (exists_at (box e) t) (doc_events e c) p
          | QuickemuConf \<Rightarrow> Inr (parse_quickemu_conf c p))))"

section \<open>The configuration\<close>

definition gpu_of :: "string \<Rightarrow> gpu_model" where
  "gpu_of g = (if g = ''qxl'' then Qxl else if g = ''virtio'' \<or> g = ''virtio-gpu'' then VirtioGpu
     else if g = ''vga'' \<or> g = ''std'' then Vga else if g = ''vmware'' \<or> g = ''vmvga'' then VmwareSvga
     else if g = ''none'' then GpuNone else GpuAuto)"

definition notes_section :: "string \<Rightarrow> string list \<Rightarrow> string list" where
  "notes_section title xs = (if xs = [] then [] else title # map (\<lambda>x. ''- '' @ x) xs)"

definition to_vm_config :: "uuid \<Rightarrow> imported_vm \<Rightarrow> vm_config" where
  "to_vm_config new_id i =
     (default_config new_id)\<lparr>vm_name := i_name i, vcpus := i_vcpus i, memory_mib := i_memory i, disk_size_gib := 0,
        disk_path := (case i_disks i of [] \<Rightarrow> [] | d # _ \<Rightarrow> d), iso_path := i_iso i, os_type := i_os i, uefi := i_uefi i,
        gpu_accel := False, network := i_network i, display_protocol := i_display i, usb_support := True, audio := True,
        shared_folder := None,
        vm_description := ''Imported from '' @ source_display (i_source i) @ '' (''
          @ dec (length (i_warnings i) + length (i_notes i)) @ '')'',
        boot_order := [Hd, Cdrom],
        network_interfaces := [\<lparr>nic_mode = i_network i, nic_model = i_nic i, nic_mac = []\<rparr>],
        autostart := False, tags := [''imported''], folder := None, favorite := False, tpm_enabled := i_tpm i,
        vm_notes := join [CHR 0x0A] (notes_section ''## Import Warnings'' (i_warnings i) @ notes_section ''## Import Notes'' (i_notes i)),
        gpu_model := gpu_of (i_gpu i)\<rparr>"

section \<open>The import\<close>

datatype disk_action = Link_Disk | Copy_Disk | Move_Disk | Convert_Disk

definition sanitize_name :: "(nat \<Rightarrow> bool) \<Rightarrow> string \<Rightarrow> string" where
  "sanitize_name ua n = of_chars (map (\<lambda>g. if is_alphanumeric ua g \<or> is_char g (CHR ''-'') \<or> is_char g (CHR ''_'')
     \<or> is_char g (CHR ''.'') then g else ''_'') (chars n))"

definition get_storage_dir :: "import_env \<Rightarrow> string run" where
  "get_storage_dir e =
     (case data_local e of
        None \<Rightarrow> stop (Other ''Could not determine local data directory'')
      | Some d \<Rightarrow>
          next_do (perform (box e) (\<lambda>err. Other (''Failed to create storage directory: '' @ err)) (Make_Dir (path_join d ''libre-vmm'')))
            (\<lambda>_. give (path_join d ''libre-vmm'')))"

definition disk_file :: "import_env \<Rightarrow> imported_vm \<Rightarrow> disk_action \<Rightarrow> string \<Rightarrow> nat \<Rightarrow> string" where
  "disk_file e vm action name i =
     (let ext = (if action = Convert_Disk then ''qcow2'' else i_format vm); n = sanitize_name (u_alphanumeric e) name in
      if i = 0 then n @ ''.'' @ ext else n @ ''-disk'' @ dec (i + 1) @ ''.'' @ ext)"

definition place_disk :: "import_env \<Rightarrow> imported_vm \<Rightarrow> disk_action \<Rightarrow> string \<Rightarrow> string \<Rightarrow> unit run" where
  "place_disk e vm action src dest =
     (let copied = perform (box e) (\<lambda>err. Other (''Failed to copy '' @ src @ '' -> '' @ dest @ '': '' @ err)) (Copy src dest) in
      case action of
        Link_Disk \<Rightarrow>
          next_do (ask (\<lambda>t. resolve e t src)) (\<lambda>r.
          next_do (check (case r of Inl err \<Rightarrow> Inl (Other (''Failed to resolve path '' @ src @ '': '' @ err)) | Inr p \<Rightarrow> Inr p)) (\<lambda>real.
          perform (box e) (\<lambda>err. Other (''Failed to create symlink '' @ dest @ '' -> '' @ real @ '': '' @ err)) (Make_Link real dest)))
      | Copy_Disk \<Rightarrow> copied
      | Move_Disk \<Rightarrow>
          next_do (attempt (box e) (Rename src dest)) (\<lambda>failed.
          if failed = None then give ()
          else next_do copied (\<lambda>_.
            perform (box e) (\<lambda>err. Other (''Failed to remove original disk '' @ src @ '': '' @ err)) (Remove_File src)))
      | Convert_Disk \<Rightarrow>
          next_do (command (box e) (\<lambda>err. Other (''Failed to run qemu-img: '' @ err))
              [''qemu-img'', ''convert'', ''-f'', i_format vm, ''-O'', ''qcow2'', src, dest]) (\<lambda>out.
          if out_ok out then give () else stop (Other (''qemu-img convert failed for '' @ src))))"

fun import_disks ::
  "import_env \<Rightarrow> imported_vm \<Rightarrow> disk_action \<Rightarrow> string \<Rightarrow> string \<Rightarrow> nat \<Rightarrow> vm_config \<Rightarrow> string list \<Rightarrow> vm_config run" where
  "import_disks e vm action name dir i c [] = give c"
| "import_disks e vm action name dir i c (src # srcs) =
     next_do (exists_path (box e) src) (\<lambda>there.
     if \<not> there then import_disks e vm action name dir (Suc i) c srcs
     else
       (let dest = path_join dir (disk_file e vm action name i) in
        next_do (place_disk e vm action src dest) (\<lambda>_.
        import_disks e vm action name dir (Suc i) (if i = 0 then c\<lparr>disk_path := dest\<rparr> else c) srcs)))"

definition import_into :: "import_env \<Rightarrow> imported_vm \<Rightarrow> disk_action \<Rightarrow> string \<Rightarrow> string \<Rightarrow> vm_config run" where
  "import_into e vm action name storage =
     (let disks = path_join storage ''disks''; configs = path_join storage ''configs'';
          target = path_join configs (sanitize_name (u_alphanumeric e) name @ ''.json'') in
      next_do (perform (box e) (\<lambda>err. Other (''Failed to create disk directory: '' @ err)) (Make_Dir disks)) (\<lambda>_.
      next_do (import_disks e vm action name disks 0 ((to_vm_config (fresh_id e) vm)\<lparr>vm_name := name\<rparr>) (i_disks vm)) (\<lambda>c.
      next_do (perform (box e) (\<lambda>err. Other (''Failed to create config directory: '' @ err)) (Make_Dir configs)) (\<lambda>_.
      next_do (check (case json_pretty e c of Inl err \<Rightarrow> Inl (Other (''Failed to serialize config: '' @ err)) | Inr j \<Rightarrow> Inr j)) (\<lambda>json.
      next_do (perform (box e) (\<lambda>err. Other (''Failed to write config to '' @ target @ '': '' @ err)) (Write target json)) (\<lambda>_.
      give c))))))"

definition execute_import :: "import_env \<Rightarrow> imported_vm \<Rightarrow> disk_action \<Rightarrow> string \<Rightarrow> vm_config run" where
  "execute_import e vm action name = next_do (get_storage_dir e) (import_into e vm action name)"

section \<open>Discovery\<close>

definition MAX_SCAN_DEPTH :: nat where "MAX_SCAN_DEPTH = 3"

definition visit_entry :: "import_env \<Rightarrow> act list \<Rightarrow> string \<Rightarrow> (string \<Rightarrow> string list) \<Rightarrow> string \<Rightarrow> string list" where
  "visit_entry e t ext deeper p =
     (if file_at e t p then (if extension p = Some ext then [p] else [])
      else if folder_at e t p then deeper p else [])"

definition entry_paths :: "import_env \<Rightarrow> act list \<Rightarrow> string \<Rightarrow> string list" where
  "entry_paths e t dir = (case names_at e t dir of None \<Rightarrow> [] | Some ns \<Rightarrow> map (path_join dir) ns)"

text \<open>The files visited, in their order.\<close>

primrec walk_for_extension :: "nat \<Rightarrow> import_env \<Rightarrow> act list \<Rightarrow> string \<Rightarrow> string \<Rightarrow> string list" where
  "walk_for_extension 0 e t ext dir = concat (map (visit_entry e t ext (\<lambda>_. [])) (entry_paths e t dir))"
| "walk_for_extension (Suc n) e t ext dir =
     concat (map (visit_entry e t ext (walk_for_extension n e t ext)) (entry_paths e t dir))"

definition scan_dir_for_extension_deep :: "nat \<Rightarrow> import_env \<Rightarrow> act list \<Rightarrow> string \<Rightarrow> string \<Rightarrow> imported_vm list" where
  "scan_dir_for_extension_deep n e t ext dir =
     List.map_filter (\<lambda>p. case parse_import e t p of Inl _ \<Rightarrow> None | Inr vm \<Rightarrow> Some vm) (walk_for_extension n e t ext dir)"

definition disk_key :: "import_env \<Rightarrow> act list \<Rightarrow> imported_vm \<Rightarrow> string option" where
  "disk_key e t vm = (case i_disks vm of [] \<Rightarrow> None
     | d # _ \<Rightarrow> Some (case resolve e t d of Inl _ \<Rightarrow> d | Inr c \<Rightarrow> c))"

definition name_key :: "import_env \<Rightarrow> imported_vm \<Rightarrow> string" where
  "name_key e vm = source_display (i_source vm) @ ''::'' @ lower_case e (i_name vm)"

fun dedupe_by_disk_or_name ::
  "import_env \<Rightarrow> act list \<Rightarrow> string set \<Rightarrow> string set \<Rightarrow> imported_vm list \<Rightarrow> imported_vm list" where
  "dedupe_by_disk_or_name e t disks names [] = []"
| "dedupe_by_disk_or_name e t disks names (vm # vms) =
     (case disk_key e t vm of
        Some d \<Rightarrow>
          if d \<in> disks then dedupe_by_disk_or_name e t disks names vms
          else if name_key e vm \<in> names then dedupe_by_disk_or_name e t (insert d disks) names vms
          else vm # dedupe_by_disk_or_name e t (insert d disks) (insert (name_key e vm) names) vms
      | None \<Rightarrow>
          if name_key e vm \<in> names then dedupe_by_disk_or_name e t disks names vms
          else vm # dedupe_by_disk_or_name e t disks (insert (name_key e vm) names) vms)"

definition vbox_search_roots :: "string \<Rightarrow> string list" where
  "vbox_search_roots home = map (path_join home) [''VirtualBox VMs'', ''snap/virtualbox/common/Machines'', ''.config/VirtualBox/Machines'']"

definition vmware_search_roots :: "string \<Rightarrow> string list" where
  "vmware_search_roots home = map (path_join home) [''vmware'', ''Virtual Machines'', ''Documents/Virtual Machines'']"

text \<open>The first library directory that exists.\<close>

definition detect_library :: "(string \<Rightarrow> string list) \<Rightarrow> import_env \<Rightarrow> act list \<Rightarrow> string option" where
  "detect_library roots e t = (case user_home e of None \<Rightarrow> None | Some h \<Rightarrow> List.find (exists_at (box e) t) (roots h))"

text \<open>The directories that are searched, with the extension looked for, in their order.\<close>

definition search_places :: "import_env \<Rightarrow> (string \<times> string) list" where
  "search_places e =
     map (\<lambda>d. (d, ''xml'')) [''/etc/libvirt/qemu'', (case config_home e of None \<Rightarrow> [] | Some d \<Rightarrow> path_join d ''libvirt/qemu''),
       ''/var/lib/libvirt/qemu'', ''/var/lib/libvirt/images'']
     @ (case user_home e of None \<Rightarrow> [] | Some h \<Rightarrow>
         map (\<lambda>d. (d, ''vbox'')) (vbox_search_roots h) @ map (\<lambda>d. (d, ''vmx'')) (vmware_search_roots h)
         @ map (\<lambda>d. (path_join h d, ''conf'')) [''.local/share/quickemu'', ''snap/quickemu/common'', ''quickemu'']
         @ [(path_join h ''Library/Application Support/VMware Fusion'', ''vmx'')])"

definition discover_importable_vms :: "import_env \<Rightarrow> act list \<Rightarrow> imported_vm list" where
  "discover_importable_vms e t = dedupe_by_disk_or_name e t {} {} (concat (map (\<lambda>(d, ext).
     if d = [] \<or> \<not> exists_at (box e) t d then [] else scan_dir_for_extension_deep MAX_SCAN_DEPTH e t ext d) (search_places e)))"

definition discover_and_group :: "import_env \<Rightarrow> act list \<Rightarrow> nat \<Rightarrow> (import_source \<times> imported_vm list) list" where
  "discover_and_group e t max_results =
     (let found = discover_importable_vms e t;
          shown = (if max_results > 0 \<and> length found > max_results then take max_results found else found) in
      List.filter (\<lambda>g. snd g \<noteq> []) (map (\<lambda>s. (s, List.filter (\<lambda>v. i_source v = s) shown))
        [LibvirtXml, VmwareVmx, VirtualBoxVbox, QuickemuConf]))"

section \<open>Where an import writes\<close>

text \<open>A file directly in a directory: what its path adds is one name.\<close>

definition child_of :: "string \<Rightarrow> string \<Rightarrow> bool" where
  "child_of d f \<longleftrightarrow> (\<exists>n. f = path_join d n \<and> n \<noteq> [] \<and> CHR ''/'' \<notin> set n)"

text \<open>The actions allowed to an import of the disks \<open>srcs\<close> into the storage directory \<open>st\<close>.\<close>

definition import_act :: "string \<Rightarrow> string list \<Rightarrow> act \<Rightarrow> bool" where
  "import_act st srcs a \<longleftrightarrow> (case a of
       Make_Dir d \<Rightarrow> d \<in> {st, path_join st ''disks'', path_join st ''configs''}
     | Path_Exists p \<Rightarrow> True
     | Make_Link real d \<Rightarrow> child_of (path_join st ''disks'') d
     | Copy s d \<Rightarrow> s \<in> set srcs \<and> child_of (path_join st ''disks'') d
     | Rename s d \<Rightarrow> s \<in> set srcs \<and> child_of (path_join st ''disks'') d
     | Remove_File s \<Rightarrow> s \<in> set srcs
     | Run args \<Rightarrow> (\<exists>fmt s d. args = [''qemu-img'', ''convert'', ''-f'', fmt, ''-O'', ''qcow2'', s, d] \<and> s \<in> set srcs
         \<and> child_of (path_join st ''disks'') d)
     | Write p j \<Rightarrow> child_of (path_join st ''configs'') p
     | _ \<Rightarrow> False)"

lemma import_act_simps [simp]:
  "import_act st srcs (Make_Dir d) \<longleftrightarrow> d = st \<or> d = path_join st ''disks'' \<or> d = path_join st ''configs''"
  "import_act st srcs (Path_Exists p)"
  "import_act st srcs (Make_Link real d) \<longleftrightarrow> child_of (path_join st ''disks'') d"
  "import_act st srcs (Copy s d) \<longleftrightarrow> s \<in> set srcs \<and> child_of (path_join st ''disks'') d"
  "import_act st srcs (Rename s d) \<longleftrightarrow> s \<in> set srcs \<and> child_of (path_join st ''disks'') d"
  "import_act st srcs (Remove_File s) \<longleftrightarrow> s \<in> set srcs"
  "import_act st srcs (Run [''qemu-img'', ''convert'', ''-f'', fmt, ''-O'', ''qcow2'', s, d]) \<longleftrightarrow> s \<in> set srcs
     \<and> child_of (path_join st ''disks'') d"
  "import_act st srcs (Write p j) \<longleftrightarrow> child_of (path_join st ''configs'') p"
  by (simp_all add: import_act_def)

lemma sanitize_name_no_slash: "CHR ''/'' \<notin> set (sanitize_name ua n)"
proof
  assume "CHR ''/'' \<in> set (sanitize_name ua n)"
  then obtain g where g: "g \<in> set (chars n)" "CHR ''/'' \<in> set (if is_alphanumeric ua g \<or> is_char g (CHR ''-'')
      \<or> is_char g (CHR ''_'') \<or> is_char g (CHR ''.'') then g else ''_'')"
    unfolding sanitize_name_def by (auto dest: of_chars_map_byte)
  from chars_group[OF g(1)] g(2) show False
    by (auto simp: is_char_def ascii_defs split: if_splits)
qed

lemma disk_file_plain: "plain_format vm \<Longrightarrow> disk_file e vm action name i \<noteq> [] \<and> CHR ''/'' \<notin> set (disk_file e vm action name i)"
  using sanitize_name_no_slash[of "u_alphanumeric e" name] dec_digits[of "CHR ''/''" "i + 1"]
  by (auto simp: disk_file_def Let_def plain_format_def ascii_defs simp del: dec.simps)

lemma place_disk_act:
  assumes "src \<in> set srcs" "child_of (path_join st ''disks'') dest"
  shows "emits (import_act st srcs) (place_disk e vm action src dest)"
proof (cases action)
  case Link_Disk
  then show ?thesis unfolding place_disk_def Let_def
    by (simp only: disk_action.case) (intro emits_rules emits_next; simp add: assms)
next
  case Copy_Disk
  then show ?thesis unfolding place_disk_def Let_def
    by (simp only: disk_action.case) (intro emits_rules; simp add: assms)
next
  case Move_Disk
  then show ?thesis unfolding place_disk_def Let_def
    by (simp only: disk_action.case) (intro emits_rules emits_next; simp add: assms)
next
  case Convert_Disk
  then show ?thesis unfolding place_disk_def Let_def
    by (simp only: disk_action.case) (intro emits_rules emits_next; simp add: assms)
qed

lemma import_disks_act:
  assumes "plain_format vm"
  shows "set ds \<subseteq> set srcs \<Longrightarrow> emits (import_act st srcs) (import_disks e vm action name (path_join st ''disks'') i c ds)"
proof (induction ds arbitrary: i c)
  case (Cons d ds)
  then have "d \<in> set srcs" "child_of (path_join st ''disks'') (path_join (path_join st ''disks'') (disk_file e vm action name i))"
    using disk_file_plain[OF assms] by (auto simp: child_of_def)
  from place_disk_act[OF this] Cons show ?case
    unfolding import_disks.simps Let_def
    by (intro emits_rules emits_next) simp_all
qed (simp add: emits_end)

lemma storage_dir_result: "snd (get_storage_dir e t) = Inr st \<Longrightarrow> \<exists>d. data_local e = Some d \<and> st = path_join d ''libre-vmm''"
  by (auto simp: get_storage_dir_def run split: option.splits)


text \<open>Surroundings in which every file can be read and nothing fails: the input of the witnesses.\<close>

definition demo_env :: "(string \<Rightarrow> string) \<Rightarrow> import_env" where
  "demo_env content = \<lparr>box = demo_world 1 [], lower_case = map to_ascii_lower, u_alphanumeric = \<lambda>_. False,
     resolve = \<lambda>_ p. Inr p, content_at = \<lambda>_ p. Inr (content p), names_at = \<lambda>_ _. None, file_at = \<lambda>_ _. True,
     folder_at = \<lambda>_ _. False, doc_events = \<lambda>_. [], data_local = Some ''/d'', config_home = None, user_home = None,
     json_pretty = \<lambda>_. Inr ''{}'', fresh_id = []\<rparr>"


text \<open>Two machines whose names differ in a character that is replaced get the same disk file; copying asks for
  nothing before it writes there.\<close>

lemma names_share_disk_file: "disk_file (demo_env f) vm Copy_Disk ''web 1'' 0 = disk_file (demo_env f) vm Copy_Disk ''web_1'' 0"
proof -
  have "sanitize_name (\<lambda>_. False) ''web 1'' = sanitize_name (\<lambda>_. False) ''web_1''" by code_simp
  then show ?thesis by (simp add: disk_file_def demo_env_def)
qed

lemma copy_overwrites: "fst (place_disk e vm Copy_Disk src dest t) = t @ [Copy src dest]"
  by (simp add: place_disk_def run)

section \<open>What is discovered\<close>

text \<open>One step: a machine is kept exactly when neither its disk nor its name was seen.\<close>

definition seen_before :: "import_env \<Rightarrow> act list \<Rightarrow> string set \<Rightarrow> string set \<Rightarrow> imported_vm \<Rightarrow> bool" where
  "seen_before e t disks names vm \<longleftrightarrow> (\<exists>d \<in> disks. disk_key e t vm = Some d) \<or> name_key e vm \<in> names"

lemma dedupe_step:
  "\<exists>disks' names'. disks \<subseteq> disks' \<and> names \<subseteq> names' \<and> dedupe_by_disk_or_name e t disks names (vm # vms)
     = (if seen_before e t disks names vm then [] else [vm]) @ dedupe_by_disk_or_name e t disks' names' vms
     \<and> (seen_before e t disks names vm \<or> name_key e vm \<in> names' \<and> (\<forall>d. disk_key e t vm = Some d \<longrightarrow> d \<in> disks'))"
proof (cases "disk_key e t vm")
  case None
  then show ?thesis
    by (intro exI[of _ disks] exI[of _ "insert (name_key e vm) names"]) (auto simp: seen_before_def insert_absorb)
next
  case (Some d)
  show ?thesis
  proof (cases "d \<in> disks")
    case True
    with Some show ?thesis by (intro exI[of _ disks] exI[of _ names]) (simp add: seen_before_def)
  next
    case False
    with Some show ?thesis
      by (intro exI[of _ "insert d disks"] exI[of _ "insert (name_key e vm) names"])
        (auto simp: seen_before_def insert_absorb)
  qed
qed

lemma dedupe_fresh: "v \<in> set (dedupe_by_disk_or_name e t disks names vms) \<Longrightarrow> \<not> seen_before e t disks names v"
proof (induction vms arbitrary: disks names)
  case (Cons vm vms)
  from dedupe_step[of disks names e t vm vms] obtain ds ns where s: "disks \<subseteq> ds" "names \<subseteq> ns"
      "dedupe_by_disk_or_name e t disks names (vm # vms)
        = (if seen_before e t disks names vm then [] else [vm]) @ dedupe_by_disk_or_name e t ds ns vms" by blast
  from Cons.prems[unfolded s(3)] consider "v = vm" "\<not> seen_before e t disks names vm"
    | "v \<in> set (dedupe_by_disk_or_name e t ds ns vms)" by (auto split: if_splits)
  then show ?case
  proof cases
    case 2
    from Cons.IH[OF this] s(1,2) show ?thesis by (auto simp: seen_before_def)
  qed simp
qed simp

definition apart :: "import_env \<Rightarrow> act list \<Rightarrow> imported_vm list \<Rightarrow> bool" where
  "apart e t vms \<longleftrightarrow> distinct (map (name_key e) vms)
     \<and> sorted_wrt (\<lambda>v w. disk_key e t v = None \<or> disk_key e t v \<noteq> disk_key e t w) vms"

lemma dedupe_apart: "apart e t (dedupe_by_disk_or_name e t disks names vms)"
proof (induction vms arbitrary: disks names)
  case (Cons vm vms)
  from dedupe_step[of disks names e t vm vms] obtain ds ns where s:
      "dedupe_by_disk_or_name e t disks names (vm # vms)
        = (if seen_before e t disks names vm then [] else [vm]) @ dedupe_by_disk_or_name e t ds ns vms"
      "seen_before e t disks names vm \<or> name_key e vm \<in> ns \<and> (\<forall>d. disk_key e t vm = Some d \<longrightarrow> d \<in> ds)" by blast
  have "\<not> seen_before e t ds ns v" if "v \<in> set (dedupe_by_disk_or_name e t ds ns vms)" for v
    using dedupe_fresh[OF that] .
  with Cons.IH[of ds ns] s(2) show ?case
    unfolding s(1) by (cases "disk_key e t vm") (fastforce simp: apart_def seen_before_def)+
qed (simp add: apart_def)

text \<open>A disk can be lost: a machine is dropped for its name after its disk was recorded, and then another
  machine is dropped for that disk.\<close>

definition lib :: "string \<Rightarrow> string \<Rightarrow> imported_vm" where
  "lib n d = (new_import LibvirtXml)\<lparr>i_name := n, i_disks := [d]\<rparr>"

lemma disk_lost:
  "map i_name (dedupe_by_disk_or_name (demo_env f) t {} {} [lib ''a'' ''/1'', lib ''a'' ''/2'', lib ''b'' ''/2'']) = [''a'']"
  by (simp add: lib_def disk_key_def name_key_def demo_env_def new_import_def to_ascii_lower_def ascii_defs)

lemma concat_nonempty: "concat (map snd (List.filter (\<lambda>g. snd g \<noteq> []) gs)) = concat (map snd gs)"
  by (induction gs) auto

lemma mset_by_source:
  "mset (concat (map snd (map (\<lambda>s. (s, List.filter (\<lambda>v. i_source v = s) vs)) [LibvirtXml, VmwareVmx, VirtualBoxVbox, QuickemuConf])))
     = mset vs"
proof (induction vs)
  case (Cons v vs)
  then show ?case by (cases "i_source v") (simp_all add: ac_simps)
qed simp

lemma groups_in_order:
  "subseq (map fst (List.filter (\<lambda>g. snd g \<noteq> []) (map (\<lambda>s. (s, f s)) ss))) ss"
  by (induction ss) auto

text \<open>What the import view shows: groups of one source each, in a fixed order and none empty, that hold
  together exactly the machines found, at most as many as asked for; no two of them have the same name in one
  source or the same first disk.\<close>
theorem discovered_machines_grouped:
  "mset (concat (map snd (discover_and_group e t k)))
       = mset (if k = 0 then discover_importable_vms e t else take k (discover_importable_vms e t))
     \<and> list_all (\<lambda>g. snd g \<noteq> [] \<and> list_all (\<lambda>v. i_source v = fst g) (snd g)) (discover_and_group e t k)
     \<and> subseq (map fst (discover_and_group e t k)) [LibvirtXml, VmwareVmx, VirtualBoxVbox, QuickemuConf]
     \<and> apart e t (discover_importable_vms e t)"
proof (intro conjI)
  let ?vs = "if k = 0 then discover_importable_vms e t else take k (discover_importable_vms e t)"
  let ?gs = "map (\<lambda>s. (s, List.filter (\<lambda>v. i_source v = s) ?vs)) [LibvirtXml, VmwareVmx, VirtualBoxVbox, QuickemuConf]"
  have "(if k > 0 \<and> length (discover_importable_vms e t) > k then take k (discover_importable_vms e t)
      else discover_importable_vms e t) = ?vs" by simp
  then have g: "discover_and_group e t k = List.filter (\<lambda>g. snd g \<noteq> []) ?gs"
    unfolding discover_and_group_def Let_def by (simp only:)
  show "mset (concat (map snd (discover_and_group e t k))) = mset ?vs"
    unfolding g concat_nonempty by (rule mset_by_source)
  show "list_all (\<lambda>g. snd g \<noteq> [] \<and> list_all (\<lambda>v. i_source v = fst g) (snd g)) (discover_and_group e t k)"
    unfolding g by (auto simp: list_all_iff)
  show "subseq (map fst (discover_and_group e t k)) [LibvirtXml, VmwareVmx, VirtualBoxVbox, QuickemuConf]"
    unfolding g by (rule groups_in_order)
  show "apart e t (discover_importable_vms e t)"
    unfolding discover_importable_vms_def by (rule dedupe_apart)
qed

text \<open>The search for machines goes down at most so many directories and visits files of the extension only.\<close>

fun below :: "string \<Rightarrow> string list \<Rightarrow> string" where
  "below d [] = d"
| "below d (n # ns) = below (path_join d n) ns"

lemma walk_depth:
  "p \<in> set (walk_for_extension n e t ext d) \<Longrightarrow> \<exists>ns. p = below d ns \<and> 1 \<le> length ns \<and> length ns \<le> n + 1"
proof (induction n arbitrary: d)
  case 0
  then obtain x where "p = path_join d x"
    by (auto simp: visit_entry_def entry_paths_def split: if_splits option.splits)
  then show ?case by (intro exI[of _ "[x]"]) simp
next
  case (Suc n)
  then obtain x where x: "p = path_join d x \<or> p \<in> set (walk_for_extension n e t ext (path_join d x))"
    by (auto simp: visit_entry_def entry_paths_def split: if_splits option.splits)
  then show ?case
  proof
    assume "p = path_join d x"
    then show ?thesis by (intro exI[of _ "[x]"]) simp
  next
    assume "p \<in> set (walk_for_extension n e t ext (path_join d x))"
    from Suc.IH[OF this] obtain ns where "p = below (path_join d x) ns" "1 \<le> length ns" "length ns \<le> n + 1" by blast
    then show ?thesis by (intro exI[of _ "x # ns"]) simp
  qed
qed

lemma walk_extension: "p \<in> set (walk_for_extension n e t ext d) \<Longrightarrow> extension p = Some ext \<and> file_at e t p"
  by (induction n arbitrary: d) (auto simp: visit_entry_def split: if_splits)

theorem search_is_bounded:
  assumes "p \<in> set (walk_for_extension MAX_SCAN_DEPTH e t ext d)"
  shows "extension p = Some ext \<and> file_at e t p \<and> (\<exists>ns. p = below d ns \<and> 1 \<le> length ns \<and> length ns \<le> 4)"
  using walk_depth[OF assms] walk_extension[OF assms] by (auto simp: MAX_SCAN_DEPTH_def)

end
