(* ===== verification/Networks.thy ===== *)
theory Networks
  imports Host_Run Text_Lines
begin

text \<open>
  Virtual networks and their conditions (vmm-core/src/network\_editor.rs, network.rs, network\_conditioner.rs).
\<close>

section \<open>Virtual networks\<close>

datatype virtual_mode = Nat_Net | Bridged_Net | Isolated_Net

definition virtual_mode_display :: "virtual_mode \<Rightarrow> string" where
  "virtual_mode_display m = (case m of Nat_Net \<Rightarrow> ''NAT'' | Bridged_Net \<Rightarrow> ''Bridged'' | Isolated_Net \<Rightarrow> ''Isolated (Host-Only)'')"

record network_config =
  net_name :: string
  net_mode :: virtual_mode
  bridge_name :: string
  subnet :: string
  netmask :: string
  dhcp_start :: string
  dhcp_end :: string
  dns_enabled :: bool
  net_autostart :: bool

definition default_network :: network_config where
  "default_network = \<lparr>net_name = [], net_mode = Nat_Net, bridge_name = [], subnet = ''192.168.100'', netmask = ''255.255.255.0'',
     dhcp_start = ''192.168.100.100'', dhcp_end = ''192.168.100.200'', dns_enabled = True, net_autostart = True\<rparr>"

record network_detail =
  detail_name :: string
  detail_active :: bool
  detail_autostart :: bool
  detail_bridge :: string
  detail_xml :: string

text \<open>What libvirt tells about a network; \<open>None\<close> is an error.\<close>

record net_env =
  net_world :: world
  name_at :: "act list \<Rightarrow> string option"
  active_at :: "act list \<Rightarrow> bool option"
  autostart_at :: "act list \<Rightarrow> bool option"
  bridge_at :: "act list \<Rightarrow> string option"
  xml_at :: "act list \<Rightarrow> string + string"
  u_alphanum :: "nat \<Rightarrow> bool"

definition net_err :: "string \<Rightarrow> vmm_error" where
  "net_err m = NetworkError m"

definition validate_network_name :: "(nat \<Rightarrow> bool) \<Rightarrow> string \<Rightarrow> unit vmm_result" where
  "validate_network_name ua n =
     (if n = [] \<or> length n > 64 then Inl (net_err ''Network name must be 1-64 characters'')
      else if \<not> list_all (\<lambda>g. is_alphanumeric ua g \<or> is_char g (CHR ''-'') \<or> is_char g (CHR ''_'')) (chars n) then
        Inl (net_err (''Network name may only contain alphanumeric, '' @ sq ''-'' @ '', '' @ sq ''_''))
      else if starts_with n ''-'' then Inl (net_err (''Network name must not start with '' @ sq ''-''))
      else Inr ())"

definition is_octet :: "string \<Rightarrow> bool" where
  "is_octet p \<longleftrightarrow> parse_unsigned 255 p \<noteq> None"

definition validate_subnet_prefix :: "string \<Rightarrow> unit vmm_result" where
  "validate_subnet_prefix s =
     (let parts = split_on (CHR ''.'') s in
      if s = [] then Inl (net_err ''Subnet prefix cannot be empty'')
      else if length parts \<noteq> 3 then
        Inl (net_err (''Invalid subnet prefix '' @ sq s @ '': expected 3 octets (e.g. '' @ sq ''192.168.100'' @ '')''))
      else if \<not> list_all is_octet parts then
        Inl (net_err (''Invalid subnet prefix '' @ sq s @ '': each octet must be 0-255''))
      else Inr ())"

definition validate_ip :: "string \<Rightarrow> unit vmm_result" where
  "validate_ip ip =
     (let parts = split_on (CHR ''.'') ip in
      if ip = [] then Inr ()
      else if length parts \<noteq> 4 \<or> \<not> list_all is_octet parts then Inl (net_err (''Invalid IP address: '' @ ip))
      else Inr ())"

definition nl :: string where "nl = [CHR 0x0A]"

definition bridge_of :: "network_config \<Rightarrow> string" where
  "bridge_of c = (if bridge_name c = [] then ''virbr-'' @ network_xml_escape (net_name c) else network_xml_escape (bridge_name c))"

definition forward_xml :: "virtual_mode \<Rightarrow> string" where
  "forward_xml m = (case m of Nat_Net \<Rightarrow> ''<forward mode='' @ sq ''nat'' @ ''/>''
     | Bridged_Net \<Rightarrow> ''<forward mode='' @ sq ''bridge'' @ ''/>'' | Isolated_Net \<Rightarrow> [])"

definition build_network_xml :: "network_config \<Rightarrow> string" where
  "build_network_xml c =
     ''<network>'' @ nl
     @ ''  <name>'' @ network_xml_escape (net_name c) @ ''</name>'' @ nl
     @ ''  <bridge name='' @ sq (bridge_of c) @ '' stp='' @ sq ''on'' @ '' delay='' @ sq ''0'' @ ''/>'' @ nl
     @ ''  '' @ forward_xml (net_mode c) @ nl
     @ ''  <dns enable='' @ sq (if dns_enabled c then ''yes'' else ''no'') @ ''/>'' @ nl
     @ ''  <ip address='' @ sq (network_xml_escape (subnet c @ ''.1'')) @ '' netmask='' @ sq (network_xml_escape (netmask c)) @ ''>'' @ nl
     @ ''    <dhcp>'' @ nl
     @ ''      <range start='' @ sq (network_xml_escape (dhcp_start c)) @ '' end='' @ sq (network_xml_escape (dhcp_end c)) @ ''/>'' @ nl
     @ ''    </dhcp>'' @ nl
     @ ''  </ip>'' @ nl
     @ ''</network>''"

text \<open>Every operation checks the name and looks the network up.\<close>

definition with_network :: "net_env \<Rightarrow> string \<Rightarrow> 'a run \<Rightarrow> 'a run" where
  "with_network e n m =
     next_do (check (validate_network_name (u_alphanum e) n)) (\<lambda>_.
     next_do (perform (net_world e) (\<lambda>err. net_err (''Network '' @ sq n @ '' not found: '' @ err)) (Network_Act (Find_Net n))) (\<lambda>_. m))"

definition get_network_detail :: "net_env \<Rightarrow> string \<Rightarrow> network_detail run" where
  "get_network_detail e n = with_network e n
     (next_do (ask (xml_at e)) (\<lambda>r. next_do (check (case r of Inl err \<Rightarrow> Inl (net_err (''Failed to get XML: '' @ err)) | Inr x \<Rightarrow> Inr x)) (\<lambda>xml.
      next_do (ask (\<lambda>t. \<lparr>detail_name = (case name_at e t of None \<Rightarrow> [] | Some v \<Rightarrow> v),
        detail_active = (active_at e t = Some True), detail_autostart = (autostart_at e t = Some True),
        detail_bridge = (case bridge_at e t of None \<Rightarrow> [] | Some v \<Rightarrow> v), detail_xml = xml\<rparr>)) give)))"

definition create_network :: "net_env \<Rightarrow> network_config \<Rightarrow> unit run" where
  "create_network e c =
     next_do (check (validate_network_name (u_alphanum e) (net_name c))) (\<lambda>_.
     next_do (check (validate_ip (dhcp_start c))) (\<lambda>_.
     next_do (check (validate_ip (dhcp_end c))) (\<lambda>_.
     next_do (check (validate_ip (netmask c))) (\<lambda>_.
     next_do (check (validate_subnet_prefix (subnet c))) (\<lambda>_.
     next_do (perform (net_world e) (\<lambda>err. net_err (''Failed to define network: '' @ err)) (Network_Act (Define_Net (build_network_xml c)))) (\<lambda>_.
     next_do (attempt (net_world e) (Network_Act (Find_Net (net_name c)))) (\<lambda>missing.
     if missing \<noteq> None then give ()
     else
       next_do (if net_autostart c then next_do (attempt (net_world e) (Network_Act Autostart_Net)) (\<lambda>_. give ()) else give ()) (\<lambda>_.
       next_do (attempt (net_world e) (Network_Act Start_Net)) (\<lambda>_. give ())))))))))"

definition delete_network :: "net_env \<Rightarrow> string \<Rightarrow> unit run" where
  "delete_network e n = with_network e n
     (next_do (ask (active_at e)) (\<lambda>active.
      next_do (if active = Some True
        then perform (net_world e) (\<lambda>err. net_err (''Failed to stop network: '' @ err)) (Network_Act Stop_Net) else give ()) (\<lambda>_.
      perform (net_world e) (\<lambda>err. net_err (''Failed to undefine network: '' @ err)) (Network_Act Undefine_Net))))"

definition start_network :: "net_env \<Rightarrow> string \<Rightarrow> unit run" where
  "start_network e n = with_network e n
     (perform (net_world e) (\<lambda>err. net_err (''Failed to start network: '' @ err)) (Network_Act Start_Net))"

definition stop_network :: "net_env \<Rightarrow> string \<Rightarrow> unit run" where
  "stop_network e n = with_network e n
     (perform (net_world e) (\<lambda>err. net_err (''Failed to stop network: '' @ err)) (Network_Act Stop_Net))"

definition ensure_default_network :: "net_env \<Rightarrow> unit run" where
  "ensure_default_network e =
     next_do (attempt (net_world e) (Network_Act (Find_Net ''default''))) (\<lambda>missing.
     if missing \<noteq> None then stop (net_err ''Default network not found. Run: sudo virsh net-start default'')
     else
       next_do (ask (active_at e)) (\<lambda>active.
       if active = Some True then give ()
       else perform (net_world e) (\<lambda>err. net_err (''Failed to start default network: '' @ err)) (Network_Act Start_Net)))"

section \<open>Conditions\<close>

text \<open>A loss is the exact value of its \<open>f32\<close>: \<open>Some (m, k)\<close> is \<open>m / 2 ^ k\<close>, \<open>None\<close> is not a number.
  \<open>one_decimal\<close> prints it.\<close>

type_synonym f32_value = "(int \<times> nat) option"

record network_condition =
  cond_name :: string
  delay_ms :: u32
  jitter_ms :: u32
  loss_percent :: f32_value
  bandwidth_kbps :: "u32 option"

definition condition :: "string \<Rightarrow> u32 \<Rightarrow> u32 \<Rightarrow> int \<times> nat \<Rightarrow> u32 option \<Rightarrow> network_condition" where
  "condition n d j l b = \<lparr>cond_name = n, delay_ms = d, jitter_ms = j, loss_percent = Some l, bandwidth_kbps = b\<rparr>"

definition presets :: "network_condition list" where
  "presets = [condition ''No limit'' 0 0 (0, 0) None, condition ''3G'' 100 30 (3, 1) (Some 1500),
     condition ''LTE'' 30 10 (13421773, 27) (Some 50000), condition ''WiFi (poor)'' 50 40 (5, 0) (Some 5000),
     condition ''Satellite'' 600 50 (2, 0) (Some 10000), condition ''100% Loss'' 0 0 (100, 0) None]"

definition preset_by_name :: "string \<Rightarrow> network_condition option" where
  "preset_by_name n = List.find (\<lambda>p. map to_ascii_lower (cond_name p) = map to_ascii_lower n) presets"

definition loss_is :: "(int \<Rightarrow> int \<Rightarrow> bool) \<Rightarrow> network_condition \<Rightarrow> bool" where
  "loss_is P c = (case loss_percent c of None \<Rightarrow> False | Some (m, k) \<Rightarrow> P m (2 ^ k))"

definition check_condition :: "(f32_value \<Rightarrow> string) \<Rightarrow> string \<Rightarrow> network_condition \<Rightarrow> unit vmm_result" where
  "check_condition one_decimal vm c =
     (if starts_with vm ''-'' \<or> vm = [] then Inl (net_err (''Invalid VM name for network conditioning: '' @ vm))
      else if loss_is (\<lambda>m d. m < 0 \<or> m > 100 * d) c then
        Inl (net_err (''Packet loss must be 0-100%, got '' @ one_decimal (loss_percent c) @ ''%''))
      else if delay_ms c > 60000 then
        Inl (net_err (''Delay must be '' @ [CHR 0xE2, CHR 0x89, CHR 0xA4] @ ''60000ms, got '' @ dec_w (delay_ms c) @ ''ms''))
      else if jitter_ms c > delay_ms c then
        Inl (net_err (''Jitter ('' @ dec_w (jitter_ms c) @ '') must not exceed delay ('' @ dec_w (delay_ms c) @ '')''))
      else (case bandwidth_kbps c of
          None \<Rightarrow> Inr ()
        | Some bw \<Rightarrow>
            if bw = 0 then Inl (net_err ''Bandwidth must be greater than 0 kbps'')
            else if bw > 10000000 then
              Inl (net_err (''Bandwidth must be '' @ [CHR 0xE2, CHR 0x89, CHR 0xA4] @ ''10,000,000 kbps (10 Gbps), got '' @ dec_w bw @ '' kbps''))
            else Inr ()))"

text \<open>The first word of a line after the two header lines that is not a dash is the interface.\<close>

fun first_interface :: "(nat \<Rightarrow> bool) \<Rightarrow> string list \<Rightarrow> string vmm_result option" where
  "first_interface ua [] = None"
| "first_interface ua (l # ls) =
     (case split_whitespace l of
        [] \<Rightarrow> first_interface ua ls
      | w # _ \<Rightarrow>
          (let i = trim w in
           if i = [] \<or> i = ''-'' then first_interface ua ls
           else if length i > 16
               \<or> \<not> list_all (\<lambda>g. is_alphanumeric ua g \<or> is_char g (CHR ''_'') \<or> is_char g (CHR ''-'')) (chars i) then
             Some (Inl (net_err (''Invalid interface name from virsh: '' @ sq i)))
           else Some (Inr i)))"

definition domiflist :: "string \<Rightarrow> string list" where
  "domiflist vm = [''virsh'', ''domiflist'', ''--'', vm]"

definition find_vm_tap_interface :: "net_env \<Rightarrow> string \<Rightarrow> string run" where
  "find_vm_tap_interface e vm =
     next_do (command (net_world e) (\<lambda>err. net_err (''Failed to run virsh: '' @ err)) (domiflist vm)) (\<lambda>out.
     case (if out_ok out then first_interface (u_alphanum e) (drop 2 (str_lines (out_stdout out))) else None) of
       Some r \<Rightarrow> check r
     | None \<Rightarrow> stop (net_err (''Cannot identify tap interface for VM '' @ sq vm
         @ ''. Ensure the VM is running and has a network interface.'')))"

definition clear_args :: "string \<Rightarrow> string list" where
  "clear_args i = [''tc'', ''qdisc'', ''del'', ''dev'', i, ''root'']"

definition netem_args :: "(f32_value \<Rightarrow> string) \<Rightarrow> string \<Rightarrow> network_condition \<Rightarrow> string list" where
  "netem_args one_decimal i c =
     [''tc'', ''qdisc'', ''add'', ''dev'', i, ''root''] @ (if bandwidth_kbps c = None then [] else [''handle'', ''1:'']) @ [''netem'']
     @ (if delay_ms c = 0 then [] else [''delay'', dec_w (delay_ms c) @ ''ms'']
        @ (if jitter_ms c = 0 then [] else [dec_w (jitter_ms c) @ ''ms'']))
     @ (if loss_is (\<lambda>m d. m > 0) c then [''loss'', one_decimal (loss_percent c) @ ''%''] else [])"

definition burst_bytes :: "u32 \<Rightarrow> u64" where
  "burst_bytes bw = max (ucast bw * 1000 div 8 div 10) 1600"

definition tbf_args :: "string \<Rightarrow> u32 \<Rightarrow> string list" where
  "tbf_args i bw = [''tc'', ''qdisc'', ''add'', ''dev'', i, ''parent'', ''1:1'', ''handle'', ''10:'', ''tbf'', ''rate'',
     dec_w bw @ ''kbit'', ''burst'', dec_w (burst_bytes bw), ''latency'', ''50ms'']"

definition tc_missing :: "string \<Rightarrow> vmm_error" where
  "tc_missing err = net_err (''tc command not found: '' @ err)"

definition no_condition :: "network_condition \<Rightarrow> bool" where
  "no_condition c \<longleftrightarrow> delay_ms c = 0 \<and> jitter_ms c = 0 \<and> loss_is (\<lambda>m d. m = 0) c \<and> bandwidth_kbps c = None"

definition apply_condition :: "(f32_value \<Rightarrow> string) \<Rightarrow> net_env \<Rightarrow> string \<Rightarrow> network_condition \<Rightarrow> unit run" where
  "apply_condition one_decimal e vm c =
     next_do (check (check_condition one_decimal vm c)) (\<lambda>_.
     next_do (find_vm_tap_interface e vm) (\<lambda>i.
     next_do (try_command (net_world e) (clear_args i)) (\<lambda>_.
     if no_condition c then give ()
     else
       next_do (command (net_world e) tc_missing (netem_args one_decimal i c)) (\<lambda>out.
       if \<not> out_ok out then stop (net_err (''Failed to apply netem qdisc: '' @ out_stderr out))
       else (case bandwidth_kbps c of
           None \<Rightarrow> give ()
         | Some bw \<Rightarrow> next_do (command (net_world e) tc_missing (tbf_args i bw)) (\<lambda>_. give ()))))))"

definition clear_condition :: "net_env \<Rightarrow> string \<Rightarrow> unit run" where
  "clear_condition e vm =
     (if starts_with vm ''-'' \<or> vm = [] then stop (net_err (''Invalid VM name for network conditioning: '' @ vm))
      else
        next_do (find_vm_tap_interface e vm) (\<lambda>i.
        next_do (command (net_world e) tc_missing (clear_args i)) (\<lambda>out.
        if \<not> out_ok out \<and> \<not> str_contains (out_stderr out) ''No such file or directory'' then
          stop (net_err (''Failed to clear network conditions: '' @ out_stderr out))
        else give ())))"

section \<open>The tap device in the domain XML\<close>

definition validate_interface_name :: "string \<Rightarrow> bool" where
  "validate_interface_name n \<longleftrightarrow> n \<noteq> [] \<and> length n \<le> 16 \<and> is_ascii_byte (hd n) \<and> ascii_lower (hd n)
     \<and> ascii_digit (last n) \<and> list_all (\<lambda>c. ascii_lower c \<or> ascii_digit c) n"

text \<open>The value after \<open>attr=\<close> and one of the two quotes; \<open>Some None\<close> ends the search without a value.\<close>

definition quoted_attr :: "char \<Rightarrow> string \<Rightarrow> string \<Rightarrow> string option option" where
  "quoted_attr q s attr =
     (case str_find s (attr @ [CHR ''='', q]) of
        None \<Rightarrow> None
      | Some k \<Rightarrow> (let rest = drop (k + length attr + 2) s; v = takeWhile (\<lambda>c. c \<noteq> q) rest in
          if q \<notin> set rest then None
          else if length v > 256 \<or> list_ex is_control (chars v) then Some None else Some (Some v)))"

definition extract_xml_attr :: "string \<Rightarrow> string \<Rightarrow> string option" where
  "extract_xml_attr s attr = (case quoted_attr (CHR 0x27) s attr of
       Some r \<Rightarrow> r
     | None \<Rightarrow> (case quoted_attr quot s attr of Some r \<Rightarrow> r | None \<Rightarrow> None))"

definition tap_of_block :: "string \<Rightarrow> string option" where
  "tap_of_block b =
     (case str_find b ''<target'' of
        None \<Rightarrow> None
      | Some k \<Rightarrow> (case extract_xml_attr (drop k b) ''dev'' of
          None \<Rightarrow> None
        | Some d \<Rightarrow> if (starts_with d ''vnet'' \<or> starts_with d ''tap'') \<and> validate_interface_name d then Some d else None))"

lemma str_find_tail: "str_find s (c # p) = Some k \<Longrightarrow> k < length s"
  by (induction s arbitrary: k) (auto split: if_splits)

lemma str_find_later: "starts_with s ''<i'' \<Longrightarrow> str_find s ''</interface>'' = Some k \<Longrightarrow> 0 < k"
  by (cases s) (auto simp: starts_with_iff split: if_splits)

lemma str_find_starts: "str_find s p = Some k \<Longrightarrow> starts_with (drop k s) p"
  by (induction s arbitrary: k) (auto split: if_splits)

text \<open>The search goes on from the end tag of the interface it looked at.\<close>

function extract_tap_device :: "string \<Rightarrow> string option" where
  "extract_tap_device xml =
     (case str_find xml ''<interface'' of
        None \<Rightarrow> None
      | Some k \<Rightarrow> (case str_find (drop k xml) ''</interface>'' of
          None \<Rightarrow> None
        | Some m \<Rightarrow> (case tap_of_block (take m (drop k xml)) of
            Some d \<Rightarrow> Some d
          | None \<Rightarrow> extract_tap_device (drop m (drop k xml)))))"
  by pat_completeness auto
termination
proof (relation "measure length", goal_cases)
  case (2 xml k m)
  have "starts_with (drop k xml) ''<i''" using str_find_starts[OF 2(1)] by (auto simp: starts_with_iff)
  from str_find_later[OF this 2(2)] str_find_tail[OF 2(1)] show ?case by simp
qed simp

declare extract_tap_device.simps [simp del]

definition get_vm_tap_interface :: "net_env \<Rightarrow> string \<Rightarrow> string option run" where
  "get_vm_tap_interface e vm =
     next_do (perform (net_world e) (\<lambda>_. VmNotFound vm) (Lookup vm)) (\<lambda>_.
     next_do (ask (xml_at e)) (\<lambda>r. case r of
       Inl err \<Rightarrow> stop (net_err (''Failed to get domain XML: '' @ err))
     | Inr xml \<Rightarrow> give (extract_tap_device xml)))"

section \<open>Properties\<close>

text \<open>The document of a network is well-formed for every configuration, also one that was not checked.\<close>
theorem network_xml_well_formed:
  "balanced (build_network_xml c)"
proof -
  have safe: "xml_safe ''virbr-''" "xml_safe ''on''" "xml_safe ''0''" "xml_safe ''yes''" "xml_safe ''no''"
    "xml_safe ''nat''" "xml_safe ''bridge''"
    by (auto intro!: xml_safe_plain simp: plain_char_def ascii_defs)
  have "xml_safe (bridge_of c)" using xml_safe_append[OF safe(1), of "network_xml_escape (net_name c)"] by (simp add: bridge_of_def)
  moreover have "balanced (forward_xml (net_mode c))"
    using safe by (cases "net_mode c") (simp_all add: forward_xml_def balanced_def xml_eval)
  ultimately show ?thesis using safe
    by (simp add: build_network_xml_def balanced_def xml_eval nl_def)
qed

text \<open>The commands of an application to the interface \<open>i\<close>.\<close>

definition planned :: "(f32_value \<Rightarrow> string) \<Rightarrow> string \<Rightarrow> network_condition \<Rightarrow> string list list" where
  "planned one_decimal i c = clear_args i # (if no_condition c then [] else netem_args one_decimal i c
     # (case bandwidth_kbps c of None \<Rightarrow> [] | Some bw \<Rightarrow> [tbf_args i bw]))"

definition interface_ok :: "(nat \<Rightarrow> bool) \<Rightarrow> string \<Rightarrow> bool" where
  "interface_ok ua i \<longleftrightarrow> i \<noteq> [] \<and> i \<noteq> ''-'' \<and> length i \<le> 16
     \<and> list_all (\<lambda>g. is_alphanumeric ua g \<or> is_char g (CHR ''_'') \<or> is_char g (CHR ''-'')) (chars i)"

lemma first_interface_ok: "first_interface ua ls = Some (Inr i) \<Longrightarrow> interface_ok ua i"
  by (induction ls) (auto simp: Let_def interface_ok_def split: list.splits if_splits)

lemma find_interface:
  "sat (find_vm_tap_interface e vm) t (\<lambda>t' r. t' = t @ [Run (domiflist vm)] \<and> (case r of Inr i \<Rightarrow> interface_ok (u_alphanum e) i | Inl _ \<Rightarrow> True))"
  by (auto simp: sat_def find_vm_tap_interface_def run check_def stop_def dest: first_interface_ok split: sum.split option.split if_splits)

lemma sat_planned:
  assumes "interface_ok (u_alphanum e) i"
  shows "sat (next_do (try_command (net_world e) (clear_args i)) (\<lambda>_. if no_condition c then give ()
      else next_do (command (net_world e) tc_missing (netem_args od i c)) (\<lambda>out.
        if \<not> out_ok out then stop (net_err (''Failed to apply netem qdisc: '' @ out_stderr out))
        else (case bandwidth_kbps c of None \<Rightarrow> give ()
          | Some bw \<Rightarrow> next_do (command (net_world e) tc_missing (tbf_args i bw)) (\<lambda>_. give ()))))) t
    (\<lambda>t' r. \<exists>k. t' = t @ take k (map Run (planned od i c)) \<and> (r = Inr () \<longrightarrow> length (planned od i c) \<le> k))"
proof -
  show ?thesis
    apply (intro vcg)
         apply (rule exI[of _ 1]; simp add: planned_def)
        apply (rule exI[of _ 2]; simp add: planned_def)
       apply (rule exI[of _ 2]; simp add: planned_def)
      apply (rule exI[of _ 2]; simp add: planned_def)
     apply (rule exI[of _ 3]; simp add: planned_def)
    apply (rule exI[of _ 3]; simp add: planned_def)
    done
qed


definition demo_list :: cmd_output where
  "demo_list = \<lparr>out_ok = True, out_stdout = ''Interface'' @ nl @ ''---'' @ nl @ ''vnet0 bridge'' @ nl, out_stderr = []\<rparr>"

definition demo_net :: net_env where
  "demo_net = \<lparr>net_world = (demo_world 1 [])\<lparr>runs := \<lambda>_ _. Inr demo_list\<rparr>,
     name_at = \<lambda>_. None, active_at = \<lambda>_. None, autostart_at = \<lambda>_. None, bridge_at = \<lambda>_. None, xml_at = \<lambda>_. Inl [],
     u_alphanum = \<lambda>_. False\<rparr>"

lemma demo_net_simps [simp]:
  "runs (net_world demo_net) = (\<lambda>_ _. Inr demo_list)" "u_alphanum demo_net = (\<lambda>_. False)" "out_ok demo_list"
  by (simp_all add: demo_net_def demo_list_def)

definition demo_condition :: network_condition where
  "demo_condition = condition ''LTE'' 30 10 (0, 0) (Some 50000)"


text \<open>The burst has no overflow: it is the traffic of a tenth of a second, at least 1600 bytes.\<close>

lemma burst_exact: "unat (burst_bytes bw) = max (unat bw * 1000 div 80) 1600" if "bw \<le> 10000000"
proof -
  have bw: "unat bw \<le> 10000000" using that by (simp add: word_le_nat_alt)
  have "unat (ucast bw * 1000 :: u64) = unat bw * 1000"
    using bw by (simp add: unat_word_ariths unsigned_ucast_eq take_bit_nat_eq_self)
  then have "unat (ucast bw * 1000 div 8 div 10 :: u64) = unat bw * 1000 div 80"
    by (simp add: unat_div div_mult2_eq[symmetric])
  then show ?thesis unfolding burst_bytes_def by (simp add: max_def word_le_nat_alt)
qed

text \<open>Addresses with plus signs are accepted, and a network name of the greatest length gives the name of a
  bridge that the kernel cannot take (15 bytes).\<close>

lemma plus_signs_accepted: "validate_ip ''+10.+0.+0.+1'' = Inr ()"
  by code_simp

lemma long_bridge_name:
  "validate_network_name (\<lambda>_. False) (replicate 64 CHR ''a'') = Inr ()"
  "length (bridge_of (default_network\<lparr>net_name := replicate 64 CHR ''a''\<rparr>)) = 70"
  by code_simp+

text \<open>Creating a network succeeds though it could not be started.\<close>

lemma created_not_started:
  assumes "check_all = [validate_network_name (u_alphanum e) (net_name c), validate_ip (dhcp_start c), validate_ip (dhcp_end c),
      validate_ip (netmask c), validate_subnet_prefix (subnet c)]" "list_all (\<lambda>r. r = Inr ()) check_all"
    "\<And>t. does (net_world e) t (Network_Act (Define_Net (build_network_xml c))) = None"
  shows "snd (create_network e c t) = Inr ()"
  using assms by (simp add: create_network_def run)

end
