(* ===== verification/Iso.thy ===== *)
theory Iso
  imports Path_Text Host_Run Templates "HOL-Library.List_Lexorder" "HOL-Library.Char_ord"
begin

text \<open>
  Installation images: which system an image holds (vmm-core/src/iso_detect.rs), the template the wizard then
  selects (vmm-gui/src/views/wizard.rs) and the library of images (vmm-core/src/iso_library.rs). \<open>lower\<close> is
  \<open>str::to_lowercase\<close>; \<open>isoinfo\<close> is an external command.
\<close>

section \<open>Versions in names\<close>

datatype detection_confidence = High | Medium | Low

record detected_os =
  os_name :: string
  template_hint :: string
  confidence :: detection_confidence

text \<open>Digits and at most one dot; a dot at the end is dropped.\<close>

fun version_chars :: "bool \<Rightarrow> string \<Rightarrow> string" where
  "version_chars saw_dot [] = []"
| "version_chars saw_dot (c # cs) =
     (if ascii_digit c then c # version_chars saw_dot cs
      else if c = CHR ''.'' \<and> \<not> saw_dot then c # version_chars True cs
      else [])"

definition version_of :: "string \<Rightarrow> string option" where
  "version_of s =
     (let v = version_chars False s; v' = (if v \<noteq> [] \<and> last v = CHR ''.'' then butlast v else v) in
      if v' = [] then None else Some v')"

definition extract_version_after :: "string \<Rightarrow> string \<Rightarrow> string option" where
  "extract_version_after stem p = Option.bind (str_find stem p) (\<lambda>i. version_of (drop (i + length p) stem))"

definition architecture_words :: "string list" where
  "architecture_words = [''x86'', ''64'', ''x86_64'', ''amd64'', ''arm64'', ''i386'', ''i686'']"

fun version_segment :: "(string \<Rightarrow> string) \<Rightarrow> string list \<Rightarrow> string option" where
  "version_segment lower [] = None"
| "version_segment lower (p # ps) =
     (let s = trim p in
      if s = [] then version_segment lower ps
      else if lower s \<in> set architecture_words then version_segment lower ps
      else if ascii_digit (hd s) then
        (case version_of s of Some v \<Rightarrow> Some v | None \<Rightarrow> version_segment lower ps)
      else version_segment lower ps)"

definition extract_first_version_segment :: "(string \<Rightarrow> string) \<Rightarrow> string \<Rightarrow> string \<Rightarrow> string option" where
  "extract_first_version_segment lower stem p =
     version_segment lower (split_on (CHR ''-'') (map (\<lambda>c. if c = CHR ''_'' then CHR ''-'' else c) (drop (length p) stem)))"

definition extract_version_from_label :: "string \<Rightarrow> string \<Rightarrow> string option" where
  "extract_version_from_label label keyword =
     Option.bind (str_find label keyword) (\<lambda>i.
       version_of (dropWhile (\<lambda>c. \<not> ascii_digit c) (drop (i + length keyword) label)))"

section \<open>Detection\<close>

definition validate_iso_path :: "string \<Rightarrow> bool" where
  "validate_iso_path p \<longleftrightarrow> p \<noteq> [] \<and> CHR 0x00 \<notin> set p \<and> ''..'' \<notin> set (path_parts p)"

definition filename_stem_lower :: "(string \<Rightarrow> string) \<Rightarrow> string \<Rightarrow> string option" where
  "filename_stem_lower lower p = map_option lower (file_stem p)"

definition found :: "detection_confidence \<Rightarrow> string \<Rightarrow> string option \<Rightarrow> detected_os option" where
  "found conf hint ver =
     Some \<lparr>os_name = (case ver of None \<Rightarrow> hint | Some v \<Rightarrow> hint @ '' '' @ v), template_hint = hint, confidence = conf\<rparr>"

definition dashed :: "string \<Rightarrow> string \<Rightarrow> bool" where
  "dashed stem p \<longleftrightarrow> starts_with stem (p @ ''-'') \<or> starts_with stem (p @ ''_'')"

definition version_dashed :: "string \<Rightarrow> string \<Rightarrow> string option" where
  "version_dashed stem p =
     (case extract_version_after stem (p @ ''-'') of None \<Rightarrow> extract_version_after stem (p @ ''_'') | Some v \<Rightarrow> Some v)"

definition detect_stem :: "(string \<Rightarrow> string) \<Rightarrow> string \<Rightarrow> detected_os option" where
  "detect_stem lower s =
     (let segment = extract_first_version_segment lower s; has = str_contains s in
      if dashed s ''ubuntu'' then found High ''Ubuntu'' (version_dashed s ''ubuntu'')
      else if dashed s ''linuxmint'' then found High ''Linux Mint'' (version_dashed s ''linuxmint'')
      else if dashed s ''debian'' then found High ''Debian'' (version_dashed s ''debian'')
      else if dashed s ''fedora'' then found High ''Fedora'' (segment ''fedora'')
      else if dashed s ''archlinux'' then found High ''Arch Linux'' None
      else if dashed s ''manjaro'' then found High ''Manjaro'' None
      else if dashed s ''endeavouros'' then found High ''EndeavourOS'' None
      else if dashed s ''centos'' then found High ''CentOS'' (segment ''centos'')
      else if dashed s ''rocky'' then found High ''Rocky Linux'' (segment ''rocky'')
      else if dashed s ''almalinux'' then found High ''AlmaLinux'' (segment ''almalinux'')
      else if dashed s ''opensuse'' \<or> has ''opensuse'' then found High ''openSUSE'' None
      else if dashed s ''nixos'' then found High ''NixOS'' None
      else if dashed s ''pop_os'' \<or> dashed s ''pop-os'' then found High ''Pop!_OS'' None
      else if has ''win10'' \<or> has ''windows10'' \<or> has ''windows_10'' then found High ''Windows 10'' None
      else if has ''win11'' \<or> has ''windows11'' \<or> has ''windows_11'' then found High ''Windows 11'' None
      else if has ''winserver'' \<or> has ''windowsserver'' \<or> has ''windows_server'' then found High ''Windows Server'' None
      else if dashed s ''freebsd'' then found High ''FreeBSD'' (version_dashed s ''freebsd'')
      else None)"

definition detect_from_filename :: "(string \<Rightarrow> string) \<Rightarrow> string \<Rightarrow> detected_os option" where
  "detect_from_filename lower p = Option.bind (filename_stem_lower lower p) (detect_stem lower)"

text \<open>The labels of Windows images vary; a release that is not named is a guess.\<close>

definition detect_windows_label :: "string \<Rightarrow> detected_os option" where
  "detect_windows_label s =
     (if str_contains s ''11'' then found Medium ''Windows 11'' None
      else if str_contains s ''10'' then found Medium ''Windows 10'' None
      else if str_contains s ''server'' then found Medium ''Windows Server'' None
      else Some \<lparr>os_name = ''Windows'', template_hint = ''Windows 10'', confidence = Low\<rparr>)"

definition detect_label :: "string \<Rightarrow> detected_os option" where
  "detect_label s =
     (let has = str_contains s; after = extract_version_from_label s in
      if has ''ubuntu'' then found Medium ''Ubuntu'' (after ''ubuntu'')
      else if has ''linux mint'' \<or> has ''linuxmint'' then
        found Medium ''Linux Mint'' (if has ''linux mint'' then after ''linux mint'' else after ''linuxmint'')
      else if has ''debian'' then found Medium ''Debian'' (after ''debian'')
      else if has ''fedora'' then found Medium ''Fedora'' (after ''fedora'')
      else if has ''arch'' \<and> has ''linux'' then found Medium ''Arch Linux'' None
      else if has ''centos'' then found Medium ''CentOS'' (after ''centos'')
      else if has ''rocky'' then found Medium ''Rocky Linux'' (after ''rocky'')
      else if has ''almalinux'' then found Medium ''AlmaLinux'' (after ''almalinux'')
      else if has ''opensuse'' then found Medium ''openSUSE'' None
      else if has ''freebsd'' then found Medium ''FreeBSD'' (after ''freebsd'')
      else if has ''windows'' \<or> starts_with s ''win'' then detect_windows_label s
      else None)"

text \<open>The label is the text of the first line of the volume id.\<close>

definition volume_label :: "string \<Rightarrow> string option" where
  "volume_label out =
     Option.bind (List.find (\<lambda>l. starts_with l ''Volume id:'') (str_lines out)) (\<lambda>l.
       let label = trim (drop (length ''Volume id:'') l) in if label = [] then None else Some label)"

definition isoinfo_args :: "string \<Rightarrow> string list" where
  "isoinfo_args p = [''isoinfo'', ''-d'', ''-i'', ''--'', p]"

definition detect_from_volume_label :: "(string \<Rightarrow> string) \<Rightarrow> world \<Rightarrow> string \<Rightarrow> detected_os option run" where
  "detect_from_volume_label lower w p =
     next_do (try_command w (isoinfo_args p)) (\<lambda>r.
     give (case r of
         Inl e \<Rightarrow> None
       | Inr out \<Rightarrow>
           if \<not> out_ok out then None
           else Option.bind (volume_label (out_stdout out)) (\<lambda>label. detect_label (lower label))))"

definition detect_os_from_iso :: "(string \<Rightarrow> string) \<Rightarrow> world \<Rightarrow> string \<Rightarrow> detected_os option run" where
  "detect_os_from_iso lower w p =
     (if \<not> validate_iso_path p then give None
      else (case detect_from_filename lower p of
          Some d \<Rightarrow> give (Some d)
        | None \<Rightarrow> detect_from_volume_label lower w p))"

section \<open>The template the wizard selects\<close>

definition target_template :: "string \<Rightarrow> string option" where
  "target_template h =
     (let has = str_contains h in
      if has ''ubuntu'' \<or> has ''pop'' then Some ''ubuntu-desktop''
      else if has ''mint'' then Some ''linux-mint''
      else if has ''debian'' then Some ''debian-desktop''
      else if has ''fedora'' then Some ''fedora-workstation''
      else if has ''arch'' \<or> has ''manjaro'' \<or> has ''endeavour'' then Some ''arch-linux''
      else if has ''windows 11'' \<or> has ''windows server'' then Some ''windows-11''
      else if has ''windows'' then Some ''windows-10''
      else if has ''freebsd'' then Some ''freebsd''
      else if has ''centos'' \<or> has ''rocky'' \<or> has ''alma'' \<or> has ''suse'' \<or> has ''nix'' then Some ''linux-server''
      else None)"

text \<open>\<open>iter().position\<close>.\<close>

fun position :: "('a \<Rightarrow> bool) \<Rightarrow> 'a list \<Rightarrow> nat option" where
  "position P [] = None"
| "position P (x # xs) = (if P x then Some 0 else map_option Suc (position P xs))"

text \<open>The index of the template that is applied, if one is.\<close>

definition auto_detect_template :: "(string \<Rightarrow> string) \<Rightarrow> world \<Rightarrow> string \<Rightarrow> nat option run" where
  "auto_detect_template lower w p =
     next_do (detect_os_from_iso lower w p) (\<lambda>d.
     give (Option.bind d (\<lambda>d. Option.bind (target_template (lower (template_hint d))) (\<lambda>i.
       position (\<lambda>t. template_id t = i) builtin_templates))))"

section \<open>The library of images\<close>

definition MAX_ISO_ENTRIES :: nat where "MAX_ISO_ENTRIES = 10000"

record iso_entry =
  iso_name :: string
  iso_path :: string
  iso_size :: u64

text \<open>The file system as the scan sees it: \<open>lstat\<close> of a path (\<open>None\<close>: an error), the names in a directory
  (\<open>None\<close>: it cannot be read), and whether a path exists.\<close>

record iso_files =
  lstat :: "string \<Rightarrow> (file_kind \<times> u64) option"
  names_in :: "string \<Rightarrow> string list option"
  is_there :: "string \<Rightarrow> bool"

definition iso_candidate :: "(string \<Rightarrow> string) \<Rightarrow> iso_files \<Rightarrow> string \<Rightarrow> iso_entry option" where
  "iso_candidate lower fs p =
     (case lstat fs p of
        None \<Rightarrow> None
      | Some (kind, len) \<Rightarrow>
          if kind \<noteq> RegularFile then None
          else if lower (case extension p of None \<Rightarrow> [] | Some e \<Rightarrow> e) \<in> {''iso'', ''img''} then
            Some \<lparr>iso_name = (case file_name p of None \<Rightarrow> [] | Some n \<Rightarrow> n), iso_path = p, iso_size = len\<rparr>
          else None)"

fun scan_entries :: "(string \<Rightarrow> string) \<Rightarrow> iso_files \<Rightarrow> string list \<Rightarrow> iso_entry list \<Rightarrow> iso_entry list" where
  "scan_entries lower fs [] acc = acc"
| "scan_entries lower fs (p # ps) acc =
     (if length acc \<ge> MAX_ISO_ENTRIES then acc
      else (case iso_candidate lower fs p of
          None \<Rightarrow> scan_entries lower fs ps acc
        | Some e \<Rightarrow> scan_entries lower fs ps (acc @ [e])))"

definition scan_directory :: "(string \<Rightarrow> string) \<Rightarrow> iso_files \<Rightarrow> string \<Rightarrow> iso_entry list \<Rightarrow> iso_entry list" where
  "scan_directory lower fs dir acc =
     (if length acc \<ge> MAX_ISO_ENTRIES then acc
      else (case lstat fs dir of
          None \<Rightarrow> acc
        | Some (kind, _) \<Rightarrow>
            if kind \<noteq> Directory then acc
            else (case names_in fs dir of
                None \<Rightarrow> acc
              | Some ns \<Rightarrow> scan_entries lower fs (map (path_join dir) ns) acc)))"

text \<open>\<open>Vec::dedup_by\<close>: an entry is dropped when the last one kept has its path.\<close>

fun dedup_paths :: "iso_entry list \<Rightarrow> iso_entry list" where
  "dedup_paths [] = []"
| "dedup_paths [e] = [e]"
| "dedup_paths (a # b # es) = (if iso_path b = iso_path a then dedup_paths (a # es) else a # dedup_paths (b # es))"

definition iso_dir :: "string option \<Rightarrow> string" where
  "iso_dir home = (case home of None \<Rightarrow> [] | Some h \<Rightarrow> h) @ ''/.local/share/libre-vmm/isos''"

definition scan_if_there :: "(string \<Rightarrow> string) \<Rightarrow> iso_files \<Rightarrow> string \<Rightarrow> iso_entry list \<Rightarrow> iso_entry list" where
  "scan_if_there lower fs dir acc = (if is_there fs dir then scan_directory lower fs dir acc else acc)"

definition collected :: "(string \<Rightarrow> string) \<Rightarrow> iso_files \<Rightarrow> string option \<Rightarrow> iso_entry list" where
  "collected lower fs home =
     (let es = scan_directory lower fs (iso_dir home) [] in
      case home of
        None \<Rightarrow> es
      | Some h \<Rightarrow> scan_if_there lower fs (path_join h ''Descargas'') (scan_if_there lower fs (path_join h ''Downloads'') es))"

text \<open>\<open>fs\<close> is the file system after the library directory was created.\<close>

definition scan_isos :: "(string \<Rightarrow> string) \<Rightarrow> world \<Rightarrow> (act list \<Rightarrow> iso_files) \<Rightarrow> string option \<Rightarrow> iso_entry list run" where
  "scan_isos lower w fs home =
     next_do (attempt w (Make_Dir (iso_dir home))) (\<lambda>_.
     ask (\<lambda>t. dedup_paths (sort_key (\<lambda>e. lower (iso_name e)) (collected lower (fs t) home))))"

section \<open>What a version is\<close>

definition version_text :: "string \<Rightarrow> bool" where
  "version_text v \<longleftrightarrow> v \<noteq> [] \<and> list_all (\<lambda>c. ascii_digit c \<or> c = CHR ''.'') v \<and> count_list v (CHR ''.'') \<le> 1 \<and> last v \<noteq> CHR ''.''"

lemma version_chars_shape:
  "list_all (\<lambda>c. ascii_digit c \<or> c = CHR ''.'') (version_chars saw s)
    \<and> count_list (version_chars saw s) (CHR ''.'') \<le> (if saw then 0 else 1)"
  by (induction saw s rule: version_chars.induct) (auto simp: ascii_digit_def)

lemma version_of_shape: "version_of s = Some v \<Longrightarrow> version_text v"
proof -
  assume a: "version_of s = Some v"
  let ?u = "version_chars False s"
  note shape = version_chars_shape[of False s]
  show ?thesis
  proof (cases "?u \<noteq> [] \<and> last ?u = CHR ''.''")
    case True
    with a have v: "v = butlast ?u" "v \<noteq> []" by (auto simp: version_of_def Let_def split: if_splits)
    from True have u: "?u = v @ [CHR ''.'']" by (metis append_butlast_last_id v(1))
    have "count_list v (CHR ''.'') = 0" using shape unfolding u by simp
    with v(2) have "last v \<noteq> CHR ''.''" by (metis count_list_0_iff last_in_set)
    with shape v(2) show ?thesis unfolding u by (simp add: version_text_def)
  next
    case False
    with a have "v = ?u" "v \<noteq> []" by (auto simp: version_of_def Let_def split: if_splits)
    with False shape show ?thesis by (simp add: version_text_def)
  qed
qed

lemma version_segment_shape: "version_segment lower ps = Some v \<Longrightarrow> version_text v"
  by (induction lower ps rule: version_segment.induct)
    (auto simp: Let_def version_of_shape split: if_splits option.splits)

lemma extracted_shape:
  "version_dashed s p = Some v \<Longrightarrow> version_text v"
  "extract_first_version_segment lower s p = Some v \<Longrightarrow> version_text v"
  "extract_version_from_label s p = Some v \<Longrightarrow> version_text v"
  by (auto simp: version_dashed_def extract_version_after_def extract_first_version_segment_def extract_version_from_label_def
      bind_eq_Some_conv version_of_shape version_segment_shape split: option.splits)

section \<open>What is detected\<close>

definition known_hints :: "string list" where
  "known_hints = [''Ubuntu'', ''Linux Mint'', ''Debian'', ''Fedora'', ''Arch Linux'', ''Manjaro'', ''EndeavourOS'', ''CentOS'',
     ''Rocky Linux'', ''AlmaLinux'', ''openSUSE'', ''NixOS'', ''Pop!_OS'', ''Windows 10'', ''Windows 11'', ''Windows Server'', ''FreeBSD'']"

text \<open>A known hint, and a name that is the hint alone or the hint and a version; the exception is the guess for
  Windows of an unknown release.\<close>

definition well_detected :: "detected_os \<Rightarrow> bool" where
  "well_detected d \<longleftrightarrow> template_hint d \<in> set known_hints
     \<and> (os_name d = template_hint d \<and> confidence d \<noteq> Low
        \<or> (\<exists>v. version_text v \<and> os_name d = template_hint d @ '' '' @ v) \<and> confidence d \<noteq> Low
        \<or> os_name d = ''Windows'' \<and> confidence d = Low)"

lemma found_well:
  assumes "found conf hint ver = Some d" "hint \<in> set known_hints" "conf \<noteq> Low" "\<And>v. ver = Some v \<Longrightarrow> version_text v"
  shows "well_detected d"
  using assms by (cases ver) (auto simp: found_def well_detected_def)

lemma detect_stem_well: "detect_stem lower s = Some d \<Longrightarrow> well_detected d"
  unfolding detect_stem_def Let_def
  by (split if_split_asm | (erule found_well; simp add: known_hints_def extracted_shape) | simp)+

lemma detect_windows_label_well: "detect_windows_label s = Some d \<Longrightarrow> well_detected d"
  unfolding detect_windows_label_def
  by (split if_split_asm | (erule found_well; simp add: known_hints_def) | force simp: well_detected_def known_hints_def)+

lemma either_label_version:
  "(if b then extract_version_from_label s p else extract_version_from_label s q) = Some v \<Longrightarrow> version_text v"
  by (cases b) (simp_all add: extracted_shape)

lemma if_Some_cases: "(if b then x else y) = Some d \<Longrightarrow> (x = Some d \<Longrightarrow> P) \<Longrightarrow> (y = Some d \<Longrightarrow> P) \<Longrightarrow> P"
  by (auto split: if_splits)

lemma detect_label_well: "detect_label s = Some d \<Longrightarrow> well_detected d"
  unfolding detect_label_def Let_def
  by (elim if_Some_cases;
      (erule detect_windows_label_well | (erule found_well; simp add: known_hints_def extracted_shape either_label_version) | simp))

lemma label_detection:
  "detect_from_volume_label lower w p t = (t @ [Run (isoinfo_args p)], Inr (case runs w t (isoinfo_args p) of
     Inl e \<Rightarrow> None
   | Inr out \<Rightarrow> if out_ok out then Option.bind (volume_label (out_stdout out)) (\<lambda>label. detect_label (lower label)) else None))"
  by (simp add: detect_from_volume_label_def run split: sum.split)

lemma detected_well: "snd (detect_os_from_iso lower w p t) = Inr (Some d) \<Longrightarrow> well_detected d"
  by (auto simp: detect_os_from_iso_def label_detection give_def detect_from_filename_def bind_eq_Some_conv
      detect_stem_well detect_label_well split: if_splits option.splits sum.splits)

text \<open>A name that tells the system is enough: the image is not opened.\<close>

lemma name_needs_no_command:
  "fst (detect_os_from_iso lower w p t)
     = (if validate_iso_path p \<and> detect_from_filename lower p = None then t @ [Run (isoinfo_args p)] else t)"
  by (auto simp: detect_os_from_iso_def label_detection give_def split: option.split)

section \<open>A template for every detection\<close>

definition ascii_lowering :: "(string \<Rightarrow> string) \<Rightarrow> bool" where
  "ascii_lowering lower \<longleftrightarrow> (\<forall>s. list_all is_ascii_byte s \<longrightarrow> lower s = map to_ascii_lower s)"

definition hint_system :: "string \<Rightarrow> os_type" where
  "hint_system h = (if starts_with h ''Windows'' then Windows else if h = ''FreeBSD'' then FreeBSD else Linux)"

definition template_for :: "string \<Rightarrow> nat option" where
  "template_for h = Option.bind (target_template (map to_ascii_lower h)) (\<lambda>i. position (\<lambda>t. template_id t = i) builtin_templates)"

lemma hints_ascii: "list_all (list_all is_ascii_byte) known_hints"
  by code_simp

lemma targets:
  "target_template (map to_ascii_lower ''Ubuntu'') = Some ''ubuntu-desktop''"
  "target_template (map to_ascii_lower ''Linux Mint'') = Some ''linux-mint''"
  "target_template (map to_ascii_lower ''Debian'') = Some ''debian-desktop''"
  "target_template (map to_ascii_lower ''Fedora'') = Some ''fedora-workstation''"
  "target_template (map to_ascii_lower ''Arch Linux'') = Some ''arch-linux''"
  "target_template (map to_ascii_lower ''Manjaro'') = Some ''arch-linux''"
  "target_template (map to_ascii_lower ''EndeavourOS'') = Some ''arch-linux''"
  "target_template (map to_ascii_lower ''CentOS'') = Some ''linux-server''"
  "target_template (map to_ascii_lower ''Rocky Linux'') = Some ''linux-server''"
  "target_template (map to_ascii_lower ''AlmaLinux'') = Some ''linux-server''"
  "target_template (map to_ascii_lower ''openSUSE'') = Some ''linux-server''"
  "target_template (map to_ascii_lower ''NixOS'') = Some ''linux-server''"
  "target_template (map to_ascii_lower ''Pop!_OS'') = Some ''ubuntu-desktop''"
  "target_template (map to_ascii_lower ''Windows 10'') = Some ''windows-10''"
  "target_template (map to_ascii_lower ''Windows 11'') = Some ''windows-11''"
  "target_template (map to_ascii_lower ''Windows Server'') = Some ''windows-11''"
  "target_template (map to_ascii_lower ''FreeBSD'') = Some ''freebsd''"
  by code_simp+

lemma places:
  "position (\<lambda>t. template_id t = ''ubuntu-desktop'') builtin_templates = Some 0"
  "position (\<lambda>t. template_id t = ''linux-mint'') builtin_templates = Some 2"
  "position (\<lambda>t. template_id t = ''debian-desktop'') builtin_templates = Some 3"
  "position (\<lambda>t. template_id t = ''fedora-workstation'') builtin_templates = Some 1"
  "position (\<lambda>t. template_id t = ''arch-linux'') builtin_templates = Some 4"
  "position (\<lambda>t. template_id t = ''linux-server'') builtin_templates = Some 19"
  "position (\<lambda>t. template_id t = ''windows-10'') builtin_templates = Some 21"
  "position (\<lambda>t. template_id t = ''windows-11'') builtin_templates = Some 20"
  "position (\<lambda>t. template_id t = ''freebsd'') builtin_templates = Some 30"
  by code_simp+

lemma systems:
  "template_os (builtin_templates ! 0) = Linux"
  "template_os (builtin_templates ! 2) = Linux"
  "template_os (builtin_templates ! 3) = Linux"
  "template_os (builtin_templates ! 1) = Linux"
  "template_os (builtin_templates ! 4) = Linux"
  "template_os (builtin_templates ! 19) = Linux"
  "template_os (builtin_templates ! 21) = Windows"
  "template_os (builtin_templates ! 20) = Windows"
  "template_os (builtin_templates ! 30) = FreeBSD"
  by code_simp+

lemma hints_have_templates:
  "list_all (\<lambda>h. case template_for h of None \<Rightarrow> False
     | Some i \<Rightarrow> i < length builtin_templates \<and> template_os (builtin_templates ! i) = hint_system h) known_hints"
proof -
  have n: "length builtin_templates = 36" by code_simp
  show ?thesis
    by (simp add: known_hints_def template_for_def targets places n systems systems(4)[unfolded One_nat_def] hint_system_def
        del: list.map)
qed

lemma hint_template:
  assumes "h \<in> set known_hints" "ascii_lowering lower"
  shows "\<exists>i. Option.bind (target_template (lower h)) (\<lambda>i. position (\<lambda>t. template_id t = i) builtin_templates) = Some i
    \<and> i < length builtin_templates \<and> template_os (builtin_templates ! i) = hint_system h"
proof -
  from assms(1) hints_ascii have "list_all is_ascii_byte h" by (auto simp: list_all_iff)
  with assms(2) have "lower h = map to_ascii_lower h" by (simp add: ascii_lowering_def)
  with hints_have_templates assms(1) show ?thesis
    by (auto simp: list_all_iff template_for_def split: option.splits)
qed

text \<open>C28: Whatever is detected of an image, its name is the suggested system, alone or with a version of digits and at
  most one inner dot (a Windows of unknown release is a guess of low confidence), and the wizard finds a
  built-in template for it, one of the same kind of system.\<close>
theorem detection_has_template:
  assumes "snd (detect_os_from_iso lower w p t) = Inr (Some d)" "ascii_lowering lower"
  shows "well_detected d \<and> (\<exists>i. snd (auto_detect_template lower w p t) = Inr (Some i)
    \<and> i < length builtin_templates \<and> template_os (builtin_templates ! i) = hint_system (template_hint d))"
proof -
  have d: "well_detected d" by (rule detected_well[OF assms(1)])
  then have "template_hint d \<in> set known_hints" by (simp add: well_detected_def)
  from hint_template[OF this assms(2)] d assms(1) show ?thesis
    by (auto simp: auto_detect_template_def next_unfold give_def)
qed

theorem detection_has_template_witness:
  "\<exists>d. snd (detect_os_from_iso (map to_ascii_lower) (demo_world 1 []) ''/isos/Ubuntu-24.04-live.iso'' []) = Inr (Some d) \<and> os_name d = ''Ubuntu 24.04''
    \<and> (\<exists>i. snd (auto_detect_template (map to_ascii_lower) (demo_world 1 []) ''/isos/Ubuntu-24.04-live.iso'' []) = Inr (Some i)
      \<and> template_os (builtin_templates ! i) = Linux)"
proof -
  have v: "validate_iso_path ''/isos/Ubuntu-24.04-live.iso''" by code_simp
  have f: "detect_from_filename (map to_ascii_lower) ''/isos/Ubuntu-24.04-live.iso''
      = Some \<lparr>os_name = ''Ubuntu 24.04'', template_hint = ''Ubuntu'', confidence = High\<rparr>" by code_simp
  have "snd (detect_os_from_iso (map to_ascii_lower) (demo_world 1 []) ''/isos/Ubuntu-24.04-live.iso'' [])
      = Inr (Some \<lparr>os_name = ''Ubuntu 24.04'', template_hint = ''Ubuntu'', confidence = High\<rparr>)"
    by (simp add: detect_os_from_iso_def v f give_def)
  moreover from detection_has_template[OF this]
  have "\<exists>i. snd (auto_detect_template (map to_ascii_lower) (demo_world 1 []) ''/isos/Ubuntu-24.04-live.iso'' []) = Inr (Some i)
      \<and> template_os (builtin_templates ! i) = Linux"
    by (auto simp: ascii_lowering_def hint_system_def)
  ultimately show ?thesis by simp
qed

text \<open>An image of Windows Server selects the template of Windows 11, though the table has two for servers.\<close>

lemma server_gets_windows_11:
  "template_for ''Windows Server'' = Some 20 \<and> template_label (builtin_templates ! 20) = ''Windows 11''
    \<and> template_for ''Pop!_OS'' = Some 0 \<and> template_label (builtin_templates ! 0) = ''Ubuntu Desktop (24.04+)''"
  by (simp add: template_for_def targets places del: list.map) code_simp

text \<open>Any name with \<open>win10\<close> in it is Windows 10, with high confidence.\<close>

lemma darwin_is_windows: "map_option os_name (detect_from_filename (map to_ascii_lower) ''darwin10.iso'') = Some ''Windows 10''"
  by code_simp

section \<open>What the library lists\<close>

text \<open>The images of one directory, and the directories in their order.\<close>

definition images_of :: "(string \<Rightarrow> string) \<Rightarrow> iso_files \<Rightarrow> string \<Rightarrow> iso_entry list" where
  "images_of lower fs dir =
     (case lstat fs dir of
        Some (Directory, _) \<Rightarrow> (case names_in fs dir of None \<Rightarrow> [] | Some ns \<Rightarrow> List.map_filter (iso_candidate lower fs) (map (path_join dir) ns))
      | _ \<Rightarrow> [])"

definition iso_places :: "iso_files \<Rightarrow> string option \<Rightarrow> string list" where
  "iso_places fs home = iso_dir home # (case home of None \<Rightarrow> []
     | Some h \<Rightarrow> List.filter (is_there fs) [path_join h ''Downloads'', path_join h ''Descargas''])"

lemma scan_entries_take:
  "length acc \<le> MAX_ISO_ENTRIES \<Longrightarrow>
     scan_entries lower fs ps acc = take MAX_ISO_ENTRIES (acc @ List.map_filter (iso_candidate lower fs) ps)"
  by (induction lower fs ps acc rule: scan_entries.induct) (auto simp: map_filter_simps split: option.splits)

lemma scan_directory_take:
  "length acc \<le> MAX_ISO_ENTRIES \<Longrightarrow> scan_directory lower fs dir acc = take MAX_ISO_ENTRIES (acc @ images_of lower fs dir)"
  by (auto simp: scan_directory_def images_of_def scan_entries_take split: option.splits file_kind.splits)

lemma take_again: "take n (take n xs @ ys) = take n (xs @ ys)"
  by (cases "length xs \<le> n") auto

lemma scan_if_there_take:
  "scan_if_there lower fs dir (take MAX_ISO_ENTRIES xs)
     = take MAX_ISO_ENTRIES (xs @ (if is_there fs dir then images_of lower fs dir else []))"
  using scan_directory_take[of "take MAX_ISO_ENTRIES xs" lower fs dir] by (simp add: scan_if_there_def take_again del: take_append)

lemma collected_take:
  "collected lower fs home = take MAX_ISO_ENTRIES (concat (map (images_of lower fs) (iso_places fs home)))"
proof -
  have "scan_directory lower fs d [] = take MAX_ISO_ENTRIES (images_of lower fs d)" for d
    by (simp add: scan_directory_take)
  then show ?thesis
    by (simp add: collected_def iso_places_def scan_if_there_take Let_def split: option.split del: take_append)
qed

lemma dedup_paths_set: "set (dedup_paths es) \<subseteq> set es \<and> iso_path ` set (dedup_paths es) = iso_path ` set es"
  by (induction es rule: dedup_paths.induct) auto

lemma dedup_paths_sorted: "sorted (map f es) \<Longrightarrow> sorted (map f (dedup_paths es))"
  using dedup_paths_set by (induction es rule: dedup_paths.induct) (fastforce simp: image_iff)+

lemma dedup_paths_distinct: "sorted (map iso_path es) \<Longrightarrow> distinct (map iso_path (dedup_paths es))"
  using dedup_paths_set by (induction es rule: dedup_paths.induct) (fastforce simp: image_iff)+

lemma dedup_paths_length: "length (dedup_paths es) \<le> length es"
  by (induction es rule: dedup_paths.induct) auto

text \<open>An entry of the list: a plain file, named \<open>.iso\<close> or \<open>.img\<close>, not a link.\<close>

definition is_image :: "(string \<Rightarrow> string) \<Rightarrow> iso_files \<Rightarrow> iso_entry \<Rightarrow> bool" where
  "is_image lower fs e \<longleftrightarrow> lstat fs (iso_path e) = Some (RegularFile, iso_size e)
     \<and> lower (case extension (iso_path e) of None \<Rightarrow> [] | Some x \<Rightarrow> x) \<in> {''iso'', ''img''}"

lemma iso_candidate_image: "iso_candidate lower fs p = Some e \<Longrightarrow> is_image lower fs e"
  by (auto simp: iso_candidate_def is_image_def split: option.splits if_splits)

lemma images_of_image: "list_all (is_image lower fs) (images_of lower fs dir)"
proof -
  have "list_all (is_image lower fs) (List.map_filter (iso_candidate lower fs) ps)" for ps
    by (induction ps) (auto simp: map_filter_simps iso_candidate_image split: option.split)
  then show ?thesis by (simp add: images_of_def split: option.split file_kind.split)
qed

text \<open>C29: The list of the library holds the images of its directory and of the two download directories, in that order
  up to 10000, and nothing else: plain files named \<open>.iso\<close> or \<open>.img\<close> (never links), sorted by name whatever
  the case, every path of those kept.\<close>
theorem library_lists_images:
  "\<exists>es. scan_isos lower w fs home t = (t @ [Make_Dir (iso_dir home)], Inr es)
     \<and> sorted (map (lower \<circ> iso_name) es) \<and> length es \<le> MAX_ISO_ENTRIES \<and> list_all (is_image lower (fs (t @ [Make_Dir (iso_dir home)]))) es
     \<and> iso_path ` set es = iso_path ` set (take MAX_ISO_ENTRIES
         (concat (map (images_of lower (fs (t @ [Make_Dir (iso_dir home)]))) (iso_places (fs (t @ [Make_Dir (iso_dir home)])) home))))"
proof -
  let ?fs = "fs (t @ [Make_Dir (iso_dir home)])"
  let ?xs = "take MAX_ISO_ENTRIES (concat (map (images_of lower ?fs) (iso_places ?fs home)))"
  let ?ys = "sort_key (\<lambda>e. lower (iso_name e)) ?xs"
  have "set (dedup_paths ?ys) \<subseteq> set ?ys" using dedup_paths_set by blast
  moreover have "set ?ys \<subseteq> set (concat (map (images_of lower ?fs) (iso_places ?fs home)))" using set_take_subset by fastforce
  moreover have "list_all (is_image lower ?fs) (concat (map (images_of lower ?fs) (iso_places ?fs home)))"
    using images_of_image[of lower ?fs] by (auto simp: list_all_iff)
  ultimately have image: "list_all (is_image lower ?fs) (dedup_paths ?ys)" unfolding list_all_iff by blast
  show ?thesis
  proof (intro exI conjI)
    show "scan_isos lower w fs home t = (t @ [Make_Dir (iso_dir home)], Inr (dedup_paths ?ys))"
      by (simp add: scan_isos_def run ask_def collected_take)
    show "sorted (map (lower \<circ> iso_name) (dedup_paths ?ys))" by (rule dedup_paths_sorted) (simp add: comp_def)
    show "iso_path ` set (dedup_paths ?ys) = iso_path ` set ?xs" using dedup_paths_set[of ?ys] by simp
    show "length (dedup_paths ?ys) \<le> MAX_ISO_ENTRIES" by (rule order_trans[OF dedup_paths_length]) simp
  qed (rule image)
qed

end
