(* ===== verification/Remote.thy ===== *)
theory Remote
  imports Host_Run Text_Lines
begin

text \<open>
  Remote hypervisors (vmm-core/src/remote.rs): the checks of host and user names, the connection URI, the
  tests of a connection, the stored hosts and the SSH tunnel for the display. \<open>ssh\<close> and \<open>virsh\<close> are external
  commands; the codec of the stored hosts is an argument; \<open>lower\<close> is \<open>str::to_lowercase\<close>.
\<close>

section \<open>Hosts\<close>

record remote_host =
  host_name :: string
  hostname :: string
  username :: string
  ssh_port :: u16
  host_uri :: string
  use_system :: bool

text \<open>\<open>str::contains\<close> of a single character, for the literals of the checks.\<close>

definition has_char :: "string \<Rightarrow> char set \<Rightarrow> bool" where
  "has_char s cs \<longleftrightarrow> list_ex (\<lambda>c. c \<in> cs) s"

definition shell_chars :: "char set" where
  "shell_chars = set '';|&$(){}!#~<>'' \<union> {CHR 0x60, CHR 0x27, CHR 0x22, CHR 0x5C}"

definition name_chars :: "(nat \<Rightarrow> bool) \<Rightarrow> string \<Rightarrow> string \<Rightarrow> bool" where
  "name_chars ua extra s \<longleftrightarrow> list_all (\<lambda>g. is_alphanumeric ua g \<or> ascii_char (\<lambda>c. c \<in> set extra) g) (chars s)"

definition validate_hostname :: "(nat \<Rightarrow> bool) \<Rightarrow> string \<Rightarrow> unit vmm_result" where
  "validate_hostname ua h =
     (if h = [] then Inl (InvalidConfig ''Hostname cannot be empty'')
      else if length h > 253 then Inl (InvalidConfig ''Hostname too long (max 253)'')
      else if has_char h {CHR 0x00} then Inl (InvalidConfig ''Hostname must not contain null bytes (CWE-626)'')
      else if has_char h {CHR 0x0A, CHR 0x0D} then Inl (InvalidConfig ''Hostname must not contain newlines (CWE-93)'')
      else if has_char h {CHR '' '', CHR 0x09} then Inl (InvalidConfig ''Hostname must not contain whitespace (CWE-78)'')
      else if has_char h shell_chars then Inl (InvalidConfig ''Hostname must not contain shell metacharacters (CWE-78)'')
      else if starts_with h ''-'' then
        Inl (InvalidConfig (''Hostname must not start with '' @ [CHR 0x27] @ ''-'' @ [CHR 0x27] @ '' (argument injection risk)''))
      else if \<not> name_chars ua ''.-:[]'' h then Inl (InvalidConfig (''Hostname contains invalid characters: '' @ h))
      else Inr ())"

definition validate_ssh_username :: "(nat \<Rightarrow> bool) \<Rightarrow> string \<Rightarrow> unit vmm_result" where
  "validate_ssh_username ua u =
     (if u = [] then Inr ()
      else if length u > 64 then Inl (InvalidConfig ''Username too long (max 64)'')
      else if starts_with u ''-'' then
        Inl (InvalidConfig (''Username must not start with '' @ [CHR 0x27] @ ''-'' @ [CHR 0x27] @ '' (argument injection risk)''))
      else if \<not> name_chars ua ''-_.'' u then Inl (InvalidConfig (''Username contains invalid characters: '' @ u))
      else Inr ())"

definition safe_prefixes :: "string list" where
  "safe_prefixes = [''qemu://'', ''qemu+ssh://'', ''qemu+tcp://'', ''qemu+tls://'', ''qemu:///'', ''test://'', ''test:///'']"

definition built_uri :: "remote_host \<Rightarrow> string" where
  "built_uri h =
     (let user = (if username h = [] then [] else username h @ ''@''); mode = (if use_system h then ''system'' else ''session'') in
      if ssh_port h \<noteq> 22 then ''qemu+ssh://'' @ user @ hostname h @ '':'' @ dec_w (ssh_port h) @ ''/'' @ mode
      else ''qemu+ssh://'' @ user @ hostname h @ ''/'' @ mode)"

definition connection_uri :: "(string \<Rightarrow> string) \<Rightarrow> remote_host \<Rightarrow> string" where
  "connection_uri lower h =
     (if host_uri h \<noteq> [] \<and> list_ex (starts_with (lower (host_uri h))) safe_prefixes then host_uri h else built_uri h)"

section \<open>Testing a connection\<close>

definition user_host :: "remote_host \<Rightarrow> string" where
  "user_host h = (if username h = [] then hostname h else username h @ ''@'' @ hostname h)"

definition check_host :: "(nat \<Rightarrow> bool) \<Rightarrow> remote_host \<Rightarrow> unit run" where
  "check_host ua h =
     next_do (check (validate_hostname ua (hostname h))) (\<lambda>_. check (validate_ssh_username ua (username h)))"

definition ssh_args :: "remote_host \<Rightarrow> string list" where
  "ssh_args h = [''ssh'', ''-p'', dec_w (ssh_port h), ''-o'', ''ConnectTimeout=5'', ''-o'', ''BatchMode=yes'', ''-o'',
     ''StrictHostKeyChecking=accept-new'', ''--'', user_host h, ''hostname'']"

definition test_ssh :: "(nat \<Rightarrow> bool) \<Rightarrow> world \<Rightarrow> remote_host \<Rightarrow> string run" where
  "test_ssh ua w h =
     next_do (check_host ua h) (\<lambda>_.
     next_do (command w (\<lambda>e. Other (''SSH failed: '' @ e)) (ssh_args h)) (\<lambda>out.
     if out_ok out then give (trim (out_stdout out))
     else stop (Other (''SSH test failed: '' @ trim (out_stderr out)))))"

definition test_libvirt :: "(nat \<Rightarrow> bool) \<Rightarrow> (string \<Rightarrow> string) \<Rightarrow> world \<Rightarrow> remote_host \<Rightarrow> string run" where
  "test_libvirt ua lower w h =
     next_do (check_host ua h) (\<lambda>_.
     next_do (command w (\<lambda>e. Other (''virsh failed: '' @ e)) [''virsh'', ''-c'', connection_uri lower h, ''hostname'']) (\<lambda>out.
     if out_ok out then give (trim (out_stdout out))
     else stop (Other (''Libvirt connection failed: '' @ trim (out_stderr out)))))"

section \<open>The stored hosts\<close>

definition hosts_path :: "string option \<Rightarrow> string" where
  "hosts_path home = (case home of None \<Rightarrow> [] | Some d \<Rightarrow> d) @ ''/.local/share/libre-vmm/remote_hosts.json''"

definition hosts_dir :: "string option \<Rightarrow> string" where
  "hosts_dir home = (case home of None \<Rightarrow> [] | Some d \<Rightarrow> d) @ ''/.local/share/libre-vmm''"

text \<open>\<open>stored\<close> is the text of the file, if it can be read; a file that is not understood counts as empty.\<close>

definition load_hosts :: "(string \<Rightarrow> remote_host list option) \<Rightarrow> string option \<Rightarrow> remote_host list" where
  "load_hosts decode stored =
     (case stored of None \<Rightarrow> [] | Some json \<Rightarrow> (case decode json of None \<Rightarrow> [] | Some hs \<Rightarrow> hs))"

definition save_hosts :: "(remote_host list \<Rightarrow> string + string) \<Rightarrow> world \<Rightarrow> string option \<Rightarrow> remote_host list \<Rightarrow> unit run" where
  "save_hosts encode w home hs =
     next_do (perform w Io (Make_Dir (hosts_dir home))) (\<lambda>_.
     next_do (check (case encode hs of Inl e \<Rightarrow> Inl (Serde e) | Inr json \<Rightarrow> Inr json)) (\<lambda>json.
     next_do (perform w Io (Write (hosts_path home) json)) (\<lambda>_.
     next_do (attempt w (Access (Set_Mode (hosts_path home) 0x180))) (\<lambda>_. give ()))))"

definition add_host :: "remote_host \<Rightarrow> remote_host list \<Rightarrow> remote_host list" where
  "add_host h hs = hs @ [h]"

definition remove_host :: "nat \<Rightarrow> remote_host list \<Rightarrow> remote_host list" where
  "remove_host i hs = (if i < length hs then take i hs @ drop (Suc i) hs else hs)"

section \<open>The tunnel\<close>

definition PORT_FIND_RETRIES :: nat where "PORT_FIND_RETRIES = 5"

datatype child_state = Still_Running | Exited bool string

text \<open>What is asked of the system: a socket on a free port (an error of binding it, an error of asking for
  its address, or the port) and the state of the command that was started last.\<close>

record tunnel_system =
  bind_any :: "act list \<Rightarrow> string + (string + u16)"
  try_wait :: "act list \<Rightarrow> string + child_state"

definition find_free_port :: "tunnel_system \<Rightarrow> u16 run" where
  "find_free_port sys =
     next_do (ask (bind_any sys)) (\<lambda>r. check (case r of
         Inl e \<Rightarrow> Inl (Other (''Failed to find free port: '' @ e))
       | Inr (Inl e) \<Rightarrow> Inl (Other (''Failed to get port: '' @ e))
       | Inr (Inr p) \<Rightarrow> Inr p))"

definition tunnel_args :: "remote_host \<Rightarrow> u16 \<Rightarrow> u16 \<Rightarrow> string list" where
  "tunnel_args h p vnc = [''ssh'', ''-p'', dec_w (ssh_port h), ''-N'', ''-L'', dec_w p @ '':127.0.0.1:'' @ dec_w vnc,
     ''-o'', ''ExitOnForwardFailure=yes'', ''-o'', ''ServerAliveInterval=30'', ''-o'', ''StrictHostKeyChecking=accept-new'',
     ''--'', user_host h]"

text \<open>The reason why an attempt failed, or none when the command runs on.\<close>

definition attempt_failure :: "u16 \<Rightarrow> string + child_state \<Rightarrow> string option" where
  "attempt_failure p r = (case r of
       Inr Still_Running \<Rightarrow> None
     | Inr (Exited True s) \<Rightarrow> Some ''SSH tunnel exited immediately''
     | Inr (Exited False s) \<Rightarrow> Some (''SSH tunnel exited with status '' @ s @ '' (port '' @ dec_w p @ '' may have been taken)'')
     | Inl e \<Rightarrow> Some (''Failed to check SSH status: '' @ e))"

fun tunnel_attempts :: "world \<Rightarrow> tunnel_system \<Rightarrow> remote_host \<Rightarrow> u16 \<Rightarrow> nat \<Rightarrow> string \<Rightarrow> u16 run" where
  "tunnel_attempts w sys h vnc 0 last_error =
     stop (Other (''Failed to open SSH tunnel after '' @ dec PORT_FIND_RETRIES @ '' attempts (CWE-362 TOCTOU): '' @ last_error))"
| "tunnel_attempts w sys h vnc (Suc n) last_error =
     next_do (find_free_port sys) (\<lambda>p.
     next_do (perform w (\<lambda>e. Other (''Failed to start SSH tunnel: '' @ e)) (Spawn (tunnel_args h p vnc))) (\<lambda>_.
     next_do (log_act (Sleep 500)) (\<lambda>_.
     next_do (ask (try_wait sys)) (\<lambda>r.
     case attempt_failure p r of None \<Rightarrow> give p | Some e \<Rightarrow> tunnel_attempts w sys h vnc n e))))"

text \<open>The port at which the display is reached; the command that forwards it is the one started last.\<close>

definition open_tunnel :: "(nat \<Rightarrow> bool) \<Rightarrow> world \<Rightarrow> tunnel_system \<Rightarrow> remote_host \<Rightarrow> u16 \<Rightarrow> u16 run" where
  "open_tunnel ua w sys h vnc =
     next_do (check_host ua h) (\<lambda>_. tunnel_attempts w sys h vnc PORT_FIND_RETRIES [])"

definition is_alive :: "string + child_state \<Rightarrow> bool" where
  "is_alive r \<longleftrightarrow> r = Inr Still_Running"

section \<open>Properties\<close>

text \<open>The last check of a host name decides; those before it choose the message.\<close>

lemma name_chars_byte:
  assumes "name_chars ua extra s" "c \<in> set s" "is_ascii_byte c"
  shows "ascii_alnum c \<or> c \<in> set extra"
proof -
  from assms(1) have "list_all (\<lambda>g. is_alphanumeric ua g \<or> ascii_char (\<lambda>c. c \<in> set extra) g) (chars s)"
    by (simp add: name_chars_def)
  from list_all_chars_byte[OF this assms(2)] assms(3) show ?thesis by (auto simp: ascii_char_def)
qed

lemma validate_hostname_iff:
  "validate_hostname ua h = Inr () \<longleftrightarrow>
     h \<noteq> [] \<and> length h \<le> 253 \<and> \<not> starts_with h ''-'' \<and> name_chars ua ''.-:[]'' h"
proof -
  have bad: "\<not> has_char h cs" if "name_chars ua ''.-:[]'' h" "\<And>c. c \<in> cs \<Longrightarrow> is_ascii_byte c \<and> \<not> ascii_alnum c \<and> c \<notin> set ''.-:[]''" for cs
    using name_chars_byte[OF that(1)] that(2) by (auto simp: has_char_def list_ex_iff)
  have "\<not> has_char h {CHR 0x00} \<and> \<not> has_char h {CHR 0x0A, CHR 0x0D} \<and> \<not> has_char h {CHR '' '', CHR 0x09} \<and> \<not> has_char h shell_chars"
    if "name_chars ua ''.-:[]'' h"
    by (intro conjI bad[OF that]) (auto simp: shell_chars_def ascii_defs)
  then show ?thesis unfolding validate_hostname_def by (auto simp: not_less)
qed

lemma validate_username_iff:
  "validate_ssh_username ua u = Inr () \<longleftrightarrow> u = [] \<or> length u \<le> 64 \<and> \<not> starts_with u ''-'' \<and> name_chars ua ''-_.'' u"
  by (auto simp: validate_ssh_username_def)

lemma check_host_run: "check_host ua h t = (t, case validate_hostname ua (hostname h) of
     Inl e \<Rightarrow> Inl e | Inr _ \<Rightarrow> validate_ssh_username ua (username h))"
  unfolding check_host_def next_check by (simp add: check_def split: sum.split)

lemma checked_target:
  assumes "snd (check_host ua h t) = Inr ()"
  shows "user_host h \<noteq> []" "\<not> starts_with (user_host h) ''-''"
proof -
  from assms have v: "validate_hostname ua (hostname h) = Inr ()" "validate_ssh_username ua (username h) = Inr ()"
    by (auto simp: check_host_run split: sum.splits)
  then show "user_host h \<noteq> []" "\<not> starts_with (user_host h) ''-''"
    by (auto simp: validate_hostname_iff validate_username_iff user_host_def starts_with_def neq_Nil_conv split: if_splits)
qed

text \<open>What a tunnel does: it starts \<open>ssh\<close> for the checked target, after the end of its options, and waits.\<close>

definition tunnel_act :: "remote_host \<Rightarrow> u16 \<Rightarrow> act \<Rightarrow> bool" where
  "tunnel_act h vnc a \<longleftrightarrow> (case a of
       Spawn args \<Rightarrow> (\<exists>p. args = tunnel_args h p vnc) \<and> user_host h \<noteq> [] \<and> \<not> starts_with (user_host h) ''-''
     | Sleep n \<Rightarrow> n = 500
     | _ \<Rightarrow> False)"

definition tunnel_outcome :: "world \<Rightarrow> tunnel_system \<Rightarrow> remote_host \<Rightarrow> u16 \<Rightarrow> act list \<Rightarrow> u16 vmm_result \<Rightarrow> bool" where
  "tunnel_outcome w sys h vnc t r = (case r of
       Inl e \<Rightarrow> True
     | Inr p \<Rightarrow> (\<exists>t1. t = t1 @ [Spawn (tunnel_args h p vnc), Sleep 500] \<and> does w t1 (Spawn (tunnel_args h p vnc)) = None
         \<and> try_wait sys t = Inr Still_Running))"

lemma attempt_failure_None: "attempt_failure p r = None \<longleftrightarrow> r = Inr Still_Running"
  by (auto simp: attempt_failure_def split: sum.splits child_state.splits bool.splits)

lemma find_free_port_run: "fst (find_free_port sys t) = t"
  by (simp add: find_free_port_def run check_def)

lemma tunnel_step:
  "tunnel_attempts w sys h vnc (Suc n) e t = (case snd (find_free_port sys t) of
       Inl err \<Rightarrow> (t, Inl err)
     | Inr p \<Rightarrow> let s = Spawn (tunnel_args h p vnc); t' = t @ [s] @ [Sleep 500] in
         (case does w t s of
            Some err \<Rightarrow> (t @ [s], Inl (Other (''Failed to start SSH tunnel: '' @ err)))
          | None \<Rightarrow> (case attempt_failure p (try_wait sys t') of
                None \<Rightarrow> (t', Inr p) | Some e' \<Rightarrow> tunnel_attempts w sys h vnc n e' t')))"
  by (simp add: next_unfold[of "find_free_port sys"] find_free_port_run run Let_def split: sum.split option.split)

lemma tunnel_attempts_shape:
  assumes "user_host h \<noteq> []" "\<not> starts_with (user_host h) ''-''"
  shows "\<exists>u. fst (tunnel_attempts w sys h vnc n e t) = t @ u \<and> length u \<le> 2 * n \<and> list_all (tunnel_act h vnc) u
    \<and> tunnel_outcome w sys h vnc (fst (tunnel_attempts w sys h vnc n e t)) (snd (tunnel_attempts w sys h vnc n e t))"
proof (induction n arbitrary: e t)
  case 0
  show ?case by (simp add: run tunnel_outcome_def)
next
  case (Suc n)
  show ?case
  proof (cases "snd (find_free_port sys t)")
    case (Inl err)
    then show ?thesis by (simp add: tunnel_step tunnel_outcome_def del: tunnel_attempts.simps)
  next
    case port: (Inr p)
    let ?s = "Spawn (tunnel_args h p vnc)"
    have act: "tunnel_act h vnc ?s" "tunnel_act h vnc (Sleep 500)" using assms by (auto simp: tunnel_act_def)
    show ?thesis
    proof (cases "does w t ?s")
      case (Some err)
      with port act show ?thesis
        by (simp add: tunnel_step Let_def tunnel_outcome_def del: tunnel_attempts.simps)
    next
      case started: None
      show ?thesis
      proof (cases "attempt_failure p (try_wait sys (t @ [?s] @ [Sleep 500]))")
        case None
        moreover from None have "try_wait sys (t @ [?s, Sleep 500]) = Inr Still_Running" by (simp add: attempt_failure_None)
        ultimately show ?thesis using port started act
          by (intro exI[of _ "[?s, Sleep 500]"]) (simp add: tunnel_step Let_def tunnel_outcome_def attempt_failure_def del: tunnel_attempts.simps)
      next
        case (Some e')
        from Suc[of e' "t @ [?s] @ [Sleep 500]"] obtain u where
          "fst (tunnel_attempts w sys h vnc n e' (t @ [?s] @ [Sleep 500])) = (t @ [?s] @ [Sleep 500]) @ u" "length u \<le> 2 * n"
          "list_all (tunnel_act h vnc) u" "tunnel_outcome w sys h vnc (fst (tunnel_attempts w sys h vnc n e' (t @ [?s] @ [Sleep 500])))
             (snd (tunnel_attempts w sys h vnc n e' (t @ [?s] @ [Sleep 500])))" by blast
        with port started act Some show ?thesis
          by (intro exI[of _ "?s # Sleep 500 # u"]) (simp add: tunnel_step Let_def del: tunnel_attempts.simps)
      qed
    qed
  qed
qed


text \<open>A URI given by hand is used with everything in it, also a command for \<open>libvirt\<close> to start.\<close>

lemma given_uri_keeps_its_command:
  "connection_uri (map to_ascii_lower) \<lparr>host_name = ''h'', hostname = ''h'', username = [], ssh_port = 22,
     host_uri = ''qemu+ssh://h/system?command=/tmp/x'', use_system = True\<rparr> = ''qemu+ssh://h/system?command=/tmp/x''"
  by code_simp

text \<open>Adding a host and removing the last one is the identity.\<close>

lemma add_remove: "remove_host (length hs) (add_host h hs) = hs"
  by (simp add: remove_host_def add_host_def)

lemma remove_out_of_range: "length hs \<le> i \<Longrightarrow> remove_host i hs = hs"
  by (simp add: remove_host_def)

end
