(* ===== verification/Migration.thy ===== *)
theory Migration
  imports Remote
begin

text \<open>
  Moving a running machine to another host (vmm-core/src/migration.rs) and what its dialog shows of it
  (vmm-gui/src/views/migration.rs). The migration runs in a thread of its own that waits for \<open>virsh\<close> while a
  second thread polls the statistics; both write a progress record behind a lock, so the step relation takes
  one critical section or one external command at a time, in any interleaving. Floating-point numbers are
  computed exactly, with rounding to 53 bits; parsing a decimal fraction and printing one with a fixed number
  of places are arguments.
\<close>

section \<open>Options and progress\<close>

datatype migration_type = Live | Offline | PeerToPeer

definition migration_type_display :: "migration_type \<Rightarrow> string" where
  "migration_type_display m = (case m of Live \<Rightarrow> ''Live'' | Offline \<Rightarrow> ''Offline'' | PeerToPeer \<Rightarrow> ''Peer-to-peer'')"

record migration_options =
  migration_type :: migration_type
  bandwidth_mib :: u64
  compressed :: bool
  copy_storage :: bool
  persistent :: bool
  undefine_source :: bool
  auto_converge :: bool
  postcopy :: bool

definition default_options :: migration_options where
  "default_options = \<lparr>migration_type = Live, bandwidth_mib = 0, compressed = False, copy_storage = False, persistent = True,
     undefine_source = True, auto_converge = False, postcopy = False\<rparr>"

record progress =
  phase :: string
  percent :: int
  data_transferred :: u64
  data_remaining :: u64
  memory_bps :: u64
  elapsed_secs :: nat
  completed :: bool
  failure :: "string option"
  cancelled :: bool

definition no_progress :: progress where
  "no_progress = \<lparr>phase = [], percent = 0, data_transferred = 0, data_remaining = 0, memory_bps = 0, elapsed_secs = 0,
     completed = False, failure = None, cancelled = False\<rparr>"

definition MIGRATION_TIMEOUT_SECS :: nat where "MIGRATION_TIMEOUT_SECS = 4 * 60 * 60"

section \<open>Checks and the command\<close>

definition validate_migration_vm_name :: "(nat \<Rightarrow> bool) \<Rightarrow> string \<Rightarrow> string + unit" where
  "validate_migration_vm_name ua n = (case validate_vm_name ua n of Some e \<Rightarrow> Inl (''Invalid VM name: '' @ e) | None \<Rightarrow> Inr ())"

definition uri_forbidden :: "char set" where
  "uri_forbidden = set '';|&$<>!{}()'' \<union> {CHR 0x60, CHR 0x5C, CHR 0x27, CHR 0x22, CHR 0x0A, CHR 0x0D, CHR 0x09}"

definition validate_dest_uri :: "string \<Rightarrow> string + unit" where
  "validate_dest_uri u =
     (if u = [] then Inl ''Destination URI cannot be empty''
      else if length u > 1024 then Inl ''Destination URI too long (max 1024)''
      else if starts_with u ''-'' then
        Inl (''Destination URI must not start with '' @ [CHR 0x27] @ ''-'' @ [CHR 0x27] @ '' (argument injection risk)'')
      else if has_char u uri_forbidden then Inl (''Destination URI contains disallowed characters: '' @ u)
      else if \<not> str_contains u ''://'' then
        Inl (''Destination URI must contain '' @ [CHR 0x27] @ ''://'' @ [CHR 0x27] @ '' (expected libvirt URI format)'')
      else Inr ())"

definition migration_flags :: "migration_options \<Rightarrow> string list" where
  "migration_flags o' =
     (case migration_type o' of Live \<Rightarrow> [''--live''] | Offline \<Rightarrow> [''--offline''] | PeerToPeer \<Rightarrow> [''--live'', ''--p2p''])
     @ (if persistent o' then [''--persistent''] else [])
     @ (if undefine_source o' then [''--undefinesource''] else [])
     @ (if compressed o' then [''--compressed''] else [])
     @ (if copy_storage o' then [''--copy-storage-all''] else [])
     @ (if auto_converge o' then [''--auto-converge''] else [])
     @ (if postcopy o' then [''--postcopy'', ''--postcopy-after-precopy''] else [])
     @ [''--verbose'']"

definition migrate_args :: "string \<Rightarrow> string \<Rightarrow> migration_options \<Rightarrow> string list" where
  "migrate_args vm uri o' =
     [''virsh'', ''migrate''] @ migration_flags o' @ [vm, uri]
     @ (if bandwidth_mib o' > 0 then [''--bandwidth'', dec_w (bandwidth_mib o')] else [])
     @ [''--timeout'', dec MIGRATION_TIMEOUT_SECS]"

section \<open>Before a migration\<close>

record preflight =
  ssh_ok :: bool
  ssh_error :: "string option"
  libvirt_ok :: bool
  libvirt_error :: "string option"
  capabilities_ok :: bool
  has_kvm :: bool
  remote_hostname :: string
  free_memory_mib :: nat

definition no_preflight :: preflight where
  "no_preflight = \<lparr>ssh_ok = False, ssh_error = None, libvirt_ok = False, libvirt_error = None, capabilities_ok = False,
     has_kvm = False, remote_hostname = [], free_memory_mib = 0\<rparr>"

text \<open>The second word of every line that speaks of free memory; the last one stays.\<close>

definition free_memory_line :: "string \<Rightarrow> nat \<Rightarrow> nat" where
  "free_memory_line l m =
     (if str_contains l ''free'' \<and> 1 < length (split_whitespace l) then
        (case parse_usize (split_whitespace l ! 1) of None \<Rightarrow> 0 | Some v \<Rightarrow> v) div 1024
      else m)"

definition free_memory :: "string \<Rightarrow> nat" where
  "free_memory out = fold free_memory_line (str_lines out) 0"

definition preflight_check :: "(nat \<Rightarrow> bool) \<Rightarrow> (string \<Rightarrow> string) \<Rightarrow> world \<Rightarrow> remote_host \<Rightarrow> preflight run" where
  "preflight_check ua lower w h =
     next_do (outcome (test_ssh ua w h)) (\<lambda>r1.
     case r1 of
       Inl e \<Rightarrow> give (no_preflight\<lparr>ssh_error := Some (''SSH failed: '' @ error_display e)\<rparr>)
     | Inr name \<Rightarrow>
         (let p1 = no_preflight\<lparr>ssh_ok := True, remote_hostname := name\<rparr> in
          next_do (outcome (test_libvirt ua lower w h)) (\<lambda>r2.
          case r2 of
            Inl e \<Rightarrow> give (p1\<lparr>libvirt_error := Some (''Libvirt failed: '' @ error_display e)\<rparr>)
          | Inr _ \<Rightarrow>
              (let p2 = p1\<lparr>libvirt_ok := True\<rparr>; uri = connection_uri lower h in
               next_do (command w (\<lambda>e. Other (''Failed to query capabilities: '' @ e)) [''virsh'', ''-c'', uri, ''capabilities'']) (\<lambda>caps.
               let p3 = (if out_ok caps then p2\<lparr>has_kvm := str_contains (out_stdout caps) ''kvm'', capabilities_ok := True\<rparr> else p2) in
               next_do (try_command w [''virsh'', ''-c'', uri, ''nodememstats'']) (\<lambda>mem.
               give (case mem of
                   Inl _ \<Rightarrow> p3
                 | Inr out \<Rightarrow> if out_ok out then p3\<lparr>free_memory_mib := free_memory (out_stdout out)\<rparr> else p3)))))))"

definition all_ok :: "preflight \<Rightarrow> bool" where
  "all_ok p \<longleftrightarrow> ssh_ok p \<and> libvirt_ok p \<and> capabilities_ok p \<and> has_kvm p"

definition summary :: "preflight \<Rightarrow> (string \<times> bool \<times> string) list" where
  "summary p =
     (let tested = (\<lambda>e. case e of None \<Rightarrow> ''Not tested'' | Some x \<Rightarrow> x) in
      [(''SSH Connectivity'', ssh_ok p, if ssh_ok p then ''Connected to '' @ remote_hostname p else tested (ssh_error p)),
       (''Libvirt Connection'', libvirt_ok p, if libvirt_ok p then ''Connected'' else tested (libvirt_error p)),
       (''KVM Support'', has_kvm p, if has_kvm p then ''Available'' else ''Not detected''),
       (''Free Memory'', free_memory_mib p > 0, if free_memory_mib p > 0 then dec (free_memory_mib p) @ '' MiB available'' else ''Unknown'')])"

fun compatible_hosts :: "(nat \<Rightarrow> bool) \<Rightarrow> world \<Rightarrow> nat \<Rightarrow> remote_host list \<Rightarrow> (nat \<times> string \<times> bool) list run" where
  "compatible_hosts ua w i [] = give []"
| "compatible_hosts ua w i (h # hs) =
     next_do (outcome (test_ssh ua w h)) (\<lambda>r.
     next_do (compatible_hosts ua w (Suc i) hs) (\<lambda>rest. give ((i, host_name h, \<not> isl r) # rest)))"

section \<open>The statistics of a job\<close>

text \<open>A parsed \<open>f64\<close>: the sign, the whole part and whether a fraction follows, or not finite.\<close>

datatype parsed_f64 = Finite bool nat bool | Not_Finite

definition MAX_BYTES :: nat where "MAX_BYTES = 2 ^ 50"

definition unit_bytes :: "string \<Rightarrow> nat option" where
  "unit_bytes u = map_of [(''B'', 1), (''KiB'', 1024), (''MiB'', 1048576), (''GiB'', 1073741824)] u"

definition extract_bytes_value :: "(string \<Rightarrow> parsed_f64 option) \<Rightarrow> string \<Rightarrow> u64 option" where
  "extract_bytes_value f64 line =
     (let parts = split_whitespace line in
      if length parts < 3 then None
      else (case f64 (parts ! (length parts - 2)) of
          None \<Rightarrow> None
        | Some Not_Finite \<Rightarrow> None
        | Some (Finite neg whole fraction) \<Rightarrow>
            if neg \<and> (whole > 0 \<or> fraction) then None
            else (case unit_bytes (last parts) of
                None \<Rightarrow> None
              | Some m \<Rightarrow>
                  if whole > MAX_BYTES div m \<or> whole = MAX_BYTES div m \<and> fraction then None
                  else if whole * m < 2 ^ 64 then Some (of_nat (whole * m)) else None)))"

text \<open>Rounding to 53 significant bits, half to even: of a whole number, and of a quotient below one, which is
  \<open>m / 2 ^ k\<close>.\<close>

fun bit_count :: "nat \<Rightarrow> nat" where
  "bit_count n = (if n = 0 then 0 else Suc (bit_count (n div 2)))"

declare bit_count.simps [simp del]

definition div_even :: "nat \<Rightarrow> nat \<Rightarrow> nat" where
  "div_even p q = (let d = p div q; r = p mod q in if 2 * r < q \<or> 2 * r = q \<and> even d then d else d + 1)"

definition to_f64 :: "nat \<Rightarrow> nat" where
  "to_f64 n = (let k = bit_count n in if k \<le> 53 then n else div_even n (2 ^ (k - 53)) * 2 ^ (k - 53))"

definition f64_quotient :: "nat \<Rightarrow> nat \<Rightarrow> nat \<times> nat" where
  "f64_quotient p q =
     (if q \<le> p then (1, 0) else if p = 0 then (0, 0)
      else (let k = 53 + bit_count q - bit_count p; k' = (if 2 ^ 53 * q \<le> p * 2 ^ k then k - 1 else k) in
        (div_even (p * 2 ^ k') q, k')))"

definition progress_percent :: "u64 \<Rightarrow> u64 \<Rightarrow> int" where
  "progress_percent transferred overall =
     (let (m, k) = f64_quotient (to_f64 (unat transferred)) (to_f64 (unat overall)) in
      min (int (to_f64 (m * 80) div 2 ^ k) + 20) 99)"

text \<open>\<open>places n b u\<close>: the quotient of \<open>b\<close> and \<open>u\<close> with \<open>n\<close> places.\<close>

definition format_bytes :: "(nat \<Rightarrow> nat \<Rightarrow> nat \<Rightarrow> string) \<Rightarrow> u64 \<Rightarrow> string" where
  "format_bytes places b =
     (if b < 1024 then dec_w b @ '' B''
      else if b < 1024 * 1024 then places 1 (unat b) 1024 @ '' KiB''
      else if b < 1024 * 1024 * 1024 then places 1 (unat b) (1024 * 1024) @ '' MiB''
      else places 2 (unat b) (1024 * 1024 * 1024) @ '' GiB'')"

text \<open>The lines of the output; \<open>False\<close>: a job that is over ends the reading.\<close>

definition job_over :: "string \<Rightarrow> bool" where
  "job_over l \<longleftrightarrow> starts_with l ''Job type:'' \<and>
     trim (split_on (CHR '':'') l ! 1) \<in> {''None'', ''Completed''}"

definition job_value :: "(string \<Rightarrow> parsed_f64 option) \<Rightarrow> string \<Rightarrow> string \<Rightarrow> u64 \<Rightarrow> u64" where
  "job_value f64 l label old =
     (if starts_with l label then (case extract_bytes_value f64 l of None \<Rightarrow> old | Some v \<Rightarrow> v) else old)"

fun job_lines :: "(string \<Rightarrow> parsed_f64 option) \<Rightarrow> string list \<Rightarrow> progress \<Rightarrow> progress \<times> bool" where
  "job_lines f64 [] p = (p, True)"
| "job_lines f64 (l # ls) p =
     (if job_over (trim l) then (p, False)
      else job_lines f64 ls (p\<lparr>
        data_transferred := job_value f64 (trim l) ''Data processed:'' (data_transferred p),
        data_remaining := job_value f64 (trim l) ''Data remaining:'' (data_remaining p),
        memory_bps := job_value f64 (trim l) ''Memory bandwidth:'' (memory_bps p)\<rparr>))"

definition parse_domjobinfo ::
  "(string \<Rightarrow> parsed_f64 option) \<Rightarrow> (nat \<Rightarrow> nat \<Rightarrow> nat \<Rightarrow> string) \<Rightarrow> string \<Rightarrow> progress \<Rightarrow> progress" where
  "parse_domjobinfo f64 places out p =
     (case job_lines f64 (str_lines out) p of
        (p', False) \<Rightarrow> p'
      | (p', True) \<Rightarrow>
          (let overall = data_transferred p' + data_remaining p' in
           if overall > 0 then
             p'\<lparr>percent := progress_percent (data_transferred p') overall,
                phase := ''Migrating... ('' @ format_bytes places (data_transferred p') @ '' / '' @ format_bytes places overall @ '' transferred)''\<rparr>
           else p'))"

section \<open>The two threads\<close>

type_synonym command_result = "string + cmd_output"

datatype mig_pc = M_Begin | M_Command | M_Spawn | M_Show | M_Poller | M_Wait | M_Stop command_result | M_Join command_result
  | M_Report command_result | M_End

datatype poll_pc = P_None | P_Check | P_Time | P_Abort | P_Query | P_Parse string | P_End

record mig_state =
  mig_at :: mig_pc
  poll_at :: poll_pc
  shared :: progress
  done_acts :: "act list"

text \<open>The critical sections of the migration thread, and the report of the result.\<close>

definition set_phase :: "string \<Rightarrow> int \<Rightarrow> progress \<Rightarrow> progress" where
  "set_phase s n p = p\<lparr>phase := s, percent := n\<rparr>"

definition not_started :: "string \<Rightarrow> progress \<Rightarrow> progress" where
  "not_started e p = p\<lparr>failure := Some (''Failed to start virsh: '' @ e), completed := True\<rparr>"

definition report_result :: "command_result \<Rightarrow> nat \<Rightarrow> progress \<Rightarrow> progress" where
  "report_result r secs p = (case r of
       Inl e \<Rightarrow> p\<lparr>failure := Some (''Failed to wait for migration: '' @ e), completed := True\<rparr>
     | Inr out \<Rightarrow>
         if out_ok out then p\<lparr>elapsed_secs := secs, phase := ''Migration completed successfully!'', percent := 100\<rparr>
         else p\<lparr>elapsed_secs := secs,
           failure := Some (''Migration failed: '' @ trim (if out_stderr out \<noteq> [] then out_stderr out else out_stdout out)),
           phase := ''Migration failed''\<rparr>)"

definition timed_out :: "nat \<Rightarrow> progress \<Rightarrow> progress" where
  "timed_out secs p = p\<lparr>failure := Some (''Migration timed out after '' @ dec secs @ '' seconds''), completed := True\<rparr>"

definition abort_args :: "string \<Rightarrow> string list" where
  "abort_args vm = [''virsh'', ''domjobabort'', vm]"

definition jobinfo_args :: "string \<Rightarrow> string list" where
  "jobinfo_args vm = [''virsh'', ''domjobinfo'', vm]"

text \<open>The limit of the poller, in nanoseconds.\<close>

definition poll_limit :: nat where "poll_limit = (MIGRATION_TIMEOUT_SECS + 300) * 10 ^ 9"

record job =
  job_vm :: string
  job_uri :: string
  job_options :: migration_options
  job_f64 :: "string \<Rightarrow> parsed_f64 option"
  job_places :: "nat \<Rightarrow> nat \<Rightarrow> nat \<Rightarrow> string"

text \<open>One step of either thread. The answers of the world (whether \<open>virsh\<close> starts, what it returns, the clock)
  are any.\<close>

inductive mig_step :: "job \<Rightarrow> mig_state \<Rightarrow> mig_state \<Rightarrow> bool" for j where
  begin_mig: "mig_at s = M_Begin \<Longrightarrow>
    mig_step j s (s\<lparr>mig_at := M_Command, shared := set_phase ''Building migration command...'' 5 (shared s)\<rparr>)"
| build_command: "mig_at s = M_Command \<Longrightarrow>
    mig_step j s (s\<lparr>mig_at := M_Spawn, shared := set_phase ''Initiating migration...'' 10 (shared s)\<rparr>)"
| spawn_fails: "mig_at s = M_Spawn \<Longrightarrow>
    mig_step j s (s\<lparr>mig_at := M_End, shared := not_started e (shared s),
      done_acts := done_acts s @ [Spawn (migrate_args (job_vm j) (job_uri j) (job_options j))]\<rparr>)"
| spawn_works: "mig_at s = M_Spawn \<Longrightarrow>
    mig_step j s (s\<lparr>mig_at := M_Show, done_acts := done_acts s @ [Spawn (migrate_args (job_vm j) (job_uri j) (job_options j))]\<rparr>)"
| show_progress: "mig_at s = M_Show \<Longrightarrow>
    mig_step j s (s\<lparr>mig_at := M_Poller, shared := set_phase ''Migration in progress...'' 20 (shared s)\<rparr>)"
| start_poller: "mig_at s = M_Poller \<Longrightarrow> mig_step j s (s\<lparr>mig_at := M_Wait, poll_at := P_Check\<rparr>)"
| virsh_returns: "mig_at s = M_Wait \<Longrightarrow> mig_step j s (s\<lparr>mig_at := M_Stop r\<rparr>)"
| stop_poller: "mig_at s = M_Stop r \<Longrightarrow>
    mig_step j s (s\<lparr>mig_at := M_Join r, shared := (shared s)\<lparr>completed := True\<rparr>\<rparr>)"
| join_poller: "mig_at s = M_Join r \<Longrightarrow> poll_at s = P_End \<Longrightarrow> mig_step j s (s\<lparr>mig_at := M_Report r\<rparr>)"
| report: "mig_at s = M_Report r \<Longrightarrow>
    mig_step j s (s\<lparr>mig_at := M_End, shared := report_result r secs (shared s)\<rparr>)"
| poll_over: "poll_at s = P_Check \<Longrightarrow> completed (shared s) \<Longrightarrow> mig_step j s (s\<lparr>poll_at := P_End\<rparr>)"
| poll_on: "poll_at s = P_Check \<Longrightarrow> \<not> completed (shared s) \<Longrightarrow> mig_step j s (s\<lparr>poll_at := P_Time\<rparr>)"
| poll_late: "poll_at s = P_Time \<Longrightarrow> elapsed > poll_limit \<Longrightarrow>
    mig_step j s (s\<lparr>poll_at := P_Abort, done_acts := done_acts s @ [Run (abort_args (job_vm j))]\<rparr>)"
| poll_sleep: "poll_at s = P_Time \<Longrightarrow> elapsed \<le> poll_limit \<Longrightarrow>
    mig_step j s (s\<lparr>poll_at := P_Query, done_acts := done_acts s @ [Sleep 2000]\<rparr>)"
| poll_abort: "poll_at s = P_Abort \<Longrightarrow> mig_step j s (s\<lparr>poll_at := P_End, shared := timed_out secs (shared s)\<rparr>)"
| query_fails: "poll_at s = P_Query \<Longrightarrow>
    mig_step j s (s\<lparr>poll_at := P_Check, done_acts := done_acts s @ [Run (jobinfo_args (job_vm j))]\<rparr>)"
| query_works: "poll_at s = P_Query \<Longrightarrow>
    mig_step j s (s\<lparr>poll_at := P_Parse out, done_acts := done_acts s @ [Run (jobinfo_args (job_vm j))]\<rparr>)"
| parse_answer: "poll_at s = P_Parse out \<Longrightarrow>
    mig_step j s (s\<lparr>poll_at := P_Check, shared := parse_domjobinfo (job_f64 j) (job_places j) out (shared s)\<rparr>)"

inductive_cases mig_step_cases: "mig_step j s s'"

definition mig_start :: mig_state where
  "mig_start = \<lparr>mig_at = M_Begin, poll_at = P_None,
     shared = no_progress\<lparr>phase := ''Preparing migration...'', percent := 0\<rparr>, done_acts = []\<rparr>"

text \<open>What starting a migration yields: a record of the refusal, or the threads.\<close>

definition refused :: "string \<Rightarrow> progress" where
  "refused e = no_progress\<lparr>phase := ''Migration failed'', failure := Some e, completed := True\<rparr>"

definition migrate_vm ::
  "(nat \<Rightarrow> bool) \<Rightarrow> (string \<Rightarrow> string) \<Rightarrow> string option \<Rightarrow> string \<Rightarrow> remote_host \<Rightarrow> progress + mig_state" where
  "migrate_vm ua lower no_thread vm h =
     (case validate_migration_vm_name ua vm of
        Inl e \<Rightarrow> Inl (refused e)
      | Inr _ \<Rightarrow> (case validate_dest_uri (connection_uri lower h) of
            Inl e \<Rightarrow> Inl (refused e)
          | Inr _ \<Rightarrow> (case no_thread of
                None \<Rightarrow> Inr mig_start
              | Some e \<Rightarrow> Inl ((shared mig_start)\<lparr>failure := Some (''Thread spawn failed: '' @ e), completed := True\<rparr>))))"

definition cancel_migration :: "(nat \<Rightarrow> bool) \<Rightarrow> world \<Rightarrow> string \<Rightarrow> unit run" where
  "cancel_migration ua w vm =
     (case validate_migration_vm_name ua vm of
        Inl e \<Rightarrow> stop (Other e)
      | Inr _ \<Rightarrow>
          next_do (command w (\<lambda>e. Other (''Failed to cancel migration: '' @ e)) (abort_args vm)) (\<lambda>out.
          if out_ok out then give () else stop (Other (''Failed to cancel migration: '' @ trim (out_stderr out)))))"

section \<open>The dialog\<close>

datatype migration_view = ChooseHost | ChooseType | Confirm | InProgress | Done

record mig_dialog =
  dialog_open :: bool
  dialog_view :: migration_view
  selected_host :: "nat option"
  chosen :: migration_options
  checked :: "preflight option"
  followed :: bool
  snapshot :: progress
  dialog_error :: "string option"
  dialog_vm :: string

definition open_dialog :: "string \<Rightarrow> mig_dialog \<Rightarrow> mig_dialog" where
  "open_dialog vm d = d\<lparr>dialog_open := True, dialog_view := ChooseHost, dialog_vm := vm, selected_host := None,
     chosen := default_options, checked := None, followed := False, snapshot := no_progress, dialog_error := None\<rparr>"

text \<open>Each frame copies the progress that is followed, and goes to the result when it is complete.\<close>

definition sync_frame :: "progress \<Rightarrow> mig_dialog \<Rightarrow> mig_dialog" where
  "sync_frame p d =
     (let d1 = (if followed d then d\<lparr>snapshot := p\<rparr> else d) in
      if dialog_view d1 = InProgress \<and> completed (snapshot d1) then d1\<lparr>dialog_view := Done\<rparr> else d1)"

definition cancel_clicked :: "string \<Rightarrow> (vmm_error + unit) \<Rightarrow> mig_dialog \<Rightarrow> mig_dialog" where
  "cancel_clicked label r d = (case r of
       Inl e \<Rightarrow> d\<lparr>dialog_error := Some (error_display e)\<rparr>
     | Inr _ \<Rightarrow> d\<lparr>snapshot := no_progress\<lparr>cancelled := True, completed := True, phase := label\<rparr>, dialog_view := Done\<rparr>)"

definition shows_success :: "mig_dialog \<Rightarrow> bool" where
  "shows_success d \<longleftrightarrow> dialog_view d = Done \<and> failure (snapshot d) = None \<and> \<not> cancelled (snapshot d)"

section \<open>Bounds of the statistics\<close>

lemma extracted_bound:
  assumes "extract_bytes_value f64 l = Some v"
  shows "unat v \<le> MAX_BYTES"
proof -
  from assms have "\<exists>whole m. unit_bytes (last (split_whitespace l)) = Some m \<and> whole \<le> MAX_BYTES div m \<and> v = of_nat (whole * m)"
    by (auto simp: extract_bytes_value_def Let_def not_less simp del: of_nat_mult split: if_splits option.splits parsed_f64.splits)
  then obtain whole m where w: "whole \<le> MAX_BYTES div m" and v: "v = of_nat (whole * m)" by blast
  have "whole * m \<le> MAX_BYTES" using w by (metis div_times_less_eq_dividend dual_order.trans mult_le_mono1)
  moreover have "unat v \<le> whole * m" by (simp only: v unat_of_nat) (rule mod_less_eq_dividend)
  ultimately show ?thesis by simp
qed

lemma job_value_bound: "unat old \<le> MAX_BYTES \<Longrightarrow> unat (job_value f64 l label old) \<le> MAX_BYTES"
  by (auto simp: job_value_def extracted_bound split: option.split)

lemma percent_bounds: "20 \<le> progress_percent a b \<and> progress_percent a b \<le> 99"
  by (simp add: progress_percent_def split: prod.split)

definition stats_ok :: "progress \<Rightarrow> bool" where
  "stats_ok p \<longleftrightarrow> unat (data_transferred p) \<le> MAX_BYTES \<and> unat (data_remaining p) \<le> MAX_BYTES
     \<and> 0 \<le> percent p \<and> percent p \<le> 100"

lemma job_lines_keeps:
  assumes "job_lines f64 ls p = (p', b)" "stats_ok p"
  shows "stats_ok p' \<and> completed p' = completed p \<and> failure p' = failure p \<and> cancelled p' = cancelled p"
  using assms by (induction f64 ls p rule: job_lines.induct) (auto simp: stats_ok_def job_value_bound split: if_splits)

lemma parse_keeps:
  assumes "stats_ok p"
  shows "stats_ok (parse_domjobinfo f64 places out p)" "completed (parse_domjobinfo f64 places out p) = completed p"
    "failure (parse_domjobinfo f64 places out p) = failure p" "cancelled (parse_domjobinfo f64 places out p) = cancelled p"
proof -
  obtain p' b where r: "job_lines f64 (str_lines out) p = (p', b)" by fastforce
  note k = job_lines_keeps[OF r assms]
  have "0 \<le> progress_percent x y" "progress_percent x y \<le> 100" for x y
    using percent_bounds[of x y] by linarith+
  with k show "stats_ok (parse_domjobinfo f64 places out p)" "completed (parse_domjobinfo f64 places out p) = completed p"
    "failure (parse_domjobinfo f64 places out p) = failure p" "cancelled (parse_domjobinfo f64 places out p) = cancelled p"
    by (cases b; simp add: parse_domjobinfo_def r Let_def stats_ok_def)+
qed

text \<open>The sum of what was moved and what is left never wraps.\<close>

lemma overall_exact: "stats_ok p \<Longrightarrow> unat (data_transferred p + data_remaining p) = unat (data_transferred p) + unat (data_remaining p)"
  by (rule unat_add_lem[THEN iffD1]) (simp add: stats_ok_def MAX_BYTES_def)

text \<open>The bandwidth is printed with a unit of bytes per second, which no line with a value has; the free memory is
  printed after a colon that stands alone.\<close>

lemma bandwidth_never_read: "extract_bytes_value f64 ''Memory bandwidth: 108.123 MiB/s'' = None"
proof -
  have "split_whitespace ''Memory bandwidth: 108.123 MiB/s'' = [''Memory'', ''bandwidth:'', ''108.123'', ''MiB/s'']"
    by (simp add: split_whitespace_def is_whitespace_def ascii_defs)
  then show ?thesis by (simp add: extract_bytes_value_def unit_bytes_def split: option.split parsed_f64.split)
qed

lemma free_memory_never_read: "free_memory ''free   :     16384 KiB'' = 0"
proof -
  have "split_whitespace ''free   :     16384 KiB'' = [''free'', '':'', ''16384'', ''KiB'']"
    by (simp add: split_whitespace_def is_whitespace_def ascii_defs)
  moreover have "str_lines ''free   :     16384 KiB'' = [''free   :     16384 KiB'']" by (simp add: str_lines_def drop_cr_def Let_def)
  ultimately show ?thesis by (simp add: free_memory_def free_memory_line_def parse_unsigned_def ascii_defs)
qed

section \<open>The invariant of a migration\<close>

definition is_spawn :: "act \<Rightarrow> bool" where
  "is_spawn a \<longleftrightarrow> (case a of Spawn _ \<Rightarrow> True | _ \<Rightarrow> False)"

definition before_spawn :: "mig_pc \<Rightarrow> bool" where
  "before_spawn m \<longleftrightarrow> m \<in> {M_Begin, M_Command, M_Spawn}"

definition threads_ok :: "mig_pc \<Rightarrow> poll_pc \<Rightarrow> progress \<Rightarrow> bool" where
  "threads_ok m q p \<longleftrightarrow> (case m of
       M_Join r \<Rightarrow> completed p \<and> q \<noteq> P_None
     | M_Report r \<Rightarrow> completed p \<and> q = P_End
     | M_End \<Rightarrow> completed p \<and> (q = P_None \<or> q = P_End) \<and> (failure p \<noteq> None \<or> percent p = 100)
     | M_Wait \<Rightarrow> q \<noteq> P_None \<and> (completed p \<longleftrightarrow> q = P_End) \<and> (completed p \<longleftrightarrow> failure p \<noteq> None)
     | M_Stop r \<Rightarrow> q \<noteq> P_None \<and> (completed p \<longleftrightarrow> q = P_End) \<and> (completed p \<longleftrightarrow> failure p \<noteq> None)
     | _ \<Rightarrow> q = P_None \<and> \<not> completed p \<and> failure p = None)"

definition mig_inv :: "job \<Rightarrow> mig_state \<Rightarrow> bool" where
  "mig_inv j s \<longleftrightarrow> stats_ok (shared s) \<and> \<not> cancelled (shared s) \<and> threads_ok (mig_at s) (poll_at s) (shared s)
     \<and> List.filter is_spawn (done_acts s) = (if before_spawn (mig_at s) then []
          else [Spawn (migrate_args (job_vm j) (job_uri j) (job_options j))])"

lemmas progress_updates = set_phase_def not_started_def report_result_def timed_out_def

lemma mig_inv_step: "mig_step j s s' \<Longrightarrow> mig_inv j s \<Longrightarrow> mig_inv j s'"
proof (induction rule: mig_step.induct)
  case (report s r secs)
  then show ?case
    by (auto simp: mig_inv_def stats_ok_def threads_ok_def before_spawn_def report_result_def split: sum.splits)
next
  case (parse_answer s out)
  then show ?case
    using parse_keeps[of "shared s" "job_f64 j" "job_places j" out]
    by (cases "mig_at s") (auto simp: mig_inv_def threads_ok_def)
qed (auto simp: mig_inv_def stats_ok_def threads_ok_def before_spawn_def is_spawn_def progress_updates split: mig_pc.splits)

lemma mig_inv_reach: "(mig_step j)\<^sup>*\<^sup>* mig_start s \<Longrightarrow> mig_inv j s"
proof (induction rule: rtranclp_induct)
  case base
  show ?case by (simp add: mig_inv_def mig_start_def stats_ok_def no_progress_def threads_ok_def before_spawn_def)
qed (rule mig_inv_step)

text \<open>A step is possible from every state but the last.\<close>

lemma progress_possible:
  assumes "mig_inv j s"
  shows "mig_at s = M_End \<longleftrightarrow> (\<nexists>s'. mig_step j s s')"
proof (cases "mig_at s")
  case M_End
  with assms have "poll_at s = P_None \<or> poll_at s = P_End" by (simp add: mig_inv_def threads_ok_def)
  with M_End show ?thesis by (auto elim: mig_step_cases)
next
  case (M_Join r)
  with assms have q: "poll_at s \<noteq> P_None" by (simp add: mig_inv_def threads_ok_def)
  have "\<exists>s'. mig_step j s s'"
  proof (cases "poll_at s")
    case P_Time
    from poll_sleep[OF P_Time, of 0 j] show ?thesis by auto
  qed (use q M_Join poll_over poll_on poll_abort query_fails parse_answer join_poller in blast)+
  with M_Join show ?thesis by simp
qed (auto intro: begin_mig build_command spawn_works show_progress start_poller virsh_returns stop_poller report)

definition outcome_known :: "progress \<Rightarrow> bool" where
  "outcome_known p \<longleftrightarrow> completed p \<and> (failure p \<noteq> None \<or> percent p = 100)"

text \<open>C31: In every interleaving of the migration thread and the poller, whatever \<open>virsh\<close> and the clock do: the
  percentage stays between 0 and 100, no sum wraps, \<open>virsh migrate\<close> is started at most once, and the run is
  stuck exactly where the migration thread has ended, with a complete record that tells the outcome: an error,
  or all hundred percent.\<close>
theorem migration_ends_reported:
  assumes "(mig_step j)\<^sup>*\<^sup>* mig_start s"
  shows "0 \<le> percent (shared s) \<and> percent (shared s) \<le> 100
    \<and> unat (data_transferred (shared s) + data_remaining (shared s)) = unat (data_transferred (shared s)) + unat (data_remaining (shared s))
    \<and> length (List.filter is_spawn (done_acts s)) \<le> 1
    \<and> ((\<nexists>s'. mig_step j s s') \<longleftrightarrow> mig_at s = M_End) \<and> (mig_at s \<noteq> M_End \<or> outcome_known (shared s))"
proof -
  from assms have inv: "mig_inv j s" by (rule mig_inv_reach)
  then have "stats_ok (shared s)" by (simp add: mig_inv_def)
  moreover from inv have "mig_at s \<noteq> M_End \<or> outcome_known (shared s)"
    by (cases "mig_at s") (auto simp: mig_inv_def threads_ok_def outcome_known_def)
  ultimately show ?thesis
    using overall_exact[of "shared s"] progress_possible[OF inv] inv by (auto simp: mig_inv_def stats_ok_def)
qed

theorem migration_ends_reported_witness:
  "\<exists>s. (mig_step \<lparr>job_vm = ''vm'', job_uri = ''qemu+ssh://h/system'', job_options = default_options, job_f64 = \<lambda>_. None,
       job_places = \<lambda>_ _ _. []\<rparr>)\<^sup>*\<^sup>* mig_start s \<and> mig_at s = M_End \<and> outcome_known (shared s)"
proof -
  let ?j = "\<lparr>job_vm = ''vm'', job_uri = ''qemu+ssh://h/system'', job_options = default_options, job_f64 = \<lambda>_. None,
       job_places = \<lambda>_ _ _. []\<rparr>"
  let ?s1 = "mig_start\<lparr>mig_at := M_Command, shared := set_phase ''Building migration command...'' 5 (shared mig_start)\<rparr>"
  let ?s2 = "?s1\<lparr>mig_at := M_Spawn, shared := set_phase ''Initiating migration...'' 10 (shared ?s1)\<rparr>"
  let ?s3 = "?s2\<lparr>mig_at := M_End, shared := not_started ''e'' (shared ?s2),
      done_acts := done_acts ?s2 @ [Spawn (migrate_args (job_vm ?j) (job_uri ?j) (job_options ?j))]\<rparr>"
  have "mig_step ?j mig_start ?s1" by (rule begin_mig) (simp add: mig_start_def)
  moreover have "mig_step ?j ?s1 ?s2" by (rule build_command) simp
  moreover have "mig_step ?j ?s2 ?s3" by (rule spawn_fails) simp
  ultimately have r: "(mig_step ?j)\<^sup>*\<^sup>* mig_start ?s3" by (meson converse_rtranclp_into_rtranclp rtranclp.rtrancl_refl)
  from migration_ends_reported[OF this] have "outcome_known (shared ?s3)" by simp
  with r show ?thesis by (intro exI[of _ ?s3]) simp
qed

section \<open>The end of a migration\<close>

text \<open>What is left to do once the record is complete: the poller's turns, then the report.\<close>

definition poll_left :: "poll_pc \<Rightarrow> nat" where
  "poll_left q = (case q of P_None \<Rightarrow> 0 | P_End \<Rightarrow> 0 | P_Check \<Rightarrow> 1 | P_Abort \<Rightarrow> 1 | P_Parse _ \<Rightarrow> 2 | P_Query \<Rightarrow> 3 | P_Time \<Rightarrow> 4)"

definition mig_left :: "mig_pc \<Rightarrow> nat" where
  "mig_left m = (case m of M_Join _ \<Rightarrow> 2 | M_Report _ \<Rightarrow> 1 | _ \<Rightarrow> 0)"

definition ending :: "mig_state \<Rightarrow> bool" where
  "ending s \<longleftrightarrow> completed (shared s) \<and> stats_ok (shared s) \<and> (case mig_at s of M_Join _ \<Rightarrow> True | M_Report _ \<Rightarrow> True | M_End \<Rightarrow> True | _ \<Rightarrow> False)"

lemma ending_step:
  assumes "mig_step j s s'" "ending s"
  shows "ending s' \<and> mig_left (mig_at s') + poll_left (poll_at s') < mig_left (mig_at s) + poll_left (poll_at s)"
  using assms
proof (induction rule: mig_step.induct)
  case (report s r secs)
  then show ?case
    by (auto simp: ending_def stats_ok_def mig_left_def report_result_def split: sum.splits)
next
  case (parse_answer s out)
  then show ?case
    using parse_keeps[of "shared s" "job_f64 j" "job_places j" out]
    by (cases "mig_at s") (auto simp: ending_def poll_left_def)
qed (auto simp: ending_def stats_ok_def mig_left_def poll_left_def progress_updates split: mig_pc.splits)

lemma ending_bound: "(mig_step j ^^ n) s s' \<Longrightarrow> ending s \<Longrightarrow> n \<le> mig_left (mig_at s) + poll_left (poll_at s)"
proof (induction n arbitrary: s)
  case (Suc n)
  from Suc.prems(1) obtain s1 where s1: "mig_step j s s1" "(mig_step j ^^ n) s1 s'" by (meson relpowp_Suc_E2)
  from Suc.IH[OF s1(2)] ending_step[OF s1(1) Suc.prems(2)] show ?case by linarith
qed simp

text \<open>C32: Once \<open>virsh\<close> has returned and the record is marked complete, the rest of the migration takes at most six steps of
  the two threads together, in any interleaving: waiting for the poller cannot go on.\<close>
theorem joining_ends:
  assumes "(mig_step j)\<^sup>*\<^sup>* mig_start s" "mig_at s = M_Join r" "(mig_step j ^^ n) s s'"
  shows "n \<le> 6"
proof -
  from mig_inv_reach[OF assms(1)] assms(2) have "ending s" by (simp add: mig_inv_def threads_ok_def ending_def)
  from ending_bound[OF assms(3) this] assms(2) show ?thesis
    by (auto simp: mig_left_def poll_left_def split: poll_pc.splits)
qed

text \<open>A run to the point where \<open>virsh\<close> has failed and the thread waits for the poller, asleep.\<close>

definition failed_state :: "job \<Rightarrow> cmd_output \<Rightarrow> mig_state" where
  "failed_state j out = \<lparr>mig_at = M_Join (Inr out), poll_at = P_Query,
     shared = no_progress\<lparr>phase := ''Migration in progress...'', percent := 20, completed := True\<rparr>,
     done_acts = [Spawn (migrate_args (job_vm j) (job_uri j) (job_options j)), Sleep 2000]\<rparr>"

lemma failed_state_reached: "(mig_step j)\<^sup>*\<^sup>* mig_start (failed_state j out)"
proof -
  let ?s1 = "mig_start\<lparr>mig_at := M_Command, shared := set_phase ''Building migration command...'' 5 (shared mig_start)\<rparr>"
  let ?s2 = "?s1\<lparr>mig_at := M_Spawn, shared := set_phase ''Initiating migration...'' 10 (shared ?s1)\<rparr>"
  let ?s3 = "?s2\<lparr>mig_at := M_Show, done_acts := done_acts ?s2 @ [Spawn (migrate_args (job_vm j) (job_uri j) (job_options j))]\<rparr>"
  let ?s4 = "?s3\<lparr>mig_at := M_Poller, shared := set_phase ''Migration in progress...'' 20 (shared ?s3)\<rparr>"
  let ?s5 = "?s4\<lparr>mig_at := M_Wait, poll_at := P_Check\<rparr>"
  let ?s6 = "?s5\<lparr>poll_at := P_Time\<rparr>"
  let ?s7 = "?s6\<lparr>poll_at := P_Query, done_acts := done_acts ?s6 @ [Sleep 2000]\<rparr>"
  let ?s8 = "?s7\<lparr>mig_at := M_Stop (Inr out)\<rparr>"
  let ?s9 = "?s8\<lparr>mig_at := M_Join (Inr out), shared := (shared ?s8)\<lparr>completed := True\<rparr>\<rparr>"
  note also_step = rtranclp.rtrancl_into_rtrancl
  have "(mig_step j)\<^sup>*\<^sup>* mig_start mig_start" by simp
  from this begin_mig have "(mig_step j)\<^sup>*\<^sup>* mig_start ?s1" by (rule also_step) (simp add: mig_start_def)
  from this build_command have "(mig_step j)\<^sup>*\<^sup>* mig_start ?s2" by (rule also_step) simp
  from this spawn_works have "(mig_step j)\<^sup>*\<^sup>* mig_start ?s3" by (rule also_step) simp
  from this show_progress have "(mig_step j)\<^sup>*\<^sup>* mig_start ?s4" by (rule also_step) simp
  from this start_poller have "(mig_step j)\<^sup>*\<^sup>* mig_start ?s5" by (rule also_step) simp
  from this poll_on have "(mig_step j)\<^sup>*\<^sup>* mig_start ?s6" by (rule also_step) (simp_all add: mig_start_def set_phase_def no_progress_def)
  from this poll_sleep[of _ 0] have "(mig_step j)\<^sup>*\<^sup>* mig_start ?s7" by (rule also_step) simp_all
  from this virsh_returns have "(mig_step j)\<^sup>*\<^sup>* mig_start ?s8" by (rule also_step) simp
  from this stop_poller have "(mig_step j)\<^sup>*\<^sup>* mig_start ?s9" by (rule also_step) simp
  moreover have "?s9 = failed_state j out" by (simp add: failed_state_def mig_start_def set_phase_def no_progress_def)
  ultimately show ?thesis by simp
qed

theorem joining_ends_witness:
  "\<exists>j s r. (mig_step j)\<^sup>*\<^sup>* mig_start s \<and> mig_at s = M_Join r \<and> (\<forall>n s'. (mig_step j ^^ n) s s' \<longrightarrow> n \<le> 6)"
proof -
  let ?j = "\<lparr>job_vm = ''vm'', job_uri = ''qemu+ssh://h/system'', job_options = default_options, job_f64 = \<lambda>_. None,
       job_places = \<lambda>_ _ _. []\<rparr>"
  let ?out = "\<lparr>out_ok = False, out_stdout = [], out_stderr = ''no route''\<rparr>"
  have r: "(mig_step ?j)\<^sup>*\<^sup>* mig_start (failed_state ?j ?out)" by (rule failed_state_reached)
  have m: "mig_at (failed_state ?j ?out) = M_Join (Inr ?out)" by (simp add: failed_state_def)
  from r m joining_ends[OF r m] show ?thesis by blast
qed

text \<open>C33: The record is marked complete before the result is in it: a migration that has failed is shown as a success
  by a frame drawn while the poller still sleeps.\<close>
theorem failure_shown_as_success:
  "\<exists>s. (mig_step j)\<^sup>*\<^sup>* mig_start s \<and> mig_at s = M_Join (Inr \<lparr>out_ok = False, out_stdout = [], out_stderr = ''no route''\<rparr>)
     \<and> shows_success (sync_frame (shared s) ((open_dialog vm d)\<lparr>followed := True, dialog_view := InProgress\<rparr>))"
proof (intro exI conjI)
  let ?out = "\<lparr>out_ok = False, out_stdout = [], out_stderr = ''no route''\<rparr>"
  show "(mig_step j)\<^sup>*\<^sup>* mig_start (failed_state j ?out)" by (rule failed_state_reached)
qed (simp_all add: failed_state_def shows_success_def sync_frame_def open_dialog_def no_progress_def Let_def)

text \<open>A cancellation is forgotten by the next frame, which shows a success while the migration still runs.\<close>

lemma cancellation_forgotten:
  "shows_success (sync_frame (shared mig_start) (cancel_clicked label (Inr ()) ((open_dialog vm d)\<lparr>followed := True, dialog_view := InProgress\<rparr>)))"
  by (simp add: shows_success_def sync_frame_def cancel_clicked_def open_dialog_def mig_start_def no_progress_def Let_def)

text \<open>An answer of the poller that comes late cannot hide an error: it changes neither the error nor the mark.\<close>

lemma late_answer_keeps_failure:
  "stats_ok p \<Longrightarrow> failure (parse_domjobinfo f64 places out p) = failure p \<and> completed (parse_domjobinfo f64 places out p) = completed p"
  by (simp add: parse_keeps)

lemma half_done: "progress_percent 512 1024 = 60"
proof -
  have "to_f64 512 = 512" "to_f64 1024 = 1024" by (simp_all add: to_f64_def bit_count.simps)
  moreover have "f64_quotient 512 1024 = (4503599627370496, 53)"
    by (simp add: f64_quotient_def bit_count.simps div_even_def Let_def)
  moreover have "to_f64 (4503599627370496 * 80) = 360287970189639680"
    by (simp add: to_f64_def bit_count.simps div_even_def Let_def)
  ultimately show ?thesis by (simp add: progress_percent_def)
qed

section \<open>What is started\<close>

text \<open>What an accepted migration starts is \<open>virsh migrate\<close>, fixed options, and as its only other words the name
  and the URI, neither of which can be an option or hold a quote, a line break or a shell character.\<close>
theorem migration_words:
  assumes "migrate_vm ua lower nt vm h = Inr s0"
  shows "s0 = mig_start \<and> (\<exists>opts tl. migrate_args vm (connection_uri lower h) o' = [''virsh'', ''migrate''] @ opts @ [vm, connection_uri lower h] @ tl
      \<and> list_all (\<lambda>a. starts_with a ''--'') opts \<and> list_all (\<lambda>a. starts_with a ''--'' \<or> list_all ascii_digit a) tl)
    \<and> \<not> starts_with vm ''-'' \<and> \<not> starts_with (connection_uri lower h) ''-''
    \<and> \<not> has_char (connection_uri lower h) uri_forbidden \<and> \<not> has_char vm uri_forbidden"
proof -
  from assms have n: "validate_vm_name ua vm = None" and u: "validate_dest_uri (connection_uri lower h) = Inr ()" and s: "s0 = mig_start"
    by (auto simp: migrate_vm_def validate_migration_vm_name_def split: sum.splits option.splits)
  have dec: "list_all ascii_digit (dec k)" for k by (simp add: list_all_iff dec_digits)
  have opts: "list_all (\<lambda>a. starts_with a ''--'') (migration_flags o')"
    by (simp add: migration_flags_def split: migration_type.split)
  from n have name: "\<not> starts_with vm ''-''" "list_all (\<lambda>g. is_alphanumeric ua g \<or> ascii_char (\<lambda>c. c \<in> set '' -_.'') g) (chars vm)"
    by (auto simp: validate_vm_name_def split: if_splits)
  have "\<not> has_char vm uri_forbidden"
    unfolding has_char_def list_ex_iff
  proof
    assume "\<exists>c\<in>set vm. c \<in> uri_forbidden"
    then obtain c where c: "c \<in> set vm" "c \<in> uri_forbidden" by blast
    then have "is_ascii_byte c \<and> \<not> ascii_alnum c \<and> c \<notin> set '' -_.''" by (auto simp: uri_forbidden_def ascii_defs)
    with list_all_chars_byte[OF name(2) c(1)] show False by (auto simp: ascii_char_def)
  qed
  with name(1) u s opts dec show ?thesis
    by (intro conjI exI[of _ "migration_flags o'"]
        exI[of _ "(if bandwidth_mib o' > 0 then [''--bandwidth'', dec_w (bandwidth_mib o')] else []) @ [''--timeout'', dec MIGRATION_TIMEOUT_SECS]"])
      (auto simp: validate_dest_uri_def migrate_args_def dec_w_def split: if_splits)
qed

theorem migration_words_witness:
  "\<exists>h. migrate_vm (\<lambda>_. False) (map to_ascii_lower) None ''vm'' h = Inr mig_start
    \<and> \<not> has_char (connection_uri (map to_ascii_lower) h) uri_forbidden"
proof -
  let ?h = "\<lparr>host_name = ''h'', hostname = ''h'', username = ''u'', ssh_port = 2222, host_uri = [], use_system = True\<rparr>"
  have "connection_uri (map to_ascii_lower) ?h = ''qemu+ssh://u@h:2222/system''" by code_simp
  moreover have "validate_dest_uri ''qemu+ssh://u@h:2222/system'' = Inr ()" "validate_vm_name (\<lambda>_. False) ''vm'' = None" by code_simp+
  ultimately have "migrate_vm (\<lambda>_. False) (map to_ascii_lower) None ''vm'' ?h = Inr mig_start"
    by (simp add: migrate_vm_def validate_migration_vm_name_def)
  with migration_words[OF this] show ?thesis by blast
qed

text \<open>The command inside a URI passes: neither its mark nor its equals sign is refused.\<close>

lemma command_in_uri_accepted: "validate_dest_uri ''qemu+ssh://h/system?command=/tmp/x'' = Inr ()"
  by code_simp

end
