(* ===== verification/Spec2Isabelle.thy ===== *)
theory Spec2Isabelle
  imports Domain_Wf Config_Bounds Names Errors Auth Port_Forward Tasks Policy Retention
    Snapshots Vnc_Session Vnc_Keys Lifecycle Templates Vm_Store Disk_Manage Guest_Files Guest_Agent Vfio Import Networks Iso Migration
begin

text \<open>
  \<^bold>\<open>Libre VMM\<close>, a manager of QEMU/KVM virtual machines over libvirt (Rust): the crates
  \<^verbatim>\<open>vmm-types\<close> (configuration data), \<^verbatim>\<open>vmm-core\<close> (everything that acts on the host),
  \<^verbatim>\<open>vmm-api\<close> (a REST server), \<^verbatim>\<open>vmm-cli\<close> and \<^verbatim>\<open>vmm-gui\<close>. Paths below are under \<^verbatim>\<open>src/\<close>.

  \<^bold>\<open>Parts and theories.\<close>

  \<^item> \<^verbatim>\<open>Prelude\<close>: UTF-8 byte strings (Rust's \<^verbatim>\<open>String\<close> is a list of bytes, a character is the byte
    group \<^verbatim>\<open>rchar\<close>), the standard-library string operations the code calls, decimal printing and
    parsing, machine integers as words.
  \<^item> \<^verbatim>\<open>Xml_Text\<close>: the three \<^verbatim>\<open>xml_escape\<close> functions, and a scanner for XML text that serves as the
    specification of well-formedness; the locale \<^verbatim>\<open>escaper\<close> is interpreted for each of the three.
  \<^item> \<^verbatim>\<open>Archs\<close>: the tables of \<^verbatim>\<open>vmm-types/src/qemu_archs.rs\<close>.
  \<^item> \<^verbatim>\<open>Limits\<close>: resource limits and the cpuset check (\<^verbatim>\<open>resource_limits.rs\<close> of both crates).
  \<^item> \<^verbatim>\<open>Config\<close>, \<^verbatim>\<open>Config_Bounds\<close>: \<^verbatim>\<open>VmConfig\<close> and its enums, \<^verbatim>\<open>validate_config_bounds\<close>
    (\<^verbatim>\<open>vmm-types/src/config.rs\<close>). A panic of the Rust code is the value \<^verbatim>\<open>None\<close>.
  \<^item> \<^verbatim>\<open>Names\<close>: the VM-name and segment-name checks and their copies in other modules; the locale
    \<^verbatim>\<open>argument_guard\<close> says what a checked name promises to a command line.
  \<^item> \<^verbatim>\<open>Errors\<close>: \<^verbatim>\<open>VmmError\<close> and the redaction of its text (\<^verbatim>\<open>error.rs\<close>).
  \<^item> \<^verbatim>\<open>Paths\<close>: disk, ISO and firmware path checks and the other value checks of
    \<^verbatim>\<open>xml_builder.rs\<close>. The host (its files, its CPU count, Unicode tables, UUID printing) is the
    record \<^verbatim>\<open>host\<close>, an argument.
  \<^item> \<^verbatim>\<open>Devices\<close>, \<^verbatim>\<open>Domain_Xml\<close>, \<^verbatim>\<open>Domain_Wf\<close>: the XML builders, one definition per section of
    \<^verbatim>\<open>build_domain_xml\<close> in its order, and the theorems on the whole document.
  \<^item> \<^verbatim>\<open>Auth\<close>: the API-key middleware and its rate limiter (\<^verbatim>\<open>vmm-api/src/auth.rs\<close>).
  \<^item> \<^verbatim>\<open>Net_Addr\<close>, \<^verbatim>\<open>Port_Forward\<close>: the standard library's address parser, manual and automatic port
    forwards (\<^verbatim>\<open>port_forward.rs\<close>). An external command is a function of the commands run before
    it, so every behaviour of \<^verbatim>\<open>iptables\<close> and \<^verbatim>\<open>virsh\<close> is covered.
  \<^item> \<^verbatim>\<open>Tasks\<close>: the task manager (\<^verbatim>\<open>task.rs\<close>), with poisoned locks and dying workers as steps.
  \<^item> \<^verbatim>\<open>Policy\<close>: restriction policies and their files (\<^verbatim>\<open>restricted.rs\<close>).
  \<^item> \<^verbatim>\<open>Snapshots\<close>: the snapshot tree, snapshot XML, plain and quiesced snapshots (\<^verbatim>\<open>snapshot.rs\<close>). What
    libvirt and the guest agent answer is a record of functions.
  \<^item> \<^verbatim>\<open>Vnc_Des\<close>, \<^verbatim>\<open>Vnc_Raster\<close>, \<^verbatim>\<open>Vnc_Client\<close>, \<^verbatim>\<open>Vnc_Session\<close>, \<^verbatim>\<open>Vnc_Keys\<close>: the VNC client
    (\<^verbatim>\<open>vmm-gui/src/vnc.rs\<close>): the DES of its authentication, its pixel loops, its protocol over the bytes
    of the server, all states it shares with the interface, its keyboard map.
  \<^item> \<^verbatim>\<open>Retention\<close>: rollback points and AutoProtect (\<^verbatim>\<open>rollback.rs\<close>, \<^verbatim>\<open>auto_snapshot.rs\<close>).

  \<^item> \<^verbatim>\<open>Xml_Events\<close>, \<^verbatim>\<open>Disk_Access\<close>, \<^verbatim>\<open>Host_Run\<close>, \<^verbatim>\<open>Disk_Image\<close>, \<^verbatim>\<open>Lifecycle\<close>: the operations on a
    machine (\<^verbatim>\<open>connection.rs\<close>, \<^verbatim>\<open>disk.rs\<close>, \<^verbatim>\<open>domain.rs\<close>). Code that acts on the host is a computation
    over the list of the actions done so far; libvirt, commands and files answer as functions of that
    list. \<^verbatim>\<open>Host_Run\<close> has the rules that run such a computation symbolically (\<^verbatim>\<open>run\<close>) and that split a
    claim about it into one goal per way it can end (\<^verbatim>\<open>vcg\<close>).

  \<^item> \<^verbatim>\<open>Templates\<close>, \<^verbatim>\<open>Vm_Store\<close>: the built-in templates and the configurations made from them, the
    directory of stored configurations and its refinement of a map (\<^verbatim>\<open>template.rs\<close>,
    \<^verbatim>\<open>vmm-core/src/config.rs\<close>). The locale \<^verbatim>\<open>keyed_files\<close> is what the store relies on.

  \<^item> \<^verbatim>\<open>Disk_Manage\<close>: compaction with its file lock (a step relation), repair and hot-plugging
    (\<^verbatim>\<open>disk_manage.rs\<close>).

  \<^item> \<^verbatim>\<open>Guest_Agent\<close>, \<^verbatim>\<open>Base64\<close>, \<^verbatim>\<open>Guest_Files\<close>: questions to the guest agent and the file manager of a guest
    (\<^verbatim>\<open>guest_agent.rs\<close>, \<^verbatim>\<open>guest_file_manager.rs\<close>); \<^verbatim>\<open>Text_Lines\<close>: lines and words of command output.

  \<^item> \<^verbatim>\<open>Pci\<close>, \<^verbatim>\<open>Vfio\<close>: the PCI devices in sysfs, binding devices and IOMMU groups to \<^verbatim>\<open>vfio-pci\<close>, the hook
    scripts (\<^verbatim>\<open>pci.rs\<close>, \<^verbatim>\<open>vfio.rs\<close>).

  \<^item> \<^verbatim>\<open>Path_Text\<close>, \<^verbatim>\<open>Import_Parse\<close>, \<^verbatim>\<open>Import\<close>: the machines of other programs, read from four formats, the import of
    one of them and the search for them (\<^verbatim>\<open>import/\<close>).

  \<^item> \<^verbatim>\<open>Networks\<close>: virtual networks, their XML, network conditions (\<^verbatim>\<open>network_editor.rs\<close>, \<^verbatim>\<open>network.rs\<close>,
    \<^verbatim>\<open>network_conditioner.rs\<close>).

  \<^item> \<^verbatim>\<open>Iso\<close>: installation images (\<^verbatim>\<open>iso_detect.rs\<close>, \<^verbatim>\<open>iso_library.rs\<close>, the template selection of the wizard).
  \<^item> \<^verbatim>\<open>Remote\<close>, \<^verbatim>\<open>Migration\<close>: remote hosts, the tunnel, live migration with its two threads and its dialog
    (\<^verbatim>\<open>remote.rs\<close>, \<^verbatim>\<open>migration.rs\<close>, views/migration.rs).

  \<^bold>\<open>What the lemmas show.\<close> Safety of the XML: whatever a configuration holds, the domain document
  is well-formed. Bounds: what validation returns is in range. Access: who reaches the router, how
  many wrong keys are answered. State machines: invariants of the limiter, the port table and the
  task list over all sequences of their steps. Exactness: each check accepts exactly what its
  property says. Where the code does something else than it means to, the property states what it
  does.

  \<^bold>\<open>Bounds and fuel.\<close> Every function here is total; no fuel is used. Integers keep the width the
  code gives them.

  \<^bold>\<open>Not modelled.\<close> The derived serde code, libvirt, QEMU and file systems are parameters. The
  graphical views, the SPICE client, importers, the guest agent, disk tools and the REST
  routes are not modelled yet.
\<close>

end
